(* ===== verification/Rhyve_Prelude.thy ===== *)
theory Rhyve_Prelude
  imports Main "HOL-Library.Word"
begin

text \<open>
  Shared vocabulary of the development: the machine integers of the sources as words, the
  result of a Rust function that may return an error or panic, the \<open>?\<close> operator, \<open>unwrap\<close>
  and the \<open>for\<close> loop that stops at the first error.
  The lemmas here are about these notions only; no component of rhyve is modelled yet.
\<close>

unbundle bit_operations_syntax

subsection \<open>Machine integers\<close>

type_synonym u8 = "8 word"
type_synonym u16 = "16 word"
type_synonym u32 = "32 word"
type_synonym u64 = "64 word"

text \<open>Bit \<open>n\<close> of a value, written in the sources as \<open>value & (1 << n) != 0\<close>.\<close>

lemma and_exp_eq_0_iff: "(w AND push_bit n 1 = 0) \<longleftrightarrow> \<not> bit w n" for w :: "'a::len word"
  by (simp add: bit_iff_and_push_bit_not_eq_0)

lemma and_exp_eq_0_iff': "(w AND 2 ^ n = 0) \<longleftrightarrow> \<not> bit w n" for w :: "'a::len word"
  using and_exp_eq_0_iff [of w n] by simp

lemma not_bit_of_less_exp:
  fixes w :: "'a::len word"
  assumes "w < 2 ^ k" and "k \<le> n"
  shows "\<not> bit w n"
proof -
  have "unat (2 ^ k :: 'a word) \<le> 2 ^ k"
    by (metis mod_less_eq_dividend of_nat_numeral of_nat_power unat_of_nat)
  then have "unat w < 2 ^ k" using assms(1) by (simp add: word_less_nat_alt)
  also have "(2 :: nat) ^ k \<le> 2 ^ n" using assms(2) by simp
  finally have "\<not> bit (unat w) n" by (simp add: bit_iff_odd)
  then show ?thesis by (simp add: bit_unsigned_iff)
qed

subsection \<open>Results, errors and panics\<close>

text \<open>
  A Rust function of type \<open>Result<T, E>\<close> returns \<open>Ok\<close> or \<open>Err\<close>; besides, a failed
  \<open>assert!\<close>, \<open>unwrap\<close>, \<open>expect\<close> or index check unwinds. The third constructor carries
  the panic's message.
\<close>

datatype ('a, 'e) outcome = Ok 'a | Err 'e | Panic string

text \<open>The \<open>?\<close> operator: go on with the value, or return the error at once.\<close>

fun try_bind :: "('a, 'e) outcome \<Rightarrow> ('a \<Rightarrow> ('b, 'e) outcome) \<Rightarrow> ('b, 'e) outcome" where
  "try_bind (Ok x) f = f x"
| "try_bind (Err e) f = Err e"
| "try_bind (Panic m) f = Panic m"

lemma try_bind_Ok_iff [simp]:
  "try_bind m f = Ok y \<longleftrightarrow> (\<exists>x. m = Ok x \<and> f x = Ok y)"
  by (cases m) auto

lemma try_bind_Err_iff:
  "try_bind m f = Err e \<longleftrightarrow> m = Err e \<or> (\<exists>x. m = Ok x \<and> f x = Err e)"
  by (cases m) auto

lemma try_bind_Panic_iff:
  "try_bind m f = Panic e \<longleftrightarrow> m = Panic e \<or> (\<exists>x. m = Ok x \<and> f x = Panic e)"
  by (cases m) auto

lemma try_bind_cong [fundef_cong]:
  "m = m' \<Longrightarrow> (\<And>x. m' = Ok x \<Longrightarrow> f x = f' x) \<Longrightarrow> try_bind m f = try_bind m' f'"
  by (cases m') auto

lemma try_bind_assoc: "try_bind (try_bind m f) g = try_bind m (\<lambda>x. try_bind (f x) g)"
  by (cases m) auto

text \<open>\<open>Option::ok_or\<close>, and \<open>assert!\<close> with its message.\<close>

definition ok_or :: "'e \<Rightarrow> 'a option \<Rightarrow> ('a, 'e) outcome" where
  "ok_or e x = (case x of Some y \<Rightarrow> Ok y | None \<Rightarrow> Err e)"

definition assert_msg :: "bool \<Rightarrow> string \<Rightarrow> (unit, 'e) outcome" where
  "assert_msg b m = (if b then Ok () else Panic m)"

lemma ok_or_simps [simp]: "ok_or e (Some y) = Ok y" "ok_or e None = Err e"
  by (simp_all add: ok_or_def)

lemma ok_or_Ok_iff [simp]: "ok_or e x = Ok y \<longleftrightarrow> x = Some y"
  by (cases x) auto

lemma assert_msg_Ok_iff [simp]: "assert_msg b m = Ok u \<longleftrightarrow> b"
  by (simp add: assert_msg_def)

lemma assert_msg_True [simp]: "b \<Longrightarrow> assert_msg b m = Ok ()"
  by (simp add: assert_msg_def)

lemma assert_msg_False: "\<not> b \<Longrightarrow> assert_msg b m = Panic m"
  by (simp add: assert_msg_def)

text \<open>\<open>Option::unwrap\<close>.\<close>

definition unwrap :: "'a option \<Rightarrow> ('a, 'e) outcome" where
  "unwrap x = (case x of Some y \<Rightarrow> Ok y
     | None \<Rightarrow> Panic ''called `Option::unwrap()` on a `None` value'')"

lemma unwrap_Some [simp]: "unwrap (Some y) = Ok y"
  by (simp add: unwrap_def)

lemma unwrap_Ok_iff [simp]: "unwrap x = Ok y \<longleftrightarrow> x = Some y"
  by (auto simp: unwrap_def split: option.split)

text \<open>A \<open>for\<close> loop over a list whose body ends in \<open>?\<close>.\<close>

fun try_fold :: "('x \<Rightarrow> 's \<Rightarrow> ('s, 'e) outcome) \<Rightarrow> 'x list \<Rightarrow> 's \<Rightarrow> ('s, 'e) outcome" where
  "try_fold f [] s = Ok s"
| "try_fold f (x # xs) s = try_bind (f x s) (try_fold f xs)"

lemma try_fold_append:
  "try_fold f (xs @ ys) s = try_bind (try_fold f xs s) (try_fold f ys)"
  by (induction xs arbitrary: s) (auto simp: try_bind_assoc intro!: try_bind_cong)

text \<open>An invariant of the body is an invariant of the loop.\<close>

lemma try_fold_invariant:
  assumes "try_fold f xs s = Ok s'" and "P s"
    and "\<And>x s s'. x \<in> set xs \<Longrightarrow> P s \<Longrightarrow> f x s = Ok s' \<Longrightarrow> P s'"
  shows "P s'"
  using assms
proof (induction xs arbitrary: s)
  case (Cons x xs)
  from Cons.prems(1) obtain t where t: "f x s = Ok t" "try_fold f xs t = Ok s'" by auto
  from t(1) Cons.prems(2,3) have "P t" by auto
  with t(2) Cons.prems(3) show ?case by (auto intro: Cons.IH)
qed auto

text \<open>Code that cannot panic; the rules follow its structure.\<close>

definition no_panic :: "('a, 'e) outcome \<Rightarrow> bool" where
  "no_panic m \<longleftrightarrow> (\<forall>e. m \<noteq> Panic e)"

named_theorems no_panic_rules

lemma no_panic_Ok [no_panic_rules, simp]: "no_panic (Ok x)"
  by (simp add: no_panic_def)

lemma no_panic_Err [no_panic_rules, simp]: "no_panic (Err e)"
  by (simp add: no_panic_def)

lemma no_panic_Panic [simp]: "\<not> no_panic (Panic e)"
  by (simp add: no_panic_def)

lemma no_panic_ok_or [no_panic_rules, simp]: "no_panic (ok_or e x)"
  by (cases x) simp_all

lemma no_panic_bind [no_panic_rules]:
  "no_panic m \<Longrightarrow> (\<And>x. m = Ok x \<Longrightarrow> no_panic (f x)) \<Longrightarrow> no_panic (try_bind m f)"
  by (cases m) auto

lemma no_panic_try_fold [no_panic_rules]:
  "(\<And>x s. x \<in> set xs \<Longrightarrow> no_panic (f x s)) \<Longrightarrow> no_panic (try_fold f xs s)"
  by (induction xs arbitrary: s) (auto intro!: no_panic_rules)

end
