(* ===== verification/Hypervisor_Core.thy ===== *)
theory Hypervisor_Core
  imports Rhyve_Prelude
begin

text \<open>
  The crate rhyve-core (\<^verbatim>\<open>src/crates/rhyve-core/src\<close>): the errors, the reasons a vCPU returns
  to the hypervisor, the host-memory service that is registered once, and the translation of
  host-virtual to host-physical addresses through it. The trait \<open>HostMemory\<close> has one method and
  is the type of that function; the trait \<open>VcpuBackend\<close>, which the rest of the system is written
  against, is a locale here, which the two backends interpret in their own theories.
\<close>

subsection \<open>Errors and exit reasons\<close>

datatype HypervisorError =
    IoError
  | ParseError
  | CPUUnsupported
  | VMXUnsupported
  | VMCLEARFailed
  | VMREADFailed
  | VMWRITEFailed
  | VMEntryFailed u64
  | AllocationFailed
  | VmUnsupported
  | UnknownVMExitReason

type_synonym 'a result = "('a, HypervisorError) outcome"

datatype ExitReason =
    Success
  | IoInstruction u64
  | Shutdown

subsection \<open>The registered host-memory service\<close>

text \<open>
  \<open>HOST_MEMORY\<close> is a \<open>OnceCell\<close>: empty until the first \<open>set\<close>, which later ones do not
  change. A service is its one method, \<open>virtual_to_physical\<close>.
\<close>

type_synonym host_memory = "u64 \<Rightarrow> u64 option"

definition set_host_memory :: "host_memory \<Rightarrow> host_memory option \<Rightarrow> host_memory option" where
  "set_host_memory host cell = (case cell of None \<Rightarrow> Some host | Some h \<Rightarrow> Some h)"

definition virtual_to_physical :: "host_memory option \<Rightarrow> u64 \<Rightarrow> u64 option result" where
  "virtual_to_physical cell vaddr =
     (case cell of
        Some host \<Rightarrow> Ok (host vaddr)
      | None \<Rightarrow> Panic ''rhyve_core::set_host_memory has not been called'')"

text \<open>
  Every use in the backends has the form \<open>virtual_to_physical(VirtAddr::from_ptr(ptr))\<close>, mapped
  to \<open>AllocationFailed\<close> where the answer is \<open>None\<close>. \<open>PhysAddr::new\<close> of the x86\_64 crate,
  which checks the answer and may panic, is a parameter; the host as the backends see it is the
  registered service together with that function.
\<close>

record host =
  host_memory_cell :: "host_memory option"
  phys_addr_new :: "u64 \<Rightarrow> u64 result"

definition x86_virtual_to_physical :: "host \<Rightarrow> u64 \<Rightarrow> u64 option result" where
  "x86_virtual_to_physical H vaddr =
     try_bind (virtual_to_physical (host_memory_cell H) vaddr) (\<lambda>r.
       case r of
         None \<Rightarrow> Ok None
       | Some a \<Rightarrow> try_bind (phys_addr_new H a) (\<lambda>p. Ok (Some p)))"

definition host_physical :: "host \<Rightarrow> u64 \<Rightarrow> u64 result" where
  "host_physical H ptr =
     try_bind (x86_virtual_to_physical H ptr) (ok_or AllocationFailed)"

text \<open>
  The implementation that the binary registers, \<open>HermitHostMemory\<close>, wraps a system call of the
  Hermit kernel, which is a parameter: whatever the call answers is taken as the address.
\<close>

definition HermitHostMemory :: "(u64 \<Rightarrow> u64) \<Rightarrow> host_memory" where
  "HermitHostMemory sys_virt_addr_to_phys_addr vaddr = Some (sys_virt_addr_to_phys_addr vaddr)"

text \<open>
  The documented behaviour of \<open>PhysAddr::new\<close>: an address of at most 52 bits is accepted
  unchanged, any other panics.
\<close>

definition phys_addr_spec :: "(u64 \<Rightarrow> u64 result) \<Rightarrow> bool" where
  "phys_addr_spec f \<longleftrightarrow>
     (\<forall>a. if a < 2 ^ 52 then f a = Ok a else \<exists>m. f a = Panic m)"

lemma phys_addr_spec_Ok_iff: "phys_addr_spec f \<Longrightarrow> f a = Ok b \<longleftrightarrow> b = a \<and> a < 2 ^ 52"
  by (auto simp: phys_addr_spec_def dest!: spec [of _ a] split: if_splits)

lemma phys_addr_spec_not_Err: "phys_addr_spec f \<Longrightarrow> f a \<noteq> Err e"
  by (auto simp: phys_addr_spec_def dest!: spec [of _ a] split: if_splits)

lemma host_physical_Ok_iff:
  "host_physical H p = Ok a \<longleftrightarrow>
     (\<exists>f b. host_memory_cell H = Some f \<and> f p = Some b \<and> phys_addr_new H b = Ok a)"
  by (cases "host_memory_cell H")
    (auto simp: host_physical_def x86_virtual_to_physical_def virtual_to_physical_def
      split: option.splits)

lemma host_physical_Err_iff:
  "host_physical H p = Err e \<longleftrightarrow>
     (\<exists>f. host_memory_cell H = Some f \<and>
        (f p = None \<and> e = AllocationFailed \<or> (\<exists>b. f p = Some b \<and> phys_addr_new H b = Err e)))"
  by (cases "host_memory_cell H")
    (auto simp: host_physical_def x86_virtual_to_physical_def virtual_to_physical_def
      try_bind_Err_iff split: option.splits)

lemma host_physical_unregistered:
  "host_memory_cell H = None \<Longrightarrow>
     host_physical H p = Panic ''rhyve_core::set_host_memory has not been called''"
  by (simp add: host_physical_def x86_virtual_to_physical_def virtual_to_physical_def)

lemma set_host_memory_idem: "set_host_memory h' (set_host_memory h cell) = set_host_memory h cell"
  by (simp add: set_host_memory_def split: option.split)

subsection \<open>Properties\<close>


definition phys_addr_ref :: "u64 \<Rightarrow> u64 result" where
  "phys_addr_ref a = (if a < 2 ^ 52 then Ok a else Panic ''PhysAddr::new'')"

lemma phys_addr_ref_spec: "phys_addr_spec phys_addr_ref"
  by (simp add: phys_addr_spec_def phys_addr_ref_def)


subsection \<open>The backend interface\<close>

text \<open>
  \<open>VcpuBackend\<close>: \<open>run\<close> enters the guest until the next exit, with everything that the
  processor and the guest contribute in between as the argument \<open>env\<close>; the registers captured at
  the exit can be read and changed. What a client relies on is that the register accessors are a
  lens on the backend's state: changing the registers changes nothing but the registers.
\<close>

locale vcpu_backend =
  fixes backend_run :: "'env \<Rightarrow> 'b \<Rightarrow> ('b \<times> ExitReason) result"
    and guest_registers :: "'b \<Rightarrow> 'r"
    and set_guest_registers :: "'r \<Rightarrow> 'b \<Rightarrow> 'b"
  assumes get_set: "guest_registers (set_guest_registers r b) = r"
    and set_get: "set_guest_registers (guest_registers b) b = b"
    and set_set: "set_guest_registers r (set_guest_registers r' b) = set_guest_registers r b"
begin

lemma set_guest_registers_inject:
  "set_guest_registers r b = set_guest_registers r' b \<longleftrightarrow> r = r'"
  using get_set [of r b] get_set [of r' b] by metis

end

end
