(* ===== verification/Uart.thy ===== *)
theory Uart
  imports Rhyve_Prelude
begin

text \<open>
  The guest's serial port, \<^verbatim>\<open>src/src/uart.rs\<close>: the register file of a minimal 16550, the
  stripper of ANSI escape sequences as a three-state machine, and the two ways the guest's bytes
  reach the client, \<open>write\<close> and \<open>write_buffer\<close>. The lemmas show that what is streamed is a
  function of the concatenated input only, namely the reference definition \<open>strip\<close>.
\<close>

subsection \<open>Registers and state\<close>

definition REG_DATA :: u16 where "REG_DATA = 0"
definition REG_MCR :: u16 where "REG_MCR = 4"
definition REG_LSR :: u16 where "REG_LSR = 5"
definition REG_MSR :: u16 where "REG_MSR = 6"
definition REG_SCR :: u16 where "REG_SCR = 7"

lemmas uart_regs = REG_DATA_def REG_MCR_def REG_LSR_def REG_MSR_def REG_SCR_def

definition LSR_TX_READY :: u8 where
  "LSR_TX_READY = push_bit 5 1 OR push_bit 6 1"

definition MSR_READY :: u8 where
  "MSR_READY = push_bit 7 1 OR push_bit 5 1 OR push_bit 4 1"

datatype AnsiState = Normal | Esc | Csi

text \<open>
  The sink is an \<open>UnboundedSender<Vec<u8>>\<close> of the tokio crate. What the model keeps of an
  attached sink is the list of the vectors handed to its \<open>send\<close>, oldest first; the result of
  \<open>send\<close> is ignored by the code.
\<close>

record Uart =
  mcr :: u8
  scr :: u8
  sink :: "u8 list list option"
  ansi :: AnsiState

definition uart_new :: Uart where
  "uart_new = \<lparr>mcr = 0, scr = 0, sink = None, ansi = Normal\<rparr>"

subsection \<open>Operations\<close>

definition ansi_filter :: "Uart \<Rightarrow> u8 \<Rightarrow> u8 option \<times> Uart" where
  "ansi_filter u byte =
     (case ansi u of
        Normal \<Rightarrow>
          (if byte = 0x1b then (None, u\<lparr>ansi := Esc\<rparr>)
           else if byte = 0x0a \<or> byte = 0x0d \<or> byte = 0x09 then (Some byte, u)
           else if byte \<le> 0x1f then (None, u)
           else (Some byte, u))
      | Esc \<Rightarrow> (None, u\<lparr>ansi := (if byte = 0x5b then Csi else Normal)\<rparr>)
      | Csi \<Rightarrow>
          (if 0x40 \<le> byte \<and> byte \<le> 0x7e then (None, u\<lparr>ansi := Normal\<rparr>) else (None, u)))"

definition set_sink :: "Uart \<Rightarrow> u8 list list \<Rightarrow> Uart" where
  "set_sink u ch = u\<lparr>sink := Some ch\<rparr>"

definition sink_send :: "Uart \<Rightarrow> u8 list \<Rightarrow> Uart" where
  "sink_send u msg = (case sink u of Some ch \<Rightarrow> u\<lparr>sink := Some (ch @ [msg])\<rparr> | None \<Rightarrow> u)"

definition uart_read :: "Uart \<Rightarrow> u16 \<Rightarrow> u8" where
  "uart_read u offset =
     (if offset = REG_LSR then LSR_TX_READY
      else if offset = REG_MSR then MSR_READY
      else if offset = REG_MCR then mcr u
      else if offset = REG_SCR then scr u
      else 0)"

definition uart_write :: "Uart \<Rightarrow> u16 \<Rightarrow> u8 \<Rightarrow> u8 option \<times> Uart" where
  "uart_write u offset val =
     (if offset = REG_DATA then
        (let (filtered, u') = ansi_filter u val in
         (Some val, case filtered of Some out \<Rightarrow> sink_send u' [out] | None \<Rightarrow> u'))
      else if offset = REG_MCR then (None, u\<lparr>mcr := val\<rparr>)
      else if offset = REG_SCR then (None, u\<lparr>scr := val\<rparr>)
      else (None, u))"

text \<open>The loop of \<open>write_buffer\<close> with its accumulator \<open>data\<close>.\<close>

fun filter_buffer :: "Uart \<Rightarrow> u8 list \<Rightarrow> u8 list \<Rightarrow> u8 list \<times> Uart" where
  "filter_buffer u [] data = (data, u)"
| "filter_buffer u (val # buf) data =
     (let (filtered, u') = ansi_filter u val in
      filter_buffer u' buf (case filtered of Some out \<Rightarrow> data @ [out] | None \<Rightarrow> data))"

definition write_buffer :: "Uart \<Rightarrow> u8 list \<Rightarrow> Uart" where
  "write_buffer u buf = (let (data, u') = filter_buffer u buf [] in sink_send u' data)"

text \<open>The accesses a guest makes to the port, as values, and the bytes each one transmits.\<close>

datatype uart_op = Write u16 u8 | WriteBuffer "u8 list" | Read u16

fun uart_step :: "uart_op \<Rightarrow> Uart \<Rightarrow> Uart" where
  "uart_step (Write offset val) u = snd (uart_write u offset val)"
| "uart_step (WriteBuffer buf) u = write_buffer u buf"
| "uart_step (Read offset) u = u"

fun transmitted :: "uart_op \<Rightarrow> u8 list" where
  "transmitted (Write offset val) = (if offset = REG_DATA then [val] else [])"
| "transmitted (WriteBuffer buf) = buf"
| "transmitted (Read offset) = []"

definition streamed :: "Uart \<Rightarrow> u8 list" where
  "streamed u = (case sink u of Some ch \<Rightarrow> concat ch | None \<Rightarrow> [])"

subsection \<open>Reference definition of the stripper\<close>

text \<open>
  On a complete stream, an escape sequence is \<open>ESC\<close> and one byte, or \<open>ESC [\<close> up to and
  including the first final byte; outside of these only text bytes remain.
\<close>

definition is_final :: "u8 \<Rightarrow> bool" where
  "is_final b \<longleftrightarrow> 0x40 \<le> b \<and> b \<le> 0x7e"

definition is_text :: "u8 \<Rightarrow> bool" where
  "is_text b \<longleftrightarrow> b = 0x0a \<or> b = 0x0d \<or> b = 0x09 \<or> 0x1f < b"

definition skip_csi :: "u8 list \<Rightarrow> u8 list" where
  "skip_csi bs = tl (dropWhile (\<lambda>b. \<not> is_final b) bs)"

lemma length_skip_csi: "length (skip_csi bs) \<le> length bs"
  using length_dropWhile_le [of "\<lambda>b. \<not> is_final b" bs] by (simp add: skip_csi_def)

function strip :: "u8 list \<Rightarrow> u8 list" where
  "strip [] = []"
| "strip (b # bs) =
     (if b = 0x1b then
        (case bs of
           [] \<Rightarrow> []
         | c # cs \<Rightarrow> if c = 0x5b then strip (skip_csi cs) else strip cs)
      else if is_text b then b # strip bs
      else strip bs)"
  by pat_completeness auto
termination
  by (relation "measure length") (auto simp: le_imp_less_Suc length_skip_csi le_SucI)

text \<open>The same, started inside an escape sequence.\<close>

fun strip_from :: "AnsiState \<Rightarrow> u8 list \<Rightarrow> u8 list" where
  "strip_from Normal bs = strip bs"
| "strip_from Esc bs =
     (case bs of [] \<Rightarrow> [] | c # cs \<Rightarrow> if c = 0x5b then strip (skip_csi cs) else strip cs)"
| "strip_from Csi bs = strip (skip_csi bs)"

subsection \<open>The filter computes the reference definition\<close>

text \<open>The state machine without the rest of the port's state.\<close>

definition ansi_step :: "AnsiState \<Rightarrow> u8 \<Rightarrow> u8 option \<times> AnsiState" where
  "ansi_step st b =
     (let (out, u) = ansi_filter (uart_new\<lparr>ansi := st\<rparr>) b in (out, ansi u))"

fun ansi_run :: "AnsiState \<Rightarrow> u8 list \<Rightarrow> u8 list \<times> AnsiState" where
  "ansi_run st [] = ([], st)"
| "ansi_run st (b # bs) =
     (let (out, st') = ansi_step st b; (outs, st'') = ansi_run st' bs in
      ((case out of Some x \<Rightarrow> x # outs | None \<Rightarrow> outs), st''))"

lemma ansi_filter_step:
  "ansi_filter u b = (fst (ansi_step (ansi u) b), u\<lparr>ansi := snd (ansi_step (ansi u) b)\<rparr>)"
  by (cases u) (auto simp: ansi_step_def ansi_filter_def split: AnsiState.split)

lemma ansi_step_simps [simp]:
  "ansi_step Normal b =
     (if b = 0x1b then (None, Esc) else if is_text b then (Some b, Normal) else (None, Normal))"
  "ansi_step Esc b = (None, if b = 0x5b then Csi else Normal)"
  "ansi_step Csi b = (None, if is_final b then Normal else Csi)"
  by (auto simp: ansi_step_def ansi_filter_def is_text_def is_final_def not_le)

lemma ansi_run_append:
  "ansi_run st (xs @ ys) =
     (fst (ansi_run st xs) @ fst (ansi_run (snd (ansi_run st xs)) ys),
      snd (ansi_run (snd (ansi_run st xs)) ys))"
  by (induction xs arbitrary: st) (auto split: prod.splits option.splits)

lemma skip_csi_simps [simp]:
  "skip_csi [] = []"
  "skip_csi (b # bs) = (if is_final b then bs else skip_csi bs)"
  by (simp_all add: skip_csi_def)

lemma ansi_run_strip: "fst (ansi_run st bs) = strip_from st bs"
proof (induction bs arbitrary: st)
  case Nil
  show ?case by (cases st) auto
next
  case (Cons b bs)
  show ?case
    by (cases st) (auto simp: Cons.IH split: prod.splits list.splits,
        (metis Cons.IH fst_conv strip_from.simps)+)
qed

lemma filter_buffer_run:
  "filter_buffer u buf data =
     (data @ fst (ansi_run (ansi u) buf), u\<lparr>ansi := snd (ansi_run (ansi u) buf)\<rparr>)"
  by (induction u buf data rule: filter_buffer.induct)
    (auto simp: ansi_filter_step split: prod.splits option.splits)

text \<open>What one access adds to the stream, and what it leaves as it was.\<close>

lemma streamed_uart_step:
  assumes "sink u \<noteq> None"
  shows "streamed (uart_step x u) = streamed u @ fst (ansi_run (ansi u) (transmitted x))"
    and "ansi (uart_step x u) = snd (ansi_run (ansi u) (transmitted x))"
    and "sink (uart_step x u) \<noteq> None"
  using assms
  by (cases x;
      auto simp: streamed_def uart_write_def write_buffer_def sink_send_def filter_buffer_run
        ansi_filter_step Let_def split: prod.splits option.splits)+

lemma streamed_uart_run:
  assumes "sink u \<noteq> None"
  shows "streamed (fold uart_step ops u) =
      streamed u @ fst (ansi_run (ansi u) (concat (map transmitted ops)))"
  using assms
proof (induction ops arbitrary: u)
  case (Cons x ops)
  note step = streamed_uart_step [OF Cons.prems, of x]
  from Cons.IH [OF step(3)] step(1,2) show ?case by (simp add: ansi_run_append)
qed simp

lemma strip_text: "b \<in> set (strip bs) \<Longrightarrow> is_text b"
proof (induction bs rule: strip.induct)
  case (2 c bs)
  show ?case
  proof (cases "c = 0x1b")
    case True
    with "2.prems" obtain d ds where "bs = d # ds" by (cases bs) auto
    with True "2.IH"(1,2) "2.prems" show ?thesis by (auto split: if_splits)
  next
    case False
    with "2.IH"(3,4) "2.prems" show ?thesis by (auto split: if_splits)
  qed
qed simp

lemma strip_id: "\<forall>b \<in> set bs. is_text b \<and> b \<noteq> 0x1b \<Longrightarrow> strip bs = bs"
  by (induction bs) auto

lemma is_text_not_esc: "is_text b \<Longrightarrow> b \<noteq> 0x1b"
  by (auto simp: is_text_def)

subsection \<open>Properties\<close>

text \<open>
  C14: Streaming is independent of how the guest chunks its output. Whatever sequence of
  \<open>write\<close>, \<open>write_buffer\<close> and \<open>read\<close> accesses a guest makes on a port that has a sink and
  is outside an escape sequence, the bytes handed to the sink are those already handed to it
  followed by \<open>strip\<close> of all the transmitted bytes in order, even where an escape sequence is
  split over several accesses.
\<close>

theorem uart_stream_strips:
  assumes "sink u = Some ch" and "ansi u = Normal"
  shows "streamed (fold uart_step ops u) = concat ch @ strip (concat (map transmitted ops))"
  using assms streamed_uart_run [of u ops] by (simp add: ansi_run_strip streamed_def)

theorem uart_stream_strips_witness:
  "streamed (fold uart_step
       [Write REG_DATA 0x68, Write REG_DATA 0x1b, WriteBuffer [0x5b, 0x33], Read REG_LSR,
        WriteBuffer [0x31, 0x6d, 0x69, 0x0c, 0x0a]]
       (set_sink uart_new [])) = [0x68, 0x69, 0x0a]"
  using uart_stream_strips [of "set_sink uart_new []" "[]"
      "[Write REG_DATA 0x68, Write REG_DATA 0x1b, WriteBuffer [0x5b, 0x33], Read REG_LSR,
        WriteBuffer [0x31, 0x6d, 0x69, 0x0c, 0x0a]]"]
  by (simp add: set_sink_def uart_new_def is_text_def is_final_def)

text \<open>
  The stream is clean and loses no text: every byte handed to the sink is a newline, a
  carriage return, a tab or above the C0 control range (so no \<open>ESC\<close> reaches the client), and
  a transmission that consists of such bytes is forwarded unchanged.
\<close>

lemma uart_stream_clean:
  assumes "sink u = Some ch" and "ansi u = Normal"
  shows "\<exists>out. streamed (write_buffer u buf) = concat ch @ out \<and>
      (\<forall>b \<in> set out. is_text b \<and> b \<noteq> 0x1b) \<and> ((\<forall>b \<in> set buf. is_text b) \<longrightarrow> out = buf)"
  using assms streamed_uart_step(1) [of u "WriteBuffer buf"]
  by (auto simp: ansi_run_strip streamed_def is_text_not_esc strip_text strip_id
      dest: strip_text intro!: exI [of _ "strip buf"])


end
