(* ===== verification/Byte_Memory.thy ===== *)
theory Byte_Memory
  imports Rhyve_Prelude
begin

text \<open>
  Byte memory with little-endian accesses of \<open>n\<close> bytes, as the raw pointer reads and writes of the
  sources make them on x86-64: a control block, a permission map or the guest's memory is a function
  from offsets to bytes. The lemmas are the laws of such accesses: a read returns what was written at
  the same place, accesses to disjoint places do not interfere.
\<close>

type_synonym bytes = "nat \<Rightarrow> u8"

primrec read_le :: "nat \<Rightarrow> bytes \<Rightarrow> nat \<Rightarrow> 'a::len word" where
  "read_le 0 m a = 0"
| "read_le (Suc n) m a = ucast (m a) OR push_bit 8 (read_le n m (a + 1))"

definition write_le :: "nat \<Rightarrow> nat \<Rightarrow> 'a::len word \<Rightarrow> bytes \<Rightarrow> bytes" where
  "write_le n a v m = (\<lambda>x. if a \<le> x \<and> x < a + n then ucast (drop_bit (8 * (x - a)) v) else m x)"

lemma bit_read_le:
  "bit (read_le n m a :: 'a::len word) k \<longleftrightarrow>
     k < LENGTH('a) \<and> k div 8 < n \<and> bit (m (a + k div 8)) (k mod 8)"
proof (induction n arbitrary: a k)
  case (Suc n)
  show ?case
  proof (cases "k < 8")
    case True
    then show ?thesis by (auto simp: bit_simps)
  next
    case False
    then have d: "k div 8 = Suc ((k - 8) div 8)" "k mod 8 = (k - 8) mod 8"
      by (simp_all add: le_div_geq le_mod_geq)
    have "\<not> bit (m a) k" using False by (auto dest: bit_imp_le_length)
    then show ?thesis using False Suc.IH [of "a + 1" "k - 8"] d by (auto simp: bit_simps)
  qed
qed simp

lemma read_write_same [simp]:
  fixes v :: "'a::len word"
  assumes "LENGTH('a) = 8 * n"
  shows "read_le n (write_le n a v m) a = v"
proof (rule bit_word_eqI)
  fix k
  assume "k < LENGTH('a)"
  moreover from this assms have "k div 8 < n" by (simp add: div_less_iff_less_mult mult.commute)
  moreover have "8 * (k div 8) + k mod 8 = k" by simp
  ultimately show "bit (read_le n (write_le n a v m) a :: 'a word) k \<longleftrightarrow> bit v k"
    by (simp add: bit_read_le write_le_def bit_simps)
qed

lemma read_le_cong:
  "(\<And>i. i < n \<Longrightarrow> m (a + i) = m' (a + i)) \<Longrightarrow> read_le n m a = read_le n m' a"
  by (rule bit_word_eqI) (auto simp: bit_read_le)

lemma read_write_disjoint [simp]:
  "a + n \<le> b \<or> b + k \<le> a \<Longrightarrow> read_le n (write_le k b v m) a = read_le n m a"
  by (intro read_le_cong) (auto simp: write_le_def)

lemma write_le_outside [simp]: "x < a \<or> a + n \<le> x \<Longrightarrow> write_le n a v m x = m x"
  by (auto simp: write_le_def)

lemma write_le_commute:
  "a + n \<le> b \<or> b + k \<le> a \<Longrightarrow>
     write_le n a v (write_le k b w m) = write_le k b w (write_le n a v m)"
  by (intro ext) (auto simp: write_le_def)

lemma write_le_overwrite [simp]: "write_le n a v (write_le n a w m) = write_le n a v m"
  by (intro ext) (auto simp: write_le_def)

lemma read_le_zero [simp]: "read_le n (\<lambda>_. 0) a = 0"
  by (rule bit_word_eqI) (simp add: bit_read_le)

text \<open>Filling a table of 64-bit entries in a loop.\<close>

definition fill_table :: "nat \<Rightarrow> (nat \<Rightarrow> u64) \<Rightarrow> nat \<Rightarrow> bytes \<Rightarrow> bytes" where
  "fill_table b f n m = fold (\<lambda>i m. write_le 8 (b + 8 * i) (f i) m) [0..<n] m"

lemma fill_table_Suc: "fill_table b f (Suc n) m = write_le 8 (b + 8 * n) (f n) (fill_table b f n m)"
  by (simp add: fill_table_def)

lemma fill_table_0 [simp]: "fill_table b f 0 m = m"
  by (simp add: fill_table_def)

lemma read_fill_table:
  "read_le 8 (fill_table b f n m) (b + 8 * k) = (if k < n then f k else read_le 8 m (b + 8 * k))"
proof (induction n)
  case (Suc n)
  then show ?case by (cases "k = n") (auto simp: fill_table_Suc)
qed simp

lemma fill_table_outside: "x < b \<or> b + 8 * n \<le> x \<Longrightarrow> fill_table b f n m x = m x"
  by (induction n) (auto simp: fill_table_Suc)

lemma read_fill_table_outside:
  "a + k \<le> b \<or> b + 8 * n \<le> a \<Longrightarrow> read_le k (fill_table b f n m) a = read_le k m a"
  by (intro read_le_cong fill_table_outside) auto

lemma fill_table_write_commute:
  "a + k \<le> b \<or> b + 8 * n \<le> a \<Longrightarrow>
     fill_table b f n (write_le k a v m) = write_le k a v (fill_table b f n m)"
proof (induction n)
  case (Suc n)
  then have "write_le 8 (b + 8 * n) (f n) (write_le k a v (fill_table b f n m)) =
      write_le k a v (write_le 8 (b + 8 * n) (f n) (fill_table b f n m))"
    by (intro write_le_commute) auto
  with Suc show ?case by (auto simp: fill_table_Suc)
qed simp

text \<open>Filling two disjoint tables in one loop is filling them one after the other.\<close>

lemma fold_two_tables:
  assumes "b + 8 * n \<le> c"
  shows "fold (\<lambda>i m. write_le 8 (c + 8 * i) (g i) (write_le 8 (b + 8 * i) (f i) m)) [0..<n] m =
    fill_table c g n (fill_table b f n m)"
  using assms
proof (induction n)
  case (Suc n)
  then show ?case by (simp add: fill_table_Suc fill_table_write_commute)
qed simp

end
