(* ===== verification/Vcpu_State.thy ===== *)
theory Vcpu_State
  imports Byte_Memory
begin

text \<open>
  The parts of a virtual CPU that the two backends share: the guest registers (\<^verbatim>\<open>vmx/run.rs\<close>),
  the emulated local-APIC timer (\<^verbatim>\<open>apic.rs\<close>) and the area for the extended floating-point state
  (\<^verbatim>\<open>fpu.rs\<close>). Both backends carry their own copy of the timer's register handler; \<open>timer_write\<close> is
  the reference that both copies are compared with, and the lemmas on the timer are proved for it.
\<close>

subsection \<open>Guest registers\<close>

record GuestRegisters =
  rax :: u64
  rbx :: u64
  rcx :: u64
  rdx :: u64
  rdi :: u64
  rsi :: u64
  rbp :: u64
  r8 :: u64
  r9 :: u64
  r10 :: u64
  r11 :: u64
  r12 :: u64
  r13 :: u64
  r14 :: u64
  r15 :: u64
  rip :: u64
  rsp :: u64
  rflags :: u64

definition default_registers :: GuestRegisters where
  "default_registers = \<lparr>rax = 0, rbx = 0, rcx = 0, rdx = 0, rdi = 0, rsi = 0, rbp = 0, r8 = 0, r9 = 0,
     r10 = 0, r11 = 0, r12 = 0, r13 = 0, r14 = 0, r15 = 0, rip = 0, rsp = 0, rflags = 0\<rparr>"

text \<open>\<open>EDX:EAX\<close> as one value, and back.\<close>

definition edx_eax :: "GuestRegisters \<Rightarrow> u64" where
  "edx_eax r = push_bit 32 (rdx r) OR (rax r AND 0xffffffff)"

definition set_edx_eax :: "u64 \<Rightarrow> GuestRegisters \<Rightarrow> GuestRegisters" where
  "set_edx_eax value r = r\<lparr>rax := value AND 0xffffffff, rdx := drop_bit 32 value\<rparr>"

lemma and_mask_32: "x AND 0xffffffff = take_bit 32 x" for x :: u64
  by (simp add: take_bit_eq_mask mask_eq_exp_minus_1)

lemma edx_eax_set [simp]: "edx_eax (set_edx_eax value r) = value"
proof -
  have "push_bit 32 (drop_bit 32 value) OR take_bit 32 (take_bit 32 value) = value"
    by (rule bit_word_eqI) (auto simp: bit_simps)
  then show ?thesis by (simp add: edx_eax_def set_edx_eax_def and_mask_32)
qed

text \<open>The answer of CPUID, zero-extended into the four registers.\<close>

type_synonym cpuid_answer = "u32 \<times> u32 \<times> u32 \<times> u32"

definition set_cpuid_result :: "cpuid_answer \<Rightarrow> GuestRegisters \<Rightarrow> GuestRegisters" where
  "set_cpuid_result result r =
     (let (eax, ebx, ecx, edx) = result in
      r\<lparr>rax := ucast eax, rbx := ucast ebx, rcx := ucast ecx, rdx := ucast edx\<rparr>)"

subsection \<open>The local-APIC timer\<close>

definition IA32_TSC_DEADLINE :: u32 where "IA32_TSC_DEADLINE = 0x6e0"
definition IA32_X2APIC_LVT_TIMER :: u32 where "IA32_X2APIC_LVT_TIMER = 0x832"
definition IA32_X2APIC_INIT_COUNT :: u32 where "IA32_X2APIC_INIT_COUNT = 0x838"
definition LVT_TIMER_MODE_MASK :: u64 where "LVT_TIMER_MODE_MASK = push_bit 17 3"
definition LVT_TIMER_MODE_PERIODIC :: u64 where "LVT_TIMER_MODE_PERIODIC = push_bit 17 1"
definition LVT_TIMER_MODE_TSC_DEADLINE :: u64 where "LVT_TIMER_MODE_TSC_DEADLINE = push_bit 17 2"
definition LVT_MASKED :: u64 where "LVT_MASKED = push_bit 16 1"

lemmas apic_msrs = IA32_TSC_DEADLINE_def IA32_X2APIC_LVT_TIMER_def IA32_X2APIC_INIT_COUNT_def

lemma LVT_MASKED_iff: "x AND LVT_MASKED = 0 \<longleftrightarrow> \<not> bit x 16"
  unfolding LVT_MASKED_def by (rule and_exp_eq_0_iff)

lemma and_0xff: "ucast (x AND 0xff) = (ucast x :: u8)" for x :: u64
proof -
  have "x AND 0xff = take_bit 8 x" by (simp add: take_bit_eq_mask mask_eq_exp_minus_1)
  then show ?thesis by (auto intro!: bit_word_eqI simp: bit_simps)
qed

record ApicTimer =
  vector :: u8
  masked :: bool
  tsc_deadline_mode :: bool
  periodic :: bool
  deadline :: "u64 option"
  period :: "u64 option"

definition default_timer :: ApicTimer where
  "default_timer = \<lparr>vector = 0, masked = False, tsc_deadline_mode = False, periodic = False,
     deadline = None, period = None\<rparr>"

text \<open>\<open>bool::then_some\<close>, and \<open>u64::saturating_add\<close> and \<open>saturating_sub\<close>.\<close>

definition then_some :: "bool \<Rightarrow> 'a \<Rightarrow> 'a option" where
  "then_some b x = (if b then Some x else None)"

definition saturating_add :: "u64 \<Rightarrow> u64 \<Rightarrow> u64" where
  "saturating_add a b = (if unat a + unat b < 2 ^ 64 then a + b else 0xFFFFFFFFFFFFFFFF)"

definition saturating_sub :: "u64 \<Rightarrow> u64 \<Rightarrow> u64" where
  "saturating_sub a b = (if b \<le> a then a - b else 0)"

lemma unat_saturating_add: "unat (saturating_add a b) = min (unat a + unat b) (2 ^ 64 - 1)"
proof (cases "unat a + unat b < 2 ^ 64")
  case True
  then show ?thesis using unat_plus_if_size [of a b]
    by (auto simp: saturating_add_def word_size min_def)
next
  case False
  then show ?thesis by (simp add: saturating_add_def)
qed

text \<open>The reference for writes to the timer's registers, at the time \<open>tsc\<close>.\<close>

definition timer_write :: "u64 \<Rightarrow> u32 \<Rightarrow> u64 \<Rightarrow> ApicTimer \<Rightarrow> ApicTimer" where
  "timer_write tsc msr value t =
     (if msr = IA32_X2APIC_LVT_TIMER then
        let m = bit value 16; mode = value AND LVT_TIMER_MODE_MASK in
        \<lparr>vector = ucast value, masked = m,
         tsc_deadline_mode = (mode = LVT_TIMER_MODE_TSC_DEADLINE),
         periodic = (mode = LVT_TIMER_MODE_PERIODIC),
         deadline = (if m then None else deadline t), period = (if m then None else period t)\<rparr>
      else if msr = IA32_TSC_DEADLINE then
        t\<lparr>deadline := (if value \<noteq> 0 \<and> \<not> masked t then Some value else None), period := None\<rparr>
      else if msr = IA32_X2APIC_INIT_COUNT then
        if value = 0 \<or> masked t \<or> tsc_deadline_mode t then t\<lparr>deadline := None, period := None\<rparr>
        else t\<lparr>deadline := Some (tsc + value), period := (if periodic t then Some value else None)\<rparr>
      else t)"

text \<open>The reference for the expiry of the deadline: the vector that becomes pending, and the timer.\<close>

definition timer_expire :: "ApicTimer \<Rightarrow> u8 option \<Rightarrow> ApicTimer \<times> u8 option" where
  "timer_expire t pending =
     (case deadline t of
        None \<Rightarrow> (t, pending)
      | Some d \<Rightarrow>
          (t\<lparr>deadline := map_option (saturating_add d) (period t)\<rparr>,
           if masked t then pending else Some (vector t)))"

text \<open>
  Well-formed timers: a masked timer is disarmed, and a period stands beside a deadline and is not
  zero.
\<close>

definition timer_ok :: "ApicTimer \<Rightarrow> bool" where
  "timer_ok t \<longleftrightarrow> (masked t \<longrightarrow> deadline t = None) \<and>
     (\<forall>p. period t = Some p \<longrightarrow> p \<noteq> 0 \<and> deadline t \<noteq> None)"

lemma timer_ok_default: "timer_ok default_timer"
  by (simp add: timer_ok_def default_timer_def)

lemma timer_ok_write: "timer_ok t \<Longrightarrow> timer_ok (timer_write tsc msr value t)"
  by (auto simp: timer_ok_def timer_write_def Let_def split: if_splits)

lemma timer_ok_expire: "timer_ok t \<Longrightarrow> timer_ok (fst (timer_expire t pending))"
  by (auto simp: timer_ok_def timer_expire_def split: option.splits)

subsection \<open>Floating-point state\<close>

text \<open>The \<open>XSAVE\<close> area; the instructions themselves are parameters of the code that uses them.\<close>

record FpuState =
  fpu_data :: bytes

definition fpu_scratch :: FpuState where
  "fpu_scratch = \<lparr>fpu_data = (\<lambda>_. 0)\<rparr>"

definition fpu_init_guest :: FpuState where
  "fpu_init_guest = \<lparr>fpu_data = write_le 4 24 (0x1F80 :: u32) (\<lambda>_. 0)\<rparr>"

text \<open>
  \<open>xsave\<close> writes the live registers into an area and \<open>xrstor\<close> loads them from one. The documented
  behaviour used below: loading what was saved gives the registers back.
\<close>

definition fpu_save :: "('fp \<Rightarrow> bytes \<Rightarrow> bytes) \<Rightarrow> 'fp \<Rightarrow> FpuState \<Rightarrow> FpuState" where
  "fpu_save xsave fp st = st\<lparr>fpu_data := xsave fp (fpu_data st)\<rparr>"

definition fpu_restore :: "(bytes \<Rightarrow> 'fp) \<Rightarrow> FpuState \<Rightarrow> 'fp" where
  "fpu_restore xrstor st = xrstor (fpu_data st)"

definition xsave_spec :: "('fp \<Rightarrow> bytes \<Rightarrow> bytes) \<Rightarrow> (bytes \<Rightarrow> 'fp) \<Rightarrow> bool" where
  "xsave_spec xsave xrstor \<longleftrightarrow> (\<forall>fp d. xrstor (xsave fp d) = fp)"

lemma fpu_restore_save:
  "xsave_spec xsave xrstor \<Longrightarrow> fpu_restore xrstor (fpu_save xsave fp st) = fp"
  by (simp add: xsave_spec_def fpu_restore_def fpu_save_def)

text \<open>
  The header of the initial area has no component in use (\<open>XSTATE_BV\<close> at offset 512), and its
  \<open>MXCSR\<close> is the reset value.
\<close>

lemma fpu_init_guest_image:
  "read_le 8 (fpu_data fpu_init_guest) 512 = (0 :: u64)"
  "read_le 4 (fpu_data fpu_init_guest) 24 = (0x1F80 :: u32)"
  by (simp_all add: fpu_init_guest_def)

end
