(* ===== verification/Cpu.thy ===== *)
theory Cpu
  imports Hypervisor_Core Uart Vcpu_State
begin

text \<open>
  The virtual CPU that is independent of the backend (\<^verbatim>\<open>src/src/vcpu.rs\<close>): the dispatch of an I/O exit to
  the exit ports, to the uhyve hypercalls or to the serial port, and the loop that runs the backend until
  the guest ends. The backend is a table of its operations, as the trait object is; the lemmas about the
  loop hold for every backend that satisfies the interface \<open>vcpu_backend\<close>.
\<close>

subsection \<open>State\<close>

definition SERIAL_BASE :: u16 where "SERIAL_BASE = 0x800"
definition EXIT_PORTS :: "u16 list" where "EXIT_PORTS = [0xf4, 0x540]"

record VmMemoryLayout =
  start_addr :: u64
  mem_len :: nat

record CpuConfig =
  nested_paging_pointer :: u64
  config_apic_access_hpa :: u64
  config_entry_point :: u64
  stack_pointer :: u64

text \<open>
  The field \<open>uart\<close> of the code is a handle to the serial port that all virtual CPUs of a machine share
  behind a lock. The port is therefore not part of the CPU but, like memory, of the state that an
  operation takes and returns.
\<close>

record 'b Cpu =
  cpu_vm_id :: nat
  cpu_index :: nat
  cpu_mem :: VmMemoryLayout
  cpu_backend :: 'b

text \<open>The operations behind \<open>Box<dyn VcpuBackend<GuestRegisters>>\<close>.\<close>

record ('env, 'b) backend_table =
  table_run :: "'env \<Rightarrow> 'b \<Rightarrow> ('b \<times> ExitReason) result"
  table_registers :: "'b \<Rightarrow> GuestRegisters"
  table_set_registers :: "GuestRegisters \<Rightarrow> 'b \<Rightarrow> 'b"

text \<open>
  The crate uhyve-interface: the decoding of a port to a hypercall, and the place of each field of the
  parameter structures that the code accesses, as an offset and a width in bytes.
\<close>

datatype HypercallAddress = Exit | SerialWriteByte | SerialWriteBuffer | FileWrite | FileRead | FileOpen
  | FileClose | FileLseek | FileUnlink | OtherHypercall

record uhyve =
  hypercall_try_from :: "u64 \<Rightarrow> HypercallAddress option"
  SerialWriteBufferParams_buf :: "nat \<times> nat"
  SerialWriteBufferParams_len :: "nat \<times> nat"
  WriteParams_fd :: "nat \<times> nat"
  WriteParams_buf :: "nat \<times> nat"
  WriteParams_len :: "nat \<times> nat"
  WriteParams_ret :: "nat \<times> nat"
  ReadParams_ret :: "nat \<times> nat"
  OpenParams_ret :: "nat \<times> nat"
  CloseParams_ret :: "nat \<times> nat"
  LseekParams_offset :: "nat \<times> nat"
  UnlinkParams_ret :: "nat \<times> nat"

subsection \<open>Guest memory\<close>

text \<open>
  Memory is indexed by host address; a guest address is relative to the start of the guest's RAM. The sum
  wraps as in a release build; no bound is checked.
\<close>

definition guest_ptr :: "'b Cpu \<Rightarrow> u64 \<Rightarrow> nat" where
  "guest_ptr cpu gpa = unat (start_addr (cpu_mem cpu) + gpa)"

definition get_field :: "bytes \<Rightarrow> nat \<Rightarrow> nat \<times> nat \<Rightarrow> u64" where
  "get_field m p fl = read_le (snd fl) m (p + fst fl)"

definition set_field :: "nat \<Rightarrow> nat \<times> nat \<Rightarrow> u64 \<Rightarrow> bytes \<Rightarrow> bytes" where
  "set_field p fl v m = write_le (snd fl) (p + fst fl) v m"

definition from_raw_parts :: "bytes \<Rightarrow> nat \<Rightarrow> u64 \<Rightarrow> u8 list" where
  "from_raw_parts m p len = map (\<lambda>i. m (p + i)) [0..<unat len]"

subsection \<open>I/O exits\<close>

text \<open>One pass through the loop either returns or goes on.\<close>

datatype 's flow = Return 's | Continue 's

definition hypercall :: "uhyve \<Rightarrow> HypercallAddress \<Rightarrow> u64 \<Rightarrow> 'b Cpu \<times> Uart \<times> bytes \<Rightarrow> ('b Cpu \<times> Uart \<times> bytes) flow" where
  "hypercall U h data = (\<lambda>(cpu, u, m).
     let p = guest_ptr cpu data in
     case h of
       Exit \<Rightarrow> Return (cpu, u, m)
     | SerialWriteByte \<Rightarrow> Continue (cpu, write_buffer u [ucast data], m)
     | SerialWriteBuffer \<Rightarrow>
         (let buf = from_raw_parts m (guest_ptr cpu (get_field m p (SerialWriteBufferParams_buf U)))
                (get_field m p (SerialWriteBufferParams_len U))
          in Continue (cpu, write_buffer u buf, m))
     | FileWrite \<Rightarrow>
         (let fd = get_field m p (WriteParams_fd U) in
          if fd = 1 \<or> fd = 2 then
            (let buf = from_raw_parts m (guest_ptr cpu (get_field m p (WriteParams_buf U)))
                   (get_field m p (WriteParams_len U))
             in Continue (cpu, write_buffer u buf, set_field p (WriteParams_ret U) (get_field m p (WriteParams_len U)) m))
          else Continue (cpu, u, set_field p (WriteParams_ret U) (- 1) m))
     | FileRead \<Rightarrow> Continue (cpu, u, set_field p (ReadParams_ret U) (- 1) m)
     | FileOpen \<Rightarrow> Continue (cpu, u, set_field p (OpenParams_ret U) (- 1) m)
     | FileClose \<Rightarrow> Continue (cpu, u, set_field p (CloseParams_ret U) (- 1) m)
     | FileLseek \<Rightarrow> Continue (cpu, u, set_field p (LseekParams_offset U) (- 1) m)
     | FileUnlink \<Rightarrow> Continue (cpu, u, set_field p (UnlinkParams_ret U) (- 1) m)
     | OtherHypercall \<Rightarrow> Continue (cpu, u, m))"

text \<open>Port I/O that is neither an exit nor a hypercall: eight serial ports, the rest is swallowed.\<close>

definition port_io ::
    "('env, 'b) backend_table \<Rightarrow> bool \<Rightarrow> u16 \<Rightarrow> 'b Cpu \<times> Uart \<times> bytes \<Rightarrow> 'b Cpu \<times> Uart \<times> bytes" where
  "port_io B is_in port = (\<lambda>(cpu, u, m).
     let serial = SERIAL_BASE \<le> port \<and> port < SERIAL_BASE + 8;
         offset = port - SERIAL_BASE;
         regs = table_registers B (cpu_backend cpu)
     in if is_in then
          (let val = (if serial then uart_read u offset else 0)
           in (cpu\<lparr>cpu_backend := table_set_registers B
                (regs\<lparr>rax := (rax regs AND NOT 0xff) OR ucast val\<rparr>) (cpu_backend cpu)\<rparr>, u, m))
        else if serial then (cpu, snd (uart_write u offset (ucast (rax regs))), m)
        else (cpu, u, m))"

definition io_is_in :: "u64 \<Rightarrow> bool" where
  "io_is_in q \<longleftrightarrow> drop_bit 3 q AND 1 \<noteq> 0"

definition io_port :: "u64 \<Rightarrow> u16" where
  "io_port q = ucast (drop_bit 16 q)"

definition handle_io ::
    "uhyve \<Rightarrow> ('env, 'b) backend_table \<Rightarrow> u64 \<Rightarrow> 'b Cpu \<times> Uart \<times> bytes \<Rightarrow> ('b Cpu \<times> Uart \<times> bytes) flow" where
  "handle_io U B q s =
     (let is_in = io_is_in q; port = io_port q in
      if \<not> is_in \<and> port \<in> set EXIT_PORTS then Return s
      else case (if is_in then None else hypercall_try_from U (ucast port)) of
             Some h \<Rightarrow> hypercall U h (rdi (table_registers B (cpu_backend (fst s)))) s
           | None \<Rightarrow> Continue (port_io B is_in port s))"

subsection \<open>The run loop\<close>

text \<open>
  The environment of one pass: what the backend's run takes, and what the guest does to memory while it
  runs.
\<close>

definition cpu_step ::
    "uhyve \<Rightarrow> ('env, 'b) backend_table \<Rightarrow> 'env \<times> (bytes \<Rightarrow> bytes) \<Rightarrow> 'b Cpu \<times> Uart \<times> bytes \<Rightarrow>
       ('b Cpu \<times> Uart \<times> bytes) flow result" where
  "cpu_step U B e s =
     try_bind (table_run B (fst e) (cpu_backend (fst s))) (\<lambda>(b, reason).
     let s = ((fst s)\<lparr>cpu_backend := b\<rparr>, fst (snd s), snd e (snd (snd s))) in
     case reason of
       IoInstruction q \<Rightarrow> Ok (handle_io U B q s)
     | Shutdown \<Rightarrow> Ok (Return s)
     | Success \<Rightarrow> Ok (Continue s))"

text \<open>
  The loop returns the state with the result. After a failure this is the state at the head of the pass
  that failed; the backend, which the failure leaves in between, is not used any more.
\<close>

partial_function (option) cpu_run ::
    "uhyve \<Rightarrow> ('env, 'b) backend_table \<Rightarrow> (nat \<Rightarrow> 'env \<times> (bytes \<Rightarrow> bytes)) \<Rightarrow> nat \<Rightarrow> 'b Cpu \<times> Uart \<times> bytes \<Rightarrow>
       (('b Cpu \<times> Uart \<times> bytes) \<times> unit result) option" where
  "cpu_run U B envs n s =
     (case cpu_step U B (envs n) s of
        Ok fl \<Rightarrow> (case fl of Continue s' \<Rightarrow> cpu_run U B envs (Suc n) s' | Return s' \<Rightarrow> Some (s', Ok ()))
      | Err e \<Rightarrow> Some (s, Err e)
      | Panic msg \<Rightarrow> Some (s, Panic msg))"

subsection \<open>Passes of the loop\<close>

text \<open>What a pass makes the loop return, if anything, and the states at the head of the loop.\<close>

fun pass_result :: "'s \<Rightarrow> 's flow result \<Rightarrow> ('s \<times> unit result) option" where
  "pass_result s (Ok (Return t)) = Some (t, Ok ())"
| "pass_result s (Ok (Continue t)) = None"
| "pass_result s (Err e) = Some (s, Err e)"
| "pass_result s (Panic msg) = Some (s, Panic msg)"

lemma pass_result_None_iff: "pass_result s p = None \<longleftrightarrow> (\<exists>t. p = Ok (Continue t))"
  by (cases "(s, p)" rule: pass_result.cases) auto

inductive cpu_reaches ::
    "uhyve \<Rightarrow> ('env, 'b) backend_table \<Rightarrow> (nat \<Rightarrow> 'env \<times> (bytes \<Rightarrow> bytes)) \<Rightarrow> nat \<Rightarrow> 'b Cpu \<times> Uart \<times> bytes \<Rightarrow>
       nat \<Rightarrow> 'b Cpu \<times> Uart \<times> bytes \<Rightarrow> bool"
  for U :: uhyve and B :: "('env, 'b) backend_table" and envs :: "nat \<Rightarrow> 'env \<times> (bytes \<Rightarrow> bytes)" where
  here: "cpu_reaches U B envs n s n s"
| pass: "cpu_step U B (envs n) s = Ok (Continue s') \<Longrightarrow> cpu_reaches U B envs (Suc n) s' k t \<Longrightarrow>
    cpu_reaches U B envs n s k t"

inductive_cases cpu_reachesE: "cpu_reaches U B envs n s k t"

fun flow_state :: "'s flow \<Rightarrow> 's" where
  "flow_state (Return s) = s"
| "flow_state (Continue s) = s"

lemma cpu_run_pass:
  "cpu_run U B envs n s =
     (case cpu_step U B (envs n) s of Ok (Continue s') \<Rightarrow> cpu_run U B envs (Suc n) s' | p \<Rightarrow> pass_result s p)"
  by (subst cpu_run.simps) (auto split: outcome.split flow.split)

lemma cpu_run_from_reaches:
  "cpu_reaches U B envs n s k t \<Longrightarrow> cpu_run U B envs n s = cpu_run U B envs k t"
  by (induction rule: cpu_reaches.induct) (simp_all add: cpu_run_pass)

lemma cpu_run_stops:
  "pass_result t (cpu_step U B (envs k) t) = Some r \<Longrightarrow> cpu_run U B envs k t = Some r"
  by (subst cpu_run_pass) (auto split: outcome.split flow.split)

lemma cpu_run_reaches:
  assumes "cpu_run U B envs n s = Some r"
  shows "\<exists>k t. cpu_reaches U B envs n s k t \<and> pass_result t (cpu_step U B (envs k) t) = Some r"
  using assms
proof (induction rule: cpu_run.raw_induct [rotated, consumes 1, case_names pass])
  case (pass run U B envs n s r)
  show ?case
  proof (cases "pass_result s (cpu_step U B (envs n) s)")
    case None
    then obtain s' where st: "cpu_step U B (envs n) s = Ok (Continue s')"
      unfolding pass_result_None_iff by blast
    then have "run U B envs (Suc n) s' = Some r" using pass.hyps by simp
    then obtain k t where "cpu_reaches U B envs (Suc n) s' k t"
      and "pass_result t (cpu_step U B (envs k) t) = Some r"
      using pass.IH by blast
    then show ?thesis using cpu_reaches.pass [of U B envs n s s' k t, OF st] by blast
  next
    case (Some r')
    then have "r' = r" using pass.hyps
      by (cases "(s, cpu_step U B (envs n) s)" rule: pass_result.cases) auto
    then show ?thesis using Some cpu_reaches.here by blast
  qed
qed

lemma cpu_reaches_snoc:
  "cpu_reaches U B envs n s k t \<Longrightarrow> cpu_step U B (envs k) t = Ok (Continue t') \<Longrightarrow>
     cpu_reaches U B envs n s (Suc k) t'"
  by (induction rule: cpu_reaches.induct) (auto intro: cpu_reaches.intros)

lemma cpu_reaches_le: "cpu_reaches U B envs n s k t \<Longrightarrow> n \<le> k"
  by (induction rule: cpu_reaches.induct) auto

lemma cpu_reaches_split:
  assumes "cpu_reaches U B envs n s k t" and "cpu_reaches U B envs n s j t'" and "k \<le> j"
  shows "cpu_reaches U B envs k t j t'"
  using assms
proof (induction rule: cpu_reaches.induct)
  case (pass n s s' k t)
  from pass.prems(1) show ?case
  proof cases
    case here
    then show ?thesis using cpu_reaches_le [OF pass.hyps(2)] pass.prems(2) by simp
  next
    case (pass s'')
    then show ?thesis using pass.prems pass.IH pass.hyps by simp
  qed
qed

text \<open>The exits that end the guest, and the end of a pass in terms of the backend.\<close>

fun ends_guest :: "uhyve \<Rightarrow> ExitReason \<Rightarrow> bool" where
  "ends_guest U Shutdown \<longleftrightarrow> True"
| "ends_guest U (IoInstruction q) \<longleftrightarrow> \<not> io_is_in q \<and>
     (io_port q \<in> set EXIT_PORTS \<or> hypercall_try_from U (ucast (io_port q)) = Some Exit)"
| "ends_guest U Success \<longleftrightarrow> False"

lemma hypercall_Return_iff: "hypercall U h data s = Return t \<longleftrightarrow> h = Exit \<and> t = s"
  by (cases s; cases h) (auto simp: hypercall_def Let_def)

lemma handle_io_Return_iff:
  "handle_io U B q s = Return t \<longleftrightarrow> ends_guest U (IoInstruction q) \<and> t = s"
  by (auto simp: handle_io_def hypercall_Return_iff Let_def split: option.split)

lemma pass_result_Ok_iff: "pass_result s (Ok fl) = Some r \<longleftrightarrow> (\<exists>t. fl = Return t \<and> r = (t, Ok ()))"
  by (cases fl) auto

lemma pass_ends_iff:
  "pass_result s (cpu_step U B e s) = Some r \<longleftrightarrow>
     (case table_run B (fst e) (cpu_backend (fst s)) of
        Ok (b, reason) \<Rightarrow> ends_guest U reason \<and>
          r = (((fst s)\<lparr>cpu_backend := b\<rparr>, fst (snd s), snd e (snd (snd s))), Ok ())
      | Err e \<Rightarrow> r = (s, Err e)
      | Panic msg \<Rightarrow> r = (s, Panic msg))"
  by (cases "table_run B (fst e) (cpu_backend (fst s))")
    (auto simp: cpu_step_def pass_result_Ok_iff handle_io_Return_iff Let_def split: ExitReason.splits)

subsection \<open>What an exit can change\<close>

text \<open>
  An exit touches the serial port only through its own operations, and leaves the identity and the memory
  layout of the CPU alone.
\<close>

definition same_cpu :: "'b Cpu \<Rightarrow> 'b Cpu \<Rightarrow> bool" where
  "same_cpu c c' \<longleftrightarrow> cpu_vm_id c' = cpu_vm_id c \<and> cpu_index c' = cpu_index c \<and> cpu_mem c' = cpu_mem c"

definition serial_only :: "'b Cpu \<times> Uart \<times> bytes \<Rightarrow> 'b Cpu \<times> Uart \<times> bytes \<Rightarrow> bool" where
  "serial_only s t \<longleftrightarrow> same_cpu (fst s) (fst t) \<and> (\<exists>ops. fst (snd t) = fold uart_step ops (fst (snd s)))"

lemma serial_onlyI:
  "same_cpu c c' \<Longrightarrow> serial_only (c, u, m) (c', u, m')"
  "same_cpu c c' \<Longrightarrow> serial_only (c, u, m) (c', write_buffer u buf, m')"
  "same_cpu c c' \<Longrightarrow> serial_only (c, u, m) (c', snd (uart_write u off v), m')"
  using exI [of "\<lambda>ops. write_buffer u buf = fold uart_step ops u" "[WriteBuffer buf]"]
    exI [of "\<lambda>ops. snd (uart_write u off v) = fold uart_step ops u" "[Write off v]"]
  by (auto simp: serial_only_def intro: exI [of _ "[]"])

lemma same_cpu_refl [simp]: "same_cpu c c" "same_cpu c (c\<lparr>cpu_backend := b\<rparr>)"
  by (simp_all add: same_cpu_def)

lemma serial_only_trans:
  assumes "serial_only s t" and "serial_only t r"
  shows "serial_only s r"
proof -
  obtain ops ops' where "fst (snd t) = fold uart_step ops (fst (snd s))"
    and "fst (snd r) = fold uart_step ops' (fst (snd t))"
    using assms by (auto simp: serial_only_def)
  then have "fst (snd r) = fold uart_step (ops @ ops') (fst (snd s))" by simp
  then show ?thesis using assms unfolding serial_only_def same_cpu_def by metis
qed

lemma hypercall_serial_only: "serial_only s (flow_state (hypercall U h data s))"
  by (cases s; cases h) (auto simp: hypercall_def Let_def intro: serial_onlyI)

lemma port_io_serial_only: "serial_only s (port_io B is_in port s)"
  by (cases s) (auto simp: port_io_def Let_def intro: serial_onlyI)

lemma handle_io_serial_only: "serial_only s (flow_state (handle_io U B q s))"
  by (cases s) (auto simp: handle_io_def Let_def port_io_serial_only hypercall_serial_only
      intro: serial_onlyI split: option.split)

text \<open>The same for a whole pass, and for all passes up to a head of the loop or to the end.\<close>

lemma cpu_step_serial_only:
  assumes "cpu_step U B e s = Ok fl"
  shows "serial_only s (flow_state fl)"
proof -
  obtain b reason where run: "table_run B (fst e) (cpu_backend (fst s)) = Ok (b, reason)"
    using assms by (cases "table_run B (fst e) (cpu_backend (fst s))") (auto simp: cpu_step_def)
  define t where "t = ((fst s)\<lparr>cpu_backend := b\<rparr>, fst (snd s), snd e (snd (snd s)))"
  have "serial_only s t" by (cases s) (auto simp: t_def intro: serial_onlyI)
  then show ?thesis
    using assms run serial_only_trans [of s t, OF _ handle_io_serial_only [of t U B]]
    by (cases reason) (auto simp: cpu_step_def t_def [symmetric])
qed

lemma cpu_reaches_serial_only: "cpu_reaches U B envs n s k t \<Longrightarrow> serial_only s t"
proof (induction rule: cpu_reaches.induct)
  case (here n s)
  show ?case by (cases s) (auto intro: serial_onlyI)
next
  case (pass n s s' k t)
  then show ?case using cpu_step_serial_only [OF pass.hyps(1)] by (auto intro: serial_only_trans)
qed

lemma pass_result_serial_only: "pass_result s (cpu_step U B e s) = Some (t, r) \<Longrightarrow> serial_only s t"
  using cpu_step_serial_only [of U B e s]
  by (cases s; cases "cpu_step U B e s") (auto simp: pass_result_Ok_iff intro: serial_onlyI)

lemma cpu_run_serial_only:
  assumes "cpu_run U B envs n s = Some (t, r)"
  shows "serial_only s t"
proof -
  obtain k s' where s': "cpu_reaches U B envs n s k s'"
    and p: "pass_result s' (cpu_step U B (envs k) s') = Some (t, r)"
    using cpu_run_reaches [OF assms] by blast
  show ?thesis
    by (rule serial_only_trans [OF cpu_reaches_serial_only [OF s'] pass_result_serial_only [OF p]])
qed

text \<open>The fields of guest memory that a hypercall answers in.\<close>

definition answer_fields :: "uhyve \<Rightarrow> (nat \<times> nat) set" where
  "answer_fields U = {WriteParams_ret U, ReadParams_ret U, OpenParams_ret U, CloseParams_ret U,
     LseekParams_offset U, UnlinkParams_ret U}"

lemma set_field_outside: "set_field p fl v m a \<noteq> m a \<Longrightarrow> p + fst fl \<le> a \<and> a < p + fst fl + snd fl"
  by (auto simp: set_field_def write_le_def split: if_splits)

lemma hypercall_memory:
  assumes "snd (snd (flow_state (hypercall U h data (cpu, u, m)))) a \<noteq> m a"
  shows "\<exists>fl \<in> answer_fields U. guest_ptr cpu data + fst fl \<le> a \<and> a < guest_ptr cpu data + fst fl + snd fl"
  using assms
  by (cases h) (auto simp: hypercall_def Let_def answer_fields_def dest!: set_field_outside split: if_splits)

lemma port_io_memory: "snd (snd (port_io B is_in port s)) = snd (snd s)"
  by (cases s) (simp add: port_io_def Let_def)

text \<open>A table whose operations satisfy the interface of a backend.\<close>

locale table_backend =
  vcpu_backend "table_run B" "table_registers B" "table_set_registers B"
  for B :: "('env, 'b) backend_table"
begin

lemma port_in_registers:
  "table_registers B (cpu_backend (fst (port_io B True port (cpu, u, m)))) =
      (table_registers B (cpu_backend cpu))\<lparr>rax := (rax (table_registers B (cpu_backend cpu)) AND NOT 0xff)
         OR ucast (if SERIAL_BASE \<le> port \<and> port < SERIAL_BASE + 8
                   then uart_read u (port - SERIAL_BASE) else 0)\<rparr>"
  by (simp add: port_io_def Let_def get_set)

lemma port_out_registers:
  "table_registers B (cpu_backend (fst (port_io B False port (cpu, u, m)))) = table_registers B (cpu_backend cpu)"
  by (simp add: port_io_def Let_def)

end

subsection \<open>Sample data\<close>

text \<open>A backend that reports what the environment scripts, and a layout of the hypercall interface.\<close>

definition sample_uhyve :: uhyve where
  "sample_uhyve = \<lparr>hypercall_try_from =
       (\<lambda>a. if a = 0x1010 then Some Exit else if a = 0x1020 then Some SerialWriteByte
            else if a = 0x1030 then Some FileClose else None),
     SerialWriteBufferParams_buf = (0, 8), SerialWriteBufferParams_len = (8, 8),
     WriteParams_fd = (0, 4), WriteParams_buf = (8, 8), WriteParams_len = (16, 8), WriteParams_ret = (24, 8),
     ReadParams_ret = (24, 8), OpenParams_ret = (16, 4), CloseParams_ret = (4, 4),
     LseekParams_offset = (8, 8), UnlinkParams_ret = (8, 4)\<rparr>"

definition scripted :: "(GuestRegisters \<times> ExitReason, GuestRegisters) backend_table" where
  "scripted = \<lparr>table_run = (\<lambda>e b. Ok e), table_registers = (\<lambda>r. r), table_set_registers = (\<lambda>r b. r)\<rparr>"

definition sample_cpu :: "GuestRegisters Cpu" where
  "sample_cpu = \<lparr>cpu_vm_id = 0, cpu_index = 0,
     cpu_mem = \<lparr>start_addr = 0x40000000, mem_len = 0x8000000\<rparr>, cpu_backend = default_registers\<rparr>"

definition sample_script :: "nat \<Rightarrow> (GuestRegisters \<times> ExitReason) \<times> (bytes \<Rightarrow> bytes)" where
  "sample_script n =
     ((if n = 0 then (default_registers\<lparr>rax := 0x1b\<rparr>, IoInstruction 0x08000000)
       else if n = 1 then (default_registers\<lparr>rax := 0x63\<rparr>, IoInstruction 0x08000000)
       else if n = 2 then (default_registers\<lparr>rdi := 0x68\<rparr>, IoInstruction 0x10200000)
       else (default_registers, IoInstruction 0x00f40000)), \<lambda>m. m)"

lemmas sample_cpu_defs = sample_uhyve_def scripted_def sample_cpu_def sample_script_def

subsection \<open>Properties\<close>

text \<open>
  C4: the loop of \<open>Cpu::run\<close> returns exactly when one of its passes ends the guest or fails: the result is
  \<open>Ok\<close> iff some pass, reached over passes that all go on, sees a triple fault, a write to an exit port or
  the exit hypercall, and it is an error iff the backend fails in such a pass, with that error.
\<close>

theorem cpu_run_returns_iff:
  "cpu_run U B envs n s = Some r \<longleftrightarrow>
     (\<exists>k t. cpu_reaches U B envs n s k t \<and>
        (case table_run B (fst (envs k)) (cpu_backend (fst t)) of
           Ok (b, reason) \<Rightarrow> ends_guest U reason \<and>
             r = (((fst t)\<lparr>cpu_backend := b\<rparr>, fst (snd t), snd (envs k) (snd (snd t))), Ok ())
         | Err e \<Rightarrow> r = (t, Err e)
         | Panic msg \<Rightarrow> r = (t, Panic msg)))"
  unfolding pass_ends_iff [symmetric]
  using cpu_run_reaches cpu_run_from_reaches cpu_run_stops by metis


text \<open>
  C6: whatever the guest does with its serial port and its hypercalls, a run that returns, even with an error, has only added
  text to the output stream: no escape byte and no control byte other than tab, line feed and carriage
  return reaches the client. The machine, the number and the memory of the virtual CPU stay the same.
\<close>

theorem cpu_run_output:
  assumes "cpu_run U B envs n (cpu, u, m) = Some ((cpu', u', m'), r)"
    and "sink u = Some ch" and "ansi u = Normal"
  shows "(\<exists>sent. streamed u' = concat ch @ strip sent) \<and>
      (\<forall>b \<in> set (drop (length (concat ch)) (streamed u')). is_text b \<and> b \<noteq> 0x1b) \<and>
      cpu_vm_id cpu' = cpu_vm_id cpu \<and> cpu_index cpu' = cpu_index cpu \<and> cpu_mem cpu' = cpu_mem cpu"
proof -
  note s = cpu_run_serial_only [OF assms(1)]
  then obtain ops where "u' = fold uart_step ops u" by (auto simp: serial_only_def)
  then have out: "streamed u' = concat ch @ strip (concat (map transmitted ops))"
    using assms(2,3) streamed_uart_run [of u ops] by (simp add: ansi_run_strip streamed_def)
  then have "\<forall>b \<in> set (drop (length (concat ch)) (streamed u')). is_text b \<and> b \<noteq> 0x1b"
    using is_text_not_esc strip_text by auto
  then show ?thesis using out s unfolding serial_only_def same_cpu_def fst_conv snd_conv by blast
qed

lemma sample_passes:
  shows "cpu_step sample_uhyve scripted (sample_script 0) (sample_cpu, set_sink uart_new [], m) =
      Ok (Continue (sample_cpu\<lparr>cpu_backend := default_registers\<lparr>rax := 0x1b\<rparr>\<rparr>,
        uart_new\<lparr>sink := Some [], ansi := Esc\<rparr>, m))"
    and "cpu_step sample_uhyve scripted (sample_script (Suc 0))
        (sample_cpu\<lparr>cpu_backend := b\<rparr>, uart_new\<lparr>sink := Some [], ansi := Esc\<rparr>, m) =
      Ok (Continue (sample_cpu\<lparr>cpu_backend := default_registers\<lparr>rax := 0x63\<rparr>\<rparr>, set_sink uart_new [], m))"
    and "cpu_step sample_uhyve scripted (sample_script (Suc (Suc 0)))
        (sample_cpu\<lparr>cpu_backend := b\<rparr>, set_sink uart_new [], m) =
      Ok (Continue (sample_cpu\<lparr>cpu_backend := default_registers\<lparr>rdi := 0x68\<rparr>\<rparr>, set_sink uart_new [[0x68]], m))"
    and "cpu_step sample_uhyve scripted (sample_script (Suc (Suc (Suc 0))))
        (sample_cpu\<lparr>cpu_backend := b\<rparr>, u, m) = Ok (Return (sample_cpu, u, m))"
  by (simp_all add: cpu_step_def sample_cpu_defs handle_io_def hypercall_def port_io_def io_is_in_def io_port_def
      EXIT_PORTS_def SERIAL_BASE_def uart_write_def uart_regs write_buffer_def ansi_filter_step
      set_sink_def uart_new_def sink_send_def default_registers_def is_text_def Let_def)

lemma sample_run:
  "cpu_run sample_uhyve scripted sample_script 0 (sample_cpu, set_sink uart_new [], m) =
     Some ((sample_cpu, set_sink uart_new [[0x68]], m), Ok ())"
proof -
  have step: "cpu_step sample_uhyve scripted (sample_script n) s = Ok (Continue s') \<Longrightarrow>
      cpu_run sample_uhyve scripted sample_script n s = cpu_run sample_uhyve scripted sample_script (Suc n) s'"
    for n s s'
    by (subst cpu_run_pass) simp
  show ?thesis
    by (simp add: step [OF sample_passes(1)] step [OF sample_passes(2)] step [OF sample_passes(3)]
        cpu_run_stops sample_passes(4))
qed

theorem cpu_run_output_witness:
  "(\<exists>sent. [0x68] = strip sent) \<and> is_text 0x68 \<and> (0x68 :: u8) \<noteq> 0x1b"
  using cpu_run_output [OF sample_run, of "[]"]
  by (simp add: set_sink_def uart_new_def streamed_def)


lemma ucast_all_ones: "(ucast (- 1 :: u64) :: u8) = - 1"
  by (rule bit_word_eqI) (simp add: bit_simps)


text \<open>The structure may lie outside the guest's RAM: the answer is then written to the host's own memory.\<close>

lemma hypercall_out_of_bounds:
  "\<exists>cpu a. start_addr (cpu_mem cpu) = 0x40000000 \<and> mem_len (cpu_mem cpu) = 0x8000000 \<and>
     a \<ge> unat (start_addr (cpu_mem cpu)) + mem_len (cpu_mem cpu) \<and>
     snd (snd (flow_state (handle_io sample_uhyve scripted 0x10300000 (cpu, uart_new, \<lambda>_. 0)))) a \<noteq> 0"
  by (rule exI [of _ "sample_cpu\<lparr>cpu_backend := default_registers\<lparr>rdi := 0x9000000\<rparr>\<rparr>"],
      rule exI [of _ "0x49000004"])
    (simp add: handle_io_def hypercall_def io_is_in_def io_port_def EXIT_PORTS_def sample_cpu_defs
      guest_ptr_def set_field_def write_le_def ucast_all_ones)

end
