(* ===== verification/Nested_Paging.thy ===== *)
theory Nested_Paging
  imports Hypervisor_Core
begin

text \<open>
  What \<^verbatim>\<open>svm/npt.rs\<close> and \<^verbatim>\<open>vmx/ept.rs\<close> share: page-table pages on the host heap, the
  allocator, the walk that the processor makes from the nested-paging pointer, and the structural
  invariant of the four-level tree. The invariant names the directory and page-table pages by their
  position in the tree (\<open>shape\<close>); the lemmas say what the walk returns under it and how the four
  elementary steps of the two components (allocate, link a directory, link a page table, write a
  leaf entry) change it.
\<close>

subsection \<open>Tables on the host heap\<close>

text \<open>
  A table is 512 entries; a \<open>Box<Table>\<close> is its host-virtual address. The heap keeps the
  addresses of the tables that are alive, their contents, and the answers \<open>alloc_zeroed\<close> will
  give to the coming requests (0 is the null pointer; a list that has run out answers null too).
\<close>

definition ENTRY_COUNT :: nat where "ENTRY_COUNT = 512"
definition page_size :: nat where "page_size = 4096"
definition ADDR_MASK :: u64 where "ADDR_MASK = 0x000FFFFFFFFFF000"

record heap =
  live :: "u64 list"
  cells :: "u64 \<Rightarrow> u64 list"
  pool :: "u64 list"

definition alloc_page :: "heap \<Rightarrow> (u64 \<times> heap) result" where
  "alloc_page s =
     (case pool s of
        [] \<Rightarrow> Err AllocationFailed
      | a # rest \<Rightarrow>
          if a = 0 then Err AllocationFailed else Ok (a, s\<lparr>pool := rest\<rparr>))"

text \<open>\<open>Box::new\<close> of a page-sized region, which aborts where the allocator has no memory.\<close>

definition box_page :: "heap \<Rightarrow> (u64 \<times> heap) result" where
  "box_page s = (case alloc_page s of Err e \<Rightarrow> Panic ''memory allocation failed'' | r \<Rightarrow> r)"

definition alloc_table :: "heap \<Rightarrow> (u64 \<times> heap) result" where
  "alloc_table s =
     (case alloc_page s of
        Ok (a, s') \<Rightarrow>
          Ok (a, s'\<lparr>live := a # live s', cells := (cells s')(a := replicate ENTRY_COUNT 0)\<rparr>)
      | Err e \<Rightarrow> Err e
      | Panic m \<Rightarrow> Panic m)"

definition write_entry :: "heap \<Rightarrow> u64 \<Rightarrow> nat \<Rightarrow> u64 \<Rightarrow> heap" where
  "write_entry s t i v = s\<lparr>cells := (cells s)(t := (cells s t)[i := v])\<rparr>"

text \<open>The fields that the structs \<open>Npt\<close> and \<open>Ept\<close> have in common, which are all of them.\<close>

record nested_tables =
  pml4 :: u64
  pdpt :: u64
  pd :: u64
  pts :: "u64 list"
  extra :: "(u64 \<times> u64) list"

subsection \<open>The walk of the processor\<close>

definition table_index :: "nat \<Rightarrow> u64 \<Rightarrow> nat" where
  "table_index level gpa = unat (drop_bit (12 + 9 * (level - 1)) gpa AND 0x1ff)"

definition table_at :: "host \<Rightarrow> heap \<Rightarrow> u64 \<Rightarrow> u64 option" where
  "table_at H s hpa = find (\<lambda>va. host_physical H va = Ok hpa) (live s)"

fun walk :: "host \<Rightarrow> heap \<Rightarrow> nat list \<Rightarrow> u64 \<Rightarrow> u64 option" where
  "walk H s [] e = Some e"
| "walk H s (i # js) e =
     (case table_at H s (e AND ADDR_MASK) of
        None \<Rightarrow> None
      | Some va \<Rightarrow>
          (let e' = cells s va ! i in if \<not> bit e' 0 then None else walk H s js e'))"

text \<open>The leaf entry that translates a guest-physical address, and the resulting address.\<close>

definition leaf_entry :: "host \<Rightarrow> heap \<Rightarrow> u64 \<Rightarrow> u64 \<Rightarrow> u64 option" where
  "leaf_entry H s root gpa =
     (if gpa < 2 ^ 48 then
        walk H s [table_index 4 gpa, table_index 3 gpa, table_index 2 gpa, table_index 1 gpa] root
      else None)"

definition translate :: "host \<Rightarrow> heap \<Rightarrow> u64 \<Rightarrow> u64 \<Rightarrow> u64 option" where
  "translate H s root gpa =
     map_option (\<lambda>e. (e AND ADDR_MASK) OR (gpa AND 0xfff)) (leaf_entry H s root gpa)"

subsection \<open>Word facts\<close>

lemma unat_table_index:
  "table_index level gpa = (unat gpa div 2 ^ (12 + 9 * (level - 1))) mod 512"
proof -
  have "drop_bit n gpa AND 0x1ff = take_bit 9 (drop_bit n gpa)" for n
    by (simp add: take_bit_eq_mask mask_eq_exp_minus_1)
  then show ?thesis
    by (simp add: table_index_def unsigned_take_bit_eq unat_drop_bit_eq
        drop_bit_eq_div [where 'a = nat] take_bit_eq_mod [where 'a = nat])
qed

lemma table_index_less [simp]: "table_index level gpa < ENTRY_COUNT"
  by (simp add: unat_table_index ENTRY_COUNT_def)

definition page_frame :: "u64 \<Rightarrow> bool" where
  "page_frame a \<longleftrightarrow> a AND ADDR_MASK = a"

lemma bit_ADDR_MASK: "bit ADDR_MASK n \<longleftrightarrow> 12 \<le> n \<and> n < 52"
proof -
  have m: "ADDR_MASK = push_bit 12 (mask 40)" by (simp add: ADDR_MASK_def mask_eq_exp_minus_1)
  show ?thesis unfolding m by (auto simp: bit_simps)
qed

lemma page_frame_iff: "page_frame a \<longleftrightarrow> (\<forall>n. bit a n \<longrightarrow> 12 \<le> n \<and> n < 52)"
proof -
  have "a AND ADDR_MASK = a \<longleftrightarrow> (\<forall>n. bit (a AND ADDR_MASK) n \<longleftrightarrow> bit a n)"
    by (auto intro: bit_word_eqI)
  then show ?thesis by (auto simp: page_frame_def bit_and_iff bit_ADDR_MASK)
qed

lemma page_frame_low: "page_frame a \<Longrightarrow> a AND 0xfff = 0"
proof -
  assume "page_frame a"
  then have "a AND mask 12 = 0"
    by (intro bit_word_eqI) (auto simp: page_frame_iff bit_and_iff bit_mask_iff)
  then show ?thesis by (simp add: mask_eq_exp_minus_1)
qed

lemma frame_flags:
  assumes "page_frame a" and "f AND ADDR_MASK = 0"
  shows "(a OR f) AND ADDR_MASK = a"
  using assms by (simp add: page_frame_def bit.conj_disj_distrib2)

lemma bit_or_flag: "bit f n \<Longrightarrow> bit (a OR f) n" for a f :: u64
  by (simp add: bit_or_iff)

subsection \<open>The heap invariant\<close>

text \<open>
  The host as the tables see it: each table address the allocator hands out is used once, and
  resolves to a page frame of its own. The allocator returns zeroed memory aligned to 4096 bytes,
  as its layout asks for; the mapping of the host does not alias two of these pages.
\<close>

definition heap_ok :: "host \<Rightarrow> heap \<Rightarrow> bool" where
  "heap_ok H s \<longleftrightarrow>
     distinct (live s @ pool s) \<and> 0 \<notin> set (pool s) \<and>
     (\<forall>a \<in> set (live s @ pool s). \<exists>p. host_physical H a = Ok p \<and> page_frame p) \<and>
     inj_on (host_physical H) (set (live s @ pool s)) \<and>
     (\<forall>a \<in> set (live s). length (cells s a) = ENTRY_COUNT)"

definition pa :: "host \<Rightarrow> u64 \<Rightarrow> u64" where
  "pa H a = (case host_physical H a of Ok p \<Rightarrow> p | _ \<Rightarrow> 0)"

lemma heap_ok_pa:
  assumes "heap_ok H s" and "a \<in> set (live s) \<union> set (pool s)"
  shows "host_physical H a = Ok (pa H a)" and "page_frame (pa H a)"
proof -
  from assms(1) have "\<forall>a \<in> set (live s) \<union> set (pool s).
      \<exists>p. host_physical H a = Ok p \<and> page_frame p" by (simp add: heap_ok_def)
  with assms(2) obtain p where "host_physical H a = Ok p" "page_frame p" by blast
  then show "host_physical H a = Ok (pa H a)" "page_frame (pa H a)" by (simp_all add: pa_def)
qed

lemma table_at_pa:
  assumes ok: "heap_ok H s" and a: "a \<in> set (live s)"
  shows "table_at H s (pa H a) = Some a"
proof -
  have ap: "host_physical H a = Ok (pa H a)" using heap_ok_pa [OF ok] a by simp
  then have "table_at H s (pa H a) \<noteq> None" using a by (auto simp: table_at_def find_None_iff)
  then obtain va where va: "table_at H s (pa H a) = Some va" by blast
  then have "va \<in> set (live s)" "host_physical H va = Ok (pa H a)"
    by (auto simp: table_at_def find_Some_iff)
  with ok a ap have "va = a" by (auto simp: heap_ok_def inj_on_def)
  with va show ?thesis by simp
qed

lemma alloc_page_Ok:
  assumes "heap_ok H s" and "pool s = a # rest"
  shows "alloc_page s = Ok (a, s\<lparr>pool := rest\<rparr>)" and "heap_ok H (s\<lparr>pool := rest\<rparr>)"
  using assms by (auto simp: alloc_page_def heap_ok_def intro: inj_on_subset)

lemma alloc_table_Ok:
  assumes "heap_ok H s" and "pool s = a # rest"
  defines "s' \<equiv> s\<lparr>live := a # live s, cells := (cells s)(a := replicate ENTRY_COUNT 0),
    pool := rest\<rparr>"
  shows "alloc_table s = Ok (a, s')" and "heap_ok H s'" and "a \<notin> set (live s)"
  using assms
  by (auto simp: alloc_table_def alloc_page_def heap_ok_def s'_def intro: inj_on_subset)

lemma write_entry_simps [simp]:
  "live (write_entry s t i v) = live s"
  "pool (write_entry s t i v) = pool s"
  "cells (write_entry s t i v) = (cells s)(t := (cells s t)[i := v])"
  by (simp_all add: write_entry_def)

lemma heap_ok_write_entry [simp]: "heap_ok H (write_entry s t i v) \<longleftrightarrow> heap_ok H s"
  by (auto simp: heap_ok_def)

lemma table_at_write_entry [simp]: "table_at H (write_entry s t i v) = table_at H s"
  by (simp add: table_at_def fun_eq_iff)

subsection \<open>The shape of the tree\<close>

text \<open>
  \<open>dirs i\<^sub>3\<close> is the page directory that entry \<open>i\<^sub>3\<close> of the PDPT refers to, and
  \<open>pgts (i\<^sub>3, i\<^sub>2)\<close> the page table that entry \<open>i\<^sub>2\<close> of that directory refers to. Under
  \<open>shape\<close> the non-leaf entries are exactly these references with the flags \<open>tbl\<close>, every other
  entry of the upper levels is zero, and no page plays two roles.
\<close>

definition link :: "host \<Rightarrow> u64 \<Rightarrow> u64 option \<Rightarrow> u64" where
  "link H tbl c = (case c of None \<Rightarrow> 0 | Some a \<Rightarrow> pa H a OR tbl)"

definition shape ::
    "u64 \<Rightarrow> host \<Rightarrow> nested_tables \<Rightarrow> heap \<Rightarrow> (nat \<rightharpoonup> u64) \<Rightarrow> (nat \<times> nat \<rightharpoonup> u64) \<Rightarrow> bool" where
  "shape tbl H t s dirs pgts \<longleftrightarrow>
     heap_ok H s \<and>
     pml4 t \<in> set (live s) \<and> pdpt t \<in> set (live s) \<and> pml4 t \<noteq> pdpt t \<and>
     (\<forall>i d. dirs i = Some d \<longrightarrow> d \<in> set (live s) \<and> d \<noteq> pml4 t \<and> d \<noteq> pdpt t) \<and>
     (\<forall>j p. pgts j = Some p \<longrightarrow> p \<in> set (live s) \<and> p \<noteq> pml4 t \<and> p \<noteq> pdpt t) \<and>
     (\<forall>i j d p. dirs i = Some d \<longrightarrow> pgts j = Some p \<longrightarrow> d \<noteq> p) \<and>
     (\<forall>i i' d. dirs i = Some d \<longrightarrow> dirs i' = Some d \<longrightarrow> i = i') \<and>
     (\<forall>j j' p. pgts j = Some p \<longrightarrow> pgts j' = Some p \<longrightarrow> j = j') \<and>
     (\<forall>i3 i2 p. pgts (i3, i2) = Some p \<longrightarrow> (\<exists>d. dirs i3 = Some d)) \<and>
     (\<forall>i < ENTRY_COUNT. cells s (pml4 t) ! i = (if i = 0 then pa H (pdpt t) OR tbl else 0)) \<and>
     (\<forall>i < ENTRY_COUNT. cells s (pdpt t) ! i = link H tbl (dirs i)) \<and>
     (\<forall>i3 d. dirs i3 = Some d \<longrightarrow>
        (\<forall>i < ENTRY_COUNT. cells s d ! i = link H tbl (pgts (i3, i))))"

lemma shapeD:
  assumes "shape tbl H t s dirs pgts"
  shows "heap_ok H s" and "pml4 t \<in> set (live s)" and "pdpt t \<in> set (live s)"
    and "pml4 t \<noteq> pdpt t"
    and "dirs i = Some d \<Longrightarrow> d \<in> set (live s) \<and> d \<noteq> pml4 t \<and> d \<noteq> pdpt t"
    and "pgts j = Some p \<Longrightarrow> p \<in> set (live s) \<and> p \<noteq> pml4 t \<and> p \<noteq> pdpt t"
    and "dirs i = Some d \<Longrightarrow> pgts j = Some p \<Longrightarrow> d \<noteq> p"
    and "dirs i = Some d \<Longrightarrow> dirs i' = Some d \<Longrightarrow> i = i'"
    and "pgts j = Some p \<Longrightarrow> pgts j' = Some p \<Longrightarrow> j = j'"
    and "pgts (i3, i2) = Some p \<Longrightarrow> \<exists>d. dirs i3 = Some d"
    and "n < ENTRY_COUNT \<Longrightarrow>
      cells s (pml4 t) ! n = (if n = 0 then pa H (pdpt t) OR tbl else 0)"
    and "n < ENTRY_COUNT \<Longrightarrow> cells s (pdpt t) ! n = link H tbl (dirs n)"
    and "dirs i = Some d \<Longrightarrow> n < ENTRY_COUNT \<Longrightarrow> cells s d ! n = link H tbl (pgts (i, n))"
  using assms unfolding shape_def by (elim conjE; metis)+

text \<open>Flags that a table entry may carry: present, and outside the address field.\<close>

definition entry_flags :: "u64 \<Rightarrow> bool" where
  "entry_flags f \<longleftrightarrow> bit f 0 \<and> f AND ADDR_MASK = 0"

lemma walk_link:
  assumes "heap_ok H s" and "a \<in> set (live s)" and "entry_flags tbl"
  shows "walk H s (i # js) (pa H a OR tbl) =
     (if bit (cells s a ! i) 0 then walk H s js (cells s a ! i) else None)"
  using assms heap_ok_pa [of H s a] table_at_pa [of H s a]
  by (simp add: entry_flags_def frame_flags Let_def)

lemma bit_link: "entry_flags tbl \<Longrightarrow> bit (link H tbl c) 0 \<longleftrightarrow> c \<noteq> None"
  by (auto simp: link_def entry_flags_def bit_or_iff split: option.split)

lemma walk_link_step:
  assumes "heap_ok H s" and "a \<in> set (live s)" and "entry_flags tbl"
    and "cells s a ! i = link H tbl c"
  shows "walk H s (i # js) (pa H a OR tbl) =
     (case c of None \<Rightarrow> None | Some b \<Rightarrow> walk H s js (pa H b OR tbl))"
  using walk_link [OF assms(1-3), of i js] bit_link [OF assms(3), of H c] assms(4)
  by (simp add: link_def del: walk.simps split: option.splits)

text \<open>
  Under the invariant the walk from the root finds the page table by its position; \<open>root\<close> may
  carry the low flag bits of an EPT pointer.
\<close>

lemma leaf_entry_shape:
  assumes sh: "shape tbl H t s dirs pgts" and fl: "entry_flags tbl"
    and root: "root AND ADDR_MASK = pa H (pml4 t)" and gpa: "gpa < 2 ^ 48"
  shows "leaf_entry H s root gpa =
     (if table_index 4 gpa \<noteq> 0 then None else
      case pgts (table_index 3 gpa, table_index 2 gpa) of
        None \<Rightarrow> None
      | Some p \<Rightarrow>
          let e = cells s p ! table_index 1 gpa in if bit e 0 then Some e else None)"
proof -
  note D = shapeD [OF sh]
  let ?i4 = "table_index 4 gpa" and ?i3 = "table_index 3 gpa" and ?i2 = "table_index 2 gpa"
    and ?i1 = "table_index 1 gpa"
  have "leaf_entry H s root gpa =
      (if ?i4 \<noteq> 0 then None else walk H s [?i3, ?i2, ?i1] (pa H (pdpt t) OR tbl))"
    using gpa root D(2,11) table_at_pa [OF D(1) D(2)] fl
    by (simp add: leaf_entry_def entry_flags_def bit_or_iff Let_def)
  also have "walk H s [?i3, ?i2, ?i1] (pa H (pdpt t) OR tbl) =
      (case dirs ?i3 of None \<Rightarrow> None | Some d \<Rightarrow> walk H s [?i2, ?i1] (pa H d OR tbl))"
    by (rule walk_link_step [OF D(1,3) fl D(12) [OF table_index_less]])
  also have "\<dots> = (case pgts (?i3, ?i2) of None \<Rightarrow> None | Some p \<Rightarrow> walk H s [?i1] (pa H p OR tbl))"
  proof (cases "dirs ?i3")
    case None
    with D(10) [of ?i3 ?i2] show ?thesis by (auto split: option.split)
  next
    case (Some d)
    with D(5) [OF Some] show ?thesis
      by (simp add: walk_link_step [OF D(1) _ fl D(13) [OF Some table_index_less]]
          del: walk.simps split: option.split)
  qed
  also have "\<dots> = (case pgts (?i3, ?i2) of None \<Rightarrow> None | Some p \<Rightarrow>
      let e = cells s p ! ?i1 in if bit e 0 then Some e else None)"
    using walk_link [OF D(1) _ fl, where i = ?i1 and js = "[]"] D(6) [of "(?i3, ?i2)"]
    by (auto simp: Let_def simp del: walk.simps(2) split: option.split)
  finally show ?thesis by simp
qed

subsection \<open>The elementary steps keep the shape\<close>

text \<open>A page that is alive but not part of the tree, fresh from the allocator.\<close>

definition unused :: "nested_tables \<Rightarrow> (nat \<rightharpoonup> u64) \<Rightarrow> (nat \<times> nat \<rightharpoonup> u64) \<Rightarrow> u64 \<Rightarrow> bool" where
  "unused t dirs pgts a \<longleftrightarrow> a \<noteq> pml4 t \<and> a \<noteq> pdpt t \<and> (\<forall>i. dirs i \<noteq> Some a) \<and> (\<forall>j. pgts j \<noteq> Some a)"

lemma shape_alloc:
  assumes sh: "shape tbl H t s dirs pgts" and pool: "pool s = a # rest"
  obtains s' where "alloc_table s = Ok (a, s')" and "shape tbl H t s' dirs pgts"
    and "a \<in> set (live s')" and "unused t dirs pgts a" and "pool s' = rest"
    and "cells s' a = replicate ENTRY_COUNT 0" and "\<And>b. b \<in> set (live s) \<Longrightarrow> cells s' b = cells s b"
    and "host_physical H a = Ok (pa H a)" and "page_frame (pa H a)"
proof -
  note D = shapeD [OF sh]
  define s' where "s' = s\<lparr>live := a # live s, cells := (cells s)(a := replicate ENTRY_COUNT 0),
    pool := rest\<rparr>"
  note al = alloc_table_Ok [OF D(1) pool, folded s'_def]
  have old: "b \<in> set (live s) \<Longrightarrow> cells s' b = cells s b" for b
    using al(3) by (auto simp: s'_def)
  have "shape tbl H t s' dirs pgts"
    unfolding shape_def
  proof (intro conjI allI impI)
    show "\<And>i i' d. dirs i = Some d \<Longrightarrow> dirs i' = Some d \<Longrightarrow> i = i'" by (rule D(8))
    show "\<And>j j' p. pgts j = Some p \<Longrightarrow> pgts j' = Some p \<Longrightarrow> j = j'" by (rule D(9))
    show "\<And>i3 i2 p. pgts (i3, i2) = Some p \<Longrightarrow> \<exists>d. dirs i3 = Some d" by (rule D(10))
  qed (use al(2) D(2-7,11-13) old in \<open>auto simp: s'_def\<close>)
  moreover have "unused t dirs pgts a" using al(3) D(2,3,5,6) unfolding unused_def by blast
  moreover have "host_physical H a = Ok (pa H a)" "page_frame (pa H a)"
    using heap_ok_pa [OF D(1), of a] pool by simp_all
  moreover have "a \<in> set (live s')" "pool s' = rest" "cells s' a = replicate ENTRY_COUNT 0"
    by (simp_all add: s'_def)
  ultimately show thesis using al(1) old by (intro that [of s'])
qed

lemma shape_link_dir:
  assumes sh: "shape tbl H t s dirs pgts" and a: "a \<in> set (live s)" "unused t dirs pgts a"
    and zero: "cells s a = replicate ENTRY_COUNT 0" and i: "i < ENTRY_COUNT" "dirs i = None"
  shows "shape tbl H t (write_entry s (pdpt t) i (pa H a OR tbl)) (dirs(i \<mapsto> a)) pgts"
proof -
  note D = shapeD [OF sh]
  have len: "length (cells s (pdpt t)) = ENTRY_COUNT" using D(1,3) by (auto simp: heap_ok_def)
  have none: "pgts (i, n) = None" for n using D(10) [of i n] i(2) by (cases "pgts (i, n)") auto
  have u: "a \<noteq> pml4 t" "a \<noteq> pdpt t" "dirs k \<noteq> Some a" "pgts j \<noteq> Some a" for k j
    using a(2) unfolding unused_def by blast+
  show ?thesis
    unfolding shape_def
    using D a i u len zero none
    by (auto simp: nth_list_update link_def split: if_splits)
qed

lemma shape_link_pgt:
  assumes sh: "shape tbl H t s dirs pgts" and a: "a \<in> set (live s)" "unused t dirs pgts a"
    and d: "dirs i3 = Some d"
    and i: "i2 < ENTRY_COUNT" "pgts (i3, i2) = None"
  shows "shape tbl H t (write_entry s d i2 (pa H a OR tbl)) dirs (pgts((i3, i2) \<mapsto> a))"
proof -
  note D = shapeD [OF sh]
  have len: "length (cells s d) = ENTRY_COUNT" using D(1) D(5) [OF d] by (auto simp: heap_ok_def)
  have u: "a \<noteq> pml4 t" "a \<noteq> pdpt t" "dirs k \<noteq> Some a" "pgts j \<noteq> Some a" for k j
    using a(2) unfolding unused_def by blast+
  have other: "dirs k = Some d \<Longrightarrow> k = i3" for k using D(8) [OF d, of k] by simp
  show ?thesis
    unfolding shape_def
  proof (intro conjI allI impI)
    show "\<And>j j' p. (pgts((i3, i2) \<mapsto> a)) j = Some p \<Longrightarrow> (pgts((i3, i2) \<mapsto> a)) j' = Some p \<Longrightarrow> j = j'"
      using D(9) u(4) by (auto split: if_splits)
    show "\<And>k e n. dirs k = Some e \<Longrightarrow> n < ENTRY_COUNT \<Longrightarrow>
        cells (write_entry s d i2 (pa H a OR tbl)) e ! n = link H tbl ((pgts((i3, i2) \<mapsto> a)) (k, n))"
      using D(13) d i len by (auto simp: nth_list_update link_def dest: other)
  qed (use D(1-8,10-12) D(5) [OF d] a u d in \<open>auto split: if_splits\<close>)
qed

lemma shape_write_leaf:
  assumes sh: "shape tbl H t s dirs pgts" and p: "pgts j = Some p"
  shows "shape tbl H t (write_entry s p i v) dirs pgts"
proof -
  note D = shapeD [OF sh]
  have "dirs k = Some e \<Longrightarrow> e \<noteq> p" for k e using D(7) [OF _ p] by blast
  with D(6) [OF p] sh show ?thesis unfolding shape_def by auto
qed

text \<open>Only the pages of the tree matter.\<close>

lemma shape_frame:
  assumes sh: "shape tbl H t s dirs pgts" and "heap_ok H s'" and "live s' = live s"
    and "unused t dirs pgts a" and "\<And>b. b \<noteq> a \<Longrightarrow> cells s' b = cells s b"
  shows "shape tbl H t s' dirs pgts"
proof -
  have "cells s' (pml4 t) = cells s (pml4 t)" "cells s' (pdpt t) = cells s (pdpt t)"
    "dirs i = Some d \<Longrightarrow> cells s' d = cells s d" for i d
    using assms(4,5) unfolding unused_def by metis+
  with sh assms(2,3) show ?thesis unfolding shape_def by auto
qed

text \<open>The leaf entry at a position, zero where there is no page table.\<close>

definition leaf_at :: "heap \<Rightarrow> (nat \<times> nat \<rightharpoonup> u64) \<Rightarrow> nat \<times> nat \<Rightarrow> nat \<Rightarrow> u64" where
  "leaf_at s pgts j i = (case pgts j of None \<Rightarrow> 0 | Some p \<Rightarrow> cells s p ! i)"

lemma leaf_at_link_dir:
  assumes "shape tbl H t s dirs pgts"
  shows "leaf_at (write_entry s (pdpt t) i v) pgts = leaf_at s pgts"
  using shapeD(6) [OF assms] by (auto simp: leaf_at_def fun_eq_iff split: option.split)

lemma leaf_at_link_pgt:
  assumes sh: "shape tbl H t s dirs pgts" and d: "dirs i3 = Some d" and a: "unused t dirs pgts a"
  shows "leaf_at (write_entry s d i2 v) (pgts((i3, i2) \<mapsto> a)) j n =
     (if j = (i3, i2) then cells s a ! n else leaf_at s pgts j n)"
proof -
  have p: "pgts j = Some p \<Longrightarrow> p \<noteq> d" for p using shapeD(7) [OF sh d] by blast
  have "a \<noteq> d" using a d unfolding unused_def by blast
  then show ?thesis using p
    by (cases "j = (i3, i2)"; cases "pgts j") (simp_all add: leaf_at_def)
qed

lemma leaf_at_write_leaf:
  assumes sh: "shape tbl H t s dirs pgts" and p: "pgts j = Some p" and i: "i < ENTRY_COUNT"
  shows "leaf_at (write_entry s p i v) pgts j' i' =
     (if j' = j \<and> i' = i then v else leaf_at s pgts j' i')"
proof -
  have len: "length (cells s p) = ENTRY_COUNT"
    using shapeD(1) [OF sh] shapeD(6) [OF sh p] by (simp add: heap_ok_def)
  show ?thesis
  proof (cases "j' = j")
    case True
    with len p i show ?thesis by (simp add: leaf_at_def nth_list_update)
  next
    case False
    with shapeD(9) [OF sh p, of j'] have "pgts j' \<noteq> Some p" by blast
    with False show ?thesis by (cases "pgts j'") (simp_all add: leaf_at_def)
  qed
qed

lemma leaf_entry_leaf_at:
  assumes "shape tbl H t s dirs pgts" and "entry_flags tbl"
    and "root AND ADDR_MASK = pa H (pml4 t)" and "gpa < 2 ^ 48"
  shows "leaf_entry H s root gpa =
     (let e = leaf_at s pgts (table_index 3 gpa, table_index 2 gpa) (table_index 1 gpa) in
      if table_index 4 gpa = 0 \<and> bit e 0 then Some e else None)"
  by (simp add: leaf_entry_shape [OF assms] leaf_at_def Let_def split: option.split)

end
