(* ===== verification/Radix_Tables.thy ===== *)
theory Radix_Tables
  imports Nested_Paging
begin

text \<open>
  The algorithm that \<open>Npt\<close> and \<open>Ept\<close> have in common, with the flags of a table entry and of a
  leaf entry as parameters. It is the library side of the two components: their own definitions,
  written out in \<^verbatim>\<open>Npt.thy\<close> and \<^verbatim>\<open>Ept.thy\<close>, are shown there to be instances of the ones
  here, and inherit the lemmas on the resulting translation.
\<close>

subsection \<open>The common algorithm\<close>

definition radix_child ::
    "u64 \<Rightarrow> host \<Rightarrow> nested_tables \<Rightarrow> u64 \<Rightarrow> nat \<Rightarrow> heap \<Rightarrow> (u64 \<times> nested_tables \<times> heap) result" where
  "radix_child tbl H t parent idx s =
     (let entry = cells s parent ! idx in
      if entry AND 1 \<noteq> 0 then
        (case find (\<lambda>(hpa, table). hpa = entry AND ADDR_MASK) (extra t) of
           Some (hpa, table) \<Rightarrow> Ok (table, t, s)
         | None \<Rightarrow> Err AllocationFailed)
      else
        try_bind (alloc_table s) (\<lambda>(ptr, s).
        try_bind (host_physical H ptr) (\<lambda>hpa.
        Ok (ptr, t\<lparr>extra := extra t @ [(hpa, ptr)]\<rparr>, write_entry s parent idx (hpa OR tbl)))))"

definition radix_map_page ::
    "u64 \<Rightarrow> u64 \<Rightarrow> host \<Rightarrow> nested_tables \<Rightarrow> u64 \<Rightarrow> u64 \<Rightarrow> heap \<Rightarrow> (nested_tables \<times> heap) result" where
  "radix_map_page tbl leaf H t gpa hpa s =
     try_bind (radix_child tbl H t (pdpt t) (table_index 3 gpa) s) (\<lambda>(d, t, s).
     try_bind (radix_child tbl H t d (table_index 2 gpa) s) (\<lambda>(p, t, s).
     Ok (t, write_entry s p (table_index 1 gpa) (hpa OR leaf))))"

fun radix_fill ::
    "u64 \<Rightarrow> host \<Rightarrow> u64 \<Rightarrow> nat \<Rightarrow> u64 \<Rightarrow> nat \<Rightarrow> nat list \<Rightarrow> heap \<Rightarrow> heap result" where
  "radix_fill leaf H guest_base num_pages pt i [] s = Ok s"
| "radix_fill leaf H guest_base num_pages pt i (j # js) s =
     (let page_idx = i * ENTRY_COUNT + j in
      if num_pages \<le> page_idx then Ok s
      else
        try_bind (host_physical H (guest_base + of_nat (page_idx * page_size))) (\<lambda>hpa.
        radix_fill leaf H guest_base num_pages pt i js (write_entry s pt j (hpa OR leaf))))"

definition radix_new_pt ::
    "u64 \<Rightarrow> u64 \<Rightarrow> host \<Rightarrow> u64 \<Rightarrow> nat \<Rightarrow> u64 \<Rightarrow> nat \<Rightarrow> heap \<times> u64 list \<Rightarrow> (heap \<times> u64 list) result" where
  "radix_new_pt tbl leaf H guest_base num_pages l2 i = (\<lambda>(s, l1s).
     try_bind (alloc_table s) (\<lambda>(pt, s).
     try_bind (radix_fill leaf H guest_base num_pages pt i [0..<ENTRY_COUNT] s) (\<lambda>s.
     try_bind (host_physical H pt) (\<lambda>hpa.
     Ok (write_entry s l2 i (hpa OR tbl), l1s @ [pt])))))"

definition radix_new ::
    "u64 \<Rightarrow> u64 \<Rightarrow> host \<Rightarrow> u64 \<Rightarrow> nat \<Rightarrow> heap \<Rightarrow> (nested_tables \<times> heap) result" where
  "radix_new tbl leaf H guest_base num_pages s =
     try_bind (alloc_table s) (\<lambda>(l4, s).
     try_bind (alloc_table s) (\<lambda>(l3, s).
     try_bind (alloc_table s) (\<lambda>(l2, s).
     try_bind (host_physical H l3) (\<lambda>l3_hpa.
     let s = write_entry s l4 0 (l3_hpa OR tbl) in
     try_bind (host_physical H l2) (\<lambda>l2_hpa.
     let s = write_entry s l3 0 (l2_hpa OR tbl) in
     try_bind (try_fold (radix_new_pt tbl leaf H guest_base num_pages l2)
         [0..<(num_pages + (ENTRY_COUNT - 1)) div ENTRY_COUNT] (s, [])) (\<lambda>(s, l1s).
     Ok (\<lparr>pml4 = l4, pdpt = l3, pd = l2, pts = l1s, extra = []\<rparr>, s)))))))"

subsection \<open>Invariant\<close>

text \<open>
  Besides the shape: \<open>extra\<close> pairs each of its tables with its own address, and has every
  directory and page table outside the first gibibyte.
\<close>

definition extra_ok ::
    "host \<Rightarrow> nested_tables \<Rightarrow> heap \<Rightarrow> (nat \<rightharpoonup> u64) \<Rightarrow> (nat \<times> nat \<rightharpoonup> u64) \<Rightarrow> bool" where
  "extra_ok H t s dirs pgts \<longleftrightarrow>
     (\<forall>(hpa, a) \<in> set (extra t). hpa = pa H a \<and> a \<in> set (live s)) \<and>
     (\<forall>i d. i \<noteq> 0 \<longrightarrow> dirs i = Some d \<longrightarrow> (pa H d, d) \<in> set (extra t)) \<and>
     (\<forall>i3 i2 p. i3 \<noteq> 0 \<longrightarrow> pgts (i3, i2) = Some p \<longrightarrow> (pa H p, p) \<in> set (extra t))"

definition tree_ok ::
    "u64 \<Rightarrow> host \<Rightarrow> nested_tables \<Rightarrow> heap \<Rightarrow> (nat \<rightharpoonup> u64) \<Rightarrow> (nat \<times> nat \<rightharpoonup> u64) \<Rightarrow> bool" where
  "tree_ok tbl H t s dirs pgts \<longleftrightarrow>
     entry_flags tbl \<and> shape tbl H t s dirs pgts \<and> extra_ok H t s dirs pgts"

lemma shape_extra [simp]: "shape tbl H (t\<lparr>extra := x\<rparr>) s dirs pgts = shape tbl H t s dirs pgts"
  by (simp add: shape_def)

lemma unused_extra [simp]: "unused (t\<lparr>extra := x\<rparr>) dirs pgts a = unused t dirs pgts a"
  by (simp add: unused_def)

text \<open>Looking a linked table up in \<open>extra\<close> by the address in its entry finds that table.\<close>

lemma find_extra:
  assumes ok: "heap_ok H s" and ex: "\<forall>(hpa, a) \<in> set xs. hpa = pa H a \<and> a \<in> set (live s)"
    and d: "(pa H d, d) \<in> set xs" and fl: "entry_flags tbl"
  shows "find (\<lambda>(hpa, table). hpa = (pa H d OR tbl) AND ADDR_MASK) xs = Some (pa H d, d)"
proof -
  have live: "d \<in> set (live s)" using ex d by auto
  have mask: "(pa H d OR tbl) AND ADDR_MASK = pa H d"
    using heap_ok_pa(2) [OF ok, of d] live fl by (simp add: frame_flags entry_flags_def)
  obtain hpa a where f: "find (\<lambda>(hpa, table). hpa = pa H d) xs = Some (hpa, a)"
    using d by (cases "find (\<lambda>(hpa, table). hpa = pa H d) xs") (auto simp: find_None_iff)
  then have a: "hpa = pa H d" "(hpa, a) \<in> set xs" by (auto simp: find_Some_iff in_set_conv_nth)
  with ex have "pa H a = pa H d" "a \<in> set (live s)" by auto
  then have "a = d" using table_at_pa [OF ok] live by (metis option.inject)
  with f a mask show ?thesis by simp
qed

text \<open>
  The two branches of \<open>child_or_alloc\<close>: the entry refers to a table of \<open>extra\<close>, or the entry
  is zero and a fresh table is linked.
\<close>

lemma radix_child_found:
  assumes "tree_ok tbl H t s dirs pgts" and "cells s parent ! i = link H tbl (Some d)"
    and "(pa H d, d) \<in> set (extra t)"
  shows "radix_child tbl H t parent i s = Ok (d, t, s)"
proof -
  from assms(1) have fl: "entry_flags tbl" and ok: "heap_ok H s"
    and ex: "\<forall>(hpa, a) \<in> set (extra t). hpa = pa H a \<and> a \<in> set (live s)"
    by (auto simp: tree_ok_def extra_ok_def dest: shapeD(1))
  have "(pa H d OR tbl) AND 1 \<noteq> 0"
    using fl and_exp_eq_0_iff [of "pa H d OR tbl" 0] by (simp add: entry_flags_def bit_or_iff)
  then show ?thesis
    using find_extra [OF ok ex assms(3) fl] assms(2) by (simp add: radix_child_def link_def Let_def)
qed

lemma radix_child_fresh:
  assumes ok: "tree_ok tbl H t s dirs pgts" and zero: "cells s parent ! i = 0"
    and pool: "pool s \<noteq> []"
  obtains a s1 where "radix_child tbl H t parent i s =
      Ok (a, t\<lparr>extra := extra t @ [(pa H a, a)]\<rparr>, write_entry s1 parent i (pa H a OR tbl))"
    and "shape tbl H t s1 dirs pgts" and "a \<in> set (live s1)" and "unused t dirs pgts a"
    and "cells s1 a = replicate ENTRY_COUNT 0" and "leaf_at s1 pgts = leaf_at s pgts"
    and "extra_ok H (t\<lparr>extra := extra t @ [(pa H a, a)]\<rparr>) s1 dirs pgts"
    and "length (pool s) = length (pool s1) + 1"
proof -
  from ok have sh: "shape tbl H t s dirs pgts" and ex: "extra_ok H t s dirs pgts"
    by (simp_all add: tree_ok_def)
  obtain a rest where p: "pool s = a # rest" using pool by (cases "pool s") auto
  from shape_alloc [OF sh p] obtain s1 where s1: "alloc_table s = Ok (a, s1)"
    "shape tbl H t s1 dirs pgts" "a \<in> set (live s1)" "unused t dirs pgts a" "pool s1 = rest"
    "cells s1 a = replicate ENTRY_COUNT 0" "\<And>b. b \<in> set (live s) \<Longrightarrow> cells s1 b = cells s b"
    "host_physical H a = Ok (pa H a)" by metis
  have "radix_child tbl H t parent i s =
      Ok (a, t\<lparr>extra := extra t @ [(pa H a, a)]\<rparr>, write_entry s1 parent i (pa H a OR tbl))"
    using zero s1(1,8) by (simp add: radix_child_def Let_def)
  moreover have "set (live s) \<subseteq> set (live s1)"
    using s1(1) p by (auto simp: alloc_table_def alloc_page_def split: if_splits)
  then have "extra_ok H (t\<lparr>extra := extra t @ [(pa H a, a)]\<rparr>) s1 dirs pgts"
    using ex s1(3) unfolding extra_ok_def by auto
  moreover have "leaf_at s1 pgts = leaf_at s pgts"
    using shapeD(6) [OF sh] s1(7) by (auto simp: leaf_at_def fun_eq_iff split: option.splits)
  ultimately show thesis using s1 p by (intro that) auto
qed

text \<open>What \<open>child_or_alloc\<close> does at the two levels below the PDPT.\<close>

lemma radix_child_dir:
  assumes ok: "tree_ok tbl H t s dirs pgts" and i: "i < ENTRY_COUNT" "i \<noteq> 0"
    and pool: "pool s \<noteq> []"
  obtains d t' s' dirs' where "radix_child tbl H t (pdpt t) i s = Ok (d, t', s')"
    and "tree_ok tbl H t' s' dirs' pgts" and "dirs' i = Some d"
    and "pml4 t' = pml4 t" and "leaf_at s' pgts = leaf_at s pgts"
    and "length (pool s) \<le> length (pool s') + 1"
proof -
  from ok have fl: "entry_flags tbl" and sh: "shape tbl H t s dirs pgts"
    and ex: "extra_ok H t s dirs pgts" by (simp_all add: tree_ok_def)
  have entry: "cells s (pdpt t) ! i = link H tbl (dirs i)" using shapeD(12) [OF sh i(1)] .
  show thesis
  proof (cases "dirs i")
    case (Some d)
    with ex i have "(pa H d, d) \<in> set (extra t)" by (auto simp: extra_ok_def)
    with radix_child_found [OF ok] entry Some have "radix_child tbl H t (pdpt t) i s = Ok (d, t, s)"
      by simp
    with ok Some show thesis by (intro that [of d t s dirs]) auto
  next
    case None
    with entry have "cells s (pdpt t) ! i = 0" by (simp add: link_def)
    from radix_child_fresh [OF ok this pool] obtain a s1 where
      run: "radix_child tbl H t (pdpt t) i s = Ok (a, t\<lparr>extra := extra t @ [(pa H a, a)]\<rparr>,
          write_entry s1 (pdpt t) i (pa H a OR tbl))"
      and s1: "shape tbl H t s1 dirs pgts" "a \<in> set (live s1)" "unused t dirs pgts a"
        "cells s1 a = replicate ENTRY_COUNT 0" "leaf_at s1 pgts = leaf_at s pgts"
        "extra_ok H (t\<lparr>extra := extra t @ [(pa H a, a)]\<rparr>) s1 dirs pgts"
        "length (pool s) = length (pool s1) + 1" by metis
    let ?t' = "t\<lparr>extra := extra t @ [(pa H a, a)]\<rparr>"
      and ?s' = "write_entry s1 (pdpt t) i (pa H a OR tbl)"
    have "tree_ok tbl H ?t' ?s' (dirs(i \<mapsto> a)) pgts"
      using shape_link_dir [OF s1(1-4) i(1) None] s1(6) fl
      by (auto simp: tree_ok_def extra_ok_def split: if_splits)
    with run s1 leaf_at_link_dir [OF s1(1)] show thesis
      by (intro that [of a ?t' ?s' "dirs(i \<mapsto> a)"]) auto
  qed
qed

lemma radix_child_pgt:
  assumes ok: "tree_ok tbl H t s dirs pgts" and d: "dirs i3 = Some d" "i3 \<noteq> 0"
    and i: "i2 < ENTRY_COUNT" and pool: "pool s \<noteq> []"
  obtains p t' s' pgts' where "radix_child tbl H t d i2 s = Ok (p, t', s')"
    and "tree_ok tbl H t' s' dirs pgts'" and "pgts' (i3, i2) = Some p"
    and "pml4 t' = pml4 t" and "\<And>j n. n < ENTRY_COUNT \<Longrightarrow> leaf_at s' pgts' j n = leaf_at s pgts j n"
    and "length (pool s) \<le> length (pool s') + 1"
proof -
  from ok have fl: "entry_flags tbl" and sh: "shape tbl H t s dirs pgts"
    and ex: "extra_ok H t s dirs pgts" by (simp_all add: tree_ok_def)
  have entry: "cells s d ! i2 = link H tbl (pgts (i3, i2))" using shapeD(13) [OF sh d(1) i] .
  show thesis
  proof (cases "pgts (i3, i2)")
    case (Some p)
    with ex d have "(pa H p, p) \<in> set (extra t)" by (auto simp: extra_ok_def)
    with radix_child_found [OF ok] entry Some have "radix_child tbl H t d i2 s = Ok (p, t, s)"
      by simp
    with ok Some show thesis by (intro that [of p t s pgts]) auto
  next
    case None
    with entry have "cells s d ! i2 = 0" by (simp add: link_def)
    from radix_child_fresh [OF ok this pool] obtain a s1 where
      run: "radix_child tbl H t d i2 s = Ok (a, t\<lparr>extra := extra t @ [(pa H a, a)]\<rparr>,
          write_entry s1 d i2 (pa H a OR tbl))"
      and s1: "shape tbl H t s1 dirs pgts" "a \<in> set (live s1)" "unused t dirs pgts a"
        "cells s1 a = replicate ENTRY_COUNT 0" "leaf_at s1 pgts = leaf_at s pgts"
        "extra_ok H (t\<lparr>extra := extra t @ [(pa H a, a)]\<rparr>) s1 dirs pgts"
        "length (pool s) = length (pool s1) + 1" by metis
    let ?t' = "t\<lparr>extra := extra t @ [(pa H a, a)]\<rparr>"
      and ?s' = "write_entry s1 d i2 (pa H a OR tbl)"
    have "tree_ok tbl H ?t' ?s' dirs (pgts((i3, i2) \<mapsto> a))"
      using shape_link_pgt [OF s1(1-3) d(1) i None] s1(6) fl
      by (auto simp: tree_ok_def extra_ok_def split: if_splits)
    moreover have "leaf_at s pgts (i3, i2) n = 0" for n using None by (simp add: leaf_at_def)
    ultimately show thesis
      using run s1 leaf_at_link_pgt [OF s1(1) d(1) s1(3)]
      by (intro that [of a ?t' ?s' "pgts((i3, i2) \<mapsto> a)"]) auto
  qed
qed

lemma radix_map_page_Ok:
  assumes ok: "tree_ok tbl H t s dirs pgts" and i3: "table_index 3 gpa \<noteq> 0"
    and pool: "2 \<le> length (pool s)"
  obtains t' s' dirs' pgts' where "radix_map_page tbl leaf H t gpa hpa s = Ok (t', s')"
    and "tree_ok tbl H t' s' dirs' pgts'" and "pml4 t' = pml4 t"
    and "\<And>j n. n < ENTRY_COUNT \<Longrightarrow> leaf_at s' pgts' j n =
      (if j = (table_index 3 gpa, table_index 2 gpa) \<and> n = table_index 1 gpa then hpa OR leaf
       else leaf_at s pgts j n)"
    and "length (pool s) \<le> length (pool s') + 2"
proof -
  have "pool s \<noteq> []" using pool by auto
  from radix_child_dir [OF ok table_index_less i3 this] obtain d t1 s1 dirs1 where
    r1: "radix_child tbl H t (pdpt t) (table_index 3 gpa) s = Ok (d, t1, s1)"
    and ok1: "tree_ok tbl H t1 s1 dirs1 pgts" and d: "dirs1 (table_index 3 gpa) = Some d"
    and l1: "pml4 t1 = pml4 t" "leaf_at s1 pgts = leaf_at s pgts"
      "length (pool s) \<le> length (pool s1) + 1" .
  have "pool s1 \<noteq> []" using pool l1(3) by auto
  from radix_child_pgt [OF ok1 d i3 table_index_less this, of 2 gpa] obtain p t2 s2 pgts2 where
    r2: "radix_child tbl H t1 d (table_index 2 gpa) s1 = Ok (p, t2, s2)"
    and ok2: "tree_ok tbl H t2 s2 dirs1 pgts2"
    and p: "pgts2 (table_index 3 gpa, table_index 2 gpa) = Some p"
    and l2: "pml4 t2 = pml4 t1"
      "\<And>j n. n < ENTRY_COUNT \<Longrightarrow> leaf_at s2 pgts2 j n = leaf_at s1 pgts j n"
      "length (pool s1) \<le> length (pool s2) + 1" by blast
  let ?s' = "write_entry s2 p (table_index 1 gpa) (hpa OR leaf)"
  from ok2 have sh2: "shape tbl H t2 s2 dirs1 pgts2" by (simp add: tree_ok_def)
  have "tree_ok tbl H t2 ?s' dirs1 pgts2"
    using ok2 shape_write_leaf [OF sh2 p] by (simp add: tree_ok_def extra_ok_def)
  moreover have "radix_map_page tbl leaf H t gpa hpa s = Ok (t2, ?s')"
    using r1 r2 by (simp add: radix_map_page_def)
  ultimately show thesis
    using l1 l2 leaf_at_write_leaf [OF sh2 p table_index_less]
    by (intro that [of t2 ?s' dirs1 pgts2]) auto
qed

subsection \<open>Building the tables of the guest's memory\<close>

text \<open>Every page of the guest buffer resolves to a page frame.\<close>

definition pages_ok :: "host \<Rightarrow> u64 \<Rightarrow> nat \<Rightarrow> bool" where
  "pages_ok H guest_base num_pages \<longleftrightarrow>
     (\<forall>k < num_pages. \<exists>p. host_physical H (guest_base + of_nat (k * page_size)) = Ok p \<and> page_frame p)"

definition page_pa :: "host \<Rightarrow> u64 \<Rightarrow> nat \<Rightarrow> u64" where
  "page_pa H guest_base k = pa H (guest_base + of_nat (k * page_size))"

lemma pages_okD:
  assumes "pages_ok H guest_base n" and "k < n"
  shows "host_physical H (guest_base + of_nat (k * page_size)) = Ok (page_pa H guest_base k)"
    and "page_frame (page_pa H guest_base k)"
  using assms by (auto simp: pages_ok_def page_pa_def pa_def)

lemma radix_fill_Ok:
  assumes "pages_ok H guest_base np" and "m \<le> ENTRY_COUNT"
    and "length (cells s pt) = ENTRY_COUNT"
  shows "\<exists>s'. radix_fill leaf H guest_base np pt i [m..<ENTRY_COUNT] s = Ok s' \<and>
    live s' = live s \<and> pool s' = pool s \<and> (\<forall>b. b \<noteq> pt \<longrightarrow> cells s' b = cells s b) \<and>
    length (cells s' pt) = ENTRY_COUNT \<and>
    (\<forall>n < ENTRY_COUNT. cells s' pt ! n =
       (if m \<le> n \<and> i * ENTRY_COUNT + n < np
        then page_pa H guest_base (i * ENTRY_COUNT + n) OR leaf else cells s pt ! n))"
  using assms(2,3)
proof (induction "ENTRY_COUNT - m" arbitrary: m s)
  case 0
  then show ?case by auto
next
  case (Suc k)
  then have m: "m < ENTRY_COUNT" "[m..<ENTRY_COUNT] = m # [Suc m..<ENTRY_COUNT]"
    by (auto simp: upt_conv_Cons)
  show ?case
  proof (cases "i * ENTRY_COUNT + m < np")
    case False
    with m Suc.prems show ?thesis by (auto simp: Let_def)
  next
    case True
    let ?p = "page_pa H guest_base (i * ENTRY_COUNT + m)"
    let ?s1 = "write_entry s pt m (?p OR leaf)"
    have "radix_fill leaf H guest_base np pt i [m..<ENTRY_COUNT] s =
        radix_fill leaf H guest_base np pt i [Suc m..<ENTRY_COUNT] ?s1"
      using True m(2) pages_okD(1) [OF assms(1) True] by (simp add: Let_def)
    moreover have "\<exists>s'. radix_fill leaf H guest_base np pt i [Suc m..<ENTRY_COUNT] ?s1 = Ok s' \<and>
      live s' = live s \<and> pool s' = pool s \<and> (\<forall>b. b \<noteq> pt \<longrightarrow> cells s' b = cells s b) \<and>
      length (cells s' pt) = ENTRY_COUNT \<and>
      (\<forall>n < ENTRY_COUNT. cells s' pt ! n =
         (if Suc m \<le> n \<and> i * ENTRY_COUNT + n < np
          then page_pa H guest_base (i * ENTRY_COUNT + n) OR leaf else cells ?s1 pt ! n))"
      using Suc.hyps(1) [of "Suc m" ?s1] Suc.hyps(2) Suc.prems m(1) by auto
    ultimately show ?thesis
      using True Suc.prems m(1) by (auto simp: nth_list_update le_Suc_eq not_less_eq_eq)
  qed
qed

text \<open>
  The tables of the first gibibyte: one directory, and the page tables as the list \<open>pts\<close> has
  them.
\<close>

definition dirs_of :: "u64 \<Rightarrow> nat \<rightharpoonup> u64" where
  "dirs_of l2 = [0 \<mapsto> l2]"

definition pgts_of :: "u64 list \<Rightarrow> nat \<times> nat \<rightharpoonup> u64" where
  "pgts_of l1s = (\<lambda>(i3, i2). if i3 = 0 \<and> i2 < length l1s then Some (l1s ! i2) else None)"

lemma pgts_of_append: "pgts_of (l1s @ [p]) = (pgts_of l1s)((0, length l1s) \<mapsto> p)"
  by (auto simp: pgts_of_def fun_eq_iff nth_append less_Suc_eq)

lemma shape_pts [simp]: "shape tbl H (t\<lparr>pts := x\<rparr>) s dirs pgts = shape tbl H t s dirs pgts"
  by (simp add: shape_def)

text \<open>The leaf entries after \<open>k\<close> page tables have been built.\<close>

definition ram_leaf :: "u64 \<Rightarrow> host \<Rightarrow> u64 \<Rightarrow> nat \<Rightarrow> nat \<Rightarrow> nat \<times> nat \<Rightarrow> nat \<Rightarrow> u64" where
  "ram_leaf leaf H guest_base np k = (\<lambda>(i3, i2) n.
     if i3 = 0 \<and> i2 < k \<and> i2 * ENTRY_COUNT + n < np
     then page_pa H guest_base (i2 * ENTRY_COUNT + n) OR leaf else 0)"

lemma radix_new_pt_Ok:
  assumes sh: "shape tbl H t s (dirs_of l2) (pgts_of l1s)" and pages: "pages_ok H guest_base np"
    and k: "length l1s < ENTRY_COUNT" and pool: "pool s \<noteq> []"
    and leaves: "\<And>j n. n < ENTRY_COUNT \<Longrightarrow>
      leaf_at s (pgts_of l1s) j n = ram_leaf leaf H guest_base np (length l1s) j n"
  obtains s' p where
    "radix_new_pt tbl leaf H guest_base np l2 (length l1s) (s, l1s) = Ok (s', l1s @ [p])"
    and "shape tbl H t s' (dirs_of l2) (pgts_of (l1s @ [p]))"
    and "length (pool s) = length (pool s') + 1"
    and "\<And>j n. n < ENTRY_COUNT \<Longrightarrow> leaf_at s' (pgts_of (l1s @ [p])) j n =
      ram_leaf leaf H guest_base np (Suc (length l1s)) j n"
proof -
  obtain a rest where "pool s = a # rest" using pool by (cases "pool s") auto
  from shape_alloc [OF sh this] obtain s1 where s1: "alloc_table s = Ok (a, s1)"
    "shape tbl H t s1 (dirs_of l2) (pgts_of l1s)" "a \<in> set (live s1)"
    "unused t (dirs_of l2) (pgts_of l1s) a" "pool s1 = rest"
    "cells s1 a = replicate ENTRY_COUNT 0" "\<And>b. b \<in> set (live s) \<Longrightarrow> cells s1 b = cells s b"
    "host_physical H a = Ok (pa H a)" by metis
  have "length (cells s1 a) = ENTRY_COUNT" using s1(6) by simp
  from radix_fill_Ok [OF pages _ this, of 0 leaf "length l1s"] obtain s2 where
    r2: "radix_fill leaf H guest_base np a (length l1s) [0..<ENTRY_COUNT] s1 = Ok s2"
    and s2: "live s2 = live s1" "pool s2 = pool s1" "\<And>b. b \<noteq> a \<Longrightarrow> cells s2 b = cells s1 b"
      "length (cells s2 a) = ENTRY_COUNT"
    and fill: "\<And>n. n < ENTRY_COUNT \<Longrightarrow> cells s2 a ! n =
      (if length l1s * ENTRY_COUNT + n < np
       then page_pa H guest_base (length l1s * ENTRY_COUNT + n) OR leaf else 0)"
    using s1(6) by auto
  have ok2: "heap_ok H s2" using shapeD(1) [OF s1(2)] s2 unfolding heap_ok_def by metis
  have sh2: "shape tbl H t s2 (dirs_of l2) (pgts_of l1s)"
    using shape_frame [OF s1(2) ok2 s2(1) s1(4) s2(3)] .
  have kept: "cells s2 p = cells s p" if "pgts_of l1s j = Some p" for j p
    using shapeD(6) [OF sh that] s1(4,7) s2(3) that unfolding unused_def by metis
  have same: "leaf_at s2 (pgts_of l1s) = leaf_at s (pgts_of l1s)"
    by (intro ext) (simp add: leaf_at_def kept split: option.split)
  have d: "dirs_of l2 0 = Some l2" and a2: "a \<in> set (live s2)"
    using s1(3) s2(1) by (simp_all add: dirs_of_def)
  let ?s' = "write_entry s2 l2 (length l1s) (pa H a OR tbl)"
  have "radix_new_pt tbl leaf H guest_base np l2 (length l1s) (s, l1s) = Ok (?s', l1s @ [a])"
    using s1(1,8) r2 by (simp add: radix_new_pt_def)
  moreover have "shape tbl H t ?s' (dirs_of l2) (pgts_of (l1s @ [a]))"
    unfolding pgts_of_append
    by (rule shape_link_pgt [OF sh2 a2 s1(4) d k]) (simp add: pgts_of_def)
  moreover have "n < ENTRY_COUNT \<Longrightarrow> leaf_at ?s' (pgts_of (l1s @ [a])) j n =
      ram_leaf leaf H guest_base np (Suc (length l1s)) j n" for j n
    unfolding pgts_of_append leaf_at_link_pgt [OF sh2 d s1(4)]
    by (cases j) (auto simp: fill same leaves ram_leaf_def less_Suc_eq)
  ultimately show thesis
    using s1(5) s2(2) \<open>pool s = a # rest\<close> by (intro that [of ?s' a]) auto
qed

lemma radix_new_pts_Ok:
  assumes sh: "shape tbl H t s (dirs_of l2) (pgts_of [])" and pages: "pages_ok H guest_base np"
    and "m \<le> ENTRY_COUNT" and "m \<le> length (pool s)"
  shows "\<exists>s' l1s. try_fold (radix_new_pt tbl leaf H guest_base np l2) [0..<m] (s, []) = Ok (s', l1s) \<and>
    length l1s = m \<and> shape tbl H t s' (dirs_of l2) (pgts_of l1s) \<and>
    length (pool s) = length (pool s') + m \<and>
    (\<forall>j n. n < ENTRY_COUNT \<longrightarrow> leaf_at s' (pgts_of l1s) j n = ram_leaf leaf H guest_base np m j n)"
  using assms(3,4)
proof (induction m)
  case 0
  have "leaf_at s (pgts_of []) j n = ram_leaf leaf H guest_base np 0 j n" for j n
    by (cases j) (simp add: leaf_at_def pgts_of_def ram_leaf_def)
  then show ?case by (intro exI [of _ s] exI [of _ "[]"] conjI sh) simp_all
next
  case (Suc m)
  then obtain s1 l1s where r: "try_fold (radix_new_pt tbl leaf H guest_base np l2) [0..<m] (s, []) = Ok (s1, l1s)"
    and len: "length l1s = m" and sh1: "shape tbl H t s1 (dirs_of l2) (pgts_of l1s)"
    and pool: "length (pool s) = length (pool s1) + m"
    and leaves: "\<And>j n. n < ENTRY_COUNT \<Longrightarrow>
      leaf_at s1 (pgts_of l1s) j n = ram_leaf leaf H guest_base np m j n"
    by auto
  have "pool s1 \<noteq> []" "length l1s < ENTRY_COUNT" using Suc.prems pool len by auto
  from radix_new_pt_Ok [OF sh1 pages this(2,1), unfolded len, OF leaves] obtain s' p where
    "radix_new_pt tbl leaf H guest_base np l2 m (s1, l1s) = Ok (s', l1s @ [p])"
    "shape tbl H t s' (dirs_of l2) (pgts_of (l1s @ [p]))" "length (pool s1) = length (pool s') + 1"
    "\<And>j n. n < ENTRY_COUNT \<Longrightarrow> leaf_at s' (pgts_of (l1s @ [p])) j n =
      ram_leaf leaf H guest_base np (Suc m) j n" by blast
  then show ?case using r pool len
    by (intro exI [of _ s'] exI [of _ "l1s @ [p]"]) (simp add: try_fold_append)
qed

text \<open>The three tables at the top: the root refers to the PDPT, the PDPT to the directory.\<close>

lemma shape_top:
  assumes ok: "heap_ok H s" and l4: "l4 \<in> set (live s)" "cells s l4 = replicate ENTRY_COUNT 0"
    and l3: "l3 \<in> set (live s)" "cells s l3 = replicate ENTRY_COUNT 0"
    and l2: "l2 \<in> set (live s)" "cells s l2 = replicate ENTRY_COUNT 0"
    and ne: "distinct [l4, l3, l2]" and t: "pml4 t = l4" "pdpt t = l3"
  shows "shape tbl H t (write_entry (write_entry s l4 0 (pa H l3 OR tbl)) l3 0 (pa H l2 OR tbl))
    (dirs_of l2) (pgts_of [])"
proof -
  let ?s = "write_entry s l4 0 (pa H l3 OR tbl)"
  have "heap_ok H ?s" using ok by (simp add: heap_ok_def)
  then have "shape tbl H t ?s Map.empty (pgts_of [])"
    using l4 l3 ne t by (auto simp: shape_def pgts_of_def link_def nth_list_update)
  from shape_link_dir [OF this, of l2 0] show ?thesis
    using l2 ne t by (auto simp: unused_def pgts_of_def dirs_of_def ENTRY_COUNT_def)
qed

lemma radix_new_Ok:
  assumes ok: "heap_ok H s" and fl: "entry_flags tbl" and pages: "pages_ok H guest_base np"
    and np: "np \<le> ENTRY_COUNT * ENTRY_COUNT"
    and pool: "3 + (np + (ENTRY_COUNT - 1)) div ENTRY_COUNT \<le> length (pool s)"
  obtains t s' where "radix_new tbl leaf H guest_base np s = Ok (t, s')"
    and "tree_ok tbl H t s' (dirs_of (pd t)) (pgts_of (pts t))" and "extra t = []"
    and "length (pool s) = length (pool s') + 3 + length (pts t)"
    and "length (pts t) = (np + (ENTRY_COUNT - 1)) div ENTRY_COUNT"
    and "\<And>j n. n < ENTRY_COUNT \<Longrightarrow> leaf_at s' (pgts_of (pts t)) j n =
      ram_leaf leaf H guest_base np (length (pts t)) j n"
proof -
  let ?m = "(np + (ENTRY_COUNT - 1)) div ENTRY_COUNT"
  obtain l4 l3 l2 rest where p: "pool s = l4 # l3 # l2 # rest"
    using pool by (metis (no_types, lifting) Suc_le_length_iff add_leD1 numeral_3_eq_3)
  let ?z = "replicate ENTRY_COUNT (0 :: u64)"
  define s1 where "s1 = s\<lparr>live := l4 # live s, cells := (cells s)(l4 := ?z), pool := l3 # l2 # rest\<rparr>"
  define s2 where "s2 = s1\<lparr>live := l3 # live s1, cells := (cells s1)(l3 := ?z), pool := l2 # rest\<rparr>"
  define s3 where "s3 = s2\<lparr>live := l2 # live s2, cells := (cells s2)(l2 := ?z), pool := rest\<rparr>"
  note a1 = alloc_table_Ok [OF ok p, folded s1_def]
  note a2 = alloc_table_Ok [OF a1(2), of l3 "l2 # rest", folded s2_def]
  note a3 = alloc_table_Ok [OF _, of _ s2 l2 "rest", folded s3_def]
  have r: "alloc_table s = Ok (l4, s1)" "alloc_table s1 = Ok (l3, s2)" "alloc_table s2 = Ok (l2, s3)"
    and ok3: "heap_ok H s3" using a1 a2 a3 by (simp_all add: s1_def s2_def)
  have dist: "distinct [l4, l3, l2]" using ok p by (auto simp: heap_ok_def)
  have hp: "host_physical H l3 = Ok (pa H l3)" "host_physical H l2 = Ok (pa H l2)"
    using heap_ok_pa(1) [OF ok3] by (simp_all add: s3_def s2_def)
  let ?t = "\<lparr>pml4 = l4, pdpt = l3, pd = l2, pts = [], extra = []\<rparr>"
  let ?s = "write_entry (write_entry s3 l4 0 (pa H l3 OR tbl)) l3 0 (pa H l2 OR tbl)"
  have sh: "shape tbl H ?t ?s (dirs_of l2) (pgts_of [])"
    using dist by (intro shape_top [OF ok3]) (auto simp: s1_def s2_def s3_def)
  have "?m \<le> ENTRY_COUNT" using np by (simp add: ENTRY_COUNT_def)
  moreover have "?m \<le> length (pool ?s)" using pool p by (simp add: s3_def)
  ultimately obtain s' l1s where f: "try_fold (radix_new_pt tbl leaf H guest_base np l2) [0..<?m] (?s, []) = Ok (s', l1s)"
    and res: "length l1s = ?m" "shape tbl H ?t s' (dirs_of l2) (pgts_of l1s)"
      "length (pool ?s) = length (pool s') + ?m"
      "\<And>j n. n < ENTRY_COUNT \<Longrightarrow> leaf_at s' (pgts_of l1s) j n = ram_leaf leaf H guest_base np ?m j n"
    using radix_new_pts_Ok [OF sh pages] by blast
  let ?t' = "\<lparr>pml4 = l4, pdpt = l3, pd = l2, pts = l1s, extra = []\<rparr>"
  have sh': "shape tbl H ?t' s' (dirs_of l2) (pgts_of l1s)"
    using shape_pts [where t = ?t and x = l1s] res(2) by simp
  have "extra_ok H ?t' s' (dirs_of l2) (pgts_of l1s)"
    by (auto simp: extra_ok_def pgts_of_def dirs_of_def split: if_splits)
  with sh' fl have "tree_ok tbl H ?t' s' (dirs_of l2) (pgts_of l1s)" by (simp add: tree_ok_def)
  moreover have "radix_new tbl leaf H guest_base np s = Ok (?t', s')"
    using f by (simp add: radix_new_def r hp)
  ultimately show thesis
    using res p by (intro that [of ?t' s']) (simp_all add: s3_def)
qed

subsection \<open>The translation that results\<close>

text \<open>The page number of an address, from the four indices of its walk.\<close>

lemma page_index:
  assumes "gpa < 2 ^ 48"
  shows "unat gpa div page_size =
    ((table_index 4 gpa * 512 + table_index 3 gpa) * 512 + table_index 2 gpa) * 512 + table_index 1 gpa"
proof -
  define m where "m = unat gpa div 4096"
  have lt: "unat gpa < 2 ^ 48" using assms by (simp add: word_less_nat_alt)
  have "unat gpa div 2 ^ 21 = m div 512" "unat gpa div 2 ^ 30 = m div 512 div 512"
    "unat gpa div 2 ^ 39 = m div 512 div 512 div 512"
    by (simp_all add: m_def div_mult2_eq [symmetric])
  moreover have "m div 512 div 512 div 512 < 512" using lt by (simp add: m_def div_mult2_eq [symmetric])
  ultimately have "table_index 4 gpa = m div 512 div 512 div 512"
    "table_index 3 gpa = m div 512 div 512 mod 512" "table_index 2 gpa = m div 512 mod 512"
    "table_index 1 gpa = m mod 512"
    by (simp_all add: unat_table_index m_def)
  then show ?thesis by (simp add: page_size_def flip: m_def)
qed

lemma page_index_less:
  assumes "gpa < 2 ^ 48"
  shows "table_index 4 gpa = 0 \<and> table_index 3 gpa = 0 \<longleftrightarrow> unat gpa < 2 ^ 30"
    and "table_index 4 gpa = 0 \<longleftrightarrow> unat gpa < 2 ^ 39"
proof -
  have b: "table_index k gpa < 512" for k using table_index_less [of k gpa] by (simp add: ENTRY_COUNT_def)
  have "unat gpa < 2 ^ 30 \<longleftrightarrow> unat gpa div page_size < 2 ^ 18"
    "unat gpa < 2 ^ 39 \<longleftrightarrow> unat gpa div page_size < 2 ^ 27"
    by (simp_all add: page_size_def div_less_iff_less_mult)
  then show "table_index 4 gpa = 0 \<and> table_index 3 gpa = 0 \<longleftrightarrow> unat gpa < 2 ^ 30"
    and "table_index 4 gpa = 0 \<longleftrightarrow> unat gpa < 2 ^ 39"
    using b [of 3] b [of 2] b [of 1] by (auto simp: page_index [OF assms])
qed

lemma digit_eq_iff:
  fixes a b c d :: nat
  assumes "b < 512" and "d < 512"
  shows "a * 512 + b = c * 512 + d \<longleftrightarrow> a = c \<and> b = d"
proof
  assume eq: "a * 512 + b = c * 512 + d"
  from arg_cong [OF this, of "\<lambda>x. x div 512"] have "a = c" using assms by simp
  with eq show "a = c \<and> b = d" by simp
qed simp

lemma same_page:
  assumes "gpa < 2 ^ 48" and "gpa' < 2 ^ 48"
  shows "unat gpa' div page_size = unat gpa div page_size \<longleftrightarrow>
    table_index 4 gpa' = table_index 4 gpa \<and> table_index 3 gpa' = table_index 3 gpa \<and>
    table_index 2 gpa' = table_index 2 gpa \<and> table_index 1 gpa' = table_index 1 gpa"
proof -
  have "table_index k a < 512" for k a using table_index_less [of k a] by (simp add: ENTRY_COUNT_def)
  then show ?thesis
    unfolding page_index [OF assms(1)] page_index [OF assms(2)] by (simp only: digit_eq_iff conj_assoc)
qed

text \<open>
  The leaf entries of guest RAM, and the translation that they give: page \<open>k\<close> of the guest is
  the host page behind page \<open>k\<close> of the buffer at \<open>guest_base\<close>, and nothing is mapped beyond the
  guest's size.
\<close>

definition ram_entry :: "u64 \<Rightarrow> host \<Rightarrow> u64 \<Rightarrow> u64 \<Rightarrow> u64 \<Rightarrow> u64 option" where
  "ram_entry leaf H guest_base sz gpa =
     (if gpa < sz then Some (page_pa H guest_base (unat gpa div page_size) OR leaf) else None)"

definition ram_translation :: "host \<Rightarrow> u64 \<Rightarrow> u64 \<Rightarrow> u64 \<Rightarrow> u64 option" where
  "ram_translation H guest_base sz gpa =
     (if gpa < sz then Some (page_pa H guest_base (unat gpa div page_size) OR (gpa AND 0xfff))
      else None)"

lemma leaf_entry_tree:
  assumes "tree_ok tbl H t s dirs pgts" and "root AND ADDR_MASK = pa H (pml4 t)"
  shows "leaf_entry H s root gpa =
     (let e = leaf_at s pgts (table_index 3 gpa, table_index 2 gpa) (table_index 1 gpa) in
      if gpa < 2 ^ 48 \<and> table_index 4 gpa = 0 \<and> bit e 0 then Some e else None)"
  using assms leaf_entry_leaf_at [of tbl H t s dirs pgts root gpa]
  by (cases "gpa < 2 ^ 48") (auto simp: tree_ok_def Let_def leaf_entry_def)

lemma page_div_less:
  assumes "unat gpa < unat sz" and "unat sz mod page_size = 0"
  shows "unat gpa div page_size < unat sz div page_size"
  using assms by (auto simp: page_size_def elim!: dvdE simp flip: dvd_eq_mod_eq_0)

lemma ram_leaf_entry:
  fixes H :: host and guest_base :: u64
  assumes leaf: "entry_flags leaf"
    and size: "unat sz mod page_size = 0" "unat sz \<le> 2 ^ 30" and gpa: "gpa < 2 ^ 48"
    and k: "k = (unat sz div page_size + (ENTRY_COUNT - 1)) div ENTRY_COUNT"
  defines "e \<equiv> ram_leaf leaf H guest_base (unat sz div page_size) k
    (table_index 3 gpa, table_index 2 gpa) (table_index 1 gpa)"
  shows "(if table_index 4 gpa = 0 \<and> bit e 0 then Some e else None) = ram_entry leaf H guest_base sz gpa"
proof (cases "gpa < sz")
  case True
  then have lt: "unat gpa < unat sz" by (simp add: word_less_nat_alt)
  have idx: "unat gpa div page_size = table_index 2 gpa * ENTRY_COUNT + table_index 1 gpa"
    and z: "table_index 4 gpa = 0" "table_index 3 gpa = 0"
    using lt size page_index [OF gpa] page_index_less [OF gpa] by (auto simp: ENTRY_COUNT_def)
  note np = page_div_less [OF lt size(1)]
  then have "table_index 2 gpa < k" unfolding k idx by (simp add: ENTRY_COUNT_def)
  with np z have "e = page_pa H guest_base (unat gpa div page_size) OR leaf"
    by (simp add: e_def ram_leaf_def idx)
  then show ?thesis using True z leaf by (simp add: ram_entry_def entry_flags_def bit_or_iff)
next
  case False
  have "e = 0" if "table_index 4 gpa = 0" "table_index 3 gpa = 0"
  proof -
    have "unat sz div page_size \<le> table_index 2 gpa * ENTRY_COUNT + table_index 1 gpa"
      using page_index [OF gpa] that False div_le_mono [of "unat sz" "unat gpa" page_size]
      by (simp add: word_less_nat_alt ENTRY_COUNT_def)
    then show ?thesis by (simp add: e_def ram_leaf_def)
  qed
  moreover have "e = 0" if "table_index 3 gpa \<noteq> 0" using that by (simp add: e_def ram_leaf_def)
  ultimately have "\<not> bit e 0 \<or> table_index 4 gpa \<noteq> 0" by (metis bit_0_eq bot_apply bot_bool_def)
  with False show ?thesis by (auto simp: ram_entry_def)
qed

subsection \<open>The interface of nested paging\<close>

lemma table_at_pool: "table_at H (s\<lparr>pool := r\<rparr>) hpa = table_at H s hpa"
  by (simp add: table_at_def)

lemma walk_pool: "walk H (s\<lparr>pool := r\<rparr>) js e = walk H s js e"
  by (induction js arbitrary: e) (simp_all add: table_at_pool Let_def split: option.split)

lemma leaf_entry_pool: "leaf_entry H (s\<lparr>pool := r\<rparr>) root gpa = leaf_entry H s root gpa"
  by (simp only: leaf_entry_def walk_pool)

text \<open>
  The trait \<open>NestedPaging\<close> (\<^verbatim>\<open>vmx/ept.rs\<close>) with the constructor that the VM calls. The laws are
  what \<open>Vm::new\<close> relies on: the constructor maps exactly the guest's RAM, mapping an MMIO page adds
  that page and changes nothing else, and both succeed whenever the allocator has the tables they
  need; a page allocated meanwhile is resolved by the host and leaves the tables alone. \<open>np_inv\<close> is the invariant the two operations share, \<open>np_leaf\<close> the permissions of a page.
\<close>

definition num_tables :: "u64 \<Rightarrow> nat" where
  "num_tables sz = 3 + (unat sz div page_size + (ENTRY_COUNT - 1)) div ENTRY_COUNT"

definition guest_ram_ok :: "host \<Rightarrow> u64 \<Rightarrow> u64 \<Rightarrow> bool" where
  "guest_ram_ok H guest_base sz \<longleftrightarrow>
     unat guest_base mod page_size = 0 \<and> unat sz mod page_size = 0 \<and> unat sz \<le> 2 ^ 30 \<and>
     pages_ok H guest_base (unat sz div page_size)"

locale nested_paging =
  fixes np_new :: "host \<Rightarrow> u64 \<Rightarrow> u64 \<Rightarrow> heap \<Rightarrow> (nested_tables \<times> heap) result"
    and np_map_mmio :: "host \<Rightarrow> nested_tables \<Rightarrow> u64 \<Rightarrow> u64 \<Rightarrow> heap \<Rightarrow> (nested_tables \<times> heap) result"
    and np_pointer :: "host \<Rightarrow> nested_tables \<Rightarrow> u64 result"
    and np_inv :: "host \<Rightarrow> nested_tables \<Rightarrow> heap \<Rightarrow> bool"
    and np_leaf :: u64
  assumes leaf_flags: "entry_flags np_leaf"
    and new_law: "\<lbrakk>heap_ok H s; guest_ram_ok H guest_base sz; num_tables sz \<le> length (pool s)\<rbrakk> \<Longrightarrow>
      \<exists>t s' root. np_new H guest_base sz s = Ok (t, s') \<and> np_inv H t s' \<and> np_pointer H t = Ok root \<and>
        length (pool s) = length (pool s') + num_tables sz \<and>
        leaf_entry H s' root = ram_entry np_leaf H guest_base sz"
    and map_mmio_law: "\<lbrakk>np_inv H t s; np_pointer H t = Ok root; 2 ^ 30 \<le> gpa; gpa < 2 ^ 39;
        2 \<le> length (pool s)\<rbrakk> \<Longrightarrow>
      \<exists>t' s'. np_map_mmio H t gpa hpa s = Ok (t', s') \<and> np_inv H t' s' \<and> np_pointer H t' = Ok root \<and>
        length (pool s) \<le> length (pool s') + 2 \<and>
        leaf_entry H s' root = (\<lambda>a. if unat a div page_size = unat gpa div page_size
          then Some (hpa OR np_leaf) else leaf_entry H s root a)"
    and page_law: "\<lbrakk>np_inv H t s; pool s = a # rest\<rbrakk> \<Longrightarrow>
      alloc_page s = Ok (a, s\<lparr>pool := rest\<rparr>) \<and> np_inv H t (s\<lparr>pool := rest\<rparr>) \<and>
      host_physical H a = Ok (pa H a) \<and> page_frame (pa H a)"
begin

lemma translate_ram:
  assumes ram: "guest_ram_ok H guest_base sz"
    and e: "leaf_entry H s root gpa = ram_entry np_leaf H guest_base sz gpa"
  shows "translate H s root gpa = ram_translation H guest_base sz gpa"
proof (cases "gpa < sz")
  case True
  have "unat gpa div page_size < unat sz div page_size"
    using True ram by (intro page_div_less) (simp_all add: word_less_nat_alt guest_ram_ok_def)
  then have "page_frame (page_pa H guest_base (unat gpa div page_size))"
    using ram pages_okD(2) unfolding guest_ram_ok_def by blast
  then show ?thesis using True e leaf_flags
    by (simp add: translate_def ram_entry_def ram_translation_def frame_flags entry_flags_def)
qed (use e in \<open>simp add: translate_def ram_entry_def ram_translation_def\<close>)

lemma translate_page:
  assumes "leaf_entry H s root gpa = Some (hpa OR np_leaf)" and "page_frame hpa"
  shows "translate H s root gpa = Some (hpa OR (gpa AND 0xfff))"
  using assms leaf_flags by (simp add: translate_def frame_flags entry_flags_def)

text \<open>
  RAM and two MMIO pages, the address space that \<open>Vm::new\<close> builds: the guest reaches its RAM and the
  two pages, which are allocated between the construction of the tables and the mappings, and nothing
  else of the host.
\<close>

lemma new_and_two_pages:
  assumes "heap_ok H s" and ram: "guest_ram_ok H guest_base sz"
    and pool: "num_tables sz + 6 \<le> length (pool s)"
    and g: "2 ^ 30 \<le> gpa" "gpa < 2 ^ 39" "2 ^ 30 \<le> gpa'" "gpa' < 2 ^ 39"
  shows "\<exists>t0 s0 p s1 p' s2 t3 s3 t s' root.
      np_new H guest_base sz s = Ok (t0, s0) \<and> alloc_page s0 = Ok (p, s1) \<and> alloc_page s1 = Ok (p', s2) \<and>
      host_physical H p = Ok (pa H p) \<and> host_physical H p' = Ok (pa H p') \<and>
      np_map_mmio H t0 gpa (pa H p) s2 = Ok (t3, s3) \<and> np_map_mmio H t3 gpa' (pa H p') s3 = Ok (t, s') \<and>
      np_inv H t s' \<and> np_pointer H t = Ok root \<and>
      (\<forall>a. translate H s' root a =
         (if unat a div page_size = unat gpa' div page_size then Some (pa H p' OR (a AND 0xfff))
          else if unat a div page_size = unat gpa div page_size then Some (pa H p OR (a AND 0xfff))
          else ram_translation H guest_base sz a))"
proof -
  from new_law [OF assms(1,2)] pool obtain t0 s0 root where
    r0: "np_new H guest_base sz s = Ok (t0, s0)" "np_inv H t0 s0" "np_pointer H t0 = Ok root"
      "leaf_entry H s0 root = ram_entry np_leaf H guest_base sz" and p0: "6 \<le> length (pool s0)" by force
  then obtain p p' rest where pages: "pool s0 = p # p' # rest" and "4 \<le> length rest"
    by (cases "pool s0"; cases "tl (pool s0)") auto
  define s1 s2 where "s1 = s0\<lparr>pool := p' # rest\<rparr>" and "s2 = s1\<lparr>pool := rest\<rparr>"
  have al: "4 \<le> length (pool s2)" using \<open>4 \<le> length rest\<close> by (simp add: s2_def)
  have i1: "alloc_page s0 = Ok (p, s1)" "np_inv H t0 s1" "host_physical H p = Ok (pa H p)" "page_frame (pa H p)"
    using page_law [OF r0(2) pages] by (simp_all add: s1_def)
  then have i2: "alloc_page s1 = Ok (p', s2)" "np_inv H t0 s2" "host_physical H p' = Ok (pa H p')" "page_frame (pa H p')"
    using page_law [OF i1(2), of p' rest] by (simp_all add: s1_def s2_def)
  have l: "leaf_entry H s2 root = leaf_entry H s0 root"
    by (simp add: s1_def s2_def leaf_entry_pool fun_eq_iff)
  from al map_mmio_law [OF i2(2) r0(3) g(1,2), of "pa H p"] obtain t3 s3 where
    r1: "np_map_mmio H t0 gpa (pa H p) s2 = Ok (t3, s3)" "np_inv H t3 s3" "np_pointer H t3 = Ok root"
      "leaf_entry H s3 root = (\<lambda>a. if unat a div page_size = unat gpa div page_size
        then Some (pa H p OR np_leaf) else leaf_entry H s2 root a)" and p1: "2 \<le> length (pool s3)"
    by force
  from map_mmio_law [OF r1(2,3) g(3,4) p1, of "pa H p'"] obtain t s' where
    r2: "np_map_mmio H t3 gpa' (pa H p') s3 = Ok (t, s')" "np_inv H t s'" "np_pointer H t = Ok root"
      "leaf_entry H s' root = (\<lambda>a. if unat a div page_size = unat gpa' div page_size
        then Some (pa H p' OR np_leaf) else leaf_entry H s3 root a)" by blast
  have "translate H s' root a =
         (if unat a div page_size = unat gpa' div page_size then Some (pa H p' OR (a AND 0xfff))
          else if unat a div page_size = unat gpa div page_size then Some (pa H p OR (a AND 0xfff))
          else ram_translation H guest_base sz a)" for a
    using translate_ram [OF ram, of s' root a] translate_page [of H s' root a "pa H p"]
      translate_page [of H s' root a "pa H p'"] i1 i2 by (simp add: l r0(4) r1(4) r2(4))
  with r0 r1 r2 i1 i2 show ?thesis by blast
qed

end

subsection \<open>The common algorithm meets the interface\<close>

definition radix_inv :: "u64 \<Rightarrow> host \<Rightarrow> nested_tables \<Rightarrow> heap \<Rightarrow> bool" where
  "radix_inv tbl H t s \<longleftrightarrow> (\<exists>dirs pgts. tree_ok tbl H t s dirs pgts)"

lemma radix_inv_root:
  assumes "radix_inv tbl H t s"
  shows "host_physical H (pml4 t) = Ok (pa H (pml4 t))" and "page_frame (pa H (pml4 t))"
proof -
  obtain dirs pgts where "shape tbl H t s dirs pgts" using assms by (auto simp: radix_inv_def tree_ok_def)
  then show "host_physical H (pml4 t) = Ok (pa H (pml4 t))" "page_frame (pa H (pml4 t))"
    using heap_ok_pa [of H s "pml4 t"] shapeD(1,2) by auto
qed

lemma radix_new_law:
  assumes "heap_ok H s" and ram: "guest_ram_ok H guest_base sz"
    and pool: "num_tables sz \<le> length (pool s)" and fl: "entry_flags tbl" "entry_flags leaf"
  shows "\<exists>t s'. radix_new tbl leaf H guest_base (unat sz div page_size) s = Ok (t, s') \<and>
    radix_inv tbl H t s' \<and> length (pool s) = length (pool s') + num_tables sz \<and>
    (\<forall>root. root AND ADDR_MASK = pa H (pml4 t) \<longrightarrow>
       leaf_entry H s' root = ram_entry leaf H guest_base sz)"
proof -
  have ok: "pages_ok H guest_base (unat sz div page_size)" "unat sz mod page_size = 0"
    "unat sz \<le> 2 ^ 30" using ram unfolding guest_ram_ok_def by blast+
  have "unat sz div page_size \<le> ENTRY_COUNT * ENTRY_COUNT"
    using ok div_le_mono [of "unat sz" "2 ^ 30" page_size] by (simp add: page_size_def ENTRY_COUNT_def)
  from radix_new_Ok [OF assms(1) fl(1) ok(1) this] pool obtain t s' where
    r: "radix_new tbl leaf H guest_base (unat sz div page_size) s = Ok (t, s')"
    and t: "tree_ok tbl H t s' (dirs_of (pd t)) (pgts_of (pts t))"
    and p: "length (pool s) = length (pool s') + 3 + length (pts t)"
    and k: "length (pts t) = (unat sz div page_size + (ENTRY_COUNT - 1)) div ENTRY_COUNT"
    and l: "\<And>j n. n < ENTRY_COUNT \<Longrightarrow> leaf_at s' (pgts_of (pts t)) j n =
      ram_leaf leaf H guest_base (unat sz div page_size) (length (pts t)) j n"
    unfolding num_tables_def by metis
  have "leaf_entry H s' root gpa = ram_entry leaf H guest_base sz gpa"
    if "root AND ADDR_MASK = pa H (pml4 t)" for root gpa
  proof (cases "gpa < 2 ^ 48")
    case True
    from ram_leaf_entry [OF fl(2) ok(2,3) True k] True show ?thesis
      unfolding leaf_entry_tree [OF t that] l [OF table_index_less] Let_def by (simp only: simp_thms)
  next
    case False
    then have "\<not> gpa < sz" using ok by (simp add: word_less_nat_alt)
    with False show ?thesis by (simp add: leaf_entry_def ram_entry_def)
  qed
  then show ?thesis using r t p k by (auto simp: radix_inv_def num_tables_def)
qed

lemma radix_map_law:
  assumes inv: "radix_inv tbl H t s" and g: "2 ^ 30 \<le> gpa" "gpa < 2 ^ 39"
    and pool: "2 \<le> length (pool s)" and leaf: "entry_flags leaf"
  shows "\<exists>t' s'. radix_map_page tbl leaf H t gpa hpa s = Ok (t', s') \<and> radix_inv tbl H t' s' \<and>
    pml4 t' = pml4 t \<and> length (pool s) \<le> length (pool s') + 2 \<and>
    (\<forall>root. root AND ADDR_MASK = pa H (pml4 t) \<longrightarrow>
       leaf_entry H s' root = (\<lambda>a. if unat a div page_size = unat gpa div page_size
         then Some (hpa OR leaf) else leaf_entry H s root a))"
proof -
  have g48: "gpa < 2 ^ 48" and u: "unat gpa < 2 ^ 39" "\<not> unat gpa < 2 ^ 30"
    using g by (simp_all add: word_less_nat_alt word_le_nat_alt)
  have i: "table_index 3 gpa \<noteq> 0" "table_index 4 gpa = 0" using u page_index_less [OF g48] by auto
  obtain dirs pgts where t: "tree_ok tbl H t s dirs pgts" using inv by (auto simp: radix_inv_def)
  obtain t' s' dirs' pgts' where
    r: "radix_map_page tbl leaf H t gpa hpa s = Ok (t', s')" and t': "tree_ok tbl H t' s' dirs' pgts'"
    and root': "pml4 t' = pml4 t" and l: "\<And>j n. n < ENTRY_COUNT \<Longrightarrow> leaf_at s' pgts' j n =
      (if j = (table_index 3 gpa, table_index 2 gpa) \<and> n = table_index 1 gpa then hpa OR leaf
       else leaf_at s pgts j n)" and p: "length (pool s) \<le> length (pool s') + 2"
    by (rule radix_map_page_Ok [OF t i(1) pool, of leaf hpa]) (rule that)
  have "leaf_entry H s' root a = (if unat a div page_size = unat gpa div page_size
         then Some (hpa OR leaf) else leaf_entry H s root a)"
    if root: "root AND ADDR_MASK = pa H (pml4 t)" for root a
  proof (cases "a < 2 ^ 48")
    case True
    show ?thesis
      using leaf i True unfolding same_page [OF g48 True] leaf_entry_tree [OF t root]
        leaf_entry_tree [OF t', unfolded root', OF root]
      by (auto simp: l Let_def entry_flags_def bit_or_iff)
  next
    case False
    have "unat a div page_size \<noteq> unat gpa div page_size"
      using False u div_le_mono [of "2 ^ 48" "unat a" page_size] div_le_mono [of "unat gpa" "2 ^ 39" page_size]
      by (simp add: page_size_def word_less_nat_alt)
    with False show ?thesis by (simp add: leaf_entry_def)
  qed
  then show ?thesis using r t' root' p by (auto simp: radix_inv_def)
qed

lemma radix_page_law:
  assumes "radix_inv tbl H t s" and "pool s = a # rest"
  shows "alloc_page s = Ok (a, s\<lparr>pool := rest\<rparr>) \<and> radix_inv tbl H t (s\<lparr>pool := rest\<rparr>) \<and>
    host_physical H a = Ok (pa H a) \<and> page_frame (pa H a)"
proof -
  obtain dirs pgts where t: "tree_ok tbl H t s dirs pgts" using assms(1) by (auto simp: radix_inv_def)
  then have ok: "heap_ok H s" by (auto simp: tree_ok_def dest: shapeD(1))
  have "tree_ok tbl H t (s\<lparr>pool := rest\<rparr>) dirs pgts"
    using t alloc_page_Ok(2) [OF ok assms(2)] by (simp add: tree_ok_def shape_def extra_ok_def)
  then show ?thesis using alloc_page_Ok(1) [OF ok assms(2)] heap_ok_pa [OF ok, of a] assms(2) by (auto simp: radix_inv_def)
qed

subsection \<open>Absence of panics\<close>

lemma no_panic_alloc_table [no_panic_rules]: "no_panic (alloc_table s)"
  by (simp add: alloc_table_def alloc_page_def split: list.split)

lemma no_panic_radix_fill [no_panic_rules]:
  "(\<And>a. no_panic (host_physical H a)) \<Longrightarrow> no_panic (radix_fill leaf H g np pt i js s)"
  by (induction js arbitrary: s) (auto simp: Let_def intro!: no_panic_rules)

lemma no_panic_radix_new:
  "(\<And>a. no_panic (host_physical H a)) \<Longrightarrow> no_panic (radix_new tbl leaf H g np s)"
  by (auto simp: radix_new_def radix_new_pt_def Let_def intro!: no_panic_rules)

lemma no_panic_radix_child [no_panic_rules]:
  "(\<And>a. no_panic (host_physical H a)) \<Longrightarrow> no_panic (radix_child tbl H t parent idx s)"
  by (auto simp: radix_child_def Let_def intro!: no_panic_rules split: option.split)

lemma no_panic_radix_map_page:
  "(\<And>a. no_panic (host_physical H a)) \<Longrightarrow> no_panic (radix_map_page tbl leaf H t gpa hpa s)"
  by (auto simp: radix_map_page_def intro!: no_panic_rules)

text \<open>The size guard of the two constructors, in bytes.\<close>

lemma num_pts_le_iff:
  assumes "unat sz mod page_size = 0"
  shows "(unat sz div page_size + (ENTRY_COUNT - 1)) div ENTRY_COUNT \<le> ENTRY_COUNT \<longleftrightarrow>
    unat sz \<le> 2 ^ 30"
proof -
  obtain n where "unat sz = page_size * n" using assms by (auto simp: dvd_eq_mod_eq_0 [symmetric])
  moreover have "(n + 511) div 512 \<le> 512 \<longleftrightarrow> n + 511 < 513 * 512"
    using div_less_iff_less_mult [of 512 "n + 511" 513] by linarith
  ultimately show ?thesis by (simp add: page_size_def ENTRY_COUNT_def) arith
qed

subsection \<open>A concrete host\<close>

text \<open>
  A host on which the hypotheses above hold: memory is mapped one to one, and the allocator has
  sixteen pages to give.
\<close>

definition sample_host :: host where
  "sample_host = \<lparr>host_memory_cell = Some (\<lambda>v. if v < 2 ^ 52 then Some v else None),
     phys_addr_new = phys_addr_ref\<rparr>"

definition sample_heap :: heap where
  "sample_heap = \<lparr>live = [], cells = (\<lambda>_. []), pool =
     [0x10000, 0x11000, 0x12000, 0x13000, 0x14000, 0x15000, 0x16000, 0x17000,
      0x18000, 0x19000, 0x1a000, 0x1b000, 0x1c000, 0x1d000, 0x1e000, 0x1f000]\<rparr>"

lemma sample_host_physical:
  "host_physical sample_host a = (if a < 2 ^ 52 then Ok a else Err AllocationFailed)"
  by (simp add: host_physical_def x86_virtual_to_physical_def virtual_to_physical_def sample_host_def
      phys_addr_ref_def)

lemma sample_host_no_panic: "no_panic (host_physical sample_host a)"
  by (simp add: sample_host_physical)

lemma sample_heap_ok: "heap_ok sample_host sample_heap"
  by (simp add: heap_ok_def sample_heap_def sample_host_physical page_frame_def ADDR_MASK_def)

lemma sample_pages_ok: "pages_ok sample_host 0x200000 2"
proof -
  have "k = 0 \<or> k = 1" if "k < 2" for k :: nat using that by auto
  then show ?thesis
    by (fastforce simp: pages_ok_def sample_host_physical page_frame_def ADDR_MASK_def page_size_def)
qed

lemma sample_ram_ok: "guest_ram_ok sample_host 0x200000 0x2000"
  using sample_pages_ok by (simp add: guest_ram_ok_def page_size_def)

lemma sample_num_tables: "num_tables 0x2000 = 4" "length (pool sample_heap) = 16"
  by (simp_all add: num_tables_def page_size_def ENTRY_COUNT_def sample_heap_def)

lemma sample_page_pa: "page_pa sample_host 0x200000 1 = 0x201000" "page_pa sample_host 0x200000 0 = 0x200000"
  by (simp_all add: page_pa_def pa_def sample_host_physical page_size_def)

end
