(* ===== verification/Npt.thy ===== *)
theory Npt
  imports Radix_Tables
begin

text \<open>
  The nested page tables of the AMD-V backend (\<^verbatim>\<open>svm/npt.rs\<close>): the constructor, the mapping of
  a single page for MMIO, and the nested CR3. The definitions follow the source; the lemmas show
  them to be the common algorithm with the NPT flags, so that they satisfy the interface
  \<open>nested_paging\<close>.
\<close>

subsection \<open>Definitions\<close>

definition NPT_PRESENT :: u64 where "NPT_PRESENT = push_bit 0 1"
definition NPT_WRITE :: u64 where "NPT_WRITE = push_bit 1 1"
definition NPT_USER :: u64 where "NPT_USER = push_bit 2 1"
definition NPT_ACCESSED :: u64 where "NPT_ACCESSED = push_bit 5 1"
definition NPT_DIRTY :: u64 where "NPT_DIRTY = push_bit 6 1"

definition NPT_TABLE :: u64 where "NPT_TABLE = NPT_PRESENT OR NPT_WRITE OR NPT_USER"

definition NPT_LEAF :: u64 where
  "NPT_LEAF = NPT_PRESENT OR NPT_WRITE OR NPT_USER OR NPT_ACCESSED OR NPT_DIRTY"

text \<open>The body of the inner loop of \<open>Npt::new\<close>; \<open>break\<close> leaves the rest of the table as it is.\<close>

fun npt_fill :: "host \<Rightarrow> u64 \<Rightarrow> nat \<Rightarrow> u64 \<Rightarrow> nat \<Rightarrow> nat list \<Rightarrow> heap \<Rightarrow> heap result" where
  "npt_fill H guest_base num_pages pt i [] s = Ok s"
| "npt_fill H guest_base num_pages pt i (j # js) s =
     (let page_idx = i * ENTRY_COUNT + j in
      if num_pages \<le> page_idx then Ok s
      else
        let gpa = page_idx * page_size in
        try_bind (host_physical H (guest_base + of_nat gpa)) (\<lambda>hpa.
        npt_fill H guest_base num_pages pt i js (write_entry s pt j (hpa OR NPT_LEAF))))"

definition npt_new_pt ::
    "host \<Rightarrow> u64 \<Rightarrow> nat \<Rightarrow> u64 \<Rightarrow> nat \<Rightarrow> heap \<times> u64 list \<Rightarrow> (heap \<times> u64 list) result" where
  "npt_new_pt H guest_base num_pages l2 i = (\<lambda>(s, l1s).
     try_bind (alloc_table s) (\<lambda>(pt, s).
     try_bind (npt_fill H guest_base num_pages pt i [0..<ENTRY_COUNT] s) (\<lambda>s.
     try_bind (host_physical H pt) (\<lambda>hpa.
     Ok (write_entry s l2 i (hpa OR NPT_TABLE), l1s @ [pt])))))"

definition npt_new :: "host \<Rightarrow> u64 \<Rightarrow> u64 \<Rightarrow> heap \<Rightarrow> (nested_tables \<times> heap) result" where
  "npt_new H guest_base sz s =
     try_bind (assert_msg (unat guest_base mod page_size = 0) ''guest base must be page-aligned'') (\<lambda>_.
     try_bind (assert_msg (unat sz mod page_size = 0)
       ''guest size must be a multiple of the page size'') (\<lambda>_.
     let num_pages = unat sz div page_size;
         num_pts = (num_pages + (ENTRY_COUNT - 1)) div ENTRY_COUNT in
     try_bind (assert_msg (num_pts \<le> ENTRY_COUNT) ''guest larger than 1 GiB is not supported'') (\<lambda>_.
     try_bind (alloc_table s) (\<lambda>(l4, s).
     try_bind (alloc_table s) (\<lambda>(l3, s).
     try_bind (alloc_table s) (\<lambda>(l2, s).
     try_bind (host_physical H l3) (\<lambda>l3_hpa.
     let s = write_entry s l4 0 (l3_hpa OR NPT_TABLE) in
     try_bind (host_physical H l2) (\<lambda>l2_hpa.
     let s = write_entry s l3 0 (l2_hpa OR NPT_TABLE) in
     try_bind (try_fold (npt_new_pt H guest_base num_pages l2) [0..<num_pts] (s, [])) (\<lambda>(s, l1s).
     Ok (\<lparr>pml4 = l4, pdpt = l3, pd = l2, pts = l1s, extra = []\<rparr>, s))))))))))"

definition npt_child_or_alloc ::
    "host \<Rightarrow> nested_tables \<Rightarrow> u64 \<Rightarrow> nat \<Rightarrow> heap \<Rightarrow> (u64 \<times> nested_tables \<times> heap) result" where
  "npt_child_or_alloc H t parent idx s =
     (let entry = cells s parent ! idx in
      if entry AND NPT_PRESENT \<noteq> 0 then
        (let child_hpa = entry AND ADDR_MASK in
         case find (\<lambda>(hpa, table). hpa = child_hpa) (extra t) of
           Some (hpa, table) \<Rightarrow> Ok (table, t, s)
         | None \<Rightarrow> Err AllocationFailed)
      else
        try_bind (alloc_table s) (\<lambda>(ptr, s).
        try_bind (host_physical H ptr) (\<lambda>hpa.
        let s = write_entry s parent idx (hpa OR NPT_TABLE) in
        Ok (ptr, t\<lparr>extra := extra t @ [(hpa, ptr)]\<rparr>, s))))"

definition npt_map_page ::
    "host \<Rightarrow> nested_tables \<Rightarrow> u64 \<Rightarrow> u64 \<Rightarrow> heap \<Rightarrow> (nested_tables \<times> heap) result" where
  "npt_map_page H t gpa hpa s =
     try_bind (assert_msg (drop_bit 39 gpa AND 0x1ff = 0)
       ''guest-physical address must be below 512 GiB'') (\<lambda>_.
     try_bind (assert_msg (drop_bit 30 gpa AND 0x1ff \<noteq> 0)
       ''map_page is for addresses outside the first 1 GiB'') (\<lambda>_.
     let i3 = unat (drop_bit 30 gpa AND 0x1ff) in
     try_bind (npt_child_or_alloc H t (pdpt t) i3 s) (\<lambda>(d, t, s).
     let i2 = unat (drop_bit 21 gpa AND 0x1ff) in
     try_bind (npt_child_or_alloc H t d i2 s) (\<lambda>(p, t, s).
     let i1 = unat (drop_bit 12 gpa AND 0x1ff) in
     Ok (t, write_entry s p i1 (hpa OR NPT_LEAF))))))"

definition npt_ncr3 :: "host \<Rightarrow> nested_tables \<Rightarrow> u64 result" where
  "npt_ncr3 H t = host_physical H (pml4 t)"

definition npt_pointer :: "host \<Rightarrow> nested_tables \<Rightarrow> u64 result" where
  "npt_pointer H t = npt_ncr3 H t"

definition npt_map_mmio ::
    "host \<Rightarrow> nested_tables \<Rightarrow> u64 \<Rightarrow> u64 \<Rightarrow> heap \<Rightarrow> (nested_tables \<times> heap) result" where
  "npt_map_mmio H t gpa hpa s = npt_map_page H t gpa hpa s"

subsection \<open>The common algorithm with the NPT flags\<close>

lemma NPT_flags: "NPT_TABLE = 0x7" "NPT_LEAF = 0x67" "NPT_PRESENT = 1"
  by (simp_all add: NPT_TABLE_def NPT_LEAF_def NPT_PRESENT_def NPT_WRITE_def NPT_USER_def
      NPT_ACCESSED_def NPT_DIRTY_def push_bit_eq_mult)

lemma NPT_entry_flags: "entry_flags NPT_TABLE" "entry_flags NPT_LEAF"
  by (simp_all add: NPT_flags entry_flags_def ADDR_MASK_def)

lemma npt_fill_eq: "npt_fill H g np pt i js s = radix_fill NPT_LEAF H g np pt i js s"
  by (induction js arbitrary: s) (auto simp: Let_def intro!: try_bind_cong)

lemma npt_new_pt_eq: "npt_new_pt H g np l2 = radix_new_pt NPT_TABLE NPT_LEAF H g np l2"
  by (simp add: npt_new_pt_def radix_new_pt_def npt_fill_eq fun_eq_iff)

lemma npt_child_eq: "npt_child_or_alloc = radix_child NPT_TABLE"
  by (intro ext) (simp add: npt_child_or_alloc_def radix_child_def Let_def NPT_flags)

lemma npt_new_eq:
  "npt_new H guest_base sz s =
     (if unat guest_base mod page_size \<noteq> 0 then Panic ''guest base must be page-aligned''
      else if unat sz mod page_size \<noteq> 0 then Panic ''guest size must be a multiple of the page size''
      else if 2 ^ 30 < unat sz then Panic ''guest larger than 1 GiB is not supported''
      else radix_new NPT_TABLE NPT_LEAF H guest_base (unat sz div page_size) s)"
  using num_pts_le_iff [of sz]
  by (simp add: npt_new_def radix_new_def npt_new_pt_eq Let_def assert_msg_def not_less)

lemma npt_map_page_eq:
  "npt_map_page H t gpa hpa s =
     (if table_index 4 gpa \<noteq> 0 then Panic ''guest-physical address must be below 512 GiB''
      else if table_index 3 gpa = 0 then Panic ''map_page is for addresses outside the first 1 GiB''
      else radix_map_page NPT_TABLE NPT_LEAF H t gpa hpa s)"
  by (simp add: npt_map_page_def radix_map_page_def npt_child_eq table_index_def Let_def
      assert_msg_def unat_eq_0)

interpretation npt_paging: nested_paging npt_new npt_map_mmio npt_pointer "radix_inv NPT_TABLE" NPT_LEAF
proof
  fix H s and guest_base sz :: u64
  assume a: "heap_ok H s" "guest_ram_ok H guest_base sz" "num_tables sz \<le> length (pool s)"
  have eq: "npt_new H guest_base sz s =
      radix_new NPT_TABLE NPT_LEAF H guest_base (unat sz div page_size) s"
    using a(2) by (auto simp: npt_new_eq guest_ram_ok_def)
  from radix_new_law [OF a NPT_entry_flags] show "\<exists>t s' root. npt_new H guest_base sz s = Ok (t, s') \<and>
      radix_inv NPT_TABLE H t s' \<and> npt_pointer H t = Ok root \<and>
      length (pool s) = length (pool s') + num_tables sz \<and>
      leaf_entry H s' root = ram_entry NPT_LEAF H guest_base sz"
    using radix_inv_root by (fastforce simp: eq npt_pointer_def npt_ncr3_def page_frame_def)
next
  fix H t s and root gpa hpa :: u64
  assume a: "radix_inv NPT_TABLE H t s" "npt_pointer H t = Ok root" "2 ^ 30 \<le> gpa" "gpa < 2 ^ 39"
    "2 \<le> length (pool s)"
  have root: "root AND ADDR_MASK = pa H (pml4 t)"
    using a(2) radix_inv_root [OF a(1)] by (simp add: npt_pointer_def npt_ncr3_def page_frame_def)
  have "gpa < 2 ^ 48" using a(4) by (simp add: word_less_nat_alt)
  then have "table_index 4 gpa = 0" "table_index 3 gpa \<noteq> 0"
    using a(3,4) page_index_less [of gpa] by (auto simp: word_less_nat_alt word_le_nat_alt)
  with radix_map_law [OF a(1,3,4,5) NPT_entry_flags(2), of hpa] root a(2)
  show "\<exists>t' s'. npt_map_mmio H t gpa hpa s = Ok (t', s') \<and> radix_inv NPT_TABLE H t' s' \<and>
      npt_pointer H t' = Ok root \<and> length (pool s) \<le> length (pool s') + 2 \<and>
      leaf_entry H s' root = (\<lambda>a. if unat a div page_size = unat gpa div page_size
        then Some (hpa OR NPT_LEAF) else leaf_entry H s root a)"
    by (auto simp: npt_map_mmio_def npt_map_page_eq npt_pointer_def npt_ncr3_def)
qed (rule NPT_entry_flags(2), rule radix_page_law)

subsection \<open>Properties\<close>

text \<open>
  C12: Building the nested page tables. For a page-aligned buffer of at most 1 GiB whose pages the host
  can resolve, and with enough memory for the tables, \<open>Npt::new\<close> succeeds, and the walk that the
  processor makes from the nested CR3 takes each guest-physical address below \<open>size\<close> to the host page
  that backs it, at the same offset, with a present, writable, user, accessed and dirty entry; no
  other address is mapped.
\<close>

theorem npt_new_maps_ram:
  assumes "heap_ok H s" and "guest_ram_ok H guest_base sz" and "num_tables sz \<le> length (pool s)"
  shows "\<exists>t s' root. npt_new H guest_base sz s = Ok (t, s') \<and> npt_pointer H t = Ok root \<and>
    (\<forall>gpa. leaf_entry H s' root gpa =
       (if gpa < sz then Some (page_pa H guest_base (unat gpa div page_size) OR NPT_LEAF) else None)) \<and>
    (\<forall>gpa. translate H s' root gpa =
       (if gpa < sz then Some (page_pa H guest_base (unat gpa div page_size) OR (gpa AND 0xfff))
        else None))"
proof -
  from npt_paging.new_law [OF assms] obtain t s' root where "npt_new H guest_base sz s = Ok (t, s')"
    "npt_pointer H t = Ok root" and e: "leaf_entry H s' root = ram_entry NPT_LEAF H guest_base sz" by blast
  moreover have "translate H s' root gpa = ram_translation H guest_base sz gpa" for gpa
    using npt_paging.translate_ram [OF assms(2)] e by simp
  ultimately show ?thesis by (auto simp: ram_entry_def ram_translation_def)
qed

theorem npt_new_maps_ram_witness:
  "\<exists>t s' root. npt_new sample_host 0x200000 0x2000 sample_heap = Ok (t, s') \<and>
     npt_pointer sample_host t = Ok root \<and> translate sample_host s' root 0x1234 = Some 0x201234 \<and>
     leaf_entry sample_host s' root 0x1234 = Some 0x201067 \<and>
     translate sample_host s' root 0x2000 = None"
proof -
  have "num_tables 0x2000 \<le> length (pool sample_heap)" by (simp add: sample_num_tables)
  from npt_new_maps_ram [OF sample_heap_ok sample_ram_ok this] obtain t s' root where
    r: "npt_new sample_host 0x200000 0x2000 sample_heap = Ok (t, s')" "npt_pointer sample_host t = Ok root"
    and m: "\<And>gpa. leaf_entry sample_host s' root gpa = (if gpa < 0x2000
        then Some (page_pa sample_host 0x200000 (unat gpa div page_size) OR NPT_LEAF) else None)"
      "\<And>gpa. translate sample_host s' root gpa = (if gpa < 0x2000
        then Some (page_pa sample_host 0x200000 (unat gpa div page_size) OR (gpa AND 0xfff)) else None)"
    by blast
  show ?thesis
    by (intro exI [of _ t] exI [of _ s'] exI [of _ root] conjI r)
      (simp_all add: m page_size_def page_pa_def pa_def sample_host_physical NPT_flags)
qed

text \<open>
  Mapping an MMIO page. On tables that satisfy the invariant, \<open>map_mmio\<close> of an address between
  1 GiB and 512 GiB succeeds with two free table pages, keeps the root and the invariant, gives the
  page containing \<open>gpa\<close> the entry for \<open>hpa\<close>, and leaves the entry of every other page as it was.
\<close>

lemma npt_map_mmio_maps:
  assumes "radix_inv NPT_TABLE H t s" and "npt_pointer H t = Ok root"
    and "2 ^ 30 \<le> gpa" and "gpa < 2 ^ 39" and "2 \<le> length (pool s)"
  shows "\<exists>t' s'. npt_map_mmio H t gpa hpa s = Ok (t', s') \<and> radix_inv NPT_TABLE H t' s' \<and>
    npt_pointer H t' = Ok root \<and>
    (\<forall>a. leaf_entry H s' root a =
       (if unat a div page_size = unat gpa div page_size then Some (hpa OR NPT_LEAF)
        else leaf_entry H s root a))"
  using npt_paging.map_mmio_law [OF assms, of hpa] by fastforce

text \<open>
  C32: The panics of the nested page tables. Where resolving an address does not panic itself, the
  constructor panics exactly on a base or size that is not page-aligned or a size above 1 GiB, and
  mapping a page panics exactly on an address below 1 GiB or from 512 GiB on (for addresses of at
  most 48 bits).
\<close>

theorem npt_panics_iff:
  assumes "\<forall>a. no_panic (host_physical H a)"
  shows "(no_panic (npt_new H guest_base sz s) \<longleftrightarrow>
      unat guest_base mod page_size = 0 \<and> unat sz mod page_size = 0 \<and> unat sz \<le> 2 ^ 30) \<and>
    (gpa < 2 ^ 48 \<longrightarrow>
      (no_panic (npt_map_page H t gpa hpa s') \<longleftrightarrow> 2 ^ 30 \<le> gpa \<and> gpa < 2 ^ 39))"
proof -
  have "no_panic (npt_map_page H t gpa hpa s') \<longleftrightarrow> 2 ^ 30 \<le> gpa \<and> gpa < 2 ^ 39" if "gpa < 2 ^ 48"
    using page_index_less [OF that] no_panic_radix_map_page assms
    by (auto simp: npt_map_page_eq word_less_nat_alt word_le_nat_alt not_less)
  then show ?thesis
    using no_panic_radix_new assms by (auto simp: npt_new_eq not_less)
qed

theorem npt_panics_iff_witness:
  "\<not> no_panic (npt_new sample_host 0x200000 0x40001000 sample_heap) \<and>
   no_panic (npt_new sample_host 0x200000 0x40000000 sample_heap) \<and>
   \<not> no_panic (npt_map_page sample_host \<lparr>pml4 = 0, pdpt = 0, pd = 0, pts = [], extra = []\<rparr> 0x3ffff000 0 sample_heap)"
  using npt_panics_iff [of sample_host "0x200000" "0x40001000" sample_heap "0x3ffff000"
      "\<lparr>pml4 = 0, pdpt = 0, pd = 0, pts = [], extra = []\<rparr>" 0 sample_heap]
    npt_panics_iff [of sample_host "0x200000" "0x40000000" sample_heap "0x3ffff000"
      "\<lparr>pml4 = 0, pdpt = 0, pd = 0, pts = [], extra = []\<rparr>" 0 sample_heap]
  by (simp add: sample_host_no_panic page_size_def)

end
