(* ===== verification/Ept.thy ===== *)
theory Ept
  imports Radix_Tables
begin

text \<open>
  The extended page tables of the VT-x backend (\<^verbatim>\<open>vmx/ept.rs\<close>): the constructor, the mapping of a
  single page for MMIO, and the EPT pointer with its memory type and walk length. As for the nested
  page tables, the definitions follow the source and are then shown to be the common algorithm,
  here with the EPT permissions and memory type.
\<close>

subsection \<open>Definitions\<close>

definition EPT_READ :: u64 where "EPT_READ = push_bit 0 1"
definition EPT_WRITE :: u64 where "EPT_WRITE = push_bit 1 1"
definition EPT_EXECUTE :: u64 where "EPT_EXECUTE = push_bit 2 1"
definition EPT_MEMORY_TYPE_WB :: u64 where "EPT_MEMORY_TYPE_WB = push_bit 3 6"
definition EPT_WALK_LENGTH_4 :: u64 where "EPT_WALK_LENGTH_4 = push_bit 3 3"
definition EPT_POINTER_MEMORY_TYPE_WB :: u64 where "EPT_POINTER_MEMORY_TYPE_WB = 6"

fun ept_fill :: "host \<Rightarrow> u64 \<Rightarrow> nat \<Rightarrow> u64 \<Rightarrow> nat \<Rightarrow> nat list \<Rightarrow> heap \<Rightarrow> heap result" where
  "ept_fill H guest_base num_pages pt i [] s = Ok s"
| "ept_fill H guest_base num_pages pt i (j # js) s =
     (let page_idx = i * ENTRY_COUNT + j in
      if num_pages \<le> page_idx then Ok s
      else
        let gpa = page_idx * page_size in
        try_bind (host_physical H (guest_base + of_nat gpa)) (\<lambda>hpa.
        ept_fill H guest_base num_pages pt i js
          (write_entry s pt j (hpa OR EPT_READ OR EPT_WRITE OR EPT_EXECUTE OR EPT_MEMORY_TYPE_WB))))"

definition ept_new_pt ::
    "host \<Rightarrow> u64 \<Rightarrow> nat \<Rightarrow> u64 \<Rightarrow> nat \<Rightarrow> heap \<times> u64 list \<Rightarrow> (heap \<times> u64 list) result" where
  "ept_new_pt H guest_base num_pages l2 i = (\<lambda>(s, l1s).
     try_bind (alloc_table s) (\<lambda>(pt, s).
     try_bind (ept_fill H guest_base num_pages pt i [0..<ENTRY_COUNT] s) (\<lambda>s.
     try_bind (host_physical H pt) (\<lambda>hpa.
     Ok (write_entry s l2 i (hpa OR EPT_READ OR EPT_WRITE OR EPT_EXECUTE), l1s @ [pt])))))"

definition ept_new :: "host \<Rightarrow> u64 \<Rightarrow> u64 \<Rightarrow> heap \<Rightarrow> (nested_tables \<times> heap) result" where
  "ept_new H guest_base sz s =
     try_bind (assert_msg (unat guest_base mod page_size = 0) ''guest base must be page-aligned'') (\<lambda>_.
     try_bind (assert_msg (unat sz mod page_size = 0)
       ''guest size must be a multiple of the page size'') (\<lambda>_.
     let num_pages = unat sz div page_size;
         num_pts = (num_pages + (ENTRY_COUNT - 1)) div ENTRY_COUNT in
     try_bind (assert_msg (num_pts \<le> ENTRY_COUNT) ''guest larger than 1 GiB is not supported'') (\<lambda>_.
     try_bind (alloc_table s) (\<lambda>(l4, s).
     try_bind (alloc_table s) (\<lambda>(l3, s).
     try_bind (alloc_table s) (\<lambda>(l2, s).
     try_bind (host_physical H l3) (\<lambda>l3_hpa.
     let s = write_entry s l4 0 (l3_hpa OR EPT_READ OR EPT_WRITE OR EPT_EXECUTE) in
     try_bind (host_physical H l2) (\<lambda>l2_hpa.
     let s = write_entry s l3 0 (l2_hpa OR EPT_READ OR EPT_WRITE OR EPT_EXECUTE) in
     try_bind (try_fold (ept_new_pt H guest_base num_pages l2) [0..<num_pts] (s, [])) (\<lambda>(s, l1s).
     Ok (\<lparr>pml4 = l4, pdpt = l3, pd = l2, pts = l1s, extra = []\<rparr>, s))))))))))"

definition ept_child_or_alloc ::
    "host \<Rightarrow> nested_tables \<Rightarrow> u64 \<Rightarrow> nat \<Rightarrow> heap \<Rightarrow> (u64 \<times> nested_tables \<times> heap) result" where
  "ept_child_or_alloc H t parent idx s =
     (let entry = cells s parent ! idx in
      if entry AND EPT_READ \<noteq> 0 then
        (let child_hpa = entry AND 0x000FFFFFFFFFF000 in
         case find (\<lambda>(hpa, table). hpa = child_hpa) (extra t) of
           Some (hpa, table) \<Rightarrow> Ok (table, t, s)
         | None \<Rightarrow> Err AllocationFailed)
      else
        try_bind (alloc_table s) (\<lambda>(ptr, s).
        try_bind (host_physical H ptr) (\<lambda>hpa.
        let s = write_entry s parent idx (hpa OR EPT_READ OR EPT_WRITE OR EPT_EXECUTE) in
        Ok (ptr, t\<lparr>extra := extra t @ [(hpa, ptr)]\<rparr>, s))))"

definition ept_map_page ::
    "host \<Rightarrow> nested_tables \<Rightarrow> u64 \<Rightarrow> u64 \<Rightarrow> heap \<Rightarrow> (nested_tables \<times> heap) result" where
  "ept_map_page H t gpa hpa s =
     try_bind (assert_msg (drop_bit 39 gpa AND 0x1ff = 0)
       ''guest-physical address must be below 512 GiB'') (\<lambda>_.
     try_bind (assert_msg (drop_bit 30 gpa AND 0x1ff \<noteq> 0)
       ''map_page is for addresses outside the first 1 GiB'') (\<lambda>_.
     let i3 = unat (drop_bit 30 gpa AND 0x1ff) in
     try_bind (ept_child_or_alloc H t (pdpt t) i3 s) (\<lambda>(d, t, s).
     let i2 = unat (drop_bit 21 gpa AND 0x1ff) in
     try_bind (ept_child_or_alloc H t d i2 s) (\<lambda>(p, t, s).
     let i1 = unat (drop_bit 12 gpa AND 0x1ff) in
     Ok (t, write_entry s p i1
       (hpa OR EPT_READ OR EPT_WRITE OR EPT_EXECUTE OR EPT_MEMORY_TYPE_WB))))))"

definition ept_eptp :: "host \<Rightarrow> nested_tables \<Rightarrow> u64 result" where
  "ept_eptp H t =
     try_bind (host_physical H (pml4 t)) (\<lambda>root.
     Ok (root OR EPT_WALK_LENGTH_4 OR EPT_POINTER_MEMORY_TYPE_WB))"

definition ept_pointer :: "host \<Rightarrow> nested_tables \<Rightarrow> u64 result" where
  "ept_pointer H t = ept_eptp H t"

definition ept_map_mmio ::
    "host \<Rightarrow> nested_tables \<Rightarrow> u64 \<Rightarrow> u64 \<Rightarrow> heap \<Rightarrow> (nested_tables \<times> heap) result" where
  "ept_map_mmio H t gpa hpa s = ept_map_page H t gpa hpa s"

subsection \<open>The common algorithm with the EPT flags\<close>

lemma EPT_flags:
  "hpa OR EPT_READ OR EPT_WRITE OR EPT_EXECUTE = hpa OR 0x7"
  "hpa OR EPT_READ OR EPT_WRITE OR EPT_EXECUTE OR EPT_MEMORY_TYPE_WB = hpa OR 0x37"
  "hpa OR EPT_WALK_LENGTH_4 OR EPT_POINTER_MEMORY_TYPE_WB = hpa OR 0x1e"
  by (simp_all add: EPT_READ_def EPT_WRITE_def EPT_EXECUTE_def EPT_MEMORY_TYPE_WB_def
      EPT_WALK_LENGTH_4_def EPT_POINTER_MEMORY_TYPE_WB_def push_bit_eq_mult or.assoc)

lemma EPT_READ_1: "EPT_READ = 1"
  by (simp add: EPT_READ_def)

lemma EPT_entry_flags: "entry_flags 0x7" "entry_flags 0x37"
  by (simp_all add: entry_flags_def ADDR_MASK_def)

lemma ept_fill_eq: "ept_fill H g np pt i js s = radix_fill 0x37 H g np pt i js s"
  by (induction js arbitrary: s) (auto simp: Let_def EPT_flags intro!: try_bind_cong)

lemma ept_new_pt_eq: "ept_new_pt H g np l2 = radix_new_pt 0x7 0x37 H g np l2"
  by (simp add: ept_new_pt_def radix_new_pt_def ept_fill_eq EPT_flags fun_eq_iff)

lemma ept_child_eq: "ept_child_or_alloc = radix_child 0x7"
  unfolding ept_child_or_alloc_def EPT_flags
  by (intro ext) (simp add: radix_child_def Let_def ADDR_MASK_def EPT_READ_1)

lemma ept_new_eq:
  "ept_new H guest_base sz s =
     (if unat guest_base mod page_size \<noteq> 0 then Panic ''guest base must be page-aligned''
      else if unat sz mod page_size \<noteq> 0 then Panic ''guest size must be a multiple of the page size''
      else if 2 ^ 30 < unat sz then Panic ''guest larger than 1 GiB is not supported''
      else radix_new 0x7 0x37 H guest_base (unat sz div page_size) s)"
  using num_pts_le_iff [of sz]
  by (simp add: ept_new_def radix_new_def ept_new_pt_eq EPT_flags Let_def assert_msg_def not_less)

lemma ept_map_page_eq:
  "ept_map_page H t gpa hpa s =
     (if table_index 4 gpa \<noteq> 0 then Panic ''guest-physical address must be below 512 GiB''
      else if table_index 3 gpa = 0 then Panic ''map_page is for addresses outside the first 1 GiB''
      else radix_map_page 0x7 0x37 H t gpa hpa s)"
  by (simp add: ept_map_page_def radix_map_page_def ept_child_eq table_index_def Let_def
      assert_msg_def unat_eq_0 EPT_flags)

text \<open>The pointer is the root with the flags below the address field.\<close>

lemma ept_pointer_root:
  assumes "radix_inv 0x7 H t s"
  shows "ept_pointer H t = Ok (pa H (pml4 t) OR 0x1e)"
    and "(pa H (pml4 t) OR 0x1e) AND ADDR_MASK = pa H (pml4 t)"
proof -
  note r = radix_inv_root [OF assms]
  have "(0x1e :: u64) AND ADDR_MASK = 0" by (simp add: ADDR_MASK_def)
  with r show "ept_pointer H t = Ok (pa H (pml4 t) OR 0x1e)"
    "(pa H (pml4 t) OR 0x1e) AND ADDR_MASK = pa H (pml4 t)"
    by (simp_all add: ept_pointer_def ept_eptp_def EPT_flags frame_flags)
qed

interpretation ept_paging: nested_paging ept_new ept_map_mmio ept_pointer "radix_inv 0x7" "0x37"
proof
  fix H s and guest_base sz :: u64
  assume a: "heap_ok H s" "guest_ram_ok H guest_base sz" "num_tables sz \<le> length (pool s)"
  have eq: "ept_new H guest_base sz s = radix_new 0x7 0x37 H guest_base (unat sz div page_size) s"
    using a(2) by (auto simp: ept_new_eq guest_ram_ok_def)
  from radix_new_law [OF a EPT_entry_flags] show "\<exists>t s' root. ept_new H guest_base sz s = Ok (t, s') \<and>
      radix_inv 0x7 H t s' \<and> ept_pointer H t = Ok root \<and>
      length (pool s) = length (pool s') + num_tables sz \<and>
      leaf_entry H s' root = ram_entry 0x37 H guest_base sz"
    using ept_pointer_root by (fastforce simp: eq)
next
  fix H t s and root gpa hpa :: u64
  assume a: "radix_inv 0x7 H t s" "ept_pointer H t = Ok root" "2 ^ 30 \<le> gpa" "gpa < 2 ^ 39"
    "2 \<le> length (pool s)"
  have root: "root AND ADDR_MASK = pa H (pml4 t)" using a(2) ept_pointer_root [OF a(1)] by simp
  have "gpa < 2 ^ 48" using a(4) by (simp add: word_less_nat_alt)
  then have "table_index 4 gpa = 0" "table_index 3 gpa \<noteq> 0"
    using a(3,4) page_index_less [of gpa] by (auto simp: word_less_nat_alt word_le_nat_alt)
  with radix_map_law [OF a(1,3,4,5) EPT_entry_flags(2), of hpa] root a(2)
  show "\<exists>t' s'. ept_map_mmio H t gpa hpa s = Ok (t', s') \<and> radix_inv 0x7 H t' s' \<and>
      ept_pointer H t' = Ok root \<and> length (pool s) \<le> length (pool s') + 2 \<and>
      leaf_entry H s' root = (\<lambda>a. if unat a div page_size = unat gpa div page_size
        then Some (hpa OR 0x37) else leaf_entry H s root a)"
    by (auto simp: ept_map_mmio_def ept_map_page_eq ept_pointer_def ept_eptp_def)
qed (rule EPT_entry_flags(2), rule radix_page_law)

subsection \<open>Properties\<close>

text \<open>
  C13: Building the extended page tables. For a page-aligned buffer of at most 1 GiB whose pages the
  host can resolve, and with enough memory for the tables, \<open>Ept::new\<close> succeeds. The EPT pointer
  asks for a four-level walk with write-back structures, and from it every guest-physical address
  below \<open>size\<close> leads to the host page that backs it through a readable, writable, executable
  write-back entry; no other address is mapped.
\<close>

theorem ept_new_maps_ram:
  assumes "heap_ok H s" and "guest_ram_ok H guest_base sz" and "num_tables sz \<le> length (pool s)"
  shows "\<exists>t s' root. ept_new H guest_base sz s = Ok (t, s') \<and> ept_pointer H t = Ok root \<and>
    root AND 0xfff = 0x1e \<and>
    (\<forall>gpa. leaf_entry H s' root gpa =
       (if gpa < sz then Some (page_pa H guest_base (unat gpa div page_size) OR 0x37) else None)) \<and>
    (\<forall>gpa. translate H s' root gpa =
       (if gpa < sz then Some (page_pa H guest_base (unat gpa div page_size) OR (gpa AND 0xfff))
        else None))"
proof -
  from ept_paging.new_law [OF assms] obtain t s' root where r: "ept_new H guest_base sz s = Ok (t, s')"
    "radix_inv 0x7 H t s'" "ept_pointer H t = Ok root"
    and e: "leaf_entry H s' root = ram_entry 0x37 H guest_base sz" by blast
  have "root = pa H (pml4 t) OR 0x1e" using r(3) ept_pointer_root(1) [OF r(2)] by simp
  then have "root AND 0xfff = 0x1e"
    using radix_inv_root(2) [OF r(2)] by (simp add: page_frame_low bit.conj_disj_distrib2)
  moreover have "translate H s' root gpa = ram_translation H guest_base sz gpa" for gpa
    using ept_paging.translate_ram [OF assms(2)] e by simp
  ultimately show ?thesis using r e by (auto simp: ram_entry_def ram_translation_def)
qed

theorem ept_new_maps_ram_witness:
  "\<exists>t s' root. ept_new sample_host 0x200000 0x2000 sample_heap = Ok (t, s') \<and>
     ept_pointer sample_host t = Ok root \<and> root AND 0xfff = 0x1e \<and>
     translate sample_host s' root 0x1234 = Some 0x201234 \<and>
     leaf_entry sample_host s' root 0x1234 = Some 0x201037 \<and>
     translate sample_host s' root 0x2000 = None"
proof -
  have "num_tables 0x2000 \<le> length (pool sample_heap)" by (simp add: sample_num_tables)
  from ept_new_maps_ram [OF sample_heap_ok sample_ram_ok this] obtain t s' root where
    r: "ept_new sample_host 0x200000 0x2000 sample_heap = Ok (t, s')" "ept_pointer sample_host t = Ok root"
      "root AND 0xfff = 0x1e"
    and m: "\<And>gpa. leaf_entry sample_host s' root gpa = (if gpa < 0x2000
        then Some (page_pa sample_host 0x200000 (unat gpa div page_size) OR 0x37) else None)"
      "\<And>gpa. translate sample_host s' root gpa = (if gpa < 0x2000
        then Some (page_pa sample_host 0x200000 (unat gpa div page_size) OR (gpa AND 0xfff)) else None)"
    by blast
  show ?thesis
    by (intro exI [of _ t] exI [of _ s'] exI [of _ root] conjI r)
      (simp_all add: m page_size_def page_pa_def pa_def sample_host_physical)
qed

text \<open>
  Mapping an MMIO page in the extended page tables, between 1 GiB and 512 GiB: with two free table
  pages the call succeeds, keeps the EPT pointer and the invariant, gives the page containing \<open>gpa\<close>
  the write-back entry for \<open>hpa\<close>, and leaves the entry of every other page as it was. Outside that
  range the call panics (for addresses of at most 48 bits).
\<close>

lemma ept_map_mmio_maps:
  assumes "radix_inv 0x7 H t s" and "ept_pointer H t = Ok root" and "gpa < 2 ^ 48"
    and "2 \<le> length (pool s)"
  shows "(2 ^ 30 \<le> gpa \<and> gpa < 2 ^ 39 \<longrightarrow>
      (\<exists>t' s'. ept_map_mmio H t gpa hpa s = Ok (t', s') \<and> radix_inv 0x7 H t' s' \<and>
         ept_pointer H t' = Ok root \<and>
         (\<forall>a. leaf_entry H s' root a =
            (if unat a div page_size = unat gpa div page_size then Some (hpa OR 0x37)
             else leaf_entry H s root a)))) \<and>
    (\<not> (2 ^ 30 \<le> gpa \<and> gpa < 2 ^ 39) \<longrightarrow> (\<exists>m. ept_map_mmio H t gpa hpa s = Panic m))"
proof (cases "2 ^ 30 \<le> gpa \<and> gpa < 2 ^ 39")
  case True
  with ept_paging.map_mmio_law [OF assms(1,2) _ _ assms(4), of gpa hpa] show ?thesis by fastforce
next
  case False
  then show ?thesis
    using page_index_less [OF assms(3)]
    by (auto simp: ept_map_mmio_def ept_map_page_eq word_less_nat_alt word_le_nat_alt)
qed

end
