(* ===== verification/Guest_Boot.thy ===== *)
theory Guest_Boot
  imports Byte_Memory Hypervisor_Core
begin

text \<open>
  The start of a guest (\<^verbatim>\<open>rhyve-x86/src/lib.rs\<close>): the constants of the boot protocol, the boot GDT
  and page tables that are written into guest memory before the first entry, and the detection of the
  virtualization extension. The page tables are checked against a walk of the architecture: with
  \<open>CR3\<close> at the boot PML4 the first gibibyte is mapped one to one.
\<close>

subsection \<open>Constants\<close>

definition EFER_SCE :: u64 where "EFER_SCE = 1"
definition EFER_LME :: u64 where "EFER_LME = push_bit 8 1"
definition EFER_LMA :: u64 where "EFER_LMA = push_bit 10 1"
definition EFER_NXE :: u64 where "EFER_NXE = push_bit 11 1"

definition GDT_KERNEL_CODE :: u16 where "GDT_KERNEL_CODE = 1"
definition GDT_KERNEL_DATA :: u16 where "GDT_KERNEL_DATA = 2"
definition GDT_OFFSET :: u64 where "GDT_OFFSET = 0x1000"
definition BOOT_PML4 :: u64 where "BOOT_PML4 = 0x10000"
definition BOOT_INFO_OFFSET :: u64 where "BOOT_INFO_OFFSET = 0x9000"
definition BOOT_GDT_MAX :: nat where "BOOT_GDT_MAX = 3"
definition BOOT_PDPTE :: u64 where "BOOT_PDPTE = BOOT_PML4 + 0x1000"
definition BOOT_PDE :: u64 where "BOOT_PDE = BOOT_PML4 + 0x2000"

definition PG_PRESENT :: u64 where "PG_PRESENT = push_bit 0 1"
definition PG_RW :: u64 where "PG_RW = push_bit 1 1"
definition PG_HUGE :: u64 where "PG_HUGE = push_bit 7 1"

lemmas boot_consts = GDT_OFFSET_def BOOT_PML4_def BOOT_PDPTE_def BOOT_PDE_def BOOT_INFO_OFFSET_def
  BOOT_GDT_MAX_def PG_PRESENT_def PG_RW_def PG_HUGE_def push_bit_eq_mult

subsection \<open>The extension of the processor\<close>

datatype HypervisorExtension = Vmx | Svm

text \<open>
  What the raw-cpuid crate reports: the vendor string, the VMX bit of leaf 1 and the SVM bit of leaf
  8000\_0001h, each absent where the leaf is.
\<close>

record cpu_id_report =
  vendor_info :: "string option"
  feature_has_vmx :: "bool option"
  extended_has_svm :: "bool option"

definition check_supported_cpu :: "cpu_id_report \<Rightarrow> HypervisorExtension result" where
  "check_supported_cpu cpuid =
     (case vendor_info cpuid of
        Some vf \<Rightarrow>
          if vf = ''GenuineIntel'' \<and> feature_has_vmx cpuid = Some True then Ok Vmx
          else if vf = ''AuthenticAMD'' \<and> extended_has_svm cpuid = Some True then Ok Svm
          else Err VmUnsupported
      | None \<Rightarrow> Err VmUnsupported)"

subsection \<open>Boot memory\<close>

text \<open>The closure \<open>write_entry\<close>: a 64-bit store at a guest-physical offset.\<close>

definition boot_write :: "u64 \<Rightarrow> u64 \<Rightarrow> bytes \<Rightarrow> bytes" where
  "boot_write off val m = write_le 8 (unat off) val m"

definition init_guest_memory :: "bytes \<Rightarrow> bytes" where
  "init_guest_memory m0 =
     (let m = boot_write GDT_OFFSET 0 m0;
          m = boot_write (GDT_OFFSET + 8) 0x00AF9B000000FFFF m;
          m = boot_write (GDT_OFFSET + 16) 0x00CF93000000FFFF m;
          m = fold (\<lambda>i m. boot_write (BOOT_PDPTE + of_nat i * 8) 0
                (boot_write (BOOT_PML4 + of_nat i * 8) 0 m)) [0..<512] m;
          m = boot_write BOOT_PML4 (BOOT_PDPTE OR PG_PRESENT OR PG_RW) m;
          m = boot_write BOOT_PDPTE (BOOT_PDE OR PG_PRESENT OR PG_RW) m
      in fold (\<lambda>i m. boot_write (BOOT_PDE + of_nat i * 8)
           (push_bit 21 (of_nat i) OR PG_PRESENT OR PG_RW OR PG_HUGE) m) [0..<512] m)"

text \<open>
  The architecture's walk for the entries used here: four levels from \<open>cr3\<close>, of which a directory
  entry with the huge bit maps 2 MiB. An absent entry has no translation.
\<close>

definition boot_entry :: "bytes \<Rightarrow> u64 \<Rightarrow> u64 \<Rightarrow> u64" where
  "boot_entry m table idx = read_le 8 m (unat (table AND 0x000FFFFFFFFFF000) + 8 * unat idx)"

definition boot_translate :: "bytes \<Rightarrow> u64 \<Rightarrow> u64 \<Rightarrow> u64 option" where
  "boot_translate m cr3 va =
     (let e4 = boot_entry m cr3 (drop_bit 39 va AND 0x1ff) in
      if \<not> bit e4 0 then None else
      let e3 = boot_entry m e4 (drop_bit 30 va AND 0x1ff) in
      if \<not> bit e3 0 \<or> bit e3 7 then None else
      let e2 = boot_entry m e3 (drop_bit 21 va AND 0x1ff) in
      if \<not> bit e2 0 \<or> \<not> bit e2 7 then None
      else Some ((e2 AND 0x000FFFFFFFE00000) OR (va AND 0x1FFFFF)))"

subsection \<open>The boot tables\<close>

lemma unat_entry_address:
  "n < 512 \<Longrightarrow> b \<le> 0x100000 \<Longrightarrow> unat (of_nat b + of_nat n * 8 :: u64) = b + 8 * n"
proof -
  assume "n < 512" "b \<le> 0x100000"
  then have "unat (of_nat (b + 8 * n) :: u64) = b + 8 * n" by (subst unat_of_nat) simp
  then show ?thesis by (simp add: mult.commute)
qed

lemma init_guest_memory_eq:
  "init_guest_memory m =
     fill_table 0x12000 (\<lambda>i. push_bit 21 (of_nat i) OR 0x83) 512
       (write_le 8 0x11000 (0x12003 :: u64) (write_le 8 0x10000 (0x11003 :: u64)
         (fill_table 0x11000 (\<lambda>_. 0) 512 (fill_table 0x10000 (\<lambda>_. 0) 512
           (write_le 8 0x1010 (0x00CF93000000FFFF :: u64)
             (write_le 8 0x1008 (0x00AF9B000000FFFF :: u64) (write_le 8 0x1000 (0 :: u64) m)))))))"
proof -
  have a: "unat (BOOT_PML4 + of_nat i * 8) = 0x10000 + 8 * i" "unat (BOOT_PDPTE + of_nat i * 8) = 0x11000 + 8 * i"
    "unat (BOOT_PDE + of_nat i * 8) = 0x12000 + 8 * i" if "i < 512" for i
    using unat_entry_address [OF that, of "0x10000"] unat_entry_address [OF that, of "0x11000"]
      unat_entry_address [OF that, of "0x12000"] by (simp_all add: boot_consts)
  have zero: "fold (\<lambda>i m. boot_write (BOOT_PDPTE + of_nat i * 8) 0
      (boot_write (BOOT_PML4 + of_nat i * 8) 0 m)) [0..<512] x =
    fill_table 0x11000 (\<lambda>_. 0) 512 (fill_table 0x10000 (\<lambda>_. 0) 512 x)" for x
    by (subst fold_two_tables [symmetric]) (auto intro!: fold_cong simp: boot_write_def a)
  have pde: "fold (\<lambda>i m. boot_write (BOOT_PDE + of_nat i * 8)
      (push_bit 21 (of_nat i) OR PG_PRESENT OR PG_RW OR PG_HUGE) m) [0..<512] x =
    fill_table 0x12000 (\<lambda>i. push_bit 21 (of_nat i) OR 0x83) 512 x" for x
    unfolding fill_table_def
    by (intro fold_cong) (auto simp: boot_write_def a PG_PRESENT_def PG_RW_def PG_HUGE_def or.assoc push_bit_eq_mult)
  show ?thesis
    unfolding init_guest_memory_def Let_def zero pde
    by (simp add: boot_write_def boot_consts)
qed

lemma boot_entries:
  assumes "k < 512"
  shows "read_le 8 (init_guest_memory m) (0x10000 + 8 * k) = (if k = 0 then 0x11003 else 0 :: u64)"
    and "read_le 8 (init_guest_memory m) (0x11000 + 8 * k) = (if k = 0 then 0x12003 else 0 :: u64)"
    and "read_le 8 (init_guest_memory m) (0x12000 + 8 * k) = (push_bit 21 (of_nat k) OR 0x83 :: u64)"
  using assms
  by (auto simp: init_guest_memory_eq read_fill_table_outside read_fill_table)

lemma boot_gdt:
  "read_le 8 (init_guest_memory m) 0x1000 = (0 :: u64)"
  "read_le 8 (init_guest_memory m) 0x1008 = (0x00AF9B000000FFFF :: u64)"
  "read_le 8 (init_guest_memory m) 0x1010 = (0x00CF93000000FFFF :: u64)"
  by (simp_all add: init_guest_memory_eq read_fill_table_outside)

lemma init_guest_memory_outside:
  "a < 0x1000 \<or> 0x1018 \<le> a \<and> a < 0x10000 \<or> 0x13000 \<le> a \<Longrightarrow> init_guest_memory m a = m a"
  by (auto simp: init_guest_memory_eq fill_table_outside)

lemma unat_index: "unat (drop_bit n x AND 0x1ff) = unat x div 2 ^ n mod 512" for x :: u64
proof -
  have "drop_bit n x AND 0x1ff = take_bit 9 (drop_bit n x)"
    by (simp add: take_bit_eq_mask mask_eq_exp_minus_1)
  then show ?thesis
    by (simp add: unsigned_take_bit_eq unat_drop_bit_eq drop_bit_eq_div [where 'a = nat]
        take_bit_eq_mod [where 'a = nat])
qed

lemma index_less: "unat (x AND 0x1ff) < 512" for x :: u64
  using unat_index [of 0 x] by simp

lemma boot_entry_table:
  "boot_entry (init_guest_memory m) 0x10000 (x AND 0x1ff) = (if x AND 0x1ff = 0 then 0x11003 else 0)"
  "boot_entry (init_guest_memory m) 0x11003 (x AND 0x1ff) = (if x AND 0x1ff = 0 then 0x12003 else 0)"
  "boot_entry (init_guest_memory m) 0x12003 (x AND 0x1ff) = push_bit 21 (x AND 0x1ff) OR 0x83"
  using boot_entries [OF index_less [of x]] by (simp_all add: boot_entry_def unat_eq_0)

lemma first_gib_iff:
  fixes va :: u64
  assumes "va < 2 ^ 48"
  shows "drop_bit 39 va AND 0x1ff = 0 \<and> drop_bit 30 va AND 0x1ff = 0 \<longleftrightarrow> va < 2 ^ 30"
proof -
  have "unat va < 2 ^ 48" using assms by (simp add: word_less_nat_alt)
  then have "unat va div 2 ^ 39 < 512" by (simp add: div_less_iff_less_mult)
  then have 4: "drop_bit 39 va AND 0x1ff = 0 \<longleftrightarrow> unat va < 2 ^ 39"
    using unat_index [of 39 va] by (simp add: unat_eq_0 [symmetric] div_eq_0_iff)
  have 3: "drop_bit 30 va AND 0x1ff = 0 \<longleftrightarrow> unat va < 2 ^ 30" if "unat va < 2 ^ 39"
  proof -
    have "unat va div 2 ^ 30 < 512" using that by (simp add: div_less_iff_less_mult)
    then show ?thesis using unat_index [of 30 va] by (simp add: unat_eq_0 [symmetric] div_eq_0_iff)
  qed
  from 3 4 show ?thesis by (auto simp: word_less_nat_alt)
qed

lemma huge_page_address:
  fixes va :: u64
  assumes "va < 2 ^ 30"
  shows "((push_bit 21 (drop_bit 21 va AND 0x1ff) OR 0x83) AND 0x000FFFFFFFE00000) OR (va AND 0x1FFFFF) = va"
proof -
  have m: "(0x1ff :: u64) = mask 9" "(0x1FFFFF :: u64) = mask 21" "(0x000FFFFFFFE00000 :: u64) = push_bit 21 (mask 31)"
    by (simp_all add: mask_eq_exp_minus_1 push_bit_eq_mult)
  have z: "(0x83 :: u64) AND 0x000FFFFFFFE00000 = 0" by simp
  have "(push_bit 21 (drop_bit 21 va AND mask 9) AND push_bit 21 (mask 31)) OR (va AND mask 21) = va"
  proof (rule bit_word_eqI)
    fix n
    have "bit va n \<Longrightarrow> n < 30" using not_bit_of_less_exp [OF assms, of n] by linarith
    then show "bit ((push_bit 21 (drop_bit 21 va AND mask 9) AND push_bit 21 (mask 31)) OR (va AND mask 21)) n \<longleftrightarrow>
        bit va n" by (auto simp: bit_simps)
  qed
  then show ?thesis using z by (simp add: bit.conj_disj_distrib2 m)
qed

subsection \<open>Properties\<close>

text \<open>
  C27: The boot page tables. With \<open>CR3\<close> at \<open>BOOT_PML4\<close>, the tables that \<open>init_guest_memory\<close> writes
  map every address of the first gibibyte to itself and no other canonical low address; the GDT at
  \<open>GDT_OFFSET\<close> holds the null, code and data descriptors; and no byte outside these structures, in
  particular none at \<open>BOOT_INFO_OFFSET\<close>, is changed.
\<close>

theorem boot_identity_map:
  "(va < 2 ^ 48 \<longrightarrow>
     boot_translate (init_guest_memory m) BOOT_PML4 va = (if va < 2 ^ 30 then Some va else None)) \<and>
   map (\<lambda>i. read_le 8 (init_guest_memory m) (unat GDT_OFFSET + 8 * i)) [0..<BOOT_GDT_MAX] =
     [0 :: u64, 0x00AF9B000000FFFF, 0x00CF93000000FFFF] \<and>
   (a < 0x1000 \<or> 0x1018 \<le> a \<and> a < 0x10000 \<or> 0x13000 \<le> a \<longrightarrow> init_guest_memory m a = m a)"
proof (intro conjI impI)
  assume va: "va < 2 ^ 48"
  have bits: "bit (0x11003 :: u64) 0" "bit (0x12003 :: u64) 0" "\<not> bit (0x12003 :: u64) 7"
    "bit (x OR 0x83 :: u64) 0" "bit (x OR 0x83 :: u64) 7" for x by (simp_all add: bit_or_iff)
  show "boot_translate (init_guest_memory m) BOOT_PML4 va = (if va < 2 ^ 30 then Some va else None)"
    using first_gib_iff [OF va] huge_page_address [of va]
    by (auto simp: boot_translate_def BOOT_PML4_def boot_entry_table bits Let_def)
next
  show "map (\<lambda>i. read_le 8 (init_guest_memory m) (unat GDT_OFFSET + 8 * i)) [0..<BOOT_GDT_MAX] =
     [0 :: u64, 0x00AF9B000000FFFF, 0x00CF93000000FFFF]"
    by (simp add: GDT_OFFSET_def BOOT_GDT_MAX_def upt_rec boot_gdt)
next
  assume "a < 0x1000 \<or> 0x1018 \<le> a \<and> a < 0x10000 \<or> 0x13000 \<le> a"
  then show "init_guest_memory m a = m a" by (rule init_guest_memory_outside)
qed

theorem boot_identity_map_witness:
  "boot_translate (init_guest_memory (\<lambda>_. 0)) BOOT_PML4 0x3fedcba9 = Some 0x3fedcba9 \<and>
   boot_translate (init_guest_memory (\<lambda>_. 0)) BOOT_PML4 0x40000000 = None \<and>
   init_guest_memory (\<lambda>_. 7) 0x9000 = 7"
  using boot_identity_map [of "0x3fedcba9" "\<lambda>_. 0" 0] boot_identity_map [of "0x40000000" "\<lambda>_. 0" 0]
    boot_identity_map [of 0 "\<lambda>_. 7" "0x9000"] by simp

text \<open>
  Detecting the extension. VT-x is chosen exactly for an Intel processor that reports VMX, AMD-V
  exactly for an AMD processor that reports SVM, and in every other case, a missing vendor string or
  feature leaf included, the result is \<open>VmUnsupported\<close>; the function does not panic.
\<close>

lemma check_supported_cpu_cases:
  "(check_supported_cpu c = Ok Vmx \<longleftrightarrow>
      vendor_info c = Some ''GenuineIntel'' \<and> feature_has_vmx c = Some True) \<and>
   (check_supported_cpu c = Ok Svm \<longleftrightarrow>
      vendor_info c = Some ''AuthenticAMD'' \<and> extended_has_svm c = Some True) \<and>
   (check_supported_cpu c = Ok Vmx \<or> check_supported_cpu c = Ok Svm \<or>
      check_supported_cpu c = Err VmUnsupported)"
  by (auto simp: check_supported_cpu_def split: option.split)

end
