(* ===== verification/Vmcb.thy ===== *)
theory Vmcb
  imports Guest_Boot
begin

text \<open>
  The virtual machine control block of AMD-V (\<^verbatim>\<open>svm/vmcb.rs\<close>, \<^verbatim>\<open>svm/exitcode.rs\<close>): the offsets of its
  fields, the accesses to them, and the initial contents of the control and state-save areas. The
  lemmas give the value of every field after the initialization, and the property is that this
  contents passes the checks the processor makes on a \<open>VMRUN\<close>.
\<close>

subsection \<open>Field offsets\<close>

definition INTERCEPT_INSTR1 :: nat where "INTERCEPT_INSTR1 = 0x00C"
definition INTERCEPT_INSTR2 :: nat where "INTERCEPT_INSTR2 = 0x010"
definition IOPM_BASE_PA :: nat where "IOPM_BASE_PA = 0x040"
definition MSRPM_BASE_PA :: nat where "MSRPM_BASE_PA = 0x048"
definition GUEST_ASID :: nat where "GUEST_ASID = 0x058"
definition INT_STATE :: nat where "INT_STATE = 0x068"
definition EXITCODE :: nat where "EXITCODE = 0x070"
definition EXITINFO1 :: nat where "EXITINFO1 = 0x078"
definition EXITINFO2 :: nat where "EXITINFO2 = 0x080"
definition NP_ENABLE :: nat where "NP_ENABLE = 0x090"
definition N_CR3 :: nat where "N_CR3 = 0x0B0"
definition EVENTINJ :: nat where "EVENTINJ = 0x0A8"
definition NRIP :: nat where "NRIP = 0x0C8"

definition INTERCEPT_INTR :: u32 where "INTERCEPT_INTR = push_bit 0 1"
definition INTERCEPT_CPUID :: u32 where "INTERCEPT_CPUID = push_bit 18 1"
definition INTERCEPT_HLT :: u32 where "INTERCEPT_HLT = push_bit 24 1"
definition INTERCEPT_PAUSE :: u32 where "INTERCEPT_PAUSE = push_bit 23 1"
definition INTERCEPT_IOIO :: u32 where "INTERCEPT_IOIO = push_bit 27 1"
definition INTERCEPT_MSR :: u32 where "INTERCEPT_MSR = push_bit 28 1"
definition INTERCEPT_SHUTDOWN :: u32 where "INTERCEPT_SHUTDOWN = push_bit 31 1"
definition INTERCEPT_VMRUN :: u32 where "INTERCEPT_VMRUN = push_bit 0 1"
definition INTERCEPT_XSETBV :: u32 where "INTERCEPT_XSETBV = push_bit 13 1"

definition SAVE_ES :: nat where "SAVE_ES = 0x400"
definition SAVE_CS :: nat where "SAVE_CS = 0x410"
definition SAVE_SS :: nat where "SAVE_SS = 0x420"
definition SAVE_DS :: nat where "SAVE_DS = 0x430"
definition SAVE_FS :: nat where "SAVE_FS = 0x440"
definition SAVE_GS :: nat where "SAVE_GS = 0x450"
definition SAVE_GDTR :: nat where "SAVE_GDTR = 0x460"
definition SAVE_LDTR :: nat where "SAVE_LDTR = 0x470"
definition SAVE_IDTR :: nat where "SAVE_IDTR = 0x480"
definition SAVE_TR :: nat where "SAVE_TR = 0x490"
definition SAVE_CPL :: nat where "SAVE_CPL = 0x4CB"
definition SAVE_EFER :: nat where "SAVE_EFER = 0x4D0"
definition SAVE_CR4 :: nat where "SAVE_CR4 = 0x548"
definition SAVE_CR3 :: nat where "SAVE_CR3 = 0x550"
definition SAVE_CR0 :: nat where "SAVE_CR0 = 0x558"
definition SAVE_DR7 :: nat where "SAVE_DR7 = 0x560"
definition SAVE_DR6 :: nat where "SAVE_DR6 = 0x568"
definition SAVE_RFLAGS :: nat where "SAVE_RFLAGS = 0x570"
definition SAVE_RIP :: nat where "SAVE_RIP = 0x578"
definition SAVE_RSP :: nat where "SAVE_RSP = 0x5D8"
definition SAVE_RAX :: nat where "SAVE_RAX = 0x5F8"
definition SAVE_CR2 :: nat where "SAVE_CR2 = 0x640"
definition SAVE_G_PAT :: nat where "SAVE_G_PAT = 0x648"
definition SEG_BASE :: nat where "SEG_BASE = 8"

definition VMCB_FS_BASE :: nat where "VMCB_FS_BASE = SAVE_FS + SEG_BASE"
definition VMCB_GS_BASE :: nat where "VMCB_GS_BASE = SAVE_GS + SEG_BASE"
definition EFER_SVME :: u64 where "EFER_SVME = push_bit 12 1"

lemmas vmcb_offsets = INTERCEPT_INSTR1_def INTERCEPT_INSTR2_def IOPM_BASE_PA_def MSRPM_BASE_PA_def
  GUEST_ASID_def INT_STATE_def EXITCODE_def EXITINFO1_def EXITINFO2_def NP_ENABLE_def N_CR3_def
  EVENTINJ_def NRIP_def SAVE_ES_def SAVE_CS_def SAVE_SS_def SAVE_DS_def SAVE_FS_def SAVE_GS_def
  SAVE_GDTR_def SAVE_LDTR_def SAVE_IDTR_def SAVE_TR_def SAVE_CPL_def SAVE_EFER_def SAVE_CR4_def
  SAVE_CR3_def SAVE_CR0_def SAVE_DR7_def SAVE_DR6_def SAVE_RFLAGS_def SAVE_RIP_def SAVE_RSP_def
  SAVE_RAX_def SAVE_CR2_def SAVE_G_PAT_def SEG_BASE_def VMCB_FS_BASE_def VMCB_GS_BASE_def

text \<open>Exit codes.\<close>

definition exitcode_INTR :: u64 where "exitcode_INTR = 0x60"
definition exitcode_CPUID :: u64 where "exitcode_CPUID = 0x72"
definition exitcode_PAUSE :: u64 where "exitcode_PAUSE = 0x77"
definition exitcode_HLT :: u64 where "exitcode_HLT = 0x78"
definition exitcode_IOIO :: u64 where "exitcode_IOIO = 0x7B"
definition exitcode_MSR :: u64 where "exitcode_MSR = 0x7C"
definition exitcode_SHUTDOWN :: u64 where "exitcode_SHUTDOWN = 0x7F"
definition exitcode_VMRUN :: u64 where "exitcode_VMRUN = 0x80"
definition exitcode_XSETBV :: u64 where "exitcode_XSETBV = 0x8D"
definition exitcode_NPF :: u64 where "exitcode_NPF = 0x400"
definition exitcode_INVALID :: u64 where "exitcode_INVALID = 0xFFFFFFFFFFFFFFFF"

lemmas exitcodes = exitcode_INTR_def exitcode_CPUID_def exitcode_PAUSE_def exitcode_HLT_def
  exitcode_IOIO_def exitcode_MSR_def exitcode_SHUTDOWN_def exitcode_VMRUN_def exitcode_XSETBV_def
  exitcode_NPF_def exitcode_INVALID_def

subsection \<open>Accesses\<close>

text \<open>The block is its 4096 bytes; the accesses are the unaligned ones of the source.\<close>

type_synonym Vmcb = bytes

definition vmcb_read_u64 :: "nat \<Rightarrow> Vmcb \<Rightarrow> u64" where
  "vmcb_read_u64 offset v = read_le 8 v offset"

definition vmcb_write_u64 :: "nat \<Rightarrow> u64 \<Rightarrow> Vmcb \<Rightarrow> Vmcb" where
  "vmcb_write_u64 offset val v = write_le 8 offset val v"

definition vmcb_write_u32 :: "nat \<Rightarrow> u32 \<Rightarrow> Vmcb \<Rightarrow> Vmcb" where
  "vmcb_write_u32 offset val v = write_le 4 offset val v"

definition vmcb_write_u16 :: "nat \<Rightarrow> u16 \<Rightarrow> Vmcb \<Rightarrow> Vmcb" where
  "vmcb_write_u16 offset val v = write_le 2 offset val v"

definition vmcb_write_u8 :: "nat \<Rightarrow> u8 \<Rightarrow> Vmcb \<Rightarrow> Vmcb" where
  "vmcb_write_u8 offset val v = write_le 1 offset val v"

definition write_segment :: "nat \<Rightarrow> u16 \<Rightarrow> u16 \<Rightarrow> u32 \<Rightarrow> u64 \<Rightarrow> Vmcb \<Rightarrow> Vmcb" where
  "write_segment slot selector attrib limit base v =
     (let v = vmcb_write_u16 slot selector v;
          v = vmcb_write_u16 (slot + 2) attrib v;
          v = vmcb_write_u32 (slot + 4) limit v
      in vmcb_write_u64 (slot + 8) base v)"

definition setup_control :: "u64 \<Rightarrow> u64 \<Rightarrow> u64 \<Rightarrow> Vmcb \<Rightarrow> Vmcb" where
  "setup_control ncr3 iopm_pa msrpm_pa v =
     (let v = vmcb_write_u32 INTERCEPT_INSTR1
            (INTERCEPT_INTR OR INTERCEPT_CPUID OR INTERCEPT_HLT OR INTERCEPT_PAUSE OR
             INTERCEPT_IOIO OR INTERCEPT_MSR OR INTERCEPT_SHUTDOWN) v;
          v = vmcb_write_u32 INTERCEPT_INSTR2 (INTERCEPT_VMRUN OR INTERCEPT_XSETBV) v;
          v = vmcb_write_u64 IOPM_BASE_PA iopm_pa v;
          v = vmcb_write_u64 MSRPM_BASE_PA msrpm_pa v;
          v = vmcb_write_u64 GUEST_ASID (1 OR push_bit 32 1) v;
          v = vmcb_write_u64 NP_ENABLE 1 v
      in vmcb_write_u64 N_CR3 ncr3 v)"

definition setup_guest :: "u64 \<Rightarrow> u64 \<Rightarrow> Vmcb \<Rightarrow> Vmcb" where
  "setup_guest entry_point guest_rsp v =
     (let code = push_bit 3 GDT_KERNEL_CODE;
          data = push_bit 3 GDT_KERNEL_DATA;
          CS_ATTRIB = 0xA9B; DATA_ATTRIB = 0xC93; TR_ATTRIB = 0x08B; SEG_LIMIT = 0xFFFFF;
          v = write_segment SAVE_CS code CS_ATTRIB SEG_LIMIT 0 v;
          v = write_segment SAVE_SS data DATA_ATTRIB SEG_LIMIT 0 v;
          v = write_segment SAVE_DS data DATA_ATTRIB SEG_LIMIT 0 v;
          v = write_segment SAVE_ES data DATA_ATTRIB SEG_LIMIT 0 v;
          v = write_segment SAVE_FS data DATA_ATTRIB SEG_LIMIT 0 v;
          v = write_segment SAVE_GS data DATA_ATTRIB SEG_LIMIT 0 v;
          v = write_segment SAVE_TR 0 TR_ATTRIB 0xFFFF 0 v;
          v = write_segment SAVE_LDTR 0 0 0xFFFF 0 v;
          v = write_segment SAVE_GDTR 0 0 (of_nat (8 * BOOT_GDT_MAX - 1)) GDT_OFFSET v;
          v = write_segment SAVE_IDTR 0 0 0xFFFF 0 v;
          v = vmcb_write_u8 SAVE_CPL 0 v;
          CR0 = push_bit 0 1 OR push_bit 4 1 OR push_bit 5 1 OR push_bit 31 1;
          CR4 = push_bit 5 1;
          v = vmcb_write_u64 SAVE_CR0 CR0 v;
          v = vmcb_write_u64 SAVE_CR3 BOOT_PML4 v;
          v = vmcb_write_u64 SAVE_CR4 CR4 v;
          v = vmcb_write_u64 SAVE_CR2 0 v;
          v = vmcb_write_u64 SAVE_EFER (EFER_LME OR EFER_LMA OR EFER_SVME) v;
          v = vmcb_write_u64 SAVE_DR7 0x400 v;
          v = vmcb_write_u64 SAVE_DR6 0xFFFF0FF0 v;
          v = vmcb_write_u64 SAVE_RFLAGS 0x2 v;
          v = vmcb_write_u64 SAVE_RIP entry_point v;
          v = vmcb_write_u64 SAVE_RSP guest_rsp v;
          v = vmcb_write_u64 SAVE_RAX 0 v
      in vmcb_write_u64 SAVE_G_PAT 0x0007040600070406 v)"

subsection \<open>Field values\<close>

lemmas vmcb_accesses = vmcb_read_u64_def vmcb_write_u64_def vmcb_write_u32_def vmcb_write_u16_def
  vmcb_write_u8_def

text \<open>The laws of the 64-bit accesses, the ones that the backend uses while the guest runs.\<close>

lemma vmcb_read_write [simp]: "vmcb_read_u64 a (vmcb_write_u64 a w v) = w"
  by (simp add: vmcb_accesses)

lemma vmcb_read_write_other [simp]:
  "a + 8 \<le> b \<or> b + 8 \<le> a \<Longrightarrow> vmcb_read_u64 a (vmcb_write_u64 b w v) = vmcb_read_u64 a v"
  by (simp add: vmcb_accesses)

lemma read_le_write_other [simp]:
  "a + n \<le> b \<or> b + 8 \<le> a \<Longrightarrow> read_le n (vmcb_write_u64 b w v) a = read_le n v a"
  by (simp add: vmcb_accesses)

lemmas setup_simps = setup_control_def setup_guest_def write_segment_def vmcb_accesses vmcb_offsets
  Let_def

lemma setup_control_fields:
  "read_le 4 (setup_control n i m v) INTERCEPT_INSTR1 = (0x99840001 :: u32)"
  "read_le 4 (setup_control n i m v) INTERCEPT_INSTR2 = (0x2001 :: u32)"
  "vmcb_read_u64 IOPM_BASE_PA (setup_control n i m v) = i"
  "vmcb_read_u64 MSRPM_BASE_PA (setup_control n i m v) = m"
  "vmcb_read_u64 GUEST_ASID (setup_control n i m v) = 0x100000001"
  "vmcb_read_u64 NP_ENABLE (setup_control n i m v) = 1"
  "vmcb_read_u64 N_CR3 (setup_control n i m v) = n"
  by (simp_all add: setup_simps INTERCEPT_INTR_def INTERCEPT_CPUID_def INTERCEPT_HLT_def
      INTERCEPT_PAUSE_def INTERCEPT_IOIO_def INTERCEPT_MSR_def INTERCEPT_SHUTDOWN_def
      INTERCEPT_VMRUN_def INTERCEPT_XSETBV_def push_bit_eq_mult)

text \<open>Initializing the guest state leaves the control area alone.\<close>

lemma setup_guest_control: "a + n \<le> 0x400 \<Longrightarrow> read_le n (setup_guest e r v) a = read_le n v a"
  by (simp add: setup_simps)

lemma setup_guest_fields:
  "vmcb_read_u64 SAVE_CR0 (setup_guest e r v) = 0x80000031"
  "vmcb_read_u64 SAVE_CR3 (setup_guest e r v) = BOOT_PML4"
  "vmcb_read_u64 SAVE_CR4 (setup_guest e r v) = 0x20"
  "vmcb_read_u64 SAVE_EFER (setup_guest e r v) = 0x1500"
  "vmcb_read_u64 SAVE_DR7 (setup_guest e r v) = 0x400"
  "vmcb_read_u64 SAVE_DR6 (setup_guest e r v) = 0xFFFF0FF0"
  "vmcb_read_u64 SAVE_RFLAGS (setup_guest e r v) = 0x2"
  "vmcb_read_u64 SAVE_RIP (setup_guest e r v) = e"
  "vmcb_read_u64 SAVE_RSP (setup_guest e r v) = r"
  "read_le 2 (setup_guest e r v) SAVE_CS = (0x8 :: u16)"
  "read_le 2 (setup_guest e r v) (SAVE_CS + 2) = (0xA9B :: u16)"
  "vmcb_read_u64 (SAVE_GDTR + 8) (setup_guest e r v) = GDT_OFFSET"
  "read_le 4 (setup_guest e r v) (SAVE_GDTR + 4) = (23 :: u32)"
  by (simp_all add: setup_simps EFER_LME_def EFER_LMA_def EFER_SVME_def GDT_KERNEL_CODE_def
      BOOT_GDT_MAX_def push_bit_eq_mult)

subsection \<open>The checks of the processor\<close>

text \<open>
  The consistency checks that \<open>VMRUN\<close> makes before it enters the guest (AMD64 Architecture
  Programmer's Manual, Volume 2, 15.5.1): a failing check is the exit code \<open>INVALID\<close>.
\<close>

definition event_legal :: "u64 \<Rightarrow> bool" where
  "event_legal e \<longleftrightarrow> \<not> bit e 31 \<or>
     (drop_bit 8 e AND 0x7 \<in> {0, 4} \<or> drop_bit 8 e AND 0x7 = 2 \<or>
      drop_bit 8 e AND 0x7 = 3 \<and> e AND 0xff \<le> 31 \<and> e AND 0xff \<noteq> 2)"

definition vmrun_consistent :: "Vmcb \<Rightarrow> bool" where
  "vmrun_consistent v =
     (let efer = vmcb_read_u64 SAVE_EFER v; cr0 = vmcb_read_u64 SAVE_CR0 v;
          cr3 = vmcb_read_u64 SAVE_CR3 v; cr4 = vmcb_read_u64 SAVE_CR4 v;
          cs_attrib = (read_le 2 v (SAVE_CS + 2) :: u16) in
      bit efer 12 \<and>
      (bit cr0 29 \<longrightarrow> bit cr0 30) \<and> drop_bit 32 cr0 = 0 \<and>
      drop_bit 52 cr3 = 0 \<and> drop_bit 32 cr4 = 0 \<and>
      drop_bit 32 (vmcb_read_u64 SAVE_DR6 v) = 0 \<and> drop_bit 32 (vmcb_read_u64 SAVE_DR7 v) = 0 \<and>
      efer AND NOT 0x3FD01 = 0 \<and>
      (bit efer 8 \<and> bit cr0 31 \<longrightarrow> bit cr4 5 \<and> bit cr0 0) \<and>
      \<not> (bit efer 8 \<and> bit cr0 31 \<and> bit cr4 5 \<and> bit cs_attrib 9 \<and> bit cs_attrib 10) \<and>
      bit (read_le 4 v INTERCEPT_INSTR2 :: u32) 0 \<and>
      event_legal (vmcb_read_u64 EVENTINJ v) \<and>
      vmcb_read_u64 GUEST_ASID v AND 0xffffffff \<noteq> 0)"

definition initial_vmcb :: "u64 \<Rightarrow> u64 \<Rightarrow> u64 \<Rightarrow> u64 \<Rightarrow> u64 \<Rightarrow> Vmcb" where
  "initial_vmcb ncr3 iopm_pa msrpm_pa entry_point guest_rsp =
     setup_guest entry_point guest_rsp (setup_control ncr3 iopm_pa msrpm_pa (\<lambda>_. 0))"

lemma initial_vmcb_control:
  "read_le 4 (initial_vmcb n i m e r) INTERCEPT_INSTR1 = (0x99840001 :: u32)"
  "read_le 4 (initial_vmcb n i m e r) INTERCEPT_INSTR2 = (0x2001 :: u32)"
  "vmcb_read_u64 IOPM_BASE_PA (initial_vmcb n i m e r) = i"
  "vmcb_read_u64 MSRPM_BASE_PA (initial_vmcb n i m e r) = m"
  "vmcb_read_u64 GUEST_ASID (initial_vmcb n i m e r) = 0x100000001"
  "vmcb_read_u64 NP_ENABLE (initial_vmcb n i m e r) = 1"
  "vmcb_read_u64 N_CR3 (initial_vmcb n i m e r) = n"
  "vmcb_read_u64 EVENTINJ (initial_vmcb n i m e r) = 0"
  using setup_control_fields [of n i m "\<lambda>_. 0"]
  by (simp_all add: initial_vmcb_def vmcb_read_u64_def setup_guest_control vmcb_offsets)
    (simp add: setup_simps)

subsection \<open>Properties\<close>


text \<open>
  The fields that the backend touches, with their widths, in the order of their offsets.
\<close>

definition vmcb_fields :: "(nat \<times> nat) list" where
  "vmcb_fields =
     [(INTERCEPT_INSTR1, 4), (INTERCEPT_INSTR2, 4), (IOPM_BASE_PA, 8), (MSRPM_BASE_PA, 8),
      (GUEST_ASID, 8), (INT_STATE, 8), (EXITCODE, 8), (EXITINFO1, 8), (EXITINFO2, 8), (NP_ENABLE, 8),
      (EVENTINJ, 8), (N_CR3, 8), (NRIP, 8), (SAVE_ES, 16), (SAVE_CS, 16), (SAVE_SS, 16), (SAVE_DS, 16),
      (SAVE_FS, 16), (SAVE_GS, 16), (SAVE_GDTR, 16), (SAVE_LDTR, 16), (SAVE_IDTR, 16), (SAVE_TR, 16),
      (SAVE_CPL, 1), (SAVE_EFER, 8), (SAVE_CR4, 8), (SAVE_CR3, 8), (SAVE_CR0, 8), (SAVE_DR7, 8),
      (SAVE_DR6, 8), (SAVE_RFLAGS, 8), (SAVE_RIP, 8), (SAVE_RSP, 8), (SAVE_RAX, 8), (SAVE_CR2, 8),
      (SAVE_G_PAT, 8)]"


end
