(* ===== verification/Trampoline.thy ===== *)
theory Trampoline
  imports Vcpu_State Vmcb
begin

text \<open>
  The two assembly routines that enter the guest, \<open>run_svm_vm\<close> (\<^verbatim>\<open>svm/run.rs\<close>) and
  \<open>run_vmx_vm\<close> (\<^verbatim>\<open>vmx/run.rs\<close>), instruction by instruction, on a machine with general-purpose
  registers, a stack and the \<open>GuestRegisters\<close> block that the caller passes by reference. What the
  processor does between a \<open>VMRUN\<close>, \<open>VMLAUNCH\<close> or \<open>VMRESUME\<close> and the next exit is a parameter.
  The theorems say that each routine computes the function of the same name, which the backends
  call, and keeps the caller's registers and stack.
\<close>

subsection \<open>Registers and the register block\<close>

datatype reg = RAX | RBX | RCX | RDX | RDI | RSI | RBP | R8 | R9 | R10 | R11 | R12 | R13 | R14 | R15

type_synonym gprs = "reg \<Rightarrow> u64"

fun reg_field :: "reg \<Rightarrow> GuestRegisters \<Rightarrow> u64" where
  "reg_field RAX = rax" | "reg_field RBX = rbx" | "reg_field RCX = rcx" | "reg_field RDX = rdx"
| "reg_field RDI = rdi" | "reg_field RSI = rsi" | "reg_field RBP = rbp" | "reg_field R8 = r8"
| "reg_field R9 = r9" | "reg_field R10 = r10" | "reg_field R11 = r11" | "reg_field R12 = r12"
| "reg_field R13 = r13" | "reg_field R14 = r14" | "reg_field R15 = r15"

fun set_reg_field :: "reg \<Rightarrow> u64 \<Rightarrow> GuestRegisters \<Rightarrow> GuestRegisters" where
  "set_reg_field RAX w r = r\<lparr>rax := w\<rparr>" | "set_reg_field RBX w r = r\<lparr>rbx := w\<rparr>"
| "set_reg_field RCX w r = r\<lparr>rcx := w\<rparr>" | "set_reg_field RDX w r = r\<lparr>rdx := w\<rparr>"
| "set_reg_field RDI w r = r\<lparr>rdi := w\<rparr>" | "set_reg_field RSI w r = r\<lparr>rsi := w\<rparr>"
| "set_reg_field RBP w r = r\<lparr>rbp := w\<rparr>" | "set_reg_field R8 w r = r\<lparr>r8 := w\<rparr>"
| "set_reg_field R9 w r = r\<lparr>r9 := w\<rparr>" | "set_reg_field R10 w r = r\<lparr>r10 := w\<rparr>"
| "set_reg_field R11 w r = r\<lparr>r11 := w\<rparr>" | "set_reg_field R12 w r = r\<lparr>r12 := w\<rparr>"
| "set_reg_field R13 w r = r\<lparr>r13 := w\<rparr>" | "set_reg_field R14 w r = r\<lparr>r14 := w\<rparr>"
| "set_reg_field R15 w r = r\<lparr>r15 := w\<rparr>"

text \<open>
  The fields of the \<open>repr(C)\<close> struct in their order, eight bytes each: an access at another offset
  than these has no meaning here.
\<close>

definition struct_order :: "reg list" where
  "struct_order = [RAX, RBX, RCX, RDX, RDI, RSI, RBP, R8, R9, R10, R11, R12, R13, R14, R15]"

definition field_at :: "nat \<Rightarrow> reg option" where
  "field_at off =
     (if off mod 8 = 0 \<and> off div 8 < length struct_order then Some (struct_order ! (off div 8))
      else None)"

lemma field_at_simps:
  "field_at 0x00 = Some RAX" "field_at 0x08 = Some RBX" "field_at 0x10 = Some RCX"
  "field_at 0x18 = Some RDX" "field_at 0x20 = Some RDI" "field_at 0x28 = Some RSI"
  "field_at 0x30 = Some RBP" "field_at 0x38 = Some R8" "field_at 0x40 = Some R9"
  "field_at 0x48 = Some R10" "field_at 0x50 = Some R11" "field_at 0x58 = Some R12"
  "field_at 0x60 = Some R13" "field_at 0x68 = Some R14" "field_at 0x70 = Some R15"
  by (simp_all add: field_at_def struct_order_def)

text \<open>The offsets that both routines name with \<open>.set\<close>.\<close>

fun reg_offset :: "reg \<Rightarrow> nat" where
  "reg_offset RAX = 0x00" | "reg_offset RBX = 0x08" | "reg_offset RCX = 0x10" | "reg_offset RDX = 0x18"
| "reg_offset RDI = 0x20" | "reg_offset RSI = 0x28" | "reg_offset RBP = 0x30" | "reg_offset R8 = 0x38"
| "reg_offset R9 = 0x40" | "reg_offset R10 = 0x48" | "reg_offset R11 = 0x50" | "reg_offset R12 = 0x58"
| "reg_offset R13 = 0x60" | "reg_offset R14 = 0x68" | "reg_offset R15 = 0x70"

definition gprs_of :: "GuestRegisters \<Rightarrow> gprs" where
  "gprs_of r = (\<lambda>x. reg_field x r)"

subsection \<open>Common instructions\<close>

text \<open>
  The stack is the list of the 64-bit words pushed so far, the top first, above a base address;
  \<open>[rsp + 8 k]\<close> is its element \<open>k\<close>. A memory operand with a register as its base is an access to the
  block and faults (\<open>None\<close>) unless the register holds the block's address.
\<close>

record machine =
  gpr :: gprs
  stack :: "u64 list"
  stack_base :: u64
  block_ptr :: u64
  block :: GuestRegisters

datatype instr =
    Push reg
  | Pop reg
  | Mov reg reg
  | Load reg reg nat
  | Store reg nat reg
  | LoadStack reg nat
  | XchgStack reg nat
  | AddRsp nat

fun exec_instr :: "instr \<Rightarrow> 'x machine_scheme \<Rightarrow> 'x machine_scheme option" where
  "exec_instr (Push r) m = Some (m\<lparr>stack := gpr m r # stack m\<rparr>)"
| "exec_instr (Pop r) m =
     (case stack m of
        [] \<Rightarrow> None
      | w # ws \<Rightarrow> Some (m\<lparr>gpr := (gpr m)(r := w), stack := ws\<rparr>))"
| "exec_instr (Mov d s) m = Some (m\<lparr>gpr := (gpr m)(d := gpr m s)\<rparr>)"
| "exec_instr (Load d b off) m =
     (if gpr m b = block_ptr m then
        map_option (\<lambda>f. m\<lparr>gpr := (gpr m)(d := reg_field f (block m))\<rparr>) (field_at off)
      else None)"
| "exec_instr (Store b off s) m =
     (if gpr m b = block_ptr m then
        map_option (\<lambda>f. m\<lparr>block := set_reg_field f (gpr m s) (block m)\<rparr>) (field_at off)
      else None)"
| "exec_instr (LoadStack d k) m =
     (if k < length (stack m) then Some (m\<lparr>gpr := (gpr m)(d := stack m ! k)\<rparr>) else None)"
| "exec_instr (XchgStack r k) m =
     (if k < length (stack m) then
        Some (m\<lparr>gpr := (gpr m)(r := stack m ! k), stack := (stack m)[k := gpr m r]\<rparr>)
      else None)"
| "exec_instr (AddRsp k) m =
     (if k \<le> length (stack m) then Some (m\<lparr>stack := drop k (stack m)\<rparr>) else None)"

fun exec :: "instr list \<Rightarrow> 'x machine_scheme \<Rightarrow> 'x machine_scheme option" where
  "exec [] m = Some m"
| "exec (i # is') m = (case exec_instr i m of None \<Rightarrow> None | Some m' \<Rightarrow> exec is' m')"

lemma exec_append: "exec (p @ q) m = (case exec p m of None \<Rightarrow> None | Some m' \<Rightarrow> exec q m')"
  by (induction p arbitrary: m) (auto split: option.split)

lemmas reg_simps = field_at_simps gprs_of_def

text \<open>The value of the stack pointer, and the stack at a given value of it.\<close>

definition rsp_of :: "'x machine_scheme \<Rightarrow> u64" where
  "rsp_of m = stack_base m - 8 * of_nat (length (stack m))"

definition stack_at :: "u64 \<Rightarrow> 'x machine_scheme \<Rightarrow> u64 list option" where
  "stack_at sp m =
     (let n = unat (stack_base m - sp) div 8 in
      if n \<le> length (stack m) then Some (drop (length (stack m) - n) (stack m)) else None)"

lemma stack_at_rsp_of:
  assumes "length (stack m) < 2 ^ 60"
  shows "stack_at (rsp_of m) m = Some (stack m)"
proof -
  have "unat (8 * of_nat (length (stack m)) :: u64) = 8 * length (stack m)"
  proof -
    have "unat (of_nat (8 * length (stack m)) :: u64) = 8 * length (stack m)"
      using assms by (subst unat_of_nat) simp
    then show ?thesis by simp
  qed
  then show ?thesis by (simp add: stack_at_def rsp_of_def Let_def)
qed

subsection \<open>The AMD-V routine\<close>

text \<open>
  The instructions of AMD-V as parameters: \<open>VMSAVE\<close> and \<open>VMLOAD\<close> move the hidden segment state of
  the processor to and from a control block, and \<open>VMRUN\<close> runs the guest on its registers, hidden
  state and floating-point registers until the next exit. RAX of the guest lives in the block.
\<close>

record ('h, 'fp) svm_hw =
  vmsave_hw :: "'h \<Rightarrow> Vmcb \<Rightarrow> Vmcb"
  vmload_hw :: "Vmcb \<Rightarrow> 'h"
  vmrun_hw :: "gprs \<Rightarrow> 'h \<Rightarrow> 'fp \<Rightarrow> Vmcb \<Rightarrow> gprs \<times> 'h \<times> 'fp \<times> Vmcb"

record ('h, 'fp) svm_machine = machine +
  hidden :: 'h
  fp :: 'fp
  vmcbs :: "u64 \<Rightarrow> Vmcb"
  gif :: bool

datatype svm_instr = Common instr | Vmsave | Vmload | Vmrun | Clgi | Stgi

text \<open>
  \<open>VMSAVE\<close>, \<open>VMLOAD\<close> and \<open>VMRUN\<close> address the block by RAX. After \<open>VMRUN\<close> the host's RAX is back and
  the other registers are the guest's. The guest runs with the global interrupt flag cleared by the
  host, or the step is refused.
\<close>

fun exec_svm_instr ::
    "('h, 'fp) svm_hw \<Rightarrow> svm_instr \<Rightarrow> ('h, 'fp) svm_machine \<Rightarrow> ('h, 'fp) svm_machine option" where
  "exec_svm_instr hw (Common i) m = exec_instr i m"
| "exec_svm_instr hw Vmsave m =
     Some (m\<lparr>vmcbs := (vmcbs m)(gpr m RAX := vmsave_hw hw (hidden m) (vmcbs m (gpr m RAX)))\<rparr>)"
| "exec_svm_instr hw Vmload m = Some (m\<lparr>hidden := vmload_hw hw (vmcbs m (gpr m RAX))\<rparr>)"
| "exec_svm_instr hw Vmrun m =
     (if gif m then None else
      let a = gpr m RAX; (g, h, f, v) = vmrun_hw hw (gpr m) (hidden m) (fp m) (vmcbs m a) in
      Some (m\<lparr>gpr := g(RAX := a), hidden := h, fp := f, vmcbs := (vmcbs m)(a := v)\<rparr>))"
| "exec_svm_instr hw Clgi m = Some (m\<lparr>gif := False\<rparr>)"
| "exec_svm_instr hw Stgi m = Some (m\<lparr>gif := True\<rparr>)"

fun exec_svm ::
    "('h, 'fp) svm_hw \<Rightarrow> svm_instr list \<Rightarrow> ('h, 'fp) svm_machine \<Rightarrow> ('h, 'fp) svm_machine option" where
  "exec_svm hw [] m = Some m"
| "exec_svm hw (i # is') m =
     (case exec_svm_instr hw i m of None \<Rightarrow> None | Some m' \<Rightarrow> exec_svm hw is' m')"

definition svm_program :: "svm_instr list" where
  "svm_program =
     map Common [Push RBX, Push RBP, Push R12, Push R13, Push R14, Push R15,
       Push RDI, Push RSI, Push RDX, Mov RAX RDX] @
     [Vmsave] @
     map Common [Load RBX RDI (reg_offset RBX), Load RCX RDI (reg_offset RCX),
       Load RDX RDI (reg_offset RDX), Load RSI RDI (reg_offset RSI), Load RBP RDI (reg_offset RBP),
       Load R8 RDI (reg_offset R8), Load R9 RDI (reg_offset R9), Load R10 RDI (reg_offset R10),
       Load R11 RDI (reg_offset R11), Load R12 RDI (reg_offset R12), Load R13 RDI (reg_offset R13),
       Load R14 RDI (reg_offset R14), Load R15 RDI (reg_offset R15), Load RDI RDI (reg_offset RDI)] @
     [Clgi, Common (LoadStack RAX 1), Vmload, Vmrun, Vmsave, Common (LoadStack RAX 0), Vmload, Stgi] @
     map Common [XchgStack RAX 2,
       Store RAX (reg_offset RBX) RBX, Store RAX (reg_offset RCX) RCX, Store RAX (reg_offset RDX) RDX,
       Store RAX (reg_offset RSI) RSI, Store RAX (reg_offset RDI) RDI, Store RAX (reg_offset RBP) RBP,
       Store RAX (reg_offset R8) R8, Store RAX (reg_offset R9) R9, Store RAX (reg_offset R10) R10,
       Store RAX (reg_offset R11) R11, Store RAX (reg_offset R12) R12, Store RAX (reg_offset R13) R13,
       Store RAX (reg_offset R14) R14, Store RAX (reg_offset R15) R15,
       AddRsp 3, Pop R15, Pop R14, Pop R13, Pop R12, Pop RBP, Pop RBX]"

text \<open>
  The function that the routine computes: the guest runs on the block's registers with the hidden
  state of its control block, its registers but RAX go back into the block, its hidden state into its
  control block, and the host's hidden state passes through the scratch block.
\<close>

definition store_svm_registers :: "gprs \<Rightarrow> GuestRegisters \<Rightarrow> GuestRegisters" where
  "store_svm_registers g r =
     r\<lparr>rbx := g RBX, rcx := g RCX, rdx := g RDX, rsi := g RSI, rdi := g RDI, rbp := g RBP,
       r8 := g R8, r9 := g R9, r10 := g R10, r11 := g R11, r12 := g R12, r13 := g R13,
       r14 := g R14, r15 := g R15\<rparr>"

definition run_svm_vm ::
    "('h, 'fp) svm_hw \<Rightarrow> u64 \<Rightarrow> GuestRegisters \<Rightarrow> Vmcb \<Rightarrow> Vmcb \<Rightarrow> 'h \<Rightarrow> 'fp \<Rightarrow>
       GuestRegisters \<times> Vmcb \<times> Vmcb \<times> 'h \<times> 'fp" where
  "run_svm_vm hw guest_vmcb_pa regs guest_vmcb host_vmcb hid f =
     (let host_vmcb = vmsave_hw hw hid host_vmcb;
          (g, h', f', v') = vmrun_hw hw ((gprs_of regs)(RAX := guest_vmcb_pa))
            (vmload_hw hw guest_vmcb) f guest_vmcb
      in (store_svm_registers g regs, vmsave_hw hw h' v', host_vmcb, vmload_hw hw host_vmcb, f'))"

text \<open>The registers that a function must keep under the System V ABI, besides RSP.\<close>

definition callee_saved :: "reg list" where
  "callee_saved = [RBX, RBP, R12, R13, R14, R15]"

lemma gprs_eq:
  "((((((((((((((((f(RBX := rbx b))(RCX := rcx b))(RDX := rdx b))(RSI := rsi b))(RBP := rbp b))(R8 := r8 b))
      (R9 := r9 b))(R10 := r10 b))(R11 := r11 b))(R12 := r12 b))(R13 := r13 b))(R14 := r14 b))
      (R15 := r15 b))(RDI := rdi b))(RAX := a)) = (gprs_of b)(RAX := a))"
  by (rule ext) (simp add: gprs_of_def split: reg.splits, case_tac x, simp_all)

text \<open>
  C10: The AMD-V entry routine. Called with the block's address, the guest's and another control
  block's physical address in RDI, RSI and RDX, \<open>run_svm_vm\<close> runs to its end without a fault; it
  returns with the caller's stack and callee-saved registers, with interrupts enabled globally, with
  every other control block untouched, and with the register block, the two control blocks, the hidden
  segment state and the floating-point registers as the function \<open>run_svm_vm\<close> says.
\<close>

theorem svm_trampoline_refines:
  assumes "gpr m RDI = block_ptr m" and "gpr m RSI = ga" and "gpr m RDX = ha" and "ga \<noteq> ha"
  shows "\<exists>m'. exec_svm hw svm_program m = Some m' \<and> stack m' = stack m \<and> gif m' \<and>
    (\<forall>r \<in> set callee_saved. gpr m' r = gpr m r) \<and>
    (\<forall>a. a \<noteq> ga \<longrightarrow> a \<noteq> ha \<longrightarrow> vmcbs m' a = vmcbs m a) \<and>
    (block m', vmcbs m' ga, vmcbs m' ha, hidden m', fp m') =
      run_svm_vm hw ga (block m) (vmcbs m ga) (vmcbs m ha) (hidden m) (fp m)"
  using assms
  by (simp add: svm_program_def field_at_simps Let_def split_def gprs_eq callee_saved_def
      run_svm_vm_def store_svm_registers_def)

definition sample_svm_hw :: "(u64, u64) svm_hw" where
  "sample_svm_hw = \<lparr>vmsave_hw = (\<lambda>h v. write_le 8 0x448 h v), vmload_hw = (\<lambda>v. read_le 8 v 0x448),
     vmrun_hw = (\<lambda>g h f v. (\<lambda>r. g r + 1, h + 1, f + 1, vmcb_write_u64 EXITCODE exitcode_HLT v))\<rparr>"

definition sample_svm_machine :: "(u64, u64) svm_machine" where
  "sample_svm_machine = \<lparr>gpr = (\<lambda>_. 7)(RDI := 0x5000, RSI := 0x8000, RDX := 0x9000), stack = [1, 2],
     stack_base = 0x100000, block_ptr = 0x5000, block = default_registers, hidden = 3, fp = 4,
     vmcbs = (\<lambda>_ _. 0), gif = True\<rparr>"

theorem svm_trampoline_refines_witness:
  "\<exists>m'. exec_svm sample_svm_hw svm_program sample_svm_machine = Some m' \<and> stack m' = [1, 2] \<and>
     gpr m' RBX = 7 \<and> rbx (block m') = 1 \<and> hidden m' = 3"
  using svm_trampoline_refines [of sample_svm_machine "0x8000" "0x9000" sample_svm_hw]
  by (auto simp: sample_svm_machine_def sample_svm_hw_def run_svm_vm_def store_svm_registers_def
      callee_saved_def gprs_of_def default_registers_def Let_def)

subsection \<open>The VT-x routine\<close>

text \<open>
  \<open>VMRESUME\<close> and \<open>VMLAUNCH\<close> as a parameter: either the guest runs until a VM-exit, which gives the
  guest's registers and floating-point registers and the fields of the current VMCS, or the entry fails
  with the flags of \<open>VMfail\<close>. The first argument tells a launch from a resume.
\<close>

type_synonym vmcs_data = "u64 \<Rightarrow> u64"

datatype 'fp vm_outcome = VmExited gprs 'fp vmcs_data | VmFailed u64 vmcs_data

type_synonym 'fp vmx_enter = "bool \<Rightarrow> gprs \<Rightarrow> 'fp \<Rightarrow> vmcs_data \<Rightarrow> 'fp vm_outcome"

record 'fp vmx_machine = machine +
  vfp :: 'fp
  vmcs :: vmcs_data
  flags :: u64
  exit_addr :: u64

datatype vmx_instr =
    VCommon instr
  | Pushf
  | Popf
  | MovImm reg u64
  | Vmread reg reg
  | VmwriteRsp reg
  | Vmwrite reg reg
  | LeaExit reg
  | CmpImm reg u64

text \<open>
  \<open>VMREAD\<close> and \<open>VMWRITE\<close> succeed on the current VMCS and clear the arithmetic flags; of the flags
  that \<open>CMP\<close> sets only the zero flag, the one used, is modelled.
\<close>

fun exec_vmx_instr :: "vmx_instr \<Rightarrow> 'fp vmx_machine \<Rightarrow> 'fp vmx_machine option" where
  "exec_vmx_instr (VCommon i) m = exec_instr i m"
| "exec_vmx_instr Pushf m = Some (m\<lparr>stack := flags m # stack m\<rparr>)"
| "exec_vmx_instr Popf m =
     (case stack m of [] \<Rightarrow> None | w # ws \<Rightarrow> Some (m\<lparr>flags := w, stack := ws\<rparr>))"
| "exec_vmx_instr (MovImm r w) m = Some (m\<lparr>gpr := (gpr m)(r := w)\<rparr>)"
| "exec_vmx_instr (Vmread d f) m =
     Some (m\<lparr>gpr := (gpr m)(d := vmcs m (gpr m f)), flags := flags m AND NOT 0x8D5\<rparr>)"
| "exec_vmx_instr (VmwriteRsp f) m =
     Some (m\<lparr>vmcs := (vmcs m)(gpr m f := rsp_of m), flags := flags m AND NOT 0x8D5\<rparr>)"
| "exec_vmx_instr (Vmwrite f r) m =
     Some (m\<lparr>vmcs := (vmcs m)(gpr m f := gpr m r), flags := flags m AND NOT 0x8D5\<rparr>)"
| "exec_vmx_instr (LeaExit r) m = Some (m\<lparr>gpr := (gpr m)(r := exit_addr m)\<rparr>)"
| "exec_vmx_instr (CmpImm r w) m =
     Some (m\<lparr>flags := (if gpr m r = w then flags m OR 0x40 else flags m AND NOT 0x40)\<rparr>)"

fun exec_vmx :: "vmx_instr list \<Rightarrow> 'fp vmx_machine \<Rightarrow> 'fp vmx_machine option" where
  "exec_vmx [] m = Some m"
| "exec_vmx (i # is') m = (case exec_vmx_instr i m of None \<Rightarrow> None | Some m' \<Rightarrow> exec_vmx is' m')"

text \<open>
  The blocks between the labels, each with the instruction that ends it: \<open>Launch\<close>, \<open>VmExit\<close> and
  \<open>Exit\<close> are the labels 2, 3 and 4 of the source.
\<close>

datatype label = Start | ResumeFailed | Report | Launch | VmExit | Exit

datatype terminator = Vmresume label | Vmlaunch label | Jz label label | Jmp label | Ret

fun vmx_code :: "label \<Rightarrow> vmx_instr list \<times> terminator" where
  "vmx_code Start =
     (map VCommon [Push RAX, Push RCX, Push RDX, Push RBX, Push RBP, Push RSI, Push RDI, Push R8,
        Push R9, Push R10, Push R11, Push R12, Push R13, Push R14, Push R15,
        Mov R15 RDI, Push R15,
        Load RAX R15 (reg_offset RAX), Load RBX R15 (reg_offset RBX), Load RCX R15 (reg_offset RCX),
        Load RDX R15 (reg_offset RDX), Load RDI R15 (reg_offset RDI), Load RSI R15 (reg_offset RSI),
        Load RBP R15 (reg_offset RBP), Load R8 R15 (reg_offset R8), Load R9 R15 (reg_offset R9),
        Load R10 R15 (reg_offset R10), Load R11 R15 (reg_offset R11), Load R12 R15 (reg_offset R12),
        Load R13 R15 (reg_offset R13), Load R14 R15 (reg_offset R14), Load R15 R15 (reg_offset R15)],
      Vmresume ResumeFailed)"
| "vmx_code ResumeFailed =
     ([Pushf, MovImm R15 0x4400, Vmread R15 R15, CmpImm R15 5], Jz Launch Report)"
| "vmx_code Report = ([Popf], Jmp Exit)"
| "vmx_code Launch =
     ([VCommon (Pop R15), MovImm R15 0x6C14, VmwriteRsp R15, LeaExit R14, MovImm R15 0x6C16,
       Vmwrite R15 R14, VCommon (LoadStack R15 0), VCommon (Load R14 R15 (reg_offset R14)),
       VCommon (Load R15 R15 (reg_offset R15))],
      Vmlaunch Exit)"
| "vmx_code VmExit =
     (map VCommon [XchgStack R15 0,
        Store R15 (reg_offset RAX) RAX, Store R15 (reg_offset RBX) RBX, Store R15 (reg_offset RCX) RCX,
        Store R15 (reg_offset RDX) RDX, Store R15 (reg_offset RSI) RSI, Store R15 (reg_offset RDI) RDI,
        Store R15 (reg_offset RBP) RBP, Store R15 (reg_offset R8) R8, Store R15 (reg_offset R9) R9,
        Store R15 (reg_offset R10) R10, Store R15 (reg_offset R11) R11, Store R15 (reg_offset R12) R12,
        Store R15 (reg_offset R13) R13, Store R15 (reg_offset R14) R14,
        LoadStack RAX 0, Store R15 (reg_offset R15) RAX],
      Jmp Exit)"
| "vmx_code Exit =
     (map VCommon [Pop RAX, Pop R15, Pop R14, Pop R13, Pop R12, Pop R11, Pop R10, Pop R9, Pop R8,
        Pop RDI, Pop RSI, Pop RBP, Pop RBX, Pop RDX, Pop RCX, Pop RAX] @
      [Pushf, VCommon (Pop RAX)],
      Ret)"

text \<open>
  A VM-exit loads RSP and RIP of the host from the VMCS and sets the flags to 2; control goes to
  \<open>VmExit\<close> if that is where the VMCS points, and an entry that fails goes on with the next block. The
  routine has no loop, so six blocks are enough.
\<close>

fun run_code :: "nat \<Rightarrow> 'fp vmx_enter \<Rightarrow> label \<Rightarrow> 'fp vmx_machine \<Rightarrow> 'fp vmx_machine option" where
  "run_code 0 hw l m = None"
| "run_code (Suc n) hw l m =
     (case exec_vmx (fst (vmx_code l)) m of
        None \<Rightarrow> None
      | Some m \<Rightarrow>
          (let enter = (\<lambda>launch l'. case hw launch (gpr m) (vfp m) (vmcs m) of
                 VmExited g f v \<Rightarrow>
                   if v 0x6C16 = exit_addr m then
                     (case stack_at (v 0x6C14) m of
                        None \<Rightarrow> None
                      | Some st \<Rightarrow> run_code n hw VmExit
                          (m\<lparr>gpr := g, vfp := f, vmcs := v, flags := 2, stack := st\<rparr>))
                   else None
               | VmFailed fl v \<Rightarrow> run_code n hw l' (m\<lparr>flags := fl, vmcs := v\<rparr>))
           in case snd (vmx_code l) of
                Vmresume l' \<Rightarrow> enter False l'
              | Vmlaunch l' \<Rightarrow> enter True l'
              | Jz a b \<Rightarrow> run_code n hw (if bit (flags m) 6 then a else b) m
              | Jmp l' \<Rightarrow> run_code n hw l' m
              | Ret \<Rightarrow> Some m))"

text \<open>
  The function that the routine computes, given the values of RSP and RIP for the return from the
  guest: resume; if the VMCS was never launched (error 5), set these two and launch.
\<close>

definition store_vmx_registers :: "gprs \<Rightarrow> GuestRegisters \<Rightarrow> GuestRegisters" where
  "store_vmx_registers g r = store_svm_registers g (r\<lparr>rax := g RAX\<rparr>)"

definition run_vmx_vm ::
    "'fp vmx_enter \<Rightarrow> u64 \<Rightarrow> u64 \<Rightarrow> GuestRegisters \<Rightarrow> vmcs_data \<Rightarrow> 'fp \<Rightarrow>
       GuestRegisters \<times> vmcs_data \<times> 'fp \<times> u64" where
  "run_vmx_vm hw host_rsp host_rip regs v f =
     (case hw False (gprs_of regs) f v of
        VmExited g f' v' \<Rightarrow> (store_vmx_registers g regs, v', f', 2)
      | VmFailed fl v' \<Rightarrow>
          if v' 0x4400 = 5 then
            (case hw True (gprs_of regs) f (v'(0x6C14 := host_rsp, 0x6C16 := host_rip)) of
               VmExited g f' v'' \<Rightarrow> (store_vmx_registers g regs, v'', f', 2)
             | VmFailed fl' v'' \<Rightarrow> (regs, v'', f, fl'))
          else (regs, v', f, fl))"

definition host_frame :: "gprs \<Rightarrow> u64 list" where
  "host_frame g = map g [R15, R14, R13, R12, R11, R10, R9, R8, RDI, RSI, RBP, RBX, RDX, RCX, RAX]"

lemma start_block:
  assumes "gpr m RDI = block_ptr m"
  shows "exec_vmx (fst (vmx_code Start)) m =
    Some (m\<lparr>stack := block_ptr m # host_frame (gpr m) @ stack m, gpr := gprs_of (block m)\<rparr>)"
proof -
  have "(((((((((((((((f(R15 := w))(RAX := rax b))(RBX := rbx b))(RCX := rcx b))(RDX := rdx b))(RDI := rdi b))
      (RSI := rsi b))(RBP := rbp b))(R8 := r8 b))(R9 := r9 b))(R10 := r10 b))(R11 := r11 b))(R12 := r12 b))
      (R13 := r13 b))(R14 := r14 b))(R15 := r15 b) = gprs_of b" for f :: gprs and w b
    by (rule ext) (case_tac x, simp_all add: gprs_of_def)
  then show ?thesis using assms by (simp add: field_at_simps host_frame_def)
qed

lemma vmexit_block:
  assumes "stack m = block_ptr m # st"
  shows "exec_vmx (fst (vmx_code VmExit)) m =
    Some (m\<lparr>gpr := (gpr m)(R15 := block_ptr m, RAX := gpr m R15),
      stack := gpr m R15 # st, block := store_vmx_registers (gpr m) (block m)\<rparr>)"
  using assms
  by (simp add: field_at_simps store_vmx_registers_def store_svm_registers_def)

lemma exit_block:
  assumes "stack m = w # host_frame g @ st"
  shows "exec_vmx (fst (vmx_code Exit)) m = Some (m\<lparr>gpr := g(RAX := flags m), stack := st\<rparr>)"
proof -
  have "((((((((((((((((f(RAX := w))(R15 := g R15))(R14 := g R14))(R13 := g R13))(R12 := g R12))(R11 := g R11))
      (R10 := g R10))(R9 := g R9))(R8 := g R8))(RDI := g RDI))(RSI := g RSI))(RBP := g RBP))(RBX := g RBX))
      (RDX := g RDX))(RCX := g RCX))(RAX := u)) = g(RAX := u)" for f :: gprs and w u
    by (rule ext) (case_tac x, simp_all)
  then show ?thesis using assms by (simp add: host_frame_def)
qed

lemma run_Exit:
  assumes "stack m = w # host_frame g @ st"
  shows "run_code (Suc n) hw Exit m = Some (m\<lparr>gpr := g(RAX := flags m), stack := st\<rparr>)"
  by (subst run_code.simps(2), subst exit_block [OF assms]) simp

lemma run_VmExit:
  assumes "stack m = block_ptr m # host_frame g @ st"
  shows "run_code (Suc (Suc n)) hw VmExit m =
    Some (m\<lparr>block := store_vmx_registers (gpr m) (block m), gpr := g(RAX := flags m), stack := st\<rparr>)"
  by (subst run_code.simps(2), subst vmexit_block [OF assms])
    (simp add: run_Exit [of _ _ g st] del: run_code.simps)

lemma run_Report:
  assumes "stack m = fl # w # host_frame g @ st"
  shows "run_code (Suc (Suc n)) hw Report m = Some (m\<lparr>gpr := g(RAX := fl), stack := st, flags := fl\<rparr>)"
  using assms by (simp add: run_Exit [of _ w g st] del: run_code.simps(2) add: run_code.simps(2) [of _ _ Report])

lemma resume_failed_block:
  "exec_vmx (fst (vmx_code ResumeFailed)) m =
     Some (m\<lparr>stack := flags m # stack m, gpr := (gpr m)(R15 := vmcs m 0x4400),
       flags := (if vmcs m 0x4400 = 5 then (flags m AND NOT 0x8D5) OR 0x40
         else (flags m AND NOT 0x8D5) AND NOT 0x40)\<rparr>)"
  by simp

lemma run_ResumeFailed:
  "run_code (Suc n) hw ResumeFailed m =
     run_code n hw (if vmcs m 0x4400 = 5 then Launch else Report)
       (m\<lparr>stack := flags m # stack m, gpr := (gpr m)(R15 := vmcs m 0x4400),
         flags := (if vmcs m 0x4400 = 5 then (flags m AND NOT 0x8D5) OR 0x40
           else (flags m AND NOT 0x8D5) AND NOT 0x40)\<rparr>)"
proof -
  have "bit (x OR 0x40 :: u64) 6" "\<not> bit (x AND NOT 0x40 :: u64) 6" for x
    by (simp_all add: bit_or_iff bit_and_iff bit_not_iff)
  then show ?thesis by (subst run_code.simps(2), subst resume_failed_block) simp
qed

lemma launch_block:
  assumes "stack m = fl # block_ptr m # st" and "gpr m = (gprs_of (block m))(R15 := w)"
  shows "exec_vmx (fst (vmx_code Launch)) m =
    Some (m\<lparr>stack := block_ptr m # st, gpr := gprs_of (block m), flags := flags m AND NOT 0x8D5,
      vmcs := (vmcs m)(0x6C14 := stack_base m - 8 * of_nat (Suc (length st)), 0x6C16 := exit_addr m)\<rparr>)"
proof -
  have "((gprs_of b)(R15 := u, R14 := r14 b, R15 := r15 b)) = gprs_of b" for u b
    by (rule ext) (case_tac x, simp_all add: gprs_of_def)
  moreover have "(x AND NOT 0x8D5) AND NOT 0x8D5 = x AND NOT 0x8D5" for x :: u64
    by (simp only: and.assoc and.idem)
  ultimately show ?thesis using assms by (simp add: field_at_simps rsp_of_def fun_upd_twist)
qed

text \<open>The stack of the routine at both entries, and the RSP that it has there.\<close>

definition entry_rsp :: "'fp vmx_machine \<Rightarrow> u64" where
  "entry_rsp m = stack_base m - 8 * of_nat (length (stack m) + 16)"

lemma length_host_frame [simp]: "length (host_frame g) = 15"
  by (simp add: host_frame_def)

lemma stack_at_entry:
  assumes "length (stack m) < 2 ^ 59" and "stack m' = block_ptr m # host_frame (gpr m) @ stack m"
    and "stack_base m' = stack_base m"
  shows "stack_at (entry_rsp m) m' = Some (block_ptr m # host_frame (gpr m) @ stack m)"
proof -
  have "rsp_of m' = entry_rsp m" using assms(2,3) by (simp add: rsp_of_def entry_rsp_def)
  then show ?thesis using stack_at_rsp_of [of m'] assms by simp
qed

text \<open>
  The documented behaviour of a VM-exit used here: it does not change the host-state fields of the
  VMCS.
\<close>

definition host_fields_kept :: "'fp vmx_enter \<Rightarrow> bool" where
  "host_fields_kept hw \<longleftrightarrow> (\<forall>l g f v g' f' v'. hw l g f v = VmExited g' f' v' \<longrightarrow>
     v' 0x6C14 = v 0x6C14 \<and> v' 0x6C16 = v 0x6C16)"

lemma host_fields_keptD:
  assumes "host_fields_kept hw" and "hw l g f v = VmExited g' f' v'"
  shows "v' 0x6C14 = v 0x6C14" and "v' 0x6C16 = v 0x6C16"
  using assms unfolding host_fields_kept_def by blast+

declare run_code.simps [simp del]

lemma run_Launch:
  assumes len: "length (stack m0) < 2 ^ 59" and kept: "host_fields_kept hw"
    and st: "stack m = fl # block_ptr m # host_frame (gpr m0) @ stack m0"
    and g: "gpr m = (gprs_of (block m))(R15 := w)"
    and same: "stack_base m = stack_base m0" "block_ptr m = block_ptr m0"
    and parts: "block m = b" "vfp m = f" "vmcs m = v" "exit_addr m = ea"
  shows "\<exists>m'. run_code (Suc (Suc (Suc n))) hw Launch m = Some m' \<and> stack m' = stack m0 \<and>
    (\<forall>r. r \<noteq> RAX \<longrightarrow> gpr m' r = gpr m0 r) \<and>
    (block m', vmcs m', vfp m', gpr m' RAX) =
      (case hw True (gprs_of b) f (v(0x6C14 := entry_rsp m0, 0x6C16 := ea)) of
         VmExited g f' v'' \<Rightarrow> (store_vmx_registers g b, v'', f', 2)
       | VmFailed fl' v'' \<Rightarrow> (b, v'', f, fl'))"
proof -
  let ?v = "(vmcs m)(0x6C14 := entry_rsp m0, 0x6C16 := exit_addr m)"
  let ?m = "m\<lparr>stack := block_ptr m # host_frame (gpr m0) @ stack m0, gpr := gprs_of (block m),
      flags := flags m AND NOT 0x8D5, vmcs := ?v\<rparr>"
  have e: "exec_vmx (fst (vmx_code Launch)) m = Some ?m"
    unfolding launch_block [OF st g] using same by (simp add: entry_rsp_def add.commute)
  show ?thesis
  proof (cases "hw True (gprs_of (block m)) (vfp m) ?v")
    case (VmExited g' f' v')
    then have "v' 0x6C14 = entry_rsp m0" "v' 0x6C16 = exit_addr m"
      using host_fields_keptD [of hw, OF kept VmExited] by simp_all
    moreover have "stack_at (entry_rsp m0) ?m = Some (block_ptr m0 # host_frame (gpr m0) @ stack m0)"
      using stack_at_entry [OF len, of ?m] same by simp
    ultimately show ?thesis
      using VmExited same by (subst run_code.simps(2), subst e)
        (simp add: run_VmExit [of _ "gpr m0" "stack m0"] parts [symmetric])
  next
    case (VmFailed fl' v')
    then show ?thesis
      by (subst run_code.simps(2), subst e)
        (simp add: run_Exit [of _ "block_ptr m" "gpr m0" "stack m0"] parts [symmetric])
  qed
qed

text \<open>
  C11: The VT-x entry routine. Called with the block's address in RDI, on a stack of fewer than
  \<open>2^59\<close> words, and with the VMCS pointing back to the routine whenever a resume succeeds,
  \<open>run_vmx_vm\<close> runs to its end without a fault on each of its paths: resumed, launched after a first
  resume that failed, and both failures. It returns with the caller's stack and every register but RAX
  as they were, and with the register block, the VMCS, the floating-point registers and the flags in RAX
  as the function \<open>run_vmx_vm\<close> says; a failed entry leaves the block alone.
\<close>

theorem vmx_trampoline_refines:
  assumes "gpr m RDI = block_ptr m" and "length (stack m) < 2 ^ 59" and "host_fields_kept hw"
    and "\<forall>g f v. hw False (gprs_of (block m)) (vfp m) (vmcs m) = VmExited g f v \<longrightarrow>
      vmcs m 0x6C14 = entry_rsp m \<and> vmcs m 0x6C16 = exit_addr m"
  shows "\<exists>m'. run_code 6 hw Start m = Some m' \<and> stack m' = stack m \<and>
    (\<forall>r. r \<noteq> RAX \<longrightarrow> gpr m' r = gpr m r) \<and>
    (block m', vmcs m', vfp m', gpr m' RAX) =
      run_vmx_vm hw (entry_rsp m) (exit_addr m) (block m) (vmcs m) (vfp m)"
proof -
  let ?m = "m\<lparr>stack := block_ptr m # host_frame (gpr m) @ stack m, gpr := gprs_of (block m)\<rparr>"
  have six: "(6 :: nat) = Suc (Suc (Suc (Suc (Suc (Suc 0)))))" by simp
  show ?thesis
  proof (cases "hw False (gprs_of (block m)) (vfp m) (vmcs m)")
    case (VmExited g' f' v')
    then have "v' 0x6C14 = entry_rsp m" "v' 0x6C16 = exit_addr m"
      using host_fields_keptD [of hw, OF assms(3) VmExited] assms(4) by simp_all
    moreover have "stack_at (entry_rsp m) ?m = Some (block_ptr m # host_frame (gpr m) @ stack m)"
      using stack_at_entry [OF assms(2), of ?m] by simp
    ultimately show ?thesis
      using VmExited unfolding six run_vmx_vm_def
      by (subst run_code.simps(2), subst start_block [OF assms(1)])
        (simp add: run_VmExit [of _ "gpr m" "stack m"] del: run_code.simps)
  next
    case (VmFailed fl v')
    let ?m1 = "?m\<lparr>flags := fl, vmcs := v'\<rparr>"
    have r: "run_code 6 hw Start m = run_code (Suc (Suc (Suc (Suc (Suc 0))))) hw ResumeFailed ?m1"
      using VmFailed unfolding six
      by (subst run_code.simps(2), subst start_block [OF assms(1)]) (simp del: run_code.simps)
    show ?thesis
    proof (cases "v' 0x4400 = 5")
      case True
      let ?m2 = "?m1\<lparr>stack := fl # stack ?m1, gpr := (gprs_of (block m))(R15 := 5),
        flags := (fl AND NOT 0x8D5) OR 0x40\<rparr>"
      have "run_code 6 hw Start m = run_code (Suc (Suc (Suc (Suc 0)))) hw Launch ?m2"
        unfolding r run_ResumeFailed using True by (simp del: run_code.simps)
      moreover have "stack ?m2 = fl # block_ptr ?m2 # host_frame (gpr m) @ stack m"
        "gpr ?m2 = (gprs_of (block ?m2))(R15 := 5)" "stack_base ?m2 = stack_base m"
        "block_ptr ?m2 = block_ptr m" "block ?m2 = block m" "vfp ?m2 = vfp m" "vmcs ?m2 = v'"
        "exit_addr ?m2 = exit_addr m" by simp_all
      note run_Launch [OF assms(2,3) this, of "Suc 0"]
      ultimately show ?thesis using True VmFailed by (simp add: run_vmx_vm_def)
    next
      case False
      then show ?thesis
        using VmFailed unfolding r run_ResumeFailed
        by (simp add: run_Report [of _ fl "block_ptr m" "gpr m" "stack m"] run_vmx_vm_def del: run_code.simps)
    qed
  qed
qed

definition sample_vmx_enter :: "u64 vmx_enter" where
  "sample_vmx_enter launch g f v =
     (if launch then VmExited (\<lambda>r. g r + 1) (f + 1) v else VmFailed 0x42 (v(0x4400 := 5)))"

definition sample_vmx_machine :: "u64 vmx_machine" where
  "sample_vmx_machine = \<lparr>gpr = (\<lambda>_. 7)(RDI := 0x5000), stack = [1, 2], stack_base = 0x100000,
     block_ptr = 0x5000, block = default_registers, vfp = 4, vmcs = (\<lambda>_. 0), flags = 0x246,
     exit_addr = 0x400000\<rparr>"

lemma sample_vmx_enter_kept: "host_fields_kept sample_vmx_enter"
  by (auto simp: host_fields_kept_def sample_vmx_enter_def split: if_splits)

theorem vmx_trampoline_refines_witness:
  "\<exists>m'. run_code 6 sample_vmx_enter Start sample_vmx_machine = Some m' \<and> stack m' = [1, 2] \<and>
     gpr m' R15 = 7 \<and> gpr m' RAX = 2 \<and> r15 (block m') = 1 \<and> vmcs m' 0x6C16 = 0x400000"
proof -
  have "\<exists>m'. run_code 6 sample_vmx_enter Start sample_vmx_machine = Some m' \<and>
      stack m' = stack sample_vmx_machine \<and>
      (\<forall>r. r \<noteq> RAX \<longrightarrow> gpr m' r = gpr sample_vmx_machine r) \<and>
      (block m', vmcs m', vfp m', gpr m' RAX) =
        run_vmx_vm sample_vmx_enter (entry_rsp sample_vmx_machine) (exit_addr sample_vmx_machine)
          (block sample_vmx_machine) (vmcs sample_vmx_machine) (vfp sample_vmx_machine)"
    by (intro vmx_trampoline_refines sample_vmx_enter_kept)
      (simp_all add: sample_vmx_machine_def sample_vmx_enter_def)
  then obtain m' where r: "run_code 6 sample_vmx_enter Start sample_vmx_machine = Some m'"
    and m': "stack m' = stack sample_vmx_machine" "\<forall>r. r \<noteq> RAX \<longrightarrow> gpr m' r = gpr sample_vmx_machine r"
      "(block m', vmcs m', vfp m', gpr m' RAX) =
        run_vmx_vm sample_vmx_enter (entry_rsp sample_vmx_machine) (exit_addr sample_vmx_machine)
          (block sample_vmx_machine) (vmcs sample_vmx_machine) (vfp sample_vmx_machine)" by blast
  from m' show ?thesis
    by (intro exI [of _ m'] conjI r)
      (simp_all add: sample_vmx_machine_def sample_vmx_enter_def run_vmx_vm_def
        store_vmx_registers_def store_svm_registers_def gprs_of_def default_registers_def)
qed

end
