(* ===== verification/Svm_Cpu.thy ===== *)
theory Svm_Cpu
  imports Trampoline Radix_Tables
begin

text \<open>
  The AMD-V backend of a virtual CPU (\<^verbatim>\<open>svm/mod.rs\<close>): its state, its construction, the emulated MSRs
  and local-APIC timer, the injection of interrupts, and the run until the next exit with the decoding
  of every exit code. The processor core that the code runs on (its MSRs, hidden segment state,
  floating-point and extended control registers) is explicit state; the instructions whose answers come
  from outside (\<open>VMRUN\<close>, \<open>CPUID\<close>, \<open>RDTSC\<close>, \<open>XSAVE\<close>) are fields of the environment of a run.
\<close>

subsection \<open>State\<close>

definition IA32_EFER :: u32 where "IA32_EFER = 0xC0000080"
definition VM_HSAVE_PA :: u32 where "VM_HSAVE_PA = 0xC0010117"
definition IA32_FS_BASE :: u32 where "IA32_FS_BASE = 0xC0000100"
definition IA32_GS_BASE :: u32 where "IA32_GS_BASE = 0xC0000101"

lemmas svm_msrs = IA32_EFER_def VM_HSAVE_PA_def IA32_FS_BASE_def IA32_GS_BASE_def apic_msrs

record SvmCpu =
  svm_vmcb :: Vmcb
  svm_host_vmcb :: Vmcb
  iopm :: bytes
  msrpm :: bytes
  vmcb_pa :: u64
  host_vmcb_pa :: u64
  host_save_pa :: u64
  svm_regs :: GuestRegisters
  svm_timer :: ApicTimer
  svm_pending :: "u8 option"
  svm_guest_fpu :: FpuState
  svm_host_fpu :: FpuState

record ('h, 'fp) core =
  core_msr :: "u32 \<Rightarrow> u64"
  core_hidden :: 'h
  core_fp :: 'fp
  core_xcr :: "u32 \<Rightarrow> u64"

record ('h, 'fp) svm_env =
  env_hw :: "('h, 'fp) svm_hw"
  tsc_entry :: u64
  tsc_exit :: u64
  cpuid_hw :: "u32 \<Rightarrow> u32 \<Rightarrow> cpuid_answer"
  xsave_hw :: "'fp \<Rightarrow> bytes \<Rightarrow> bytes"
  xrstor_hw :: "bytes \<Rightarrow> 'fp"

subsection \<open>Construction\<close>

text \<open>
  Where the allocator has no memory, \<open>Box::new\<close> aborts (\<open>box_page\<close>) and \<open>Bitmap::all_ones\<close> reports it.
\<close>

definition bitmap_all_ones :: "heap \<Rightarrow> (u64 \<times> bytes \<times> heap) result" where
  "bitmap_all_ones s = try_bind (alloc_page s) (\<lambda>(a, s). Ok (a, \<lambda>i. if i < 4096 then 0xFF else 0, s))"

definition setup_svm :: "SvmCpu \<Rightarrow> ('h, 'fp) core \<Rightarrow> ('h, 'fp) core" where
  "setup_svm cpu c =
     (let val = core_msr c IA32_EFER;
          c = (if val AND EFER_SVME = 0
               then c\<lparr>core_msr := (core_msr c)(IA32_EFER := val OR EFER_SVME)\<rparr> else c)
      in c\<lparr>core_msr := (core_msr c)(VM_HSAVE_PA := host_save_pa cpu)\<rparr>)"

definition svm_new ::
    "host \<Rightarrow> u64 \<Rightarrow> u64 \<Rightarrow> u64 \<Rightarrow> u64 \<Rightarrow> u64 \<Rightarrow> ('h, 'fp) core \<Rightarrow> heap \<Rightarrow>
       (SvmCpu \<times> ('h, 'fp) core \<times> heap) result" where
  "svm_new H ncr3 apic_access_hpa cpu_id entry_point guest_rsp c s =
     (let regs = default_registers\<lparr>rdi := BOOT_INFO_OFFSET, rsi := cpu_id, rip := entry_point,
            rsp := guest_rsp, rflags := 0x2\<rparr> in
      try_bind (box_page s) (\<lambda>(vmcb, s).
      try_bind (box_page s) (\<lambda>(host_vmcb, s).
      try_bind (box_page s) (\<lambda>(host_save_area, s).
      try_bind (bitmap_all_ones s) (\<lambda>(iopm_addr, iopm_data, s).
      try_bind (bitmap_all_ones s) (\<lambda>(msrpm_addr, msrpm_data, s).
      try_bind (host_physical H vmcb) (\<lambda>pa1.
      try_bind (host_physical H host_vmcb) (\<lambda>pa2.
      try_bind (host_physical H host_save_area) (\<lambda>pa3.
      let cpu = \<lparr>svm_vmcb = (\<lambda>_. 0), svm_host_vmcb = (\<lambda>_. 0), iopm = iopm_data, msrpm = msrpm_data,
            vmcb_pa = pa1, host_vmcb_pa = pa2, host_save_pa = pa3, svm_regs = regs,
            svm_timer = default_timer, svm_pending = None, svm_guest_fpu = fpu_init_guest,
            svm_host_fpu = fpu_scratch\<rparr> in
      try_bind (host_physical H iopm_addr) (\<lambda>iopm_pa.
      try_bind (host_physical H msrpm_addr) (\<lambda>msrpm_pa.
      let cpu = cpu\<lparr>svm_vmcb := setup_control ncr3 iopm_pa msrpm_pa (svm_vmcb cpu)\<rparr>;
          cpu = cpu\<lparr>svm_vmcb := setup_guest entry_point guest_rsp (svm_vmcb cpu)\<rparr>;
          c = setup_svm cpu c
      in Ok (cpu, c, s))))))))))))"

subsection \<open>MSRs and the timer\<close>

definition svm_read_msr :: "u32 \<Rightarrow> SvmCpu \<Rightarrow> u64" where
  "svm_read_msr index cpu =
     (if index = IA32_FS_BASE then vmcb_read_u64 VMCB_FS_BASE (svm_vmcb cpu)
      else if index = IA32_GS_BASE then vmcb_read_u64 VMCB_GS_BASE (svm_vmcb cpu)
      else if index = IA32_EFER then vmcb_read_u64 SAVE_EFER (svm_vmcb cpu) AND NOT EFER_SVME
      else if index = IA32_TSC_DEADLINE then
        (case deadline (svm_timer cpu) of Some d \<Rightarrow> d | None \<Rightarrow> 0)
      else 0)"

definition svm_write_apic_timer_msr :: "u64 \<Rightarrow> u32 \<Rightarrow> u64 \<Rightarrow> SvmCpu \<Rightarrow> SvmCpu" where
  "svm_write_apic_timer_msr tsc msr val cpu =
     (let t = svm_timer cpu in
      if msr = IA32_X2APIC_LVT_TIMER then
        (let t = t\<lparr>vector := ucast (val AND 0xff)\<rparr>;
             t = t\<lparr>masked := val AND LVT_MASKED \<noteq> 0\<rparr>;
             mode = val AND LVT_TIMER_MODE_MASK;
             t = t\<lparr>tsc_deadline_mode := mode = LVT_TIMER_MODE_TSC_DEADLINE\<rparr>;
             t = t\<lparr>periodic := mode = LVT_TIMER_MODE_PERIODIC\<rparr>;
             t = (if masked t then t\<lparr>deadline := None, period := None\<rparr> else t)
         in cpu\<lparr>svm_timer := t\<rparr>)
      else if msr = IA32_TSC_DEADLINE then
        cpu\<lparr>svm_timer := t\<lparr>deadline := then_some (val \<noteq> 0 \<and> \<not> masked t) val, period := None\<rparr>\<rparr>
      else if msr = IA32_X2APIC_INIT_COUNT then
        (if val = 0 \<or> masked t \<or> tsc_deadline_mode t then
           cpu\<lparr>svm_timer := t\<lparr>deadline := None, period := None\<rparr>\<rparr>
         else
           cpu\<lparr>svm_timer := t\<lparr>deadline := Some (tsc + val), period := then_some (periodic t) val\<rparr>\<rparr>)
      else cpu)"

definition svm_write_msr :: "u64 \<Rightarrow> u32 \<Rightarrow> u64 \<Rightarrow> SvmCpu \<Rightarrow> SvmCpu" where
  "svm_write_msr tsc index val cpu =
     (if index = IA32_FS_BASE then cpu\<lparr>svm_vmcb := vmcb_write_u64 VMCB_FS_BASE val (svm_vmcb cpu)\<rparr>
      else if index = IA32_GS_BASE then
        cpu\<lparr>svm_vmcb := vmcb_write_u64 VMCB_GS_BASE val (svm_vmcb cpu)\<rparr>
      else if index = IA32_EFER then
        cpu\<lparr>svm_vmcb := vmcb_write_u64 SAVE_EFER (val OR EFER_SVME) (svm_vmcb cpu)\<rparr>
      else if index = IA32_X2APIC_LVT_TIMER \<or> index = IA32_TSC_DEADLINE \<or> index = IA32_X2APIC_INIT_COUNT
      then svm_write_apic_timer_msr tsc index val cpu
      else cpu)"

definition svm_service_timer :: "u64 \<Rightarrow> SvmCpu \<Rightarrow> SvmCpu" where
  "svm_service_timer tsc cpu =
     (case deadline (svm_timer cpu) of
        None \<Rightarrow> cpu
      | Some d \<Rightarrow>
          if tsc < d then cpu
          else
            (let cpu = cpu\<lparr>svm_timer := (svm_timer cpu)\<lparr>deadline := None\<rparr>\<rparr>;
                 cpu = (if \<not> masked (svm_timer cpu)
                        then cpu\<lparr>svm_pending := Some (vector (svm_timer cpu))\<rparr> else cpu)
             in case period (svm_timer cpu) of
                  Some p \<Rightarrow> cpu\<lparr>svm_timer := (svm_timer cpu)\<lparr>deadline := Some (saturating_add d p)\<rparr>\<rparr>
                | None \<Rightarrow> cpu))"

definition svm_inject_pending :: "SvmCpu \<Rightarrow> SvmCpu" where
  "svm_inject_pending cpu =
     (let interruptible = rflags (svm_regs cpu) AND push_bit 9 1 \<noteq> 0 \<and>
            vmcb_read_u64 INT_STATE (svm_vmcb cpu) AND 1 = 0
      in case svm_pending cpu of
           Some v \<Rightarrow>
             if interruptible then
               (let event = push_bit 31 1 OR ucast v in
                cpu\<lparr>svm_vmcb := vmcb_write_u64 EVENTINJ event (svm_vmcb cpu), svm_pending := None\<rparr>)
             else cpu\<lparr>svm_vmcb := vmcb_write_u64 EVENTINJ 0 (svm_vmcb cpu)\<rparr>
         | None \<Rightarrow> cpu\<lparr>svm_vmcb := vmcb_write_u64 EVENTINJ 0 (svm_vmcb cpu)\<rparr>)"

subsection \<open>Running the guest\<close>

text \<open>Advancing past an instruction of a known length; \<open>+=\<close> wraps.\<close>

definition svm_advance :: "u64 \<Rightarrow> SvmCpu \<Rightarrow> SvmCpu" where
  "svm_advance len cpu = cpu\<lparr>svm_regs := (svm_regs cpu)\<lparr>rip := rip (svm_regs cpu) + len\<rparr>\<rparr>"

definition svm_handle_exit ::
    "('h, 'fp) svm_env \<Rightarrow> u64 \<Rightarrow> SvmCpu \<Rightarrow> ('h, 'fp) core \<Rightarrow>
       ((SvmCpu \<times> ('h, 'fp) core) \<times> ExitReason) result" where
  "svm_handle_exit env exitcode cpu c =
     (if exitcode = exitcode_INTR then Ok ((cpu, c), Success)
      else if exitcode = exitcode_PAUSE then Ok ((svm_advance 2 cpu, c), Success)
      else if exitcode = exitcode_HLT then Ok ((svm_advance 1 cpu, c), Success)
      else if exitcode = exitcode_CPUID then
        (let answer = cpuid_hw env (ucast (rax (svm_regs cpu))) (ucast (rcx (svm_regs cpu)));
             cpu = cpu\<lparr>svm_regs := set_cpuid_result answer (svm_regs cpu)\<rparr>
         in Ok ((svm_advance 2 cpu, c), Success))
      else if exitcode = exitcode_MSR then
        (let is_write = vmcb_read_u64 EXITINFO1 (svm_vmcb cpu) AND 1 \<noteq> 0;
             index = ucast (rcx (svm_regs cpu)) :: u32;
             cpu = (if is_write then svm_write_msr (tsc_exit env) index (edx_eax (svm_regs cpu)) cpu
                    else cpu\<lparr>svm_regs := set_edx_eax (svm_read_msr index cpu) (svm_regs cpu)\<rparr>)
         in Ok ((svm_advance 2 cpu, c), Success))
      else if exitcode = exitcode_XSETBV then
        (let val = edx_eax (svm_regs cpu);
             c = c\<lparr>core_xcr := (core_xcr c)(ucast (rcx (svm_regs cpu)) := val)\<rparr>
         in Ok ((svm_advance 3 cpu, c), Success))
      else if exitcode = exitcode_IOIO then
        (let info1 = vmcb_read_u64 EXITINFO1 (svm_vmcb cpu);
             is_in = info1 AND 1;
             port = drop_bit 16 info1 AND 0xFFFF;
             qualification = push_bit 16 port OR push_bit 3 is_in;
             cpu = cpu\<lparr>svm_regs := (svm_regs cpu)\<lparr>rip := vmcb_read_u64 EXITINFO2 (svm_vmcb cpu)\<rparr>\<rparr>
         in Ok ((cpu, c), IoInstruction qualification))
      else if exitcode = exitcode_SHUTDOWN then Ok ((cpu, c), Shutdown)
      else if exitcode = exitcode_INVALID then Err (VMEntryFailed 0)
      else Err UnknownVMExitReason)"

text \<open>What \<open>run\<close> does before the entry, up to the swap of the floating-point state.\<close>

definition svm_prepare :: "u64 \<Rightarrow> SvmCpu \<Rightarrow> SvmCpu" where
  "svm_prepare tsc cpu =
     (let r = svm_regs cpu;
          v = vmcb_write_u64 SAVE_RAX (rax r) (svm_vmcb cpu);
          v = vmcb_write_u64 SAVE_RIP (rip r) v;
          v = vmcb_write_u64 SAVE_RSP (rsp r) v;
          v = vmcb_write_u64 SAVE_RFLAGS (rflags r) v;
          cpu = cpu\<lparr>svm_vmcb := v\<rparr>;
          cpu = svm_service_timer tsc cpu
      in svm_inject_pending cpu)"

definition svm_run ::
    "('h, 'fp) svm_env \<Rightarrow> SvmCpu \<times> ('h, 'fp) core \<Rightarrow> ((SvmCpu \<times> ('h, 'fp) core) \<times> ExitReason) result" where
  "svm_run env = (\<lambda>(cpu, c).
     let c = setup_svm cpu c;
         cpu = svm_prepare (tsc_entry env) cpu;
         cpu = cpu\<lparr>svm_host_fpu := fpu_save (xsave_hw env) (core_fp c) (svm_host_fpu cpu)\<rparr>;
         f = fpu_restore (xrstor_hw env) (svm_guest_fpu cpu);
         (regs, v, hv, hid, f) = run_svm_vm (env_hw env) (vmcb_pa cpu) (svm_regs cpu) (svm_vmcb cpu)
           (svm_host_vmcb cpu) (core_hidden c) f;
         cpu = cpu\<lparr>svm_regs := regs, svm_vmcb := v, svm_host_vmcb := hv,
           svm_guest_fpu := fpu_save (xsave_hw env) f (svm_guest_fpu cpu)\<rparr>;
         c = c\<lparr>core_hidden := hid, core_fp := fpu_restore (xrstor_hw env) (svm_host_fpu cpu)\<rparr>;
         cpu = cpu\<lparr>svm_regs := (svm_regs cpu)\<lparr>rax := vmcb_read_u64 SAVE_RAX (svm_vmcb cpu),
           rip := vmcb_read_u64 SAVE_RIP (svm_vmcb cpu), rsp := vmcb_read_u64 SAVE_RSP (svm_vmcb cpu),
           rflags := vmcb_read_u64 SAVE_RFLAGS (svm_vmcb cpu)\<rparr>\<rparr>
     in svm_handle_exit env (vmcb_read_u64 EXITCODE (svm_vmcb cpu)) cpu c)"

definition svm_guest_registers :: "SvmCpu \<times> ('h, 'fp) core \<Rightarrow> GuestRegisters" where
  "svm_guest_registers b = svm_regs (fst b)"

definition svm_set_guest_registers ::
    "GuestRegisters \<Rightarrow> SvmCpu \<times> ('h, 'fp) core \<Rightarrow> SvmCpu \<times> ('h, 'fp) core" where
  "svm_set_guest_registers r b = ((fst b)\<lparr>svm_regs := r\<rparr>, snd b)"

interpretation svm_backend: vcpu_backend svm_run svm_guest_registers svm_set_guest_registers
  by unfold_locales (auto simp: svm_guest_registers_def svm_set_guest_registers_def)

subsection \<open>The timer\<close>

text \<open>The handler of this backend is the reference.\<close>

lemma svm_write_apic_timer_msr_eq:
  "svm_write_apic_timer_msr tsc msr val cpu =
     cpu\<lparr>svm_timer := timer_write tsc msr val (svm_timer cpu)\<rparr>"
  by (cases "svm_timer cpu")
    (auto simp: svm_write_apic_timer_msr_def timer_write_def Let_def then_some_def and_0xff
      LVT_MASKED_iff)

lemma svm_service_timer_eq:
  "svm_service_timer tsc cpu =
     (case deadline (svm_timer cpu) of
        Some d \<Rightarrow> if d \<le> tsc then cpu\<lparr>svm_timer := fst (timer_expire (svm_timer cpu) (svm_pending cpu)),
                       svm_pending := snd (timer_expire (svm_timer cpu) (svm_pending cpu))\<rparr> else cpu
      | None \<Rightarrow> cpu)"
  by (cases cpu) (auto simp: svm_service_timer_def timer_expire_def Let_def not_le split: option.splits)

subsection \<open>What the processor keeps\<close>

text \<open>
  The control fields that the backend sets once. The documented behaviour of the processor used below:
  \<open>VMSAVE\<close> stores hidden segment state and system-call MSRs, none of which lie in the control area or
  in EFER; \<open>VMLOAD\<close> loads what \<open>VMSAVE\<close> stored; a run of the guest leaves the control fields as they
  are, and, with every access to EFER intercepted, the guest cannot clear SVME.
\<close>

definition same_control :: "Vmcb \<Rightarrow> Vmcb \<Rightarrow> bool" where
  "same_control v v' \<longleftrightarrow>
     (read_le 4 v' INTERCEPT_INSTR1 :: u32) = read_le 4 v INTERCEPT_INSTR1 \<and>
     (read_le 4 v' INTERCEPT_INSTR2 :: u32) = read_le 4 v INTERCEPT_INSTR2 \<and>
     vmcb_read_u64 IOPM_BASE_PA v' = vmcb_read_u64 IOPM_BASE_PA v \<and>
     vmcb_read_u64 MSRPM_BASE_PA v' = vmcb_read_u64 MSRPM_BASE_PA v \<and>
     vmcb_read_u64 GUEST_ASID v' = vmcb_read_u64 GUEST_ASID v \<and>
     vmcb_read_u64 NP_ENABLE v' = vmcb_read_u64 NP_ENABLE v \<and>
     vmcb_read_u64 N_CR3 v' = vmcb_read_u64 N_CR3 v \<and>
     bit (vmcb_read_u64 SAVE_EFER v') 12 = bit (vmcb_read_u64 SAVE_EFER v) 12"

definition svm_hw_spec :: "('h, 'fp) svm_hw \<Rightarrow> bool" where
  "svm_hw_spec hw \<longleftrightarrow>
     (\<forall>h v. vmload_hw hw (vmsave_hw hw h v) = h) \<and>
     (\<forall>h v. same_control v (vmsave_hw hw h v)) \<and>
     (\<forall>g h f v g' h' f' v'. vmrun_hw hw g h f v = (g', h', f', v') \<longrightarrow> same_control v v')"

lemma same_control_refl [simp]: "same_control v v"
  by (simp add: same_control_def)

lemma same_control_trans: "same_control u v \<Longrightarrow> same_control v w \<Longrightarrow> same_control u w"
  by (simp add: same_control_def)

lemma same_control_write:
  assumes "off \<in> {SAVE_RAX, SAVE_RIP, SAVE_RSP, SAVE_RFLAGS, EVENTINJ, VMCB_FS_BASE, VMCB_GS_BASE}"
  shows "same_control v (vmcb_write_u64 off w v)"
  using assms by (auto simp: same_control_def vmcb_offsets)

lemma same_control_write_efer:
  "bit (vmcb_read_u64 SAVE_EFER v) 12 \<Longrightarrow> same_control v (vmcb_write_u64 SAVE_EFER (w OR EFER_SVME) v)"
  by (simp add: same_control_def vmcb_offsets EFER_SVME_def bit_or_iff)

lemma same_control_run:
  assumes "svm_hw_spec hw" and "run_svm_vm hw a regs v hv hid f = (regs', v', hv', hid', f')"
  shows "same_control v v'" and "hid' = hid"
proof -
  obtain g h1 f1 v1 where r: "vmrun_hw hw ((gprs_of regs)(RAX := a)) (vmload_hw hw v) f v = (g, h1, f1, v1)"
    by (metis prod_cases4)
  then have "same_control v v1" "same_control v1 (vmsave_hw hw h1 v1)"
    using assms(1) unfolding svm_hw_spec_def by blast+
  then have "same_control v (vmsave_hw hw h1 v1)" by (rule same_control_trans)
  moreover have "vmload_hw hw (vmsave_hw hw hid hv) = hid" using assms(1) by (simp add: svm_hw_spec_def)
  ultimately show "same_control v v'" "hid' = hid"
    using r assms(2) by (auto simp: run_svm_vm_def Let_def)
qed

subsection \<open>The invariant\<close>

definition svm_inv :: "u64 \<Rightarrow> SvmCpu \<Rightarrow> bool" where
  "svm_inv ncr3 cpu \<longleftrightarrow>
     (\<exists>i m. same_control (initial_vmcb ncr3 i m 0 0) (svm_vmcb cpu)) \<and> timer_ok (svm_timer cpu)"

text \<open>The checks of \<open>VMRUN\<close> that depend on the host alone, and nested paging with the VM's root.\<close>

definition svm_entry_ok :: "u64 \<Rightarrow> Vmcb \<Rightarrow> bool" where
  "svm_entry_ok ncr3 v \<longleftrightarrow>
     bit (vmcb_read_u64 SAVE_EFER v) 12 \<and> bit (read_le 4 v INTERCEPT_INSTR2 :: u32) 0 \<and>
     (read_le 4 v INTERCEPT_INSTR1 :: u32) = 0x99840001 \<and>
     vmcb_read_u64 GUEST_ASID v AND 0xffffffff \<noteq> 0 \<and> event_legal (vmcb_read_u64 EVENTINJ v) \<and>
     vmcb_read_u64 NP_ENABLE v = 1 \<and> vmcb_read_u64 N_CR3 v = ncr3"

lemma svm_new_inv:
  assumes "svm_new H ncr3 apic cid e r c s = Ok (cpu, c', s')"
  shows "svm_inv ncr3 cpu"
proof -
  obtain i m where v: "svm_vmcb cpu = initial_vmcb ncr3 i m e r" and t: "svm_timer cpu = default_timer"
    using assms by (fastforce simp: svm_new_def Let_def initial_vmcb_def)
  have "same_control (initial_vmcb ncr3 i m 0 0) (initial_vmcb ncr3 i m e r)"
    unfolding same_control_def initial_vmcb_control
    by (simp add: initial_vmcb_def setup_guest_fields)
  with v t show ?thesis by (auto simp: svm_inv_def timer_ok_default)
qed

lemma svm_inv_cong:
  assumes "svm_inv ncr3 cpu" and "same_control (svm_vmcb cpu) (svm_vmcb cpu')" and "timer_ok (svm_timer cpu')"
  shows "svm_inv ncr3 cpu'"
  using assms same_control_trans unfolding svm_inv_def by blast

text \<open>Each part of a run keeps the invariant.\<close>

lemma svm_service_timer_vmcb [simp]:
  "svm_vmcb (svm_service_timer tsc cpu) = svm_vmcb cpu"
  "svm_regs (svm_service_timer tsc cpu) = svm_regs cpu"
  by (auto simp: svm_service_timer_eq split: option.split)

lemma svm_inv_service_timer: "svm_inv ncr3 cpu \<Longrightarrow> svm_inv ncr3 (svm_service_timer tsc cpu)"
  by (rule svm_inv_cong) (auto simp: svm_service_timer_eq svm_inv_def timer_ok_expire split: option.split)

lemma svm_inject_pending_parts [simp]:
  "svm_timer (svm_inject_pending cpu) = svm_timer cpu"
  "svm_regs (svm_inject_pending cpu) = svm_regs cpu"
  "same_control (svm_vmcb cpu) (svm_vmcb (svm_inject_pending cpu))"
  by (auto simp: svm_inject_pending_def Let_def same_control_write split: option.split)

lemma svm_inv_inject: "svm_inv ncr3 cpu \<Longrightarrow> svm_inv ncr3 (svm_inject_pending cpu)"
  using svm_inv_cong [of ncr3 cpu "svm_inject_pending cpu"] by (simp add: svm_inv_def)

lemma svm_inv_prepare:
  assumes "svm_inv ncr3 cpu"
  shows "svm_inv ncr3 (svm_prepare tsc cpu)"
proof -
  let ?r = "svm_regs cpu"
  let ?v = "vmcb_write_u64 SAVE_RFLAGS (rflags ?r) (vmcb_write_u64 SAVE_RSP (rsp ?r)
    (vmcb_write_u64 SAVE_RIP (rip ?r) (vmcb_write_u64 SAVE_RAX (rax ?r) (svm_vmcb cpu))))"
  have "same_control (svm_vmcb cpu) ?v"
    by (intro same_control_trans [OF same_control_write same_control_trans [OF same_control_write
        same_control_trans [OF same_control_write same_control_write]]]) simp_all
  with assms have "svm_inv ncr3 (cpu\<lparr>svm_vmcb := ?v\<rparr>)"
    by (intro svm_inv_cong [OF assms]) (simp_all add: svm_inv_def)
  then show ?thesis
    unfolding svm_prepare_def Let_def by (intro svm_inv_inject svm_inv_service_timer)
qed

lemma svm_inv_regs [simp]: "svm_inv ncr3 (cpu\<lparr>svm_regs := r\<rparr>) = svm_inv ncr3 cpu"
  "svm_inv ncr3 (svm_advance n cpu) = svm_inv ncr3 cpu"
  by (simp_all add: svm_inv_def svm_advance_def)

lemma svm_inv_efer: "svm_inv ncr3 cpu \<Longrightarrow> bit (vmcb_read_u64 SAVE_EFER (svm_vmcb cpu)) 12"
  by (auto simp: svm_inv_def same_control_def initial_vmcb_def setup_guest_fields)

lemma svm_inv_write_msr:
  assumes "svm_inv ncr3 cpu"
  shows "svm_inv ncr3 (svm_write_msr tsc index val cpu)"
  using assms svm_inv_efer [OF assms]
  by (intro svm_inv_cong [OF assms])
    (auto simp: svm_write_msr_def svm_write_apic_timer_msr_eq same_control_write same_control_write_efer
      svm_inv_def timer_ok_write)

lemma svm_inv_handle_exit:
  assumes "svm_inv ncr3 cpu" and "svm_handle_exit env code cpu c = Ok ((cpu', c'), r)"
  shows "svm_inv ncr3 cpu'"
  using assms
  by (auto simp: svm_handle_exit_def Let_def svm_inv_write_msr split: if_splits)

text \<open>A run as one call of the exit handler, on the state that the guest left.\<close>

lemma svm_run_eq:
  assumes "p = svm_prepare (tsc_entry env) cpu"
    and "run_svm_vm (env_hw env) (vmcb_pa p) (svm_regs p) (svm_vmcb p) (svm_host_vmcb p)
      (core_hidden (setup_svm cpu c)) (fpu_restore (xrstor_hw env) (svm_guest_fpu p)) = (regs, v, hv, hid, f)"
  shows "svm_run env (cpu, c) =
    svm_handle_exit env (vmcb_read_u64 EXITCODE v)
      (p\<lparr>svm_host_fpu := fpu_save (xsave_hw env) (core_fp (setup_svm cpu c)) (svm_host_fpu p),
         svm_vmcb := v, svm_host_vmcb := hv,
         svm_guest_fpu := fpu_save (xsave_hw env) f (svm_guest_fpu p),
         svm_regs := regs\<lparr>rax := vmcb_read_u64 SAVE_RAX v, rip := vmcb_read_u64 SAVE_RIP v,
           rsp := vmcb_read_u64 SAVE_RSP v, rflags := vmcb_read_u64 SAVE_RFLAGS v\<rparr>\<rparr>)
      (setup_svm cpu c\<lparr>core_hidden := hid,
         core_fp := fpu_restore (xrstor_hw env)
           (fpu_save (xsave_hw env) (core_fp (setup_svm cpu c)) (svm_host_fpu p))\<rparr>)"
  using assms by (simp add: svm_run_def Let_def)

lemma svm_inv_run:
  assumes "svm_hw_spec (env_hw env)" and "svm_inv ncr3 cpu" and "svm_run env (cpu, c) = Ok ((cpu', c'), r)"
  shows "svm_inv ncr3 cpu'"
proof -
  define p where "p = svm_prepare (tsc_entry env) cpu"
  obtain regs v hv hid f where run: "run_svm_vm (env_hw env) (vmcb_pa p) (svm_regs p) (svm_vmcb p)
      (svm_host_vmcb p) (core_hidden (setup_svm cpu c))
      (fpu_restore (xrstor_hw env) (svm_guest_fpu p)) = (regs, v, hv, hid, f)"
    by (metis prod_cases5)
  have p: "svm_inv ncr3 p" unfolding p_def by (rule svm_inv_prepare [OF assms(2)])
  have "svm_inv ncr3 (p\<lparr>svm_host_fpu := a, svm_vmcb := v, svm_host_vmcb := hv, svm_guest_fpu := d,
      svm_regs := b\<rparr>)" for a b d
    by (rule svm_inv_cong [OF p]) (use p same_control_run(1) [OF assms(1) run] in \<open>simp_all add: svm_inv_def\<close>)
  from svm_inv_handle_exit [OF this assms(3) [unfolded svm_run_eq [OF p_def run]]] show ?thesis .
qed

text \<open>The states that a backend can be in: built, run on conforming hardware, registers changed.\<close>

inductive svm_reachable :: "u64 \<Rightarrow> SvmCpu \<times> ('h, 'fp) core \<Rightarrow> bool" for ncr3 where
  new: "svm_new H ncr3 apic cpu_id entry_point guest_rsp c s = Ok (cpu, c', s') \<Longrightarrow> svm_reachable ncr3 (cpu, c')"
| run: "svm_reachable ncr3 b \<Longrightarrow> svm_hw_spec (env_hw env) \<Longrightarrow> svm_run env b = Ok (b', reason) \<Longrightarrow>
     svm_reachable ncr3 b'"
| set: "svm_reachable ncr3 b \<Longrightarrow> svm_reachable ncr3 (svm_set_guest_registers r b)"

lemma svm_reachable_inv: "svm_reachable ncr3 b \<Longrightarrow> svm_inv ncr3 (fst b)"
proof (induction rule: svm_reachable.induct)
  case (new H apic cpu_id entry_point guest_rsp c s cpu c' s')
  then show ?case using svm_new_inv by fastforce
next
  case (run b env b' reason)
  then show ?case by (metis prod.collapse svm_inv_run)
next
  case (set b r)
  then show ?case by (simp add: svm_set_guest_registers_def)
qed

subsection \<open>Injection\<close>

definition injection_event :: "u8 \<Rightarrow> u64" where
  "injection_event v = push_bit 31 1 OR ucast v"

lemma bit_injection_event: "bit (injection_event v) n \<longleftrightarrow> n = 31 \<or> n < 8 \<and> bit v n"
  unfolding injection_event_def bit_or_iff bit_push_bit_iff bit_1_iff
  by (auto simp: bit_unsigned_iff dest: bit_imp_le_length)

lemma injection_event_bits:
  "bit (injection_event v) 31" "drop_bit 8 (injection_event v) AND 7 = 0" "ucast (injection_event v) = v"
proof -
  show "bit (injection_event v) 31" by (simp add: bit_injection_event)
  have "drop_bit 8 (injection_event v) AND mask 3 = 0"
    by (intro bit_word_eqI) (auto simp: bit_injection_event bit_simps)
  then show "drop_bit 8 (injection_event v) AND 7 = 0" by (simp add: mask_eq_exp_minus_1)
  show "ucast (injection_event v) = v"
    by (intro bit_word_eqI) (auto simp: bit_injection_event bit_simps)
qed

lemma injection_event_legal: "event_legal (injection_event v)" "event_legal 0"
  using injection_event_bits(2) [of v] by (simp_all add: event_legal_def)

text \<open>The vector that waits for injection once the timer has been looked at.\<close>

definition due_vector :: "u64 \<Rightarrow> SvmCpu \<Rightarrow> u8 option" where
  "due_vector tsc cpu =
     (case deadline (svm_timer cpu) of
        Some d \<Rightarrow> if d \<le> tsc \<and> \<not> masked (svm_timer cpu) then Some (vector (svm_timer cpu)) else svm_pending cpu
      | None \<Rightarrow> svm_pending cpu)"

definition svm_interruptible :: "SvmCpu \<Rightarrow> bool" where
  "svm_interruptible cpu \<longleftrightarrow> bit (rflags (svm_regs cpu)) 9 \<and> \<not> bit (vmcb_read_u64 INT_STATE (svm_vmcb cpu)) 0"

lemma svm_pending_service: "svm_pending (svm_service_timer tsc cpu) = due_vector tsc cpu"
  by (auto simp: svm_service_timer_eq due_vector_def timer_expire_def split: option.split)

lemma svm_inject_pending_eq:
  "svm_inject_pending cpu =
     (if svm_interruptible cpu then
        cpu\<lparr>svm_vmcb := vmcb_write_u64 EVENTINJ
          (case svm_pending cpu of Some v \<Rightarrow> injection_event v | None \<Rightarrow> 0) (svm_vmcb cpu), svm_pending := None\<rparr>
      else cpu\<lparr>svm_vmcb := vmcb_write_u64 EVENTINJ 0 (svm_vmcb cpu)\<rparr>)"
proof -
  have "x AND 1 = 0 \<longleftrightarrow> \<not> bit x 0" for x :: u64 using and_exp_eq_0_iff [of x 0] by simp
  then show ?thesis
    using and_exp_eq_0_iff [of "rflags (svm_regs cpu)" 9]
    by (auto simp: svm_inject_pending_def svm_interruptible_def injection_event_def Let_def split: option.split)
qed

lemma svm_prepare_event:
  "vmcb_read_u64 EVENTINJ (svm_vmcb (svm_prepare tsc cpu)) =
     (if svm_interruptible cpu then (case due_vector tsc cpu of Some v \<Rightarrow> injection_event v | None \<Rightarrow> 0) else 0)"
  "svm_pending (svm_prepare tsc cpu) = (if svm_interruptible cpu then None else due_vector tsc cpu)"
proof -
  let ?r = "svm_regs cpu"
  define cpu1 where "cpu1 = cpu\<lparr>svm_vmcb := vmcb_write_u64 SAVE_RFLAGS (rflags ?r) (vmcb_write_u64 SAVE_RSP (rsp ?r)
    (vmcb_write_u64 SAVE_RIP (rip ?r) (vmcb_write_u64 SAVE_RAX (rax ?r) (svm_vmcb cpu))))\<rparr>"
  have prep: "svm_prepare tsc cpu = svm_inject_pending (svm_service_timer tsc cpu1)"
    by (simp add: svm_prepare_def cpu1_def Let_def)
  have i: "svm_interruptible (svm_service_timer tsc cpu1) = svm_interruptible cpu"
    by (simp add: svm_interruptible_def cpu1_def vmcb_offsets)
  have "due_vector tsc cpu1 = due_vector tsc cpu" 
    by (simp add: due_vector_def cpu1_def split: option.split)
  with i show "vmcb_read_u64 EVENTINJ (svm_vmcb (svm_prepare tsc cpu)) =
     (if svm_interruptible cpu then (case due_vector tsc cpu of Some v \<Rightarrow> injection_event v | None \<Rightarrow> 0) else 0)"
    and "svm_pending (svm_prepare tsc cpu) = (if svm_interruptible cpu then None else due_vector tsc cpu)"
    by (simp_all add: prep svm_inject_pending_eq svm_pending_service)
qed

subsection \<open>Properties\<close>

text \<open>
  C9: The AMD-V backend never enters the guest with a control block that the processor would refuse
  for the host's part of it. In every state reached from \<open>new\<close> by any runs on conforming hardware and
  any changes of the registers, whatever the guest did, the block handed to the next \<open>VMRUN\<close> keeps
  EFER.SVME, the interception of \<open>VMRUN\<close> and of every instruction the run loop handles, a non-zero ASID
  and a legal event, and nested paging stays on with the VM's own root.
\<close>

theorem svm_entry_checks:
  assumes "svm_reachable ncr3 b"
  shows "svm_entry_ok ncr3 (svm_vmcb (svm_prepare tsc (fst b)))"
proof -
  from svm_inv_prepare [OF svm_reachable_inv [OF assms], of tsc] obtain i m where
    "same_control (initial_vmcb ncr3 i m 0 0) (svm_vmcb (svm_prepare tsc (fst b)))"
    unfolding svm_inv_def by blast
  moreover have "vmcb_read_u64 SAVE_EFER (initial_vmcb ncr3 i m 0 0) = 0x1500"
    by (simp add: initial_vmcb_def setup_guest_fields)
  ultimately show ?thesis
    using injection_event_legal
    by (auto simp: svm_entry_ok_def same_control_def initial_vmcb_control svm_prepare_event
        split: option.split)
qed

text \<open>A conforming environment, in which the guest halts at once.\<close>

definition sample_svm_env :: "(u64, u64) svm_env" where
  "sample_svm_env = \<lparr>env_hw = sample_svm_hw, tsc_entry = 1000, tsc_exit = 1001,
     cpuid_hw = (\<lambda>_ _. (1, 2, 3, 4)), xsave_hw = (\<lambda>f d. write_le 8 0 f d), xrstor_hw = (\<lambda>d. read_le 8 d 0)\<rparr>"

definition sample_core :: "(u64, u64) core" where
  "sample_core = \<lparr>core_msr = (\<lambda>_. 0), core_hidden = 3, core_fp = 4, core_xcr = (\<lambda>_. 0)\<rparr>"

definition sample_svm_cpu :: SvmCpu where
  "sample_svm_cpu = \<lparr>svm_vmcb = initial_vmcb 0x5000 0x13000 0x14000 0x100000 0x200000,
     svm_host_vmcb = (\<lambda>_. 0), iopm = (\<lambda>i. if i < 4096 then 0xFF else 0),
     msrpm = (\<lambda>i. if i < 4096 then 0xFF else 0), vmcb_pa = 0x10000, host_vmcb_pa = 0x11000,
     host_save_pa = 0x12000,
     svm_regs = default_registers\<lparr>rdi := 0x9000, rsi := 0, rip := 0x100000, rsp := 0x200000, rflags := 2\<rparr>,
     svm_timer = default_timer, svm_pending = None, svm_guest_fpu = fpu_init_guest, svm_host_fpu = fpu_scratch\<rparr>"

lemma sample_svm_hw_spec: "svm_hw_spec sample_svm_hw"
  using same_control_write [of "0x448"]
  by (auto simp: svm_hw_spec_def sample_svm_hw_def vmcb_accesses vmcb_offsets same_control_def)

lemma sample_svm_new:
  "svm_new sample_host 0x5000 0 0 0x100000 0x200000 sample_core sample_heap =
     Ok (sample_svm_cpu, setup_svm sample_svm_cpu sample_core,
       sample_heap\<lparr>pool := [0x15000, 0x16000, 0x17000, 0x18000, 0x19000, 0x1a000, 0x1b000, 0x1c000,
         0x1d000, 0x1e000, 0x1f000]\<rparr>)"
  by (simp add: svm_new_def box_page_def bitmap_all_ones_def alloc_page_def sample_heap_def Let_def
      sample_host_physical sample_svm_cpu_def initial_vmcb_def BOOT_INFO_OFFSET_def setup_svm_def)

theorem svm_entry_checks_witness:
  "svm_entry_ok 0x5000 (svm_vmcb (svm_prepare 7 sample_svm_cpu))"
  using svm_entry_checks [OF svm_reachable.new [OF sample_svm_new], of 7] by simp

text \<open>
  C7: A run keeps the two sides apart. On conforming hardware, a run that returns leaves the host's
  floating-point registers and hidden segment state as it found them; it enters the guest with the
  floating-point registers that were saved for it and saves the ones the guest leaves behind; and SVM
  stays enabled on the core with the save area of this vCPU.
\<close>

theorem svm_run_isolates:
  assumes "xsave_spec (xsave_hw env) (xrstor_hw env)" and "svm_hw_spec (env_hw env)"
    and "svm_run env (cpu, c) = Ok ((cpu', c'), r)"
  shows "core_fp c' = core_fp c \<and> core_hidden c' = core_hidden c \<and>
    core_msr c' VM_HSAVE_PA = host_save_pa cpu \<and> bit (core_msr c' IA32_EFER) 12 \<and>
    (\<exists>g h v g' h' v'. vmrun_hw (env_hw env) g h (fpu_restore (xrstor_hw env) (svm_guest_fpu cpu)) v =
       (g', h', fpu_restore (xrstor_hw env) (svm_guest_fpu cpu'), v'))"
proof -
  define p where "p = svm_prepare (tsc_entry env) cpu"
  have pf: "svm_guest_fpu p = svm_guest_fpu cpu"
    by (simp add: p_def svm_prepare_def svm_inject_pending_eq svm_service_timer_eq Let_def split: option.split)
  obtain regs v hv hid f where run: "run_svm_vm (env_hw env) (vmcb_pa p) (svm_regs p) (svm_vmcb p)
      (svm_host_vmcb p) (core_hidden (setup_svm cpu c))
      (fpu_restore (xrstor_hw env) (svm_guest_fpu p)) = (regs, v, hv, hid, f)"
    by (metis prod_cases5)
  obtain g h v1 where vmrun: "vmrun_hw (env_hw env) ((gprs_of (svm_regs p))(RAX := vmcb_pa p))
      (vmload_hw (env_hw env) (svm_vmcb p)) (fpu_restore (xrstor_hw env) (svm_guest_fpu cpu)) (svm_vmcb p) = (g, h, f, v1)"
    using run by (auto simp: run_svm_vm_def Let_def pf split: prod.splits)
  have c: "core_fp (setup_svm cpu c) = core_fp c" "core_hidden (setup_svm cpu c) = core_hidden c"
    "core_msr (setup_svm cpu c) VM_HSAVE_PA = host_save_pa cpu" "bit (core_msr (setup_svm cpu c) IA32_EFER) 12"
    using and_exp_eq_0_iff [of "core_msr c IA32_EFER" 12]
    by (auto simp: setup_svm_def Let_def svm_msrs EFER_SVME_def bit_or_iff)
  note r = assms(3) [unfolded svm_run_eq [OF p_def run]]
  have "core_fp c' = core_fp c" "core_hidden c' = core_hidden c" "core_msr c' = core_msr (setup_svm cpu c)"
    using r same_control_run(2) [OF assms(2) run] fpu_restore_save [OF assms(1)] c(1,2)
    by (auto simp: svm_handle_exit_def Let_def split: if_splits)
  moreover have "svm_guest_fpu cpu' = fpu_save (xsave_hw env) f (svm_guest_fpu p)"
    using r by (auto simp: svm_handle_exit_def Let_def svm_advance_def svm_write_msr_def
        svm_write_apic_timer_msr_eq split: if_splits)
  ultimately show ?thesis using c(3,4) vmrun fpu_restore_save [OF assms(1)] by metis
qed

lemma sample_svm_run:
  "\<exists>cpu' c'. svm_run sample_svm_env (sample_svm_cpu, sample_core) = Ok ((cpu', c'), Success)"
proof -
  have "vmcb_read_u64 EXITCODE (write_le 8 0x448 h (vmcb_write_u64 EXITCODE exitcode_HLT v)) = exitcode_HLT"
    for h :: u64 and v by (simp add: vmcb_accesses vmcb_offsets)
  then show ?thesis
    by (simp add: svm_run_def sample_svm_env_def run_svm_vm_def sample_svm_hw_def Let_def)
      (simp add: svm_handle_exit_def exitcodes)
qed

theorem svm_run_isolates_witness:
  "\<exists>cpu' c'. svm_run sample_svm_env (sample_svm_cpu, sample_core) = Ok ((cpu', c'), Success) \<and>
     core_fp c' = 4 \<and> core_hidden c' = 3 \<and> core_msr c' VM_HSAVE_PA = 0x12000"
proof -
  obtain cpu' c' where r: "svm_run sample_svm_env (sample_svm_cpu, sample_core) = Ok ((cpu', c'), Success)"
    using sample_svm_run by blast
  have "xsave_spec (xsave_hw sample_svm_env) (xrstor_hw sample_svm_env)"
    by (simp add: xsave_spec_def sample_svm_env_def)
  from svm_run_isolates [OF this _ r] sample_svm_hw_spec r show ?thesis
    by (auto simp: sample_svm_env_def sample_core_def sample_svm_cpu_def)
qed

text \<open>
  C18: Delivery of the timer's interrupt. At every entry the event field of the control block holds
  exactly the vector that is due (the timer's if its deadline has passed and it is not masked, else the
  one still waiting) as an external interrupt if the guest can take it (RFLAGS.IF set and no
  interrupt shadow), and no event otherwise; the vector stops waiting exactly when it is injected, so
  none is lost and none is delivered twice.
\<close>

theorem svm_injects_due_vector:
  "vmcb_read_u64 EVENTINJ (svm_vmcb (svm_prepare tsc cpu)) =
     (if svm_interruptible cpu
      then (case due_vector tsc cpu of Some v \<Rightarrow> injection_event v | None \<Rightarrow> 0) else 0) \<and>
   svm_pending (svm_prepare tsc cpu) = (if svm_interruptible cpu then None else due_vector tsc cpu) \<and>
   (\<forall>v. bit (injection_event v) 31 \<and> drop_bit 8 (injection_event v) AND 7 = 0 \<and>
      ucast (injection_event v) = v)"
  by (simp add: svm_prepare_event injection_event_bits)

text \<open>
  C28: Emulated MSRs. A read returns what was written: FS and GS base in full, EFER but for the SVME bit
  that the host keeps set and hides, the TSC deadline while the timer is not masked; unknown MSRs read as
  zero and writes to them change nothing; and writing one of FS base, GS base and EFER leaves the others
  alone.
\<close>

theorem svm_msr_roundtrip:
  "svm_read_msr IA32_FS_BASE (svm_write_msr tsc IA32_FS_BASE val cpu) = val \<and>
   svm_read_msr IA32_GS_BASE (svm_write_msr tsc IA32_GS_BASE val cpu) = val \<and>
   svm_read_msr IA32_EFER (svm_write_msr tsc IA32_EFER val cpu) = val AND NOT EFER_SVME \<and>
   svm_read_msr IA32_TSC_DEADLINE (svm_write_msr tsc IA32_TSC_DEADLINE val cpu) =
     (if masked (svm_timer cpu) then 0 else val) \<and>
   (i \<in> {IA32_FS_BASE, IA32_GS_BASE, IA32_EFER} \<and> j \<in> {IA32_FS_BASE, IA32_GS_BASE, IA32_EFER} \<and> i \<noteq> j \<longrightarrow>
     svm_read_msr i (svm_write_msr tsc j val cpu) = svm_read_msr i cpu) \<and>
   (k \<notin> {IA32_FS_BASE, IA32_GS_BASE, IA32_EFER, IA32_TSC_DEADLINE, IA32_X2APIC_LVT_TIMER,
      IA32_X2APIC_INIT_COUNT} \<longrightarrow> svm_write_msr tsc k val cpu = cpu \<and> svm_read_msr k cpu = 0)"
proof -
  have "(val OR EFER_SVME) AND NOT EFER_SVME = val AND NOT EFER_SVME"
    by (simp add: bit.conj_disj_distrib2)
  then show ?thesis
    by (auto simp: svm_read_msr_def svm_write_msr_def svm_write_apic_timer_msr_eq timer_write_def
        svm_msrs vmcb_offsets)
qed

theorem svm_msr_roundtrip_witness:
  "svm_read_msr IA32_FS_BASE (svm_write_msr 0 IA32_GS_BASE 5 sample_svm_cpu) =
     svm_read_msr IA32_FS_BASE sample_svm_cpu \<and> svm_read_msr 0x1b sample_svm_cpu = 0"
  using svm_msr_roundtrip [of 0 5 sample_svm_cpu IA32_FS_BASE IA32_GS_BASE "0x1b"]
  by (simp add: svm_msrs)

text \<open>
  The permission maps as the architecture reads them (AMD64 Architecture Programmer's Manual, Volume 2,
  15.10 and 15.11): one bit for each I/O port, and two bits, for reads and for writes, for each MSR of
  three ranges of 8192. The result is the number of the bit, counted from the start of the map.
\<close>

definition iopm_position :: "u16 \<Rightarrow> nat" where
  "iopm_position port = unat port"

definition msrpm_position :: "u32 \<Rightarrow> bool \<Rightarrow> nat option" where
  "msrpm_position msr is_write =
     (let off = 2 * (unat msr mod 0x2000) + (if is_write then 1 else 0) in
      if msr < 0x2000 then Some off
      else if 0xC0000000 \<le> msr \<and> msr < 0xC0002000 then Some (0x800 * 8 + off)
      else if 0xC0010000 \<le> msr \<and> msr < 0xC0012000 then Some (0x1000 * 8 + off)
      else None)"

definition map_bit :: "bytes \<Rightarrow> nat \<Rightarrow> bool" where
  "map_bit m k = bit (m (k div 8)) (k mod 8)"

lemma bitmap_all_ones_bit:
  assumes "bitmap_all_ones s = Ok (a, m, s')" and "k < 4096 * 8"
  shows "map_bit m k"
proof -
  have "bit (0xFF :: u8) j" if "j < 8" for j
  proof -
    have "(0xFF :: u8) = mask 8" by (simp add: mask_eq_exp_minus_1)
    then show ?thesis using that by (simp only: bit_mask_iff) simp
  qed
  moreover have "k div 8 < 4096" using assms(2) by (simp add: div_less_iff_less_mult)
  ultimately show ?thesis using assms(1) by (auto simp: bitmap_all_ones_def map_bit_def)
qed

text \<open>
  C35: Coverage of the permission maps. Every port below 0x8000 and every MSR of the first two ranges,
  among them all MSRs that the backend emulates, is intercepted for reads and writes by a map that
  \<open>Bitmap::all_ones\<close> builds. The positions of the ports from 0x8000 on and of the third MSR range, which
  has \<open>VM_HSAVE_PA\<close>, lie beyond the 4096 bytes of the map.
\<close>

theorem permission_maps_cover:
  assumes "bitmap_all_ones s = Ok (a, m, s')"
  shows "(\<forall>port. port < 0x8000 \<longrightarrow> map_bit m (iopm_position port)) \<and>
    (\<forall>port. 0x8000 \<le> port \<longrightarrow> 4096 * 8 \<le> iopm_position port) \<and>
    (\<forall>msr w. msr < 0x2000 \<or> 0xC0000000 \<le> msr \<and> msr < 0xC0002000 \<longrightarrow>
       (\<exists>k. msrpm_position msr w = Some k \<and> map_bit m k)) \<and>
    (\<forall>msr \<in> {IA32_FS_BASE, IA32_GS_BASE, IA32_EFER, IA32_TSC_DEADLINE, IA32_X2APIC_LVT_TIMER,
       IA32_X2APIC_INIT_COUNT}. \<forall>w. \<exists>k. msrpm_position msr w = Some k \<and> map_bit m k) \<and>
    (\<exists>k. msrpm_position VM_HSAVE_PA False = Some k \<and> 4096 * 8 \<le> k)"
proof -
  have port: "map_bit m (iopm_position p)" if "p < 0x8000" for p
    using bitmap_all_ones_bit [OF assms] that by (simp add: iopm_position_def word_less_nat_alt)
  have beyond: "4096 * 8 \<le> iopm_position p" if "0x8000 \<le> p" for p
    using that by (simp add: iopm_position_def word_le_nat_alt)
  have msr: "\<exists>k. msrpm_position i w = Some k \<and> map_bit m k"
    if "i < 0x2000 \<or> 0xC0000000 \<le> i \<and> i < 0xC0002000" for i w
  proof -
    have "unat i mod 0x2000 \<le> 0x1fff" using mod_less_divisor [of "0x2000" "unat i"] by linarith
    then have "2 * (unat i mod 0x2000) + (if w then 1 else 0) < 0x800 * 8" by (cases w) simp_all
    with that show ?thesis
      by (auto simp: msrpm_position_def Let_def intro!: bitmap_all_ones_bit [OF assms])
  qed
  have "\<exists>k. msrpm_position i w = Some k \<and> map_bit m k"
    if "i \<in> {IA32_FS_BASE, IA32_GS_BASE, IA32_EFER, IA32_TSC_DEADLINE, IA32_X2APIC_LVT_TIMER,
       IA32_X2APIC_INIT_COUNT}" for i w
    using that by (intro msr) (auto simp: svm_msrs)
  moreover have "\<exists>k. msrpm_position VM_HSAVE_PA False = Some k \<and> 4096 * 8 \<le> k"
    by (simp add: msrpm_position_def VM_HSAVE_PA_def Let_def)
  ultimately show ?thesis using port beyond msr by blast
qed

theorem permission_maps_cover_witness:
  "\<exists>a m s'. bitmap_all_ones sample_heap = Ok (a, m, s') \<and> map_bit m (iopm_position 0x3f8) \<and>
     (\<exists>k. msrpm_position IA32_EFER True = Some k \<and> map_bit m k)"
proof -
  obtain a m s' where b: "bitmap_all_ones sample_heap = Ok (a, m, s')"
    by (simp add: bitmap_all_ones_def alloc_page_def sample_heap_def)
  with permission_maps_cover [OF b] show ?thesis by (intro exI [of _ a] exI [of _ m] exI [of _ s']) auto
qed

end
