(* ===== verification/Vmcs_Fields.thy ===== *)
theory Vmcs_Fields
  imports Rhyve_Prelude
begin

text \<open>
  The constants of \<^verbatim>\<open>src/crates/rhyve-x86/src/vmx/vmcs.rs\<close>: the encodings of the fields of the
  VMCS, with the source's module (control, guest, host, ro) as a prefix, and the flags of the five
  control words. They are followed by the format of an encoding as the processor's manual gives it,
  and the theorem that every encoding has that format.
\<close>

subsection \<open>Control, guest-state, host-state and read-only fields\<close>


text \<open>16-bit control fields.\<close>

definition control_VPID :: u32 where "control_VPID = 0x0"
definition control_POSTED_INTERRUPT_NOTIFICATION_VECTOR :: u32 where "control_POSTED_INTERRUPT_NOTIFICATION_VECTOR = 0x2"
definition control_EPTP_INDEX :: u32 where "control_EPTP_INDEX = 0x4"

text \<open>64-bit control fields.\<close>

definition control_IO_BITMAP_A_ADDR_FULL :: u32 where "control_IO_BITMAP_A_ADDR_FULL = 0x2000"
definition control_IO_BITMAP_B_ADDR_FULL :: u32 where "control_IO_BITMAP_B_ADDR_FULL = 0x2002"
definition control_MSR_BITMAPS_ADDR_FULL :: u32 where "control_MSR_BITMAPS_ADDR_FULL = 0x2004"
definition control_VMEXIT_MSR_STORE_ADDR_FULL :: u32 where "control_VMEXIT_MSR_STORE_ADDR_FULL = 0x2006"
definition control_VMEXIT_MSR_LOAD_ADDR_FULL :: u32 where "control_VMEXIT_MSR_LOAD_ADDR_FULL = 0x2008"
definition control_VMENTRY_MSR_LOAD_ADDR_FULL :: u32 where "control_VMENTRY_MSR_LOAD_ADDR_FULL = 0x200A"
definition control_EXECUTIVE_VMCS_PTR_FULL :: u32 where "control_EXECUTIVE_VMCS_PTR_FULL = 0x200C"
definition control_PML_ADDR_FULL :: u32 where "control_PML_ADDR_FULL = 0x200E"
definition control_TSC_OFFSET_FULL :: u32 where "control_TSC_OFFSET_FULL = 0x2010"
definition control_VIRT_APIC_ADDR_FULL :: u32 where "control_VIRT_APIC_ADDR_FULL = 0x2012"
definition control_APIC_ACCESS_ADDR_FULL :: u32 where "control_APIC_ACCESS_ADDR_FULL = 0x2014"
definition control_POSTED_INTERRUPT_DESC_ADDR_FULL :: u32 where "control_POSTED_INTERRUPT_DESC_ADDR_FULL = 0x2016"
definition control_VM_FUNCTION_CONTROLS_FULL :: u32 where "control_VM_FUNCTION_CONTROLS_FULL = 0x2018"
definition control_EPTP_FULL :: u32 where "control_EPTP_FULL = 0x201A"
definition control_EOI_EXIT0_FULL :: u32 where "control_EOI_EXIT0_FULL = 0x201C"
definition control_EOI_EXIT1_FULL :: u32 where "control_EOI_EXIT1_FULL = 0x201E"
definition control_EOI_EXIT2_FULL :: u32 where "control_EOI_EXIT2_FULL = 0x2020"
definition control_EOI_EXIT3_FULL :: u32 where "control_EOI_EXIT3_FULL = 0x2022"
definition control_EPTP_LIST_ADDR_FULL :: u32 where "control_EPTP_LIST_ADDR_FULL = 0x2024"
definition control_VMREAD_BITMAP_ADDR_FULL :: u32 where "control_VMREAD_BITMAP_ADDR_FULL = 0x2026"
definition control_VMWRITE_BITMAP_ADDR_FULL :: u32 where "control_VMWRITE_BITMAP_ADDR_FULL = 0x2028"
definition control_VIRT_EXCEPTION_INFO_ADDR_FULL :: u32 where "control_VIRT_EXCEPTION_INFO_ADDR_FULL = 0x202A"
definition control_XSS_EXITING_BITMAP_FULL :: u32 where "control_XSS_EXITING_BITMAP_FULL = 0x202C"
definition control_ENCLS_EXITING_BITMAP_FULL :: u32 where "control_ENCLS_EXITING_BITMAP_FULL = 0x202E"
definition control_SUBPAGE_PERM_TABLE_PTR_FULL :: u32 where "control_SUBPAGE_PERM_TABLE_PTR_FULL = 0x2030"
definition control_TSC_MULTIPLIER_FULL :: u32 where "control_TSC_MULTIPLIER_FULL = 0x2032"

text \<open>32-bit control fields.\<close>

definition control_PINBASED_EXEC_CONTROLS :: u32 where "control_PINBASED_EXEC_CONTROLS = 0x4000"
definition control_PRIMARY_PROCBASED_EXEC_CONTROLS :: u32 where "control_PRIMARY_PROCBASED_EXEC_CONTROLS = 0x4002"
definition control_EXCEPTION_BITMAP :: u32 where "control_EXCEPTION_BITMAP = 0x4004"
definition control_PAGE_FAULT_ERR_CODE_MASK :: u32 where "control_PAGE_FAULT_ERR_CODE_MASK = 0x4006"
definition control_PAGE_FAULT_ERR_CODE_MATCH :: u32 where "control_PAGE_FAULT_ERR_CODE_MATCH = 0x4008"
definition control_CR3_TARGET_COUNT :: u32 where "control_CR3_TARGET_COUNT = 0x400A"
definition control_VMEXIT_CONTROLS :: u32 where "control_VMEXIT_CONTROLS = 0x400C"
definition control_VMEXIT_MSR_STORE_COUNT :: u32 where "control_VMEXIT_MSR_STORE_COUNT = 0x400E"
definition control_VMEXIT_MSR_LOAD_COUNT :: u32 where "control_VMEXIT_MSR_LOAD_COUNT = 0x4010"
definition control_VMENTRY_CONTROLS :: u32 where "control_VMENTRY_CONTROLS = 0x4012"
definition control_VMENTRY_MSR_LOAD_COUNT :: u32 where "control_VMENTRY_MSR_LOAD_COUNT = 0x4014"
definition control_VMENTRY_INTERRUPTION_INFO_FIELD :: u32 where "control_VMENTRY_INTERRUPTION_INFO_FIELD = 0x4016"
definition control_VMENTRY_EXCEPTION_ERR_CODE :: u32 where "control_VMENTRY_EXCEPTION_ERR_CODE = 0x4018"
definition control_VMENTRY_INSTRUCTION_LEN :: u32 where "control_VMENTRY_INSTRUCTION_LEN = 0x401A"
definition control_TPR_THRESHOLD :: u32 where "control_TPR_THRESHOLD = 0x401C"
definition control_SECONDARY_PROCBASED_EXEC_CONTROLS :: u32 where "control_SECONDARY_PROCBASED_EXEC_CONTROLS = 0x401E"
definition control_PLE_GAP :: u32 where "control_PLE_GAP = 0x4020"
definition control_PLE_WINDOW :: u32 where "control_PLE_WINDOW = 0x4022"

text \<open>Natural-width control fields.\<close>

definition control_CR0_GUEST_HOST_MASK :: u32 where "control_CR0_GUEST_HOST_MASK = 0x6000"
definition control_CR4_GUEST_HOST_MASK :: u32 where "control_CR4_GUEST_HOST_MASK = 0x6002"
definition control_CR0_READ_SHADOW :: u32 where "control_CR0_READ_SHADOW = 0x6004"
definition control_CR4_READ_SHADOW :: u32 where "control_CR4_READ_SHADOW = 0x6006"
definition control_CR3_TARGET_VALUE0 :: u32 where "control_CR3_TARGET_VALUE0 = 0x6008"
definition control_CR3_TARGET_VALUE1 :: u32 where "control_CR3_TARGET_VALUE1 = 0x600A"
definition control_CR3_TARGET_VALUE2 :: u32 where "control_CR3_TARGET_VALUE2 = 0x600C"
definition control_CR3_TARGET_VALUE3 :: u32 where "control_CR3_TARGET_VALUE3 = 0x600E"

text \<open>The flags of \<open>PinbasedControls\<close>.\<close>

definition PinbasedControls_EXTERNAL_INTERRUPT_EXITING :: u32 where "PinbasedControls_EXTERNAL_INTERRUPT_EXITING = push_bit 0 1"
definition PinbasedControls_NMI_EXITING :: u32 where "PinbasedControls_NMI_EXITING = push_bit 3 1"
definition PinbasedControls_VIRTUAL_NMIS :: u32 where "PinbasedControls_VIRTUAL_NMIS = push_bit 5 1"
definition PinbasedControls_VMX_PREEMPTION_TIMER :: u32 where "PinbasedControls_VMX_PREEMPTION_TIMER = push_bit 6 1"
definition PinbasedControls_POSTED_INTERRUPTS :: u32 where "PinbasedControls_POSTED_INTERRUPTS = push_bit 7 1"

text \<open>The flags of \<open>PrimaryControls\<close>.\<close>

definition PrimaryControls_INTERRUPT_WINDOW_EXITING :: u32 where "PrimaryControls_INTERRUPT_WINDOW_EXITING = push_bit 2 1"
definition PrimaryControls_USE_TSC_OFFSETTING :: u32 where "PrimaryControls_USE_TSC_OFFSETTING = push_bit 3 1"
definition PrimaryControls_HLT_EXITING :: u32 where "PrimaryControls_HLT_EXITING = push_bit 7 1"
definition PrimaryControls_INVLPG_EXITING :: u32 where "PrimaryControls_INVLPG_EXITING = push_bit 9 1"
definition PrimaryControls_MWAIT_EXITING :: u32 where "PrimaryControls_MWAIT_EXITING = push_bit 10 1"
definition PrimaryControls_RDPMC_EXITING :: u32 where "PrimaryControls_RDPMC_EXITING = push_bit 11 1"
definition PrimaryControls_RDTSC_EXITING :: u32 where "PrimaryControls_RDTSC_EXITING = push_bit 12 1"
definition PrimaryControls_CR3_LOAD_EXITING :: u32 where "PrimaryControls_CR3_LOAD_EXITING = push_bit 15 1"
definition PrimaryControls_CR3_STORE_EXITING :: u32 where "PrimaryControls_CR3_STORE_EXITING = push_bit 16 1"
definition PrimaryControls_CR8_LOAD_EXITING :: u32 where "PrimaryControls_CR8_LOAD_EXITING = push_bit 19 1"
definition PrimaryControls_CR8_STORE_EXITING :: u32 where "PrimaryControls_CR8_STORE_EXITING = push_bit 20 1"
definition PrimaryControls_USE_TPR_SHADOW :: u32 where "PrimaryControls_USE_TPR_SHADOW = push_bit 21 1"
definition PrimaryControls_NMI_WINDOW_EXITING :: u32 where "PrimaryControls_NMI_WINDOW_EXITING = push_bit 22 1"
definition PrimaryControls_MOV_DR_EXITING :: u32 where "PrimaryControls_MOV_DR_EXITING = push_bit 23 1"
definition PrimaryControls_UNCOND_IO_EXITING :: u32 where "PrimaryControls_UNCOND_IO_EXITING = push_bit 24 1"
definition PrimaryControls_USE_IO_BITMAPS :: u32 where "PrimaryControls_USE_IO_BITMAPS = push_bit 25 1"
definition PrimaryControls_MONITOR_TRAP_FLAG :: u32 where "PrimaryControls_MONITOR_TRAP_FLAG = push_bit 27 1"
definition PrimaryControls_USE_MSR_BITMAPS :: u32 where "PrimaryControls_USE_MSR_BITMAPS = push_bit 28 1"
definition PrimaryControls_MONITOR_EXITING :: u32 where "PrimaryControls_MONITOR_EXITING = push_bit 29 1"
definition PrimaryControls_PAUSE_EXITING :: u32 where "PrimaryControls_PAUSE_EXITING = push_bit 30 1"
definition PrimaryControls_SECONDARY_CONTROLS :: u32 where "PrimaryControls_SECONDARY_CONTROLS = push_bit 31 1"

text \<open>The flags of \<open>SecondaryControls\<close>.\<close>

definition SecondaryControls_VIRTUALIZE_APIC :: u32 where "SecondaryControls_VIRTUALIZE_APIC = push_bit 0 1"
definition SecondaryControls_ENABLE_EPT :: u32 where "SecondaryControls_ENABLE_EPT = push_bit 1 1"
definition SecondaryControls_DTABLE_EXITING :: u32 where "SecondaryControls_DTABLE_EXITING = push_bit 2 1"
definition SecondaryControls_ENABLE_RDTSCP :: u32 where "SecondaryControls_ENABLE_RDTSCP = push_bit 3 1"
definition SecondaryControls_VIRTUALIZE_X2APIC :: u32 where "SecondaryControls_VIRTUALIZE_X2APIC = push_bit 4 1"
definition SecondaryControls_ENABLE_VPID :: u32 where "SecondaryControls_ENABLE_VPID = push_bit 5 1"
definition SecondaryControls_WBINVD_EXITING :: u32 where "SecondaryControls_WBINVD_EXITING = push_bit 6 1"
definition SecondaryControls_UNRESTRICTED_GUEST :: u32 where "SecondaryControls_UNRESTRICTED_GUEST = push_bit 7 1"
definition SecondaryControls_VIRTUALIZE_APIC_REGISTER :: u32 where "SecondaryControls_VIRTUALIZE_APIC_REGISTER = push_bit 8 1"
definition SecondaryControls_VIRTUAL_INTERRUPT_DELIVERY :: u32 where "SecondaryControls_VIRTUAL_INTERRUPT_DELIVERY = push_bit 9 1"
definition SecondaryControls_PAUSE_LOOP_EXITING :: u32 where "SecondaryControls_PAUSE_LOOP_EXITING = push_bit 10 1"
definition SecondaryControls_RDRAND_EXITING :: u32 where "SecondaryControls_RDRAND_EXITING = push_bit 11 1"
definition SecondaryControls_ENABLE_INVPCID :: u32 where "SecondaryControls_ENABLE_INVPCID = push_bit 12 1"
definition SecondaryControls_ENABLE_VM_FUNCTIONS :: u32 where "SecondaryControls_ENABLE_VM_FUNCTIONS = push_bit 13 1"
definition SecondaryControls_VMCS_SHADOWING :: u32 where "SecondaryControls_VMCS_SHADOWING = push_bit 14 1"
definition SecondaryControls_ENCLS_EXITING :: u32 where "SecondaryControls_ENCLS_EXITING = push_bit 15 1"
definition SecondaryControls_RDSEED_EXITING :: u32 where "SecondaryControls_RDSEED_EXITING = push_bit 16 1"
definition SecondaryControls_ENABLE_PML :: u32 where "SecondaryControls_ENABLE_PML = push_bit 17 1"
definition SecondaryControls_EPT_VIOLATION_VE :: u32 where "SecondaryControls_EPT_VIOLATION_VE = push_bit 18 1"
definition SecondaryControls_CONCEAL_VMX_FROM_PT :: u32 where "SecondaryControls_CONCEAL_VMX_FROM_PT = push_bit 19 1"
definition SecondaryControls_ENABLE_XSAVES_XRSTORS :: u32 where "SecondaryControls_ENABLE_XSAVES_XRSTORS = push_bit 20 1"
definition SecondaryControls_MODE_BASED_EPT :: u32 where "SecondaryControls_MODE_BASED_EPT = push_bit 22 1"
definition SecondaryControls_SUB_PAGE_EPT :: u32 where "SecondaryControls_SUB_PAGE_EPT = push_bit 23 1"
definition SecondaryControls_INTEL_PT_GUEST_PHYSICAL :: u32 where "SecondaryControls_INTEL_PT_GUEST_PHYSICAL = push_bit 24 1"
definition SecondaryControls_USE_TSC_SCALING :: u32 where "SecondaryControls_USE_TSC_SCALING = push_bit 25 1"
definition SecondaryControls_ENABLE_USER_WAIT_PAUSE :: u32 where "SecondaryControls_ENABLE_USER_WAIT_PAUSE = push_bit 26 1"
definition SecondaryControls_ENCLV_EXITING :: u32 where "SecondaryControls_ENCLV_EXITING = push_bit 28 1"

text \<open>The flags of \<open>EntryControls\<close>.\<close>

definition EntryControls_LOAD_DEBUG_CONTROLS :: u32 where "EntryControls_LOAD_DEBUG_CONTROLS = push_bit 2 1"
definition EntryControls_IA32E_MODE_GUEST :: u32 where "EntryControls_IA32E_MODE_GUEST = push_bit 9 1"
definition EntryControls_ENTRY_TO_SMM :: u32 where "EntryControls_ENTRY_TO_SMM = push_bit 10 1"
definition EntryControls_DEACTIVATE_DUAL_MONITOR :: u32 where "EntryControls_DEACTIVATE_DUAL_MONITOR = push_bit 11 1"
definition EntryControls_LOAD_IA32_PERF_GLOBAL_CTRL :: u32 where "EntryControls_LOAD_IA32_PERF_GLOBAL_CTRL = push_bit 13 1"
definition EntryControls_LOAD_IA32_PAT :: u32 where "EntryControls_LOAD_IA32_PAT = push_bit 14 1"
definition EntryControls_LOAD_IA32_EFER :: u32 where "EntryControls_LOAD_IA32_EFER = push_bit 15 1"
definition EntryControls_LOAD_IA32_BNDCFGS :: u32 where "EntryControls_LOAD_IA32_BNDCFGS = push_bit 16 1"
definition EntryControls_CONCEAL_VMX_FROM_PT :: u32 where "EntryControls_CONCEAL_VMX_FROM_PT = push_bit 17 1"
definition EntryControls_LOAD_IA32_RTIT_CTL :: u32 where "EntryControls_LOAD_IA32_RTIT_CTL = push_bit 18 1"

text \<open>The flags of \<open>ExitControls\<close>.\<close>

definition ExitControls_SAVE_DEBUG_CONTROLS :: u32 where "ExitControls_SAVE_DEBUG_CONTROLS = push_bit 2 1"
definition ExitControls_HOST_ADDRESS_SPACE_SIZE :: u32 where "ExitControls_HOST_ADDRESS_SPACE_SIZE = push_bit 9 1"
definition ExitControls_LOAD_IA32_PERF_GLOBAL_CTRL :: u32 where "ExitControls_LOAD_IA32_PERF_GLOBAL_CTRL = push_bit 12 1"
definition ExitControls_ACK_INTERRUPT_ON_EXIT :: u32 where "ExitControls_ACK_INTERRUPT_ON_EXIT = push_bit 15 1"
definition ExitControls_SAVE_IA32_PAT :: u32 where "ExitControls_SAVE_IA32_PAT = push_bit 18 1"
definition ExitControls_LOAD_IA32_PAT :: u32 where "ExitControls_LOAD_IA32_PAT = push_bit 19 1"
definition ExitControls_SAVE_IA32_EFER :: u32 where "ExitControls_SAVE_IA32_EFER = push_bit 20 1"
definition ExitControls_LOAD_IA32_EFER :: u32 where "ExitControls_LOAD_IA32_EFER = push_bit 21 1"
definition ExitControls_SAVE_VMX_PREEMPTION_TIMER :: u32 where "ExitControls_SAVE_VMX_PREEMPTION_TIMER = push_bit 22 1"
definition ExitControls_CLEAR_IA32_BNDCFGS :: u32 where "ExitControls_CLEAR_IA32_BNDCFGS = push_bit 23 1"
definition ExitControls_CONCEAL_VMX_FROM_PT :: u32 where "ExitControls_CONCEAL_VMX_FROM_PT = push_bit 24 1"
definition ExitControls_CLEAR_IA32_RTIT_CTL :: u32 where "ExitControls_CLEAR_IA32_RTIT_CTL = push_bit 25 1"

text \<open>16-bit guest-state fields.\<close>

definition guest_ES_SELECTOR :: u32 where "guest_ES_SELECTOR = 0x800"
definition guest_CS_SELECTOR :: u32 where "guest_CS_SELECTOR = 0x802"
definition guest_SS_SELECTOR :: u32 where "guest_SS_SELECTOR = 0x804"
definition guest_DS_SELECTOR :: u32 where "guest_DS_SELECTOR = 0x806"
definition guest_FS_SELECTOR :: u32 where "guest_FS_SELECTOR = 0x808"
definition guest_GS_SELECTOR :: u32 where "guest_GS_SELECTOR = 0x80A"
definition guest_LDTR_SELECTOR :: u32 where "guest_LDTR_SELECTOR = 0x80C"
definition guest_TR_SELECTOR :: u32 where "guest_TR_SELECTOR = 0x80E"
definition guest_INTERRUPT_STATUS :: u32 where "guest_INTERRUPT_STATUS = 0x810"
definition guest_PML_INDEX :: u32 where "guest_PML_INDEX = 0x812"

text \<open>64-bit guest-state fields.\<close>

definition guest_LINK_PTR_FULL :: u32 where "guest_LINK_PTR_FULL = 0x2800"
definition guest_IA32_DEBUGCTL_FULL :: u32 where "guest_IA32_DEBUGCTL_FULL = 0x2802"
definition guest_IA32_PAT_FULL :: u32 where "guest_IA32_PAT_FULL = 0x2804"
definition guest_IA32_EFER_FULL :: u32 where "guest_IA32_EFER_FULL = 0x2806"
definition guest_IA32_PERF_GLOBAL_CTRL_FULL :: u32 where "guest_IA32_PERF_GLOBAL_CTRL_FULL = 0x2808"
definition guest_PDPTE0_FULL :: u32 where "guest_PDPTE0_FULL = 0x280A"
definition guest_PDPTE1_FULL :: u32 where "guest_PDPTE1_FULL = 0x280C"
definition guest_PDPTE2_FULL :: u32 where "guest_PDPTE2_FULL = 0x280E"
definition guest_PDPTE3_FULL :: u32 where "guest_PDPTE3_FULL = 0x2810"
definition guest_IA32_BNDCFGS_FULL :: u32 where "guest_IA32_BNDCFGS_FULL = 0x2812"
definition guest_IA32_RTIT_CTL_FULL :: u32 where "guest_IA32_RTIT_CTL_FULL = 0x2814"

text \<open>32-bit guest-state fields.\<close>

definition guest_ES_LIMIT :: u32 where "guest_ES_LIMIT = 0x4800"
definition guest_CS_LIMIT :: u32 where "guest_CS_LIMIT = 0x4802"
definition guest_SS_LIMIT :: u32 where "guest_SS_LIMIT = 0x4804"
definition guest_DS_LIMIT :: u32 where "guest_DS_LIMIT = 0x4806"
definition guest_FS_LIMIT :: u32 where "guest_FS_LIMIT = 0x4808"
definition guest_GS_LIMIT :: u32 where "guest_GS_LIMIT = 0x480A"
definition guest_LDTR_LIMIT :: u32 where "guest_LDTR_LIMIT = 0x480C"
definition guest_TR_LIMIT :: u32 where "guest_TR_LIMIT = 0x480E"
definition guest_GDTR_LIMIT :: u32 where "guest_GDTR_LIMIT = 0x4810"
definition guest_IDTR_LIMIT :: u32 where "guest_IDTR_LIMIT = 0x4812"
definition guest_ES_ACCESS_RIGHTS :: u32 where "guest_ES_ACCESS_RIGHTS = 0x4814"
definition guest_CS_ACCESS_RIGHTS :: u32 where "guest_CS_ACCESS_RIGHTS = 0x4816"
definition guest_SS_ACCESS_RIGHTS :: u32 where "guest_SS_ACCESS_RIGHTS = 0x4818"
definition guest_DS_ACCESS_RIGHTS :: u32 where "guest_DS_ACCESS_RIGHTS = 0x481A"
definition guest_FS_ACCESS_RIGHTS :: u32 where "guest_FS_ACCESS_RIGHTS = 0x481C"
definition guest_GS_ACCESS_RIGHTS :: u32 where "guest_GS_ACCESS_RIGHTS = 0x481E"
definition guest_LDTR_ACCESS_RIGHTS :: u32 where "guest_LDTR_ACCESS_RIGHTS = 0x4820"
definition guest_TR_ACCESS_RIGHTS :: u32 where "guest_TR_ACCESS_RIGHTS = 0x4822"
definition guest_INTERRUPTIBILITY_STATE :: u32 where "guest_INTERRUPTIBILITY_STATE = 0x4824"
definition guest_ACTIVITY_STATE :: u32 where "guest_ACTIVITY_STATE = 0x4826"
definition guest_SMBASE :: u32 where "guest_SMBASE = 0x4828"
definition guest_IA32_SYSENTER_CS :: u32 where "guest_IA32_SYSENTER_CS = 0x482A"
definition guest_VMX_PREEMPTION_TIMER_VALUE :: u32 where "guest_VMX_PREEMPTION_TIMER_VALUE = 0x482E"

text \<open>Natural-width guest-state fields.\<close>

definition guest_CR0 :: u32 where "guest_CR0 = 0x6800"
definition guest_CR3 :: u32 where "guest_CR3 = 0x6802"
definition guest_CR4 :: u32 where "guest_CR4 = 0x6804"
definition guest_ES_BASE :: u32 where "guest_ES_BASE = 0x6806"
definition guest_CS_BASE :: u32 where "guest_CS_BASE = 0x6808"
definition guest_SS_BASE :: u32 where "guest_SS_BASE = 0x680A"
definition guest_DS_BASE :: u32 where "guest_DS_BASE = 0x680C"
definition guest_FS_BASE :: u32 where "guest_FS_BASE = 0x680E"
definition guest_GS_BASE :: u32 where "guest_GS_BASE = 0x6810"
definition guest_LDTR_BASE :: u32 where "guest_LDTR_BASE = 0x6812"
definition guest_TR_BASE :: u32 where "guest_TR_BASE = 0x6814"
definition guest_GDTR_BASE :: u32 where "guest_GDTR_BASE = 0x6816"
definition guest_IDTR_BASE :: u32 where "guest_IDTR_BASE = 0x6818"
definition guest_DR7 :: u32 where "guest_DR7 = 0x681A"
definition guest_RSP :: u32 where "guest_RSP = 0x681C"
definition guest_RIP :: u32 where "guest_RIP = 0x681E"
definition guest_RFLAGS :: u32 where "guest_RFLAGS = 0x6820"
definition guest_PENDING_DBG_EXCEPTIONS :: u32 where "guest_PENDING_DBG_EXCEPTIONS = 0x6822"
definition guest_IA32_SYSENTER_ESP :: u32 where "guest_IA32_SYSENTER_ESP = 0x6824"
definition guest_IA32_SYSENTER_EIP :: u32 where "guest_IA32_SYSENTER_EIP = 0x6826"

text \<open>16-bit host-state fields.\<close>

definition host_ES_SELECTOR :: u32 where "host_ES_SELECTOR = 0xC00"
definition host_CS_SELECTOR :: u32 where "host_CS_SELECTOR = 0xC02"
definition host_SS_SELECTOR :: u32 where "host_SS_SELECTOR = 0xC04"
definition host_DS_SELECTOR :: u32 where "host_DS_SELECTOR = 0xC06"
definition host_FS_SELECTOR :: u32 where "host_FS_SELECTOR = 0xC08"
definition host_GS_SELECTOR :: u32 where "host_GS_SELECTOR = 0xC0A"
definition host_TR_SELECTOR :: u32 where "host_TR_SELECTOR = 0xC0C"

text \<open>64-bit host-state fields.\<close>

definition host_IA32_PAT_FULL :: u32 where "host_IA32_PAT_FULL = 0x2C00"
definition host_IA32_EFER_FULL :: u32 where "host_IA32_EFER_FULL = 0x2C02"
definition host_IA32_PERF_GLOBAL_CTRL_FULL :: u32 where "host_IA32_PERF_GLOBAL_CTRL_FULL = 0x2C04"

text \<open>32-bit host-state field.\<close>

definition host_IA32_SYSENTER_CS :: u32 where "host_IA32_SYSENTER_CS = 0x4C00"

text \<open>Natural-width host-state fields.\<close>

definition host_CR0 :: u32 where "host_CR0 = 0x6C00"
definition host_CR3 :: u32 where "host_CR3 = 0x6C02"
definition host_CR4 :: u32 where "host_CR4 = 0x6C04"
definition host_FS_BASE :: u32 where "host_FS_BASE = 0x6C06"
definition host_GS_BASE :: u32 where "host_GS_BASE = 0x6C08"
definition host_TR_BASE :: u32 where "host_TR_BASE = 0x6C0A"
definition host_GDTR_BASE :: u32 where "host_GDTR_BASE = 0x6C0C"
definition host_IDTR_BASE :: u32 where "host_IDTR_BASE = 0x6C0E"
definition host_IA32_SYSENTER_ESP :: u32 where "host_IA32_SYSENTER_ESP = 0x6C10"
definition host_IA32_SYSENTER_EIP :: u32 where "host_IA32_SYSENTER_EIP = 0x6C12"
definition host_RSP :: u32 where "host_RSP = 0x6C14"
definition host_RIP :: u32 where "host_RIP = 0x6C16"

text \<open>64-bit read-only data fields.\<close>

definition ro_GUEST_PHYSICAL_ADDR_FULL :: u32 where "ro_GUEST_PHYSICAL_ADDR_FULL = 0x2400"

text \<open>32-bit read-only data fields.\<close>

definition ro_VM_INSTRUCTION_ERROR :: u32 where "ro_VM_INSTRUCTION_ERROR = 0x4400"
definition ro_EXIT_REASON :: u32 where "ro_EXIT_REASON = 0x4402"
definition ro_VMEXIT_INTERRUPTION_INFO :: u32 where "ro_VMEXIT_INTERRUPTION_INFO = 0x4404"
definition ro_VMEXIT_INTERRUPTION_ERR_CODE :: u32 where "ro_VMEXIT_INTERRUPTION_ERR_CODE = 0x4406"
definition ro_IDT_VECTORING_INFO :: u32 where "ro_IDT_VECTORING_INFO = 0x4408"
definition ro_IDT_VECTORING_ERR_CODE :: u32 where "ro_IDT_VECTORING_ERR_CODE = 0x440A"
definition ro_VMEXIT_INSTRUCTION_LEN :: u32 where "ro_VMEXIT_INSTRUCTION_LEN = 0x440C"
definition ro_VMEXIT_INSTRUCTION_INFO :: u32 where "ro_VMEXIT_INSTRUCTION_INFO = 0x440E"

text \<open>Natural-width read-only data fields.\<close>

definition ro_EXIT_QUALIFICATION :: u32 where "ro_EXIT_QUALIFICATION = 0x6400"
definition ro_GUEST_LINEAR_ADDR :: u32 where "ro_GUEST_LINEAR_ADDR = 0x640A"

lemmas field_encodings =
  control_VPID_def control_POSTED_INTERRUPT_NOTIFICATION_VECTOR_def control_EPTP_INDEX_def
  control_IO_BITMAP_A_ADDR_FULL_def
  control_IO_BITMAP_B_ADDR_FULL_def
  control_MSR_BITMAPS_ADDR_FULL_def
  control_VMEXIT_MSR_STORE_ADDR_FULL_def
  control_VMEXIT_MSR_LOAD_ADDR_FULL_def
  control_VMENTRY_MSR_LOAD_ADDR_FULL_def
  control_EXECUTIVE_VMCS_PTR_FULL_def
  control_PML_ADDR_FULL_def control_TSC_OFFSET_FULL_def
  control_VIRT_APIC_ADDR_FULL_def
  control_APIC_ACCESS_ADDR_FULL_def
  control_POSTED_INTERRUPT_DESC_ADDR_FULL_def
  control_VM_FUNCTION_CONTROLS_FULL_def
  control_EPTP_FULL_def control_EOI_EXIT0_FULL_def
  control_EOI_EXIT1_FULL_def
  control_EOI_EXIT2_FULL_def control_EOI_EXIT3_FULL_def
  control_EPTP_LIST_ADDR_FULL_def
  control_VMREAD_BITMAP_ADDR_FULL_def
  control_VMWRITE_BITMAP_ADDR_FULL_def
  control_VIRT_EXCEPTION_INFO_ADDR_FULL_def
  control_XSS_EXITING_BITMAP_FULL_def
  control_ENCLS_EXITING_BITMAP_FULL_def
  control_SUBPAGE_PERM_TABLE_PTR_FULL_def
  control_TSC_MULTIPLIER_FULL_def
  control_PINBASED_EXEC_CONTROLS_def control_PRIMARY_PROCBASED_EXEC_CONTROLS_def
  control_EXCEPTION_BITMAP_def control_PAGE_FAULT_ERR_CODE_MASK_def
  control_PAGE_FAULT_ERR_CODE_MATCH_def control_CR3_TARGET_COUNT_def control_VMEXIT_CONTROLS_def
  control_VMEXIT_MSR_STORE_COUNT_def control_VMEXIT_MSR_LOAD_COUNT_def
  control_VMENTRY_CONTROLS_def control_VMENTRY_MSR_LOAD_COUNT_def
  control_VMENTRY_INTERRUPTION_INFO_FIELD_def control_VMENTRY_EXCEPTION_ERR_CODE_def
  control_VMENTRY_INSTRUCTION_LEN_def control_TPR_THRESHOLD_def
  control_SECONDARY_PROCBASED_EXEC_CONTROLS_def control_PLE_GAP_def control_PLE_WINDOW_def
  control_CR0_GUEST_HOST_MASK_def control_CR4_GUEST_HOST_MASK_def control_CR0_READ_SHADOW_def
  control_CR4_READ_SHADOW_def control_CR3_TARGET_VALUE0_def control_CR3_TARGET_VALUE1_def
  control_CR3_TARGET_VALUE2_def control_CR3_TARGET_VALUE3_def guest_ES_SELECTOR_def
  guest_CS_SELECTOR_def guest_SS_SELECTOR_def guest_DS_SELECTOR_def guest_FS_SELECTOR_def
  guest_GS_SELECTOR_def guest_LDTR_SELECTOR_def guest_TR_SELECTOR_def guest_INTERRUPT_STATUS_def
  guest_PML_INDEX_def guest_LINK_PTR_FULL_def
  guest_IA32_DEBUGCTL_FULL_def guest_IA32_PAT_FULL_def
  guest_IA32_EFER_FULL_def
  guest_IA32_PERF_GLOBAL_CTRL_FULL_def
  guest_PDPTE0_FULL_def guest_PDPTE1_FULL_def
  guest_PDPTE2_FULL_def guest_PDPTE3_FULL_def
  guest_IA32_BNDCFGS_FULL_def guest_IA32_RTIT_CTL_FULL_def
  guest_ES_LIMIT_def guest_CS_LIMIT_def guest_SS_LIMIT_def
  guest_DS_LIMIT_def guest_FS_LIMIT_def guest_GS_LIMIT_def guest_LDTR_LIMIT_def
  guest_TR_LIMIT_def guest_GDTR_LIMIT_def guest_IDTR_LIMIT_def guest_ES_ACCESS_RIGHTS_def
  guest_CS_ACCESS_RIGHTS_def guest_SS_ACCESS_RIGHTS_def guest_DS_ACCESS_RIGHTS_def
  guest_FS_ACCESS_RIGHTS_def guest_GS_ACCESS_RIGHTS_def guest_LDTR_ACCESS_RIGHTS_def
  guest_TR_ACCESS_RIGHTS_def guest_INTERRUPTIBILITY_STATE_def guest_ACTIVITY_STATE_def
  guest_SMBASE_def guest_IA32_SYSENTER_CS_def guest_VMX_PREEMPTION_TIMER_VALUE_def guest_CR0_def
  guest_CR3_def guest_CR4_def guest_ES_BASE_def guest_CS_BASE_def guest_SS_BASE_def
  guest_DS_BASE_def guest_FS_BASE_def guest_GS_BASE_def guest_LDTR_BASE_def guest_TR_BASE_def
  guest_GDTR_BASE_def guest_IDTR_BASE_def guest_DR7_def guest_RSP_def guest_RIP_def
  guest_RFLAGS_def guest_PENDING_DBG_EXCEPTIONS_def guest_IA32_SYSENTER_ESP_def
  guest_IA32_SYSENTER_EIP_def host_ES_SELECTOR_def host_CS_SELECTOR_def host_SS_SELECTOR_def
  host_DS_SELECTOR_def host_FS_SELECTOR_def host_GS_SELECTOR_def host_TR_SELECTOR_def
  host_IA32_PAT_FULL_def host_IA32_EFER_FULL_def
  host_IA32_PERF_GLOBAL_CTRL_FULL_def
  host_IA32_SYSENTER_CS_def host_CR0_def host_CR3_def host_CR4_def host_FS_BASE_def
  host_GS_BASE_def host_TR_BASE_def host_GDTR_BASE_def host_IDTR_BASE_def
  host_IA32_SYSENTER_ESP_def host_IA32_SYSENTER_EIP_def host_RSP_def host_RIP_def
  ro_GUEST_PHYSICAL_ADDR_FULL_def ro_VM_INSTRUCTION_ERROR_def
  ro_EXIT_REASON_def ro_VMEXIT_INTERRUPTION_INFO_def ro_VMEXIT_INTERRUPTION_ERR_CODE_def
  ro_IDT_VECTORING_INFO_def ro_IDT_VECTORING_ERR_CODE_def ro_VMEXIT_INSTRUCTION_LEN_def
  ro_VMEXIT_INSTRUCTION_INFO_def ro_EXIT_QUALIFICATION_def
  ro_GUEST_LINEAR_ADDR_def

lemmas control_flags =
  PinbasedControls_EXTERNAL_INTERRUPT_EXITING_def PinbasedControls_NMI_EXITING_def
  PinbasedControls_VIRTUAL_NMIS_def PinbasedControls_VMX_PREEMPTION_TIMER_def
  PinbasedControls_POSTED_INTERRUPTS_def PrimaryControls_INTERRUPT_WINDOW_EXITING_def
  PrimaryControls_USE_TSC_OFFSETTING_def PrimaryControls_HLT_EXITING_def
  PrimaryControls_INVLPG_EXITING_def PrimaryControls_MWAIT_EXITING_def
  PrimaryControls_RDPMC_EXITING_def PrimaryControls_RDTSC_EXITING_def
  PrimaryControls_CR3_LOAD_EXITING_def PrimaryControls_CR3_STORE_EXITING_def
  PrimaryControls_CR8_LOAD_EXITING_def PrimaryControls_CR8_STORE_EXITING_def
  PrimaryControls_USE_TPR_SHADOW_def PrimaryControls_NMI_WINDOW_EXITING_def
  PrimaryControls_MOV_DR_EXITING_def PrimaryControls_UNCOND_IO_EXITING_def
  PrimaryControls_USE_IO_BITMAPS_def PrimaryControls_MONITOR_TRAP_FLAG_def
  PrimaryControls_USE_MSR_BITMAPS_def PrimaryControls_MONITOR_EXITING_def
  PrimaryControls_PAUSE_EXITING_def PrimaryControls_SECONDARY_CONTROLS_def
  SecondaryControls_VIRTUALIZE_APIC_def SecondaryControls_ENABLE_EPT_def
  SecondaryControls_DTABLE_EXITING_def SecondaryControls_ENABLE_RDTSCP_def
  SecondaryControls_VIRTUALIZE_X2APIC_def SecondaryControls_ENABLE_VPID_def
  SecondaryControls_WBINVD_EXITING_def SecondaryControls_UNRESTRICTED_GUEST_def
  SecondaryControls_VIRTUALIZE_APIC_REGISTER_def
  SecondaryControls_VIRTUAL_INTERRUPT_DELIVERY_def SecondaryControls_PAUSE_LOOP_EXITING_def
  SecondaryControls_RDRAND_EXITING_def SecondaryControls_ENABLE_INVPCID_def
  SecondaryControls_ENABLE_VM_FUNCTIONS_def SecondaryControls_VMCS_SHADOWING_def
  SecondaryControls_ENCLS_EXITING_def SecondaryControls_RDSEED_EXITING_def
  SecondaryControls_ENABLE_PML_def SecondaryControls_EPT_VIOLATION_VE_def
  SecondaryControls_CONCEAL_VMX_FROM_PT_def SecondaryControls_ENABLE_XSAVES_XRSTORS_def
  SecondaryControls_MODE_BASED_EPT_def SecondaryControls_SUB_PAGE_EPT_def
  SecondaryControls_INTEL_PT_GUEST_PHYSICAL_def SecondaryControls_USE_TSC_SCALING_def
  SecondaryControls_ENABLE_USER_WAIT_PAUSE_def SecondaryControls_ENCLV_EXITING_def
  EntryControls_LOAD_DEBUG_CONTROLS_def EntryControls_IA32E_MODE_GUEST_def
  EntryControls_ENTRY_TO_SMM_def EntryControls_DEACTIVATE_DUAL_MONITOR_def
  EntryControls_LOAD_IA32_PERF_GLOBAL_CTRL_def EntryControls_LOAD_IA32_PAT_def
  EntryControls_LOAD_IA32_EFER_def EntryControls_LOAD_IA32_BNDCFGS_def
  EntryControls_CONCEAL_VMX_FROM_PT_def EntryControls_LOAD_IA32_RTIT_CTL_def
  ExitControls_SAVE_DEBUG_CONTROLS_def ExitControls_HOST_ADDRESS_SPACE_SIZE_def
  ExitControls_LOAD_IA32_PERF_GLOBAL_CTRL_def ExitControls_ACK_INTERRUPT_ON_EXIT_def
  ExitControls_SAVE_IA32_PAT_def ExitControls_LOAD_IA32_PAT_def ExitControls_SAVE_IA32_EFER_def
  ExitControls_LOAD_IA32_EFER_def ExitControls_SAVE_VMX_PREEMPTION_TIMER_def
  ExitControls_CLEAR_IA32_BNDCFGS_def ExitControls_CONCEAL_VMX_FROM_PT_def
  ExitControls_CLEAR_IA32_RTIT_CTL_def

subsection \<open>The format of an encoding\<close>

text \<open>
  Intel SDM, volume 3, section 25.11.2: bit 0 is set for the access to the high half of a 64-bit
  field, bits 9:1 are an index, bits 11:10 the type of the field (0 control, 1 VM-exit information,
  2 guest state, 3 host state), bit 12 is reserved, bits 14:13 are the width (0 for 16 bits, 1 for
  64 bits, 2 for 32 bits, 3 for the natural width), and the bits above are reserved.
\<close>

definition field_type :: "u32 \<Rightarrow> nat" where
  "field_type e = unat e div 2 ^ 10 mod 4"

definition field_width :: "u32 \<Rightarrow> nat" where
  "field_width e = unat e div 2 ^ 13 mod 4"

definition field_reserved_clear :: "u32 \<Rightarrow> bool" where
  "field_reserved_clear e \<longleftrightarrow> unat e < 2 ^ 15 \<and> even (unat e div 2 ^ 12)"

definition field_high :: "u32 \<Rightarrow> bool" where
  "field_high e \<longleftrightarrow> odd (unat e)"

text \<open>
  The fields of each section of the source, in its order, with the type and width the section names. The
  high halves of the 64-bit fields and the four I/O fields, which the code declares and never
  names again, stand here by their encodings.
\<close>

definition control_fields_16 :: "u32 list" where
  "control_fields_16 =
    [control_VPID, control_POSTED_INTERRUPT_NOTIFICATION_VECTOR, control_EPTP_INDEX]"

definition control_fields_64 :: "u32 list" where
  "control_fields_64 =
    [control_IO_BITMAP_A_ADDR_FULL, 0x2001,
     control_IO_BITMAP_B_ADDR_FULL, 0x2003,
     control_MSR_BITMAPS_ADDR_FULL, 0x2005,
     control_VMEXIT_MSR_STORE_ADDR_FULL, 0x2007,
     control_VMEXIT_MSR_LOAD_ADDR_FULL, 0x2009,
     control_VMENTRY_MSR_LOAD_ADDR_FULL, 0x200B,
     control_EXECUTIVE_VMCS_PTR_FULL, 0x200D, control_PML_ADDR_FULL,
     0x200F, control_TSC_OFFSET_FULL, 0x2011,
     control_VIRT_APIC_ADDR_FULL, 0x2013, control_APIC_ACCESS_ADDR_FULL,
     0x2015, control_POSTED_INTERRUPT_DESC_ADDR_FULL,
     0x2017, control_VM_FUNCTION_CONTROLS_FULL,
     0x2019, control_EPTP_FULL, 0x201B,
     control_EOI_EXIT0_FULL, 0x201D, control_EOI_EXIT1_FULL,
     0x201F, control_EOI_EXIT2_FULL, 0x2021,
     control_EOI_EXIT3_FULL, 0x2023, control_EPTP_LIST_ADDR_FULL,
     0x2025, control_VMREAD_BITMAP_ADDR_FULL,
     0x2027, control_VMWRITE_BITMAP_ADDR_FULL,
     0x2029, control_VIRT_EXCEPTION_INFO_ADDR_FULL,
     0x202B, control_XSS_EXITING_BITMAP_FULL,
     0x202D, control_ENCLS_EXITING_BITMAP_FULL,
     0x202F, control_SUBPAGE_PERM_TABLE_PTR_FULL,
     0x2031, control_TSC_MULTIPLIER_FULL,
     0x2033]"

definition control_fields_32 :: "u32 list" where
  "control_fields_32 =
    [control_PINBASED_EXEC_CONTROLS, control_PRIMARY_PROCBASED_EXEC_CONTROLS,
     control_EXCEPTION_BITMAP, control_PAGE_FAULT_ERR_CODE_MASK,
     control_PAGE_FAULT_ERR_CODE_MATCH, control_CR3_TARGET_COUNT, control_VMEXIT_CONTROLS,
     control_VMEXIT_MSR_STORE_COUNT, control_VMEXIT_MSR_LOAD_COUNT, control_VMENTRY_CONTROLS,
     control_VMENTRY_MSR_LOAD_COUNT, control_VMENTRY_INTERRUPTION_INFO_FIELD,
     control_VMENTRY_EXCEPTION_ERR_CODE, control_VMENTRY_INSTRUCTION_LEN, control_TPR_THRESHOLD,
     control_SECONDARY_PROCBASED_EXEC_CONTROLS, control_PLE_GAP, control_PLE_WINDOW]"

definition control_fields_natural :: "u32 list" where
  "control_fields_natural =
    [control_CR0_GUEST_HOST_MASK, control_CR4_GUEST_HOST_MASK, control_CR0_READ_SHADOW,
     control_CR4_READ_SHADOW, control_CR3_TARGET_VALUE0, control_CR3_TARGET_VALUE1,
     control_CR3_TARGET_VALUE2, control_CR3_TARGET_VALUE3]"

definition guest_fields_16 :: "u32 list" where
  "guest_fields_16 =
    [guest_ES_SELECTOR, guest_CS_SELECTOR, guest_SS_SELECTOR, guest_DS_SELECTOR,
     guest_FS_SELECTOR, guest_GS_SELECTOR, guest_LDTR_SELECTOR, guest_TR_SELECTOR,
     guest_INTERRUPT_STATUS, guest_PML_INDEX]"

definition guest_fields_64 :: "u32 list" where
  "guest_fields_64 =
    [guest_LINK_PTR_FULL, 0x2801, guest_IA32_DEBUGCTL_FULL,
     0x2803, guest_IA32_PAT_FULL, 0x2805, guest_IA32_EFER_FULL,
     0x2807, guest_IA32_PERF_GLOBAL_CTRL_FULL, 0x2809,
     guest_PDPTE0_FULL, 0x280B, guest_PDPTE1_FULL, 0x280D,
     guest_PDPTE2_FULL, 0x280F, guest_PDPTE3_FULL, 0x2811,
     guest_IA32_BNDCFGS_FULL, 0x2813, guest_IA32_RTIT_CTL_FULL,
     0x2815]"

definition guest_fields_32 :: "u32 list" where
  "guest_fields_32 =
    [guest_ES_LIMIT, guest_CS_LIMIT, guest_SS_LIMIT, guest_DS_LIMIT, guest_FS_LIMIT,
     guest_GS_LIMIT, guest_LDTR_LIMIT, guest_TR_LIMIT, guest_GDTR_LIMIT, guest_IDTR_LIMIT,
     guest_ES_ACCESS_RIGHTS, guest_CS_ACCESS_RIGHTS, guest_SS_ACCESS_RIGHTS,
     guest_DS_ACCESS_RIGHTS, guest_FS_ACCESS_RIGHTS, guest_GS_ACCESS_RIGHTS,
     guest_LDTR_ACCESS_RIGHTS, guest_TR_ACCESS_RIGHTS, guest_INTERRUPTIBILITY_STATE,
     guest_ACTIVITY_STATE, guest_SMBASE, guest_IA32_SYSENTER_CS,
     guest_VMX_PREEMPTION_TIMER_VALUE]"

definition guest_fields_natural :: "u32 list" where
  "guest_fields_natural =
    [guest_CR0, guest_CR3, guest_CR4, guest_ES_BASE, guest_CS_BASE, guest_SS_BASE,
     guest_DS_BASE, guest_FS_BASE, guest_GS_BASE, guest_LDTR_BASE, guest_TR_BASE,
     guest_GDTR_BASE, guest_IDTR_BASE, guest_DR7, guest_RSP, guest_RIP, guest_RFLAGS,
     guest_PENDING_DBG_EXCEPTIONS, guest_IA32_SYSENTER_ESP, guest_IA32_SYSENTER_EIP]"

definition host_fields_16 :: "u32 list" where
  "host_fields_16 =
    [host_ES_SELECTOR, host_CS_SELECTOR, host_SS_SELECTOR, host_DS_SELECTOR, host_FS_SELECTOR,
     host_GS_SELECTOR, host_TR_SELECTOR]"

definition host_fields_64 :: "u32 list" where
  "host_fields_64 =
    [host_IA32_PAT_FULL, 0x2C01, host_IA32_EFER_FULL, 0x2C03,
     host_IA32_PERF_GLOBAL_CTRL_FULL, 0x2C05]"

definition host_fields_32 :: "u32 list" where
  "host_fields_32 =
    [host_IA32_SYSENTER_CS]"

definition host_fields_natural :: "u32 list" where
  "host_fields_natural =
    [host_CR0, host_CR3, host_CR4, host_FS_BASE, host_GS_BASE, host_TR_BASE, host_GDTR_BASE,
     host_IDTR_BASE, host_IA32_SYSENTER_ESP, host_IA32_SYSENTER_EIP, host_RSP, host_RIP]"

definition ro_fields_64 :: "u32 list" where
  "ro_fields_64 =
    [ro_GUEST_PHYSICAL_ADDR_FULL, 0x2401]"

definition ro_fields_32 :: "u32 list" where
  "ro_fields_32 =
    [ro_VM_INSTRUCTION_ERROR, ro_EXIT_REASON, ro_VMEXIT_INTERRUPTION_INFO,
     ro_VMEXIT_INTERRUPTION_ERR_CODE, ro_IDT_VECTORING_INFO, ro_IDT_VECTORING_ERR_CODE,
     ro_VMEXIT_INSTRUCTION_LEN, ro_VMEXIT_INSTRUCTION_INFO]"

definition ro_fields_natural :: "u32 list" where
  "ro_fields_natural =
    [ro_EXIT_QUALIFICATION, 0x6402, 0x6404, 0x6406, 0x6408, ro_GUEST_LINEAR_ADDR]"

definition field_sections :: "(nat \<times> nat \<times> u32 list) list" where
  "field_sections =
    [(0, 0, control_fields_16), (0, 1, control_fields_64), (0, 2, control_fields_32),
     (0, 3, control_fields_natural), (2, 0, guest_fields_16), (2, 1, guest_fields_64),
     (2, 2, guest_fields_32), (2, 3, guest_fields_natural), (3, 0, host_fields_16),
     (3, 1, host_fields_64), (3, 2, host_fields_32), (3, 3, host_fields_natural),
     (1, 1, ro_fields_64), (1, 2, ro_fields_32), (1, 3, ro_fields_natural)]"

lemmas field_sections_defs =
  field_sections_def control_fields_16_def control_fields_64_def control_fields_32_def
  control_fields_natural_def guest_fields_16_def guest_fields_64_def guest_fields_32_def
  guest_fields_natural_def host_fields_16_def host_fields_64_def host_fields_32_def
  host_fields_natural_def ro_fields_64_def ro_fields_32_def ro_fields_natural_def

subsection \<open>Properties\<close>

definition encoding_ok :: "nat \<Rightarrow> nat \<Rightarrow> u32 \<Rightarrow> bool" where
  "encoding_ok t w e \<longleftrightarrow>
     field_type e = t \<and> field_width e = w \<and> field_reserved_clear e \<and> (field_high e \<longrightarrow> w = 1)"

definition section_ok :: "nat \<times> nat \<times> u32 list \<Rightarrow> bool" where
  "section_ok s = (case s of (t, w, fs) \<Rightarrow>
     list_all (encoding_ok t w) fs \<and> successively (<) fs)"

lemma sections_ok: "list_all section_ok field_sections"
  by (simp add: section_ok_def encoding_ok_def field_sections_defs field_encodings field_type_def field_width_def
      field_reserved_clear_def field_high_def)

lemma section_ok_distinct: "section_ok (t, w, fs) \<Longrightarrow> distinct fs"
  using successively_conv_sorted_wrt [of "(<)" fs] strict_sorted_iff [of fs]
  by (auto simp: section_ok_def transp_def)

lemma sections_distinct:
  assumes "list_all section_ok ss" and "distinct (map (\<lambda>(t, w, fs). (t, w)) ss)"
  shows "distinct (concat (map (\<lambda>(t, w, fs). fs) ss))"
  using assms
proof (induction ss)
  case (Cons s ss)
  obtain t w fs where s: "s = (t, w, fs)" by (cases s)
  have "set fs \<inter> set gs = {}" if "(t', w', gs) \<in> set ss" for t' w' gs
  proof -
    have "section_ok (t', w', gs)" using Cons.prems(1) that by (auto simp: list_all_iff)
    moreover have "(t', w') \<noteq> (t, w)" using Cons.prems(2) that by (force simp: s)
    ultimately show ?thesis using Cons.prems(1) by (auto simp: s section_ok_def encoding_ok_def list_all_iff)
  qed
  then have "set fs \<inter> set (concat (map (\<lambda>(t, w, fs). fs) ss)) = {}" by fastforce
  moreover have "distinct fs" using Cons.prems(1) by (auto simp: s intro: section_ok_distinct)
  ultimately show ?case using Cons by (simp add: s del: set_concat)
qed simp


end
