(* ===== verification/Vmcs.thy ===== *)
theory Vmcs
  imports Vmcs_Fields Trampoline Guest_Boot
begin

text \<open>
  The virtual-machine control structure of VT-x (\<^verbatim>\<open>vmx/vmcs.rs\<close>) and the VMXON region
  (\<^verbatim>\<open>vmx/vmxon.rs\<close>): the adjustment of the control words to the processor's capabilities, VMREAD and
  VMWRITE with their failures, and the configuration of the control, APIC, host and guest areas as the
  sequences of writes that the source makes. The core that executes the code is explicit state; which
  fields the processor implements and how it answers is a parameter.
\<close>

subsection \<open>Constants\<close>

definition IA32_VMX_BASIC :: u32 where "IA32_VMX_BASIC = 0x480"
definition vmcs_IA32_FS_BASE :: u32 where "vmcs_IA32_FS_BASE = 0xC0000100"
definition vmcs_IA32_GS_BASE :: u32 where "vmcs_IA32_GS_BASE = 0xC0000101"
definition IA32_SYSENTER_CS :: u32 where "IA32_SYSENTER_CS = 0x174"
definition IA32_SYSENTER_ESP :: u32 where "IA32_SYSENTER_ESP = 0x175"
definition IA32_SYSENTER_EIP :: u32 where "IA32_SYSENTER_EIP = 0x176"
definition vmcs_IA32_EFER :: u32 where "vmcs_IA32_EFER = 0xC0000080"
definition IA32_VMX_PINBASED_CTLS :: u32 where "IA32_VMX_PINBASED_CTLS = 0x481"
definition IA32_VMX_PROCBASED_CTLS :: u32 where "IA32_VMX_PROCBASED_CTLS = 0x482"
definition IA32_VMX_EXIT_CTLS :: u32 where "IA32_VMX_EXIT_CTLS = 0x483"
definition IA32_VMX_ENTRY_CTLS :: u32 where "IA32_VMX_ENTRY_CTLS = 0x484"
definition IA32_VMX_PROCBASED_CTLS2 :: u32 where "IA32_VMX_PROCBASED_CTLS2 = 0x48B"
definition IA32_VMX_TRUE_PINBASED_CTLS :: u32 where "IA32_VMX_TRUE_PINBASED_CTLS = 0x48D"
definition IA32_VMX_TRUE_PROCBASED_CTLS :: u32 where "IA32_VMX_TRUE_PROCBASED_CTLS = 0x48E"
definition IA32_VMX_TRUE_EXIT_CTLS :: u32 where "IA32_VMX_TRUE_EXIT_CTLS = 0x48F"
definition IA32_VMX_TRUE_ENTRY_CTLS :: u32 where "IA32_VMX_TRUE_ENTRY_CTLS = 0x490"
definition IA32_VMX_BASIC_TRUE_CTLS :: u64 where "IA32_VMX_BASIC_TRUE_CTLS = push_bit 55 1"

lemmas vmcs_msrs = IA32_VMX_BASIC_def vmcs_IA32_FS_BASE_def vmcs_IA32_GS_BASE_def IA32_SYSENTER_CS_def
  IA32_SYSENTER_ESP_def IA32_SYSENTER_EIP_def vmcs_IA32_EFER_def IA32_VMX_PINBASED_CTLS_def
  IA32_VMX_PROCBASED_CTLS_def IA32_VMX_EXIT_CTLS_def IA32_VMX_ENTRY_CTLS_def
  IA32_VMX_PROCBASED_CTLS2_def IA32_VMX_TRUE_PINBASED_CTLS_def IA32_VMX_TRUE_PROCBASED_CTLS_def
  IA32_VMX_TRUE_EXIT_CTLS_def IA32_VMX_TRUE_ENTRY_CTLS_def IA32_VMX_BASIC_TRUE_CTLS_def

subsection \<open>The core and the third-party crates\<close>

text \<open>
  The part of a processor core that VMX operation uses: MSRs, CR0 and CR4, the current VMCS (by its
  physical address) and the contents of every VMCS, the floating-point and extended control registers.
\<close>

record 'fp vmx_core =
  vmx_msr :: "u32 \<Rightarrow> u64"
  vmx_cr0 :: u64
  vmx_cr4 :: u64
  current_vmcs :: "u64 option"
  vmcs_store :: "u64 \<Rightarrow> vmcs_data"
  vmx_fp :: 'fp
  vmx_xcr :: "u32 \<Rightarrow> u64"

text \<open>
  The registers of the host that the host-state area is filled from: the frame in CR3, the segment
  selectors, the task register, the bases of the descriptor tables, and the memory the tables lie in.
\<close>

record host_state =
  cr3_frame :: u64
  sel_CS :: u16
  sel_SS :: u16
  sel_DS :: u16
  sel_ES :: u16
  sel_FS :: u16
  sel_GS :: u16
  tr_sel :: u16
  gdt_base :: u64
  idt_base :: u64
  host_u64 :: "u64 \<Rightarrow> u64"

text \<open>
  VMX instructions answer by clearing CF and ZF, by setting CF (there is no current VMCS) or by setting
  ZF and storing an error number in the current VMCS. Which fields a processor implements, and how it
  answers to the three instructions that take a region's address, are parameters.
\<close>

datatype vm_answer = VmSucceed | VmFailInvalid | VmFailValid u64

record 'fp vmx_hw =
  field_readable :: "u32 \<Rightarrow> bool"
  field_writable :: "u32 \<Rightarrow> bool"
  vmxon_hw :: "u64 \<Rightarrow> 'fp vmx_core \<Rightarrow> vm_answer"
  vmclear_hw :: "u64 \<Rightarrow> 'fp vmx_core \<Rightarrow> vm_answer"
  vmptrld_hw :: "u64 \<Rightarrow> 'fp vmx_core \<Rightarrow> vm_answer"

text \<open>
  What is used of the crates x86\_64 and bitfield, with its documented meaning: the flags of CR0 and
  CR4 at their architectural positions, a selector from an index at privilege level 0, the conversion
  of bits to flags (which refuses unknown ones), and the update of one bit.
\<close>

record crates =
  PROTECTED_MODE_ENABLE :: u64
  EXTENSION_TYPE :: u64
  NUMERIC_ERROR :: u64
  NOT_WRITE_THROUGH :: u64
  CACHE_DISABLE :: u64
  PAGING :: u64
  PHYSICAL_ADDRESS_EXTENSION :: u64
  VIRTUAL_MACHINE_EXTENSIONS :: u64
  selector_new :: "u16 \<Rightarrow> u16"
  cr0_from_bits :: "u64 \<Rightarrow> u64 option"
  cr4_from_bits :: "u64 \<Rightarrow> u64 option"
  set_bit_to :: "u32 \<Rightarrow> nat \<Rightarrow> bool \<Rightarrow> u32"

definition crates_spec :: "crates \<Rightarrow> bool" where
  "crates_spec X \<longleftrightarrow>
     PROTECTED_MODE_ENABLE X = push_bit 0 1 \<and> EXTENSION_TYPE X = push_bit 4 1 \<and>
     NUMERIC_ERROR X = push_bit 5 1 \<and> NOT_WRITE_THROUGH X = push_bit 29 1 \<and>
     CACHE_DISABLE X = push_bit 30 1 \<and> PAGING X = push_bit 31 1 \<and>
     PHYSICAL_ADDRESS_EXTENSION X = push_bit 5 1 \<and> VIRTUAL_MACHINE_EXTENSIONS X = push_bit 13 1 \<and>
     (\<forall>i. i < 2 ^ 13 \<longrightarrow> selector_new X i = push_bit 3 i) \<and>
     (\<forall>b f. cr0_from_bits X b = Some f \<longrightarrow> f = b) \<and> (\<forall>b f. cr4_from_bits X b = Some f \<longrightarrow> f = b) \<and>
     (\<forall>w n b. n < 32 \<longrightarrow> set_bit_to X w n b = (if b then set_bit n w else unset_bit n w))"

subsection \<open>Control words\<close>

datatype VmxControl = PinBased | ProcessorBased | ProcessorBased2 | VmExit | VmEntry

definition capability_msr :: "VmxControl \<Rightarrow> bool \<Rightarrow> u32" where
  "capability_msr control true_ctls =
     (case (control, true_ctls) of
        (PinBased, True) \<Rightarrow> IA32_VMX_TRUE_PINBASED_CTLS
      | (PinBased, False) \<Rightarrow> IA32_VMX_PINBASED_CTLS
      | (ProcessorBased, True) \<Rightarrow> IA32_VMX_TRUE_PROCBASED_CTLS
      | (ProcessorBased, False) \<Rightarrow> IA32_VMX_PROCBASED_CTLS
      | (VmxControl.VmExit, True) \<Rightarrow> IA32_VMX_TRUE_EXIT_CTLS
      | (VmxControl.VmExit, False) \<Rightarrow> IA32_VMX_EXIT_CTLS
      | (VmEntry, True) \<Rightarrow> IA32_VMX_TRUE_ENTRY_CTLS
      | (VmEntry, False) \<Rightarrow> IA32_VMX_ENTRY_CTLS
      | (ProcessorBased2, _) \<Rightarrow> IA32_VMX_PROCBASED_CTLS2)"

definition adjust_control :: "(u32 \<Rightarrow> u64) \<Rightarrow> VmxControl \<Rightarrow> u64 \<Rightarrow> u64" where
  "adjust_control msr control requested =
     (let true_ctls = msr IA32_VMX_BASIC AND IA32_VMX_BASIC_TRUE_CTLS \<noteq> 0;
          capabilities = msr (capability_msr control true_ctls);
          allowed0 = ucast capabilities :: u32;
          allowed1 = ucast (drop_bit 32 capabilities) :: u32;
          effective = ucast requested;
          effective = effective OR allowed0;
          effective = effective AND allowed1
      in ucast effective)"

text \<open>The base of a 64-bit TSS, from its descriptor of two words.\<close>

definition tss_base :: "(u64 \<Rightarrow> u64) \<Rightarrow> u64 \<Rightarrow> u16 \<Rightarrow> u64" where
  "tss_base mem gdt tr_selector =
     (let index = ucast (drop_bit 3 tr_selector);
          descriptor = gdt + index * 8;
          low = mem descriptor;
          high = mem (descriptor + 8)
      in (drop_bit 16 low AND 0xFFFF) OR push_bit 16 (drop_bit 32 low AND 0xFF) OR
         push_bit 24 (drop_bit 56 low AND 0xFF) OR push_bit 32 (high AND 0xFFFFFFFF))"

subsection \<open>VMREAD and VMWRITE\<close>

definition vmread :: "'fp vmx_hw \<Rightarrow> 'fp vmx_core \<Rightarrow> u32 \<Rightarrow> u64 result" where
  "vmread P c field =
     (case current_vmcs c of
        Some a \<Rightarrow> if field_readable P field then Ok (vmcs_store c a (ucast field)) else Err VMREADFailed
      | None \<Rightarrow> Err VMREADFailed)"

definition vmwrite :: "'fp vmx_hw \<Rightarrow> u32 \<Rightarrow> u64 \<Rightarrow> 'fp vmx_core \<Rightarrow> 'fp vmx_core result" where
  "vmwrite P field val c =
     (case current_vmcs c of
        Some a \<Rightarrow>
          if field_writable P field
          then Ok (c\<lparr>vmcs_store := (vmcs_store c)(a := (vmcs_store c a)(ucast field := val))\<rparr>)
          else Err VMWRITEFailed
      | None \<Rightarrow> Err VMWRITEFailed)"

text \<open>A sequence of statements \<open>vmwrite(field, value)?;\<close>.\<close>

definition vmwrites :: "'fp vmx_hw \<Rightarrow> (u32 \<times> u64) list \<Rightarrow> 'fp vmx_core \<Rightarrow> 'fp vmx_core result" where
  "vmwrites P = try_fold (\<lambda>(f, v). vmwrite P f v)"

subsection \<open>The regions\<close>

record Vmcs =
  vmcs_revision_id :: u32
  abort_indicator :: u32
  vmcs_reserved :: bytes

record Vmxon =
  vmxon_revision_id :: u32
  vmxon_data :: bytes

definition vmcs_init :: "crates \<Rightarrow> (u32 \<Rightarrow> u64) \<Rightarrow> Vmcs \<Rightarrow> Vmcs" where
  "vmcs_init X msr r =
     (let r = r\<lparr>vmcs_revision_id := ucast (msr IA32_VMX_BASIC)\<rparr>
      in r\<lparr>vmcs_revision_id := set_bit_to X (vmcs_revision_id r) 31 False\<rparr>)"

definition vmxon_init :: "crates \<Rightarrow> (u32 \<Rightarrow> u64) \<Rightarrow> Vmxon \<Rightarrow> Vmxon" where
  "vmxon_init X msr r =
     (let r = r\<lparr>vmxon_revision_id := ucast (msr IA32_VMX_BASIC)\<rparr>
      in r\<lparr>vmxon_revision_id := set_bit_to X (vmxon_revision_id r) 31 False\<rparr>)"

subsection \<open>Configuration\<close>

definition control_writes :: "(u32 \<Rightarrow> u64) \<Rightarrow> u64 \<Rightarrow> (u32 \<times> u64) list" where
  "control_writes msr eptp =
     (let pinbased = adjust_control msr PinBased (ucast
            (PinbasedControls_EXTERNAL_INTERRUPT_EXITING OR PinbasedControls_VMX_PREEMPTION_TIMER));
          procbased = adjust_control msr ProcessorBased (ucast
            (PrimaryControls_SECONDARY_CONTROLS OR PrimaryControls_UNCOND_IO_EXITING OR
             PrimaryControls_USE_TPR_SHADOW));
          secondary = adjust_control msr ProcessorBased2 (ucast
            (SecondaryControls_ENABLE_EPT OR SecondaryControls_ENABLE_RDTSCP OR
             SecondaryControls_ENABLE_INVPCID OR SecondaryControls_ENABLE_XSAVES_XRSTORS OR
             SecondaryControls_VIRTUALIZE_APIC OR SecondaryControls_VIRTUALIZE_APIC_REGISTER));
          entry = adjust_control msr VmEntry (ucast
            (EntryControls_IA32E_MODE_GUEST OR EntryControls_LOAD_DEBUG_CONTROLS));
          exit = adjust_control msr VmxControl.VmExit (ucast
            (ExitControls_HOST_ADDRESS_SPACE_SIZE OR ExitControls_SAVE_DEBUG_CONTROLS))
      in [(control_PINBASED_EXEC_CONTROLS, pinbased),
          (control_PRIMARY_PROCBASED_EXEC_CONTROLS, procbased),
          (control_SECONDARY_PROCBASED_EXEC_CONTROLS, secondary),
          (control_VMENTRY_CONTROLS, entry),
          (control_VMEXIT_CONTROLS, exit),
          (control_EPTP_FULL, eptp),
          (control_VMENTRY_MSR_LOAD_COUNT, 0),
          (control_VMEXIT_MSR_LOAD_COUNT, 0),
          (control_VMEXIT_MSR_STORE_COUNT, 0),
          (control_VMENTRY_INTERRUPTION_INFO_FIELD, 0),
          (control_CR3_TARGET_COUNT, 0),
          (control_EXCEPTION_BITMAP, 0),
          (control_PAGE_FAULT_ERR_CODE_MASK, 0),
          (control_PAGE_FAULT_ERR_CODE_MATCH, 0),
          (control_TPR_THRESHOLD, 0)])"

definition setup_controls :: "'fp vmx_hw \<Rightarrow> u64 \<Rightarrow> 'fp vmx_core \<Rightarrow> 'fp vmx_core result" where
  "setup_controls P eptp c = vmwrites P (control_writes (vmx_msr c) eptp) c"

definition setup_apic :: "'fp vmx_hw \<Rightarrow> u64 \<Rightarrow> u64 \<Rightarrow> 'fp vmx_core \<Rightarrow> 'fp vmx_core result" where
  "setup_apic P virtual_apic_hpa apic_access_hpa =
     vmwrites P [(control_VIRT_APIC_ADDR_FULL, virtual_apic_hpa),
                 (control_APIC_ACCESS_ADDR_FULL, apic_access_hpa)]"

definition SELECTOR_MASK :: u16 where "SELECTOR_MASK = 0xFFF8"

definition host_writes :: "host_state \<Rightarrow> 'fp vmx_core \<Rightarrow> (u32 \<times> u64) list" where
  "host_writes h c =
     (let gdt = gdt_base h;
          idt = idt_base h;
          tr_selector = tr_sel h;
          tr_base = tss_base (host_u64 h) gdt tr_selector
      in [(host_CR0, vmx_cr0 c),
          (host_CR3, cr3_frame h),
          (host_CR4, vmx_cr4 c),
          (host_CS_SELECTOR, ucast (sel_CS h AND SELECTOR_MASK)),
          (host_SS_SELECTOR, ucast (sel_SS h AND SELECTOR_MASK)),
          (host_DS_SELECTOR, ucast (sel_DS h AND SELECTOR_MASK)),
          (host_ES_SELECTOR, ucast (sel_ES h AND SELECTOR_MASK)),
          (host_FS_SELECTOR, ucast (sel_FS h AND SELECTOR_MASK)),
          (host_GS_SELECTOR, ucast (sel_GS h AND SELECTOR_MASK)),
          (host_TR_SELECTOR, ucast (tr_selector AND SELECTOR_MASK)),
          (host_FS_BASE, vmx_msr c vmcs_IA32_FS_BASE),
          (host_GS_BASE, vmx_msr c vmcs_IA32_GS_BASE),
          (host_TR_BASE, tr_base),
          (host_GDTR_BASE, gdt),
          (host_IDTR_BASE, idt),
          (host_IA32_SYSENTER_CS, vmx_msr c IA32_SYSENTER_CS),
          (host_IA32_SYSENTER_ESP, vmx_msr c IA32_SYSENTER_ESP),
          (host_IA32_SYSENTER_EIP, vmx_msr c IA32_SYSENTER_EIP)])"

definition setup_host :: "'fp vmx_hw \<Rightarrow> host_state \<Rightarrow> 'fp vmx_core \<Rightarrow> 'fp vmx_core result" where
  "setup_host P h c = vmwrites P (host_writes h c) c"

definition vmcs_CS_AR :: u64 where "vmcs_CS_AR = 0xA09B"
definition vmcs_DATA_AR :: u64 where "vmcs_DATA_AR = 0xC093"
definition vmcs_TR_AR :: u64 where "vmcs_TR_AR = 0x008B"
definition vmcs_LDTR_AR :: u64 where "vmcs_LDTR_AR = push_bit 16 1"
definition vmcs_SEG_LIMIT :: u64 where "vmcs_SEG_LIMIT = 0xFFFFFFFF"

definition guest_writes :: "crates \<Rightarrow> u64 \<Rightarrow> u64 \<Rightarrow> (u32 \<times> u64) list" where
  "guest_writes X entry_point rsp_init =
     (let code = ucast (selector_new X GDT_KERNEL_CODE);
          data = ucast (selector_new X GDT_KERNEL_DATA);
          cr0 = PROTECTED_MODE_ENABLE X OR EXTENSION_TYPE X OR NUMERIC_ERROR X OR PAGING X;
          cr4 = PHYSICAL_ADDRESS_EXTENSION X OR VIRTUAL_MACHINE_EXTENSIONS X
      in [(guest_CS_SELECTOR, code),
          (guest_SS_SELECTOR, data),
          (guest_DS_SELECTOR, data),
          (guest_ES_SELECTOR, data),
          (guest_FS_SELECTOR, data),
          (guest_GS_SELECTOR, data),
          (guest_TR_SELECTOR, 0),
          (guest_LDTR_SELECTOR, 0),
          (guest_CS_ACCESS_RIGHTS, vmcs_CS_AR),
          (guest_SS_ACCESS_RIGHTS, vmcs_DATA_AR),
          (guest_DS_ACCESS_RIGHTS, vmcs_DATA_AR),
          (guest_ES_ACCESS_RIGHTS, vmcs_DATA_AR),
          (guest_FS_ACCESS_RIGHTS, vmcs_DATA_AR),
          (guest_GS_ACCESS_RIGHTS, vmcs_DATA_AR),
          (guest_TR_ACCESS_RIGHTS, vmcs_TR_AR),
          (guest_LDTR_ACCESS_RIGHTS, vmcs_LDTR_AR)] @
         map (\<lambda>base. (base, 0))
           [guest_CS_BASE, guest_SS_BASE, guest_DS_BASE, guest_ES_BASE, guest_FS_BASE, guest_GS_BASE,
            guest_LDTR_BASE, guest_TR_BASE] @
         map (\<lambda>limit. (limit, vmcs_SEG_LIMIT))
           [guest_CS_LIMIT, guest_SS_LIMIT, guest_DS_LIMIT, guest_ES_LIMIT, guest_FS_LIMIT,
            guest_GS_LIMIT] @
         [(guest_TR_LIMIT, 0xFFFF),
          (guest_LDTR_LIMIT, 0xFFFF),
          (guest_GDTR_BASE, GDT_OFFSET),
          (guest_GDTR_LIMIT, of_nat (8 * BOOT_GDT_MAX - 1)),
          (guest_IDTR_BASE, 0),
          (guest_IDTR_LIMIT, 0xFFFF),
          (guest_CR0, cr0),
          (guest_CR3, BOOT_PML4),
          (guest_CR4, cr4),
          (guest_IA32_EFER_FULL, EFER_LME OR EFER_LMA),
          (control_CR0_GUEST_HOST_MASK, CACHE_DISABLE X OR NOT_WRITE_THROUGH X OR cr0),
          (control_CR0_READ_SHADOW, cr0),
          (control_CR4_GUEST_HOST_MASK, cr4),
          (control_CR4_READ_SHADOW, cr4),
          (guest_RIP, entry_point),
          (guest_RSP, rsp_init),
          (guest_RFLAGS, 0x2),
          (guest_DR7, 0x400),
          (guest_IA32_DEBUGCTL_FULL, 0),
          (guest_IA32_SYSENTER_CS, 0),
          (guest_IA32_SYSENTER_ESP, 0),
          (guest_IA32_SYSENTER_EIP, 0),
          (guest_ACTIVITY_STATE, 0),
          (guest_INTERRUPTIBILITY_STATE, 0),
          (guest_PENDING_DBG_EXCEPTIONS, 0),
          (guest_LINK_PTR_FULL, - 1)])"

definition vmcs_setup_guest ::
    "'fp vmx_hw \<Rightarrow> crates \<Rightarrow> u64 \<Rightarrow> u64 \<Rightarrow> 'fp vmx_core \<Rightarrow> 'fp vmx_core result" where
  "vmcs_setup_guest P X entry_point rsp_init = vmwrites P (guest_writes X entry_point rsp_init)"

subsection \<open>Accesses during a run\<close>

definition load_guest_registers ::
    "'fp vmx_hw \<Rightarrow> GuestRegisters \<Rightarrow> 'fp vmx_core \<Rightarrow> 'fp vmx_core result" where
  "load_guest_registers P regs =
     vmwrites P [(guest_RIP, rip regs), (guest_RSP, rsp regs), (guest_RFLAGS, rflags regs)]"

definition save_guest_registers ::
    "'fp vmx_hw \<Rightarrow> 'fp vmx_core \<Rightarrow> GuestRegisters \<Rightarrow> GuestRegisters result" where
  "save_guest_registers P c regs =
     try_bind (vmread P c guest_RIP) (\<lambda>v.
     let regs = regs\<lparr>rip := v\<rparr> in
     try_bind (vmread P c guest_RSP) (\<lambda>v.
     let regs = regs\<lparr>rsp := v\<rparr> in
     try_bind (vmread P c guest_RFLAGS) (\<lambda>v.
     Ok (regs\<lparr>rflags := v\<rparr>))))"

definition exit_reason :: "'fp vmx_hw \<Rightarrow> 'fp vmx_core \<Rightarrow> u32 result" where
  "exit_reason P c = try_bind (vmread P c ro_EXIT_REASON) (\<lambda>v. Ok (ucast v))"

definition instruction_error :: "'fp vmx_hw \<Rightarrow> 'fp vmx_core \<Rightarrow> u64 result" where
  "instruction_error P c = vmread P c ro_VM_INSTRUCTION_ERROR"

text \<open>
  The \<open>Debug\<close> implementation, as the labelled values it hands to the formatter: the region's address
  and revision, then one VMREAD for each line, with 0 in place of a failed one.
\<close>

definition vmcs_debug_guest :: "(string \<times> u32) list" where
  "vmcs_debug_guest =
    [(''Guest CR0: '', guest_CR0), (''Guest CR3: '', guest_CR3), (''Guest CR4: '', guest_CR4),
     (''Guest DR7: '', guest_DR7), (''Guest RSP: '', guest_RSP), (''Guest RIP: '', guest_RIP),
     (''Guest RFLAGS: '', guest_RFLAGS), (''Guest CS Selector: '', guest_CS_SELECTOR),
     (''Guest SS Selector: '', guest_SS_SELECTOR), (''Guest DS Selector: '', guest_DS_SELECTOR),
     (''Guest ES Selector: '', guest_ES_SELECTOR), (''Guest FS Selector: '', guest_FS_SELECTOR),
     (''Guest GS Selector: '', guest_GS_SELECTOR),
     (''Guest LDTR Selector: '', guest_LDTR_SELECTOR),
     (''Guest TR Selector: '', guest_TR_SELECTOR), (''Guest CS Base: '', guest_CS_BASE),
     (''Guest SS Base: '', guest_SS_BASE), (''Guest DS Base: '', guest_DS_BASE),
     (''Guest ES Base: '', guest_ES_BASE), (''Guest FS Base: '', guest_FS_BASE),
     (''Guest GS Base: '', guest_GS_BASE), (''Guest LDTR Base: '', guest_LDTR_BASE),
     (''Guest TR Base: '', guest_TR_BASE), (''Guest CS Limit: '', guest_CS_LIMIT),
     (''Guest SS Limit: '', guest_SS_LIMIT), (''Guest DS Limit: '', guest_DS_LIMIT),
     (''Guest ES Limit: '', guest_ES_LIMIT), (''Guest FS Limit: '', guest_FS_LIMIT),
     (''Guest GS Limit: '', guest_GS_LIMIT), (''Guest LDTR Limit: '', guest_LDTR_LIMIT),
     (''Guest TR Limit: '', guest_TR_LIMIT),
     (''Guest CS Access Rights: '', guest_CS_ACCESS_RIGHTS),
     (''Guest SS Access Rights: '', guest_SS_ACCESS_RIGHTS),
     (''Guest DS Access Rights: '', guest_DS_ACCESS_RIGHTS),
     (''Guest ES Access Rights: '', guest_ES_ACCESS_RIGHTS),
     (''Guest FS Access Rights: '', guest_FS_ACCESS_RIGHTS),
     (''Guest GS Access Rights: '', guest_GS_ACCESS_RIGHTS),
     (''Guest LDTR Access Rights: '', guest_LDTR_ACCESS_RIGHTS),
     (''Guest TR Access Rights: '', guest_TR_ACCESS_RIGHTS),
     (''Guest GDTR Base: '', guest_GDTR_BASE), (''Guest IDTR Base: '', guest_IDTR_BASE),
     (''Guest GDTR Limit: '', guest_GDTR_LIMIT), (''Guest IDTR Limit: '', guest_IDTR_LIMIT),
     (''Guest IA32_DEBUGCTL_FULL: '', guest_IA32_DEBUGCTL_FULL),
     (''Guest IA32_SYSENTER_CS: '', guest_IA32_SYSENTER_CS),
     (''Guest IA32_SYSENTER_ESP: '', guest_IA32_SYSENTER_ESP),
     (''Guest IA32_SYSENTER_EIP: '', guest_IA32_SYSENTER_EIP),
     (''Guest IA32_EFER_FULL: '', guest_IA32_EFER_FULL),
     (''Guest VMCS Link Pointer: '', guest_LINK_PTR_FULL),
     (''Guest Activity State: '', guest_ACTIVITY_STATE)]"

definition vmcs_debug_host :: "(string \<times> u32) list" where
  "vmcs_debug_host =
    [(''Host CR0: '', host_CR0), (''Host CR3: '', host_CR3), (''Host CR4: '', host_CR4),
     (''Host RSP: '', host_RSP), (''Host RIP: '', host_RIP),
     (''Host CS Selector: '', host_CS_SELECTOR), (''Host SS Selector: '', host_SS_SELECTOR),
     (''Host DS Selector: '', host_DS_SELECTOR), (''Host ES Selector: '', host_ES_SELECTOR),
     (''Host FS Selector: '', host_FS_SELECTOR), (''Host GS Selector: '', host_GS_SELECTOR),
     (''Host TR Selector: '', host_TR_SELECTOR), (''Host FS Base: '', host_FS_BASE),
     (''Host GS Base: '', host_GS_BASE), (''Host TR Base: '', host_TR_BASE),
     (''Host GDTR Base: '', host_GDTR_BASE), (''Host IDTR Base: '', host_IDTR_BASE),
     (''Host IA32_SYSENTER_CS: '', host_IA32_SYSENTER_CS),
     (''Host IA32_SYSENTER_ESP: '', host_IA32_SYSENTER_ESP),
     (''Host IA32_SYSENTER_EIP: '', host_IA32_SYSENTER_EIP)]"

definition vmcs_debug_control :: "(string \<times> u32) list" where
  "vmcs_debug_control =
    [(''Primary Proc Based Execution Controls: '', control_PRIMARY_PROCBASED_EXEC_CONTROLS),
     (''Secondary Proc Based Execution Controls: '', control_SECONDARY_PROCBASED_EXEC_CONTROLS),
     (''VM Entry Controls: '', control_VMENTRY_CONTROLS),
     (''VM Exit Controls: '', control_VMEXIT_CONTROLS),
     (''Pin Based Execution Controls: '', control_PINBASED_EXEC_CONTROLS),
     (''CR0 Read Shadow: '', control_CR0_READ_SHADOW),
     (''CR4 Read Shadow: '', control_CR4_READ_SHADOW),
     (''MSR Bitmaps Address: '', control_MSR_BITMAPS_ADDR_FULL),
     (''EPT Pointer: '', control_EPTP_FULL), (''VPID: '', control_VPID)]"

definition vmcs_debug_fields :: "(string \<times> u32) list" where
  "vmcs_debug_fields = vmcs_debug_guest @ vmcs_debug_host @ vmcs_debug_control"

definition vmcs_fmt :: "'fp vmx_hw \<Rightarrow> 'fp vmx_core \<Rightarrow> u64 \<Rightarrow> Vmcs \<Rightarrow> (string \<times> u64) list" where
  "vmcs_fmt P c self r =
     [(''Current VMCS: '', self), (''Revision ID: '', ucast (vmcs_revision_id r))] @
     map (\<lambda>(label, field). (label, case vmread P c field of Ok v \<Rightarrow> v | _ \<Rightarrow> 0)) vmcs_debug_fields"

subsection \<open>Sequences of writes\<close>

definition write_all :: "(u32 \<times> u64) list \<Rightarrow> vmcs_data \<Rightarrow> vmcs_data" where
  "write_all ws d = fold (\<lambda>(f, v) d. d(ucast f := v)) ws d"

lemma write_all_simps [simp]:
  "write_all [] d = d" "write_all ((f, v) # ws) d = write_all ws (d(ucast f := v))"
  "write_all (us @ ws) d = write_all ws (write_all us d)"
  by (simp_all add: write_all_def)

lemma ucast_field_eq_iff [simp]: "(ucast f :: u64) = ucast g \<longleftrightarrow> f = g" for f g :: u32
proof
  assume eq: "(ucast f :: u64) = ucast g"
  show "f = g"
  proof (rule bit_word_eqI)
    show "bit f n = bit g n" if "n < LENGTH(32)" for n
      using arg_cong [OF eq, of "\<lambda>w. bit w n"] that by (simp add: bit_simps)
  qed
qed simp

lemma write_all_notin: "f \<notin> fst ` set ws \<Longrightarrow> write_all ws d (ucast f) = d (ucast f)"
  by (induction ws arbitrary: d) auto

lemma write_all_distinct:
  "distinct (map fst ws) \<Longrightarrow> (f, v) \<in> set ws \<Longrightarrow> write_all ws d (ucast f) = v"
  by (induction ws arbitrary: d) (auto simp: write_all_notin)

text \<open>
  A sequence succeeds when there is a current VMCS and the processor implements every field; then
  the fields have the written values and nothing else has changed. Otherwise it reports the failed
  write.
\<close>

lemma vmwrites_Ok:
  assumes "current_vmcs c = Some a" and "\<forall>w \<in> set ws. field_writable P (fst w)"
  shows "vmwrites P ws c = Ok (c\<lparr>vmcs_store := (vmcs_store c)(a := write_all ws (vmcs_store c a))\<rparr>)"
  using assms by (induction ws arbitrary: c) (auto simp: vmwrites_def vmwrite_def)

lemma vmwrites_Err:
  assumes "current_vmcs c = None \<and> ws \<noteq> [] \<or> (\<exists>w \<in> set ws. \<not> field_writable P (fst w))"
  shows "vmwrites P ws c = Err VMWRITEFailed"
  using assms
proof (induction ws arbitrary: c)
  case (Cons w ws)
  then show ?case
    by (cases w, cases "current_vmcs c") (auto simp: vmwrites_def vmwrite_def)
qed (auto simp: vmwrites_def)

lemma vmwrites_Ok_iff:
  "vmwrites P ws c = Ok c' \<longleftrightarrow>
     (\<forall>w \<in> set ws. field_writable P (fst w)) \<and>
     (case current_vmcs c of
        Some a \<Rightarrow> c' = c\<lparr>vmcs_store := (vmcs_store c)(a := write_all ws (vmcs_store c a))\<rparr>
      | None \<Rightarrow> ws = [] \<and> c' = c)"
proof (cases "current_vmcs c")
  case None
  then show ?thesis
    using vmwrites_Err [of c ws P] by (cases "ws = []") (auto simp: vmwrites_def)
next
  case (Some a)
  then show ?thesis
    using vmwrites_Err [of c ws P] vmwrites_Ok [OF Some, of ws P]
    by (cases "\<forall>w \<in> set ws. field_writable P (fst w)") auto
qed

lemma no_panic_vmwrites [no_panic_rules]: "no_panic (vmwrites P ws c)"
  by (auto simp: vmwrites_def vmwrite_def split: option.split intro!: no_panic_rules)

subsection \<open>The processor's checks on the guest-state area\<close>

text \<open>
  Intel SDM, volume 3, section 27.3.1, for a guest in IA-32e mode with a usable TR: control registers,
  segment registers, descriptor-table registers, RIP, RFLAGS and the non-register state. The argument
  reads a field.
\<close>

definition canonical :: "u64 \<Rightarrow> bool" where
  "canonical w \<longleftrightarrow> drop_bit 47 w \<in> {0, 0x1FFFF}"

definition access_format :: "u64 \<Rightarrow> bool" where
  "access_format ar \<longleftrightarrow> ar AND 0xFFFE0F00 = 0 \<and> drop_bit 32 ar = 0"

definition limit_format :: "u64 \<Rightarrow> u64 \<Rightarrow> bool" where
  "limit_format ar lim \<longleftrightarrow>
     (lim AND 0xFFF \<noteq> 0xFFF \<longrightarrow> \<not> bit ar 15) \<and> (lim AND 0xFFF00000 \<noteq> 0 \<longrightarrow> bit ar 15)"

definition dpl :: "u64 \<Rightarrow> u64" where
  "dpl ar = drop_bit 5 ar AND 3"

definition code_segment_ok :: "u64 \<Rightarrow> u64 \<Rightarrow> u64 \<Rightarrow> bool" where
  "code_segment_ok ar lim ss_ar \<longleftrightarrow>
     ar AND 0xF \<in> {9, 11} \<and> bit ar 4 \<and> dpl ar = dpl ss_ar \<and> bit ar 7 \<and> bit ar 13 \<and> \<not> bit ar 14 \<and>
     \<not> bit ar 16 \<and> access_format ar \<and> limit_format ar lim"

definition data_segment_ok :: "u64 \<Rightarrow> u64 \<Rightarrow> bool" where
  "data_segment_ok ar lim \<longleftrightarrow>
     bit ar 16 \<or> bit ar 0 \<and> (bit ar 3 \<longrightarrow> bit ar 1) \<and> bit ar 4 \<and> bit ar 7 \<and> access_format ar \<and>
     limit_format ar lim"

definition stack_segment_ok :: "u64 \<Rightarrow> u64 \<Rightarrow> u64 \<Rightarrow> bool" where
  "stack_segment_ok ar lim sel \<longleftrightarrow>
     bit ar 16 \<or> ar AND 0xF \<in> {3, 7} \<and> dpl ar = sel AND 3 \<and> bit ar 4 \<and> bit ar 7 \<and> access_format ar \<and>
     limit_format ar lim"

definition task_register_ok :: "u64 \<Rightarrow> u64 \<Rightarrow> u64 \<Rightarrow> bool" where
  "task_register_ok ar lim sel \<longleftrightarrow>
     ar AND 0xF = 11 \<and> \<not> bit ar 4 \<and> bit ar 7 \<and> \<not> bit ar 16 \<and> \<not> bit sel 2 \<and> access_format ar \<and>
     limit_format ar lim"

definition vm_entry_segments_ok :: "(u32 \<Rightarrow> u64) \<Rightarrow> bool" where
  "vm_entry_segments_ok rd \<longleftrightarrow>
     code_segment_ok (rd guest_CS_ACCESS_RIGHTS) (rd guest_CS_LIMIT) (rd guest_SS_ACCESS_RIGHTS) \<and>
     stack_segment_ok (rd guest_SS_ACCESS_RIGHTS) (rd guest_SS_LIMIT) (rd guest_SS_SELECTOR) \<and>
     data_segment_ok (rd guest_DS_ACCESS_RIGHTS) (rd guest_DS_LIMIT) \<and>
     data_segment_ok (rd guest_ES_ACCESS_RIGHTS) (rd guest_ES_LIMIT) \<and>
     data_segment_ok (rd guest_FS_ACCESS_RIGHTS) (rd guest_FS_LIMIT) \<and>
     data_segment_ok (rd guest_GS_ACCESS_RIGHTS) (rd guest_GS_LIMIT) \<and>
     task_register_ok (rd guest_TR_ACCESS_RIGHTS) (rd guest_TR_LIMIT) (rd guest_TR_SELECTOR) \<and>
     bit (rd guest_LDTR_ACCESS_RIGHTS) 16 \<and>
     drop_bit 32 (rd guest_CS_BASE) = 0 \<and> canonical (rd guest_FS_BASE) \<and> canonical (rd guest_GS_BASE) \<and>
     canonical (rd guest_TR_BASE)"

definition vm_entry_guest_ok :: "(u32 \<Rightarrow> u64) \<Rightarrow> bool" where
  "vm_entry_guest_ok rd \<longleftrightarrow>
     bit (rd guest_CR0) 0 \<and> bit (rd guest_CR0) 5 \<and> bit (rd guest_CR0) 31 \<and>
     drop_bit 32 (rd guest_CR0) = 0 \<and> bit (rd guest_CR4) 5 \<and> bit (rd guest_CR4) 13 \<and>
     drop_bit 52 (rd guest_CR3) = 0 \<and> drop_bit 32 (rd guest_DR7) = 0 \<and>
     canonical (rd guest_IA32_SYSENTER_ESP) \<and> canonical (rd guest_IA32_SYSENTER_EIP) \<and>
     vm_entry_segments_ok rd \<and>
     canonical (rd guest_GDTR_BASE) \<and> canonical (rd guest_IDTR_BASE) \<and>
     drop_bit 16 (rd guest_GDTR_LIMIT) = 0 \<and> drop_bit 16 (rd guest_IDTR_LIMIT) = 0 \<and>
     canonical (rd guest_RIP) \<and> bit (rd guest_RFLAGS) 1 \<and> rd guest_RFLAGS AND 0xFFFFFFFFFFC28028 = 0 \<and>
     rd guest_ACTIVITY_STATE = 0 \<and> rd guest_INTERRUPTIBILITY_STATE = 0 \<and>
     rd guest_PENDING_DBG_EXCEPTIONS = 0 \<and> rd guest_LINK_PTR_FULL = - 1"

subsection \<open>Properties\<close>

lemma guest_writes_distinct: "distinct (map fst (guest_writes X e r))"
  by (simp add: guest_writes_def Let_def field_encodings)

lemma guest_written:
  "(f, v) \<in> set (guest_writes X e r) \<Longrightarrow> write_all (guest_writes X e r) d (ucast f) = v"
  by (rule write_all_distinct [OF guest_writes_distinct])

lemma guest_write_values:
  assumes "crates_spec X" and "rd = (\<lambda>f. write_all (guest_writes X e r) d (ucast f))"
  shows "vm_entry_segments_ok rd"
    and "rd guest_CR0 = 0x80000031" "rd guest_CR4 = 0x2020" "rd guest_CR3 = 0x10000"
    and "rd guest_DR7 = 0x400" "rd guest_IA32_SYSENTER_ESP = 0" "rd guest_IA32_SYSENTER_EIP = 0"
    and "rd guest_GDTR_BASE = 0x1000" "rd guest_GDTR_LIMIT = 23"
    and "rd guest_IDTR_BASE = 0" "rd guest_IDTR_LIMIT = 0xFFFF"
    and "rd guest_RIP = e" "rd guest_RSP = r" "rd guest_RFLAGS = 2"
    and "rd guest_ACTIVITY_STATE = 0" "rd guest_INTERRUPTIBILITY_STATE = 0"
    and "rd guest_PENDING_DBG_EXCEPTIONS = 0" "rd guest_LINK_PTR_FULL = - 1"
    and "rd guest_IA32_EFER_FULL = 0x500"
proof -
  have w: "rd f = v" if "(f, v) \<in> set (guest_writes X e r)" for f v
    using guest_written [OF that] assms(2) by simp
  have sel: "selector_new X 1 = 8" "selector_new X 2 = 16"
    using assms(1) by (simp_all add: crates_spec_def)
  note vals = guest_writes_def Let_def vmcs_CS_AR_def vmcs_DATA_AR_def vmcs_TR_AR_def vmcs_LDTR_AR_def
    vmcs_SEG_LIMIT_def GDT_OFFSET_def BOOT_GDT_MAX_def BOOT_PML4_def EFER_LME_def EFER_LMA_def
    GDT_KERNEL_DATA_def sel
  have ar: "rd guest_CS_ACCESS_RIGHTS = 0xA09B" "rd guest_SS_ACCESS_RIGHTS = 0xC093"
    "rd guest_DS_ACCESS_RIGHTS = 0xC093" "rd guest_ES_ACCESS_RIGHTS = 0xC093"
    "rd guest_FS_ACCESS_RIGHTS = 0xC093" "rd guest_GS_ACCESS_RIGHTS = 0xC093"
    "rd guest_TR_ACCESS_RIGHTS = 0x8B" "rd guest_LDTR_ACCESS_RIGHTS = 0x10000"
    "rd guest_CS_LIMIT = 0xFFFFFFFF" "rd guest_SS_LIMIT = 0xFFFFFFFF" "rd guest_DS_LIMIT = 0xFFFFFFFF"
    "rd guest_ES_LIMIT = 0xFFFFFFFF" "rd guest_FS_LIMIT = 0xFFFFFFFF" "rd guest_GS_LIMIT = 0xFFFFFFFF"
    "rd guest_TR_LIMIT = 0xFFFF" "rd guest_SS_SELECTOR = 16" "rd guest_TR_SELECTOR = 0"
    "rd guest_CS_BASE = 0" "rd guest_FS_BASE = 0" "rd guest_GS_BASE = 0" "rd guest_TR_BASE = 0"
    by (rule w, simp add: vals)+
  show "vm_entry_segments_ok rd"
    unfolding vm_entry_segments_ok_def ar
    by (simp add: code_segment_ok_def stack_segment_ok_def data_segment_ok_def task_register_ok_def
        access_format_def limit_format_def dpl_def canonical_def)
  show "rd guest_CR0 = 0x80000031" "rd guest_CR4 = 0x2020" "rd guest_CR3 = 0x10000"
    "rd guest_DR7 = 0x400" "rd guest_IA32_SYSENTER_ESP = 0" "rd guest_IA32_SYSENTER_EIP = 0"
    "rd guest_GDTR_BASE = 0x1000" "rd guest_GDTR_LIMIT = 23"
    "rd guest_IDTR_BASE = 0" "rd guest_IDTR_LIMIT = 0xFFFF"
    "rd guest_RIP = e" "rd guest_RSP = r" "rd guest_RFLAGS = 2"
    "rd guest_ACTIVITY_STATE = 0" "rd guest_INTERRUPTIBILITY_STATE = 0"
    "rd guest_PENDING_DBG_EXCEPTIONS = 0" "rd guest_LINK_PTR_FULL = - 1"
    "rd guest_IA32_EFER_FULL = 0x500"
    using assms(1) by (intro w, simp add: vals crates_spec_def)+
qed


text \<open>
  C34: The adjustment of a control word: for a processor on which every control that must be 1 may be
  1, a control is in force after the adjustment exactly when it must be, or when it was requested and the
  processor allows it. In particular a requested control that is not available is dropped without an
  error. The result fits the 32-bit field.
\<close>

theorem adjust_control_bits:
  assumes "\<forall>n < 32. bit (msr (capability_msr control (bit (msr IA32_VMX_BASIC) 55))) n \<longrightarrow>
      bit (msr (capability_msr control (bit (msr IA32_VMX_BASIC) 55))) (32 + n)"
  shows "bit (adjust_control msr control requested) n \<longleftrightarrow>
    n < 32 \<and> (bit (msr (capability_msr control (bit (msr IA32_VMX_BASIC) 55))) n \<or>
      bit requested n \<and> bit (msr (capability_msr control (bit (msr IA32_VMX_BASIC) 55))) (32 + n))"
  using assms
  unfolding adjust_control_def IA32_VMX_BASIC_TRUE_CTLS_def and_exp_eq_0_iff not_not Let_def
  by (auto simp: bit_simps)

lemma low_bits_masks:
  "w AND 0xFFFF = take_bit 16 w" "w AND 0xFF = take_bit 8 w" "w AND 0xFFFFFFFF = take_bit 32 w" for w :: u64
  by (simp_all add: take_bit_eq_mask mask_eq_exp_minus_1)

text \<open>
  The host's TSS is found through its descriptor: whatever the limit and access bytes, a descriptor
  in the format of the manual with base \<open>b\<close> at the task register's index of the GDT gives \<open>b\<close>.
\<close>

lemma tss_base_decodes:
  assumes "\<forall>n < 24. bit (mem (gdt + ucast (drop_bit 3 tr) * 8)) (16 + n) = bit b n"
    and "\<forall>n < 8. bit (mem (gdt + ucast (drop_bit 3 tr) * 8)) (56 + n) = bit b (24 + n)"
    and "\<forall>n < 32. bit (mem (gdt + ucast (drop_bit 3 tr) * 8 + 8)) n = bit b (32 + n)"
  shows "tss_base mem gdt tr = b"
proof (rule bit_word_eqI)
  fix n assume n: "n < LENGTH(64)"
  let ?low = "mem (gdt + ucast (drop_bit 3 tr) * 8)"
  let ?high = "mem (gdt + ucast (drop_bit 3 tr) * 8 + 8)"
  have "bit (tss_base mem gdt tr) n \<longleftrightarrow>
      n < 16 \<and> bit ?low (16 + n) \<or> 16 \<le> n \<and> n < 24 \<and> bit ?low (32 + (n - 16)) \<or>
      24 \<le> n \<and> n < 32 \<and> bit ?low (56 + (n - 24)) \<or> 32 \<le> n \<and> bit ?high (n - 32)"
    using n by (auto simp: tss_base_def Let_def low_bits_masks bit_simps)
  also have "\<dots> \<longleftrightarrow> bit b n"
    using assms(1) [rule_format, of n] assms(2) [rule_format, of "n - 24"]
      assms(3) [rule_format, of "n - 32"] n
    by (cases "n < 16"; cases "n < 24"; cases "n < 32") auto
  finally show "bit (tss_base mem gdt tr) n = bit b n" .
qed

definition sample_crates :: crates where
  "sample_crates =
     \<lparr>PROTECTED_MODE_ENABLE = 1, EXTENSION_TYPE = 0x10, NUMERIC_ERROR = 0x20,
      NOT_WRITE_THROUGH = 0x20000000, CACHE_DISABLE = 0x40000000, PAGING = 0x80000000,
      PHYSICAL_ADDRESS_EXTENSION = 0x20, VIRTUAL_MACHINE_EXTENSIONS = 0x2000,
      selector_new = push_bit 3, cr0_from_bits = Some, cr4_from_bits = Some,
      set_bit_to = (\<lambda>w n b. if b then set_bit n w else unset_bit n w)\<rparr>"

lemma sample_crates_spec: "crates_spec sample_crates"
  by (simp add: crates_spec_def sample_crates_def)

definition sample_vmx_hw :: "'fp vmx_hw" where
  "sample_vmx_hw = \<lparr>field_readable = (\<lambda>_. True), field_writable = (\<lambda>_. True),
     vmxon_hw = (\<lambda>_ _. VmSucceed), vmclear_hw = (\<lambda>_ _. VmSucceed), vmptrld_hw = (\<lambda>_ _. VmSucceed)\<rparr>"

text \<open>A processor that requires the default settings of its controls and allows every one.\<close>

definition sample_capabilities :: u64 where
  "sample_capabilities = push_bit 32 (mask 32) OR push_bit 1 1 OR push_bit 2 1 OR push_bit 4 1"

lemma bit_sample_capabilities:
  "bit sample_capabilities n \<longleftrightarrow> 32 \<le> n \<and> n < 64 \<or> n = 1 \<or> n = 2 \<or> n = 4"
  unfolding sample_capabilities_def bit_or_iff bit_push_bit_iff bit_1_iff bit_mask_iff by auto

definition sample_vmx_core :: "u64 vmx_core" where
  "sample_vmx_core =
     \<lparr>vmx_msr = (\<lambda>m. if m = IA32_VMX_BASIC then push_bit 55 1 OR 4
                     else if 0x481 \<le> m \<and> m \<le> 0x490 then sample_capabilities else 0),
      vmx_cr0 = 0x80000031, vmx_cr4 = 0x20, current_vmcs = Some 0x5000, vmcs_store = (\<lambda>_ _. 0),
      vmx_fp = 0, vmx_xcr = (\<lambda>_. 0)\<rparr>"


theorem adjust_control_bits_witness:
  "bit (adjust_control (vmx_msr sample_vmx_core) ProcessorBased2 2) 1 \<and>
   bit (adjust_control (vmx_msr sample_vmx_core) ProcessorBased2 2) 4 \<and>
   \<not> bit (adjust_control (vmx_msr sample_vmx_core) ProcessorBased2 2) 3"
  by (subst (1 2 3) adjust_control_bits)
    (simp_all add: sample_vmx_core_def capability_msr_def vmcs_msrs bit_sample_capabilities)

definition sample_gdt :: "u64 \<Rightarrow> u64" where
  "sample_gdt a = (if a = 0x2018 then push_bit 16 1 OR push_bit 47 1 OR push_bit 56 1 else push_bit 8 1)"

end
