(* ===== verification/Vmerror.thy ===== *)
theory Vmerror
  imports Hypervisor_Core
begin

text \<open>
  The VMX exit and error codes (\<^verbatim>\<open>src/crates/rhyve-x86/src/vmx/vmerror.rs\<close>): the enumerations
  with their discriminants, the match tables that decode a number of the VMCS, the two \<open>Display\<close>
  implementations, and the decoded forms of the exit qualifications and of the interruption
  information. Every enumeration that is decoded by a table of match arms is an instance of one
  interface, \<open>numbered\<close>.
\<close>

subsection \<open>Enumerations decoded by match arms\<close>

text \<open>
  An enumeration with discriminants and a decoder written as match arms: every arm yields the
  variant with that number, and no number has two arms. A complete one has an arm for every variant.
\<close>

locale numbered_arms =
  fixes number :: "'a \<Rightarrow> 'n" and arms :: "('n \<times> 'a) list"
  assumes arms_sound: "\<forall>(n, x) \<in> set arms. number x = n"
    and arms_distinct: "distinct (map fst arms)"
begin

lemma decode_sound: "map_of arms n = Some x \<Longrightarrow> number x = n"
  using arms_sound by (auto dest!: map_of_SomeD)

lemma decode_iff: "map_of arms n = Some x \<longleftrightarrow> number x = n \<and> x \<in> snd ` set arms"
proof
  assume "map_of arms n = Some x"
  then show "number x = n \<and> x \<in> snd ` set arms"
    using decode_sound by (force dest: map_of_SomeD)
next
  assume x: "number x = n \<and> x \<in> snd ` set arms"
  then obtain m where "(m, x) \<in> set arms" by auto
  with x arms_sound have "(n, x) \<in> set arms" by auto
  then show "map_of arms n = Some x" using arms_distinct by simp
qed

lemma decode_None_iff: "map_of arms n = None \<longleftrightarrow> n \<notin> set (map fst arms)"
  by (simp add: map_of_eq_None_iff)

end

locale numbered = numbered_arms +
  assumes arms_complete: "(number x, x) \<in> set arms"
begin

lemma roundtrip: "map_of arms (number x) = Some x"
  using arms_complete arms_distinct by simp

lemma number_inj: "number x = number y \<longleftrightarrow> x = y"
  by (metis option.inject roundtrip)

lemma decode_complete_iff: "map_of arms n = Some x \<longleftrightarrow> n = number x"
  using roundtrip decode_sound by auto

end

subsection \<open>Basic exit reasons\<close>

datatype (plugins only: size) VmxBasicExitReason =
    ExceptionOrNmi | ExternalInterrupt | TripleFault | InitSignal | StartupIpi
  | IoSystemManagementInterrupt | OtherSmi | InterruptWindow | NmiWindow | TaskSwitch | Cpuid
  | Getsec | Hlt | Invd | Invlpg | Rdpmc | Rdtsc | Rsm | Vmcall | Vmclear | Vmlaunch | Vmptrld
  | Vmptrst | Vmread | Vmresume | Vmwrite | Vmxoff | Vmxon | ControlRegisterAccesses | MovDr
  | IoInstruction | Rdmsr | Wrmsr | VmEntryFailureInvalidGuestState | VmEntryFailureMsrLoading
  | Mwait | MonitorTrapFlag | Monitor | Pause | VmEntryFailureMachineCheckEvent
  | TprBelowThreshold | ApicAccess | VirtualizedEoi | AccessToGdtrOrIdtr | AccessToLdtrOrTr
  | EptViolation | EptMisconfiguration | Invept | Rdtscp | VmxPreemptionTimerExpired | Invvpid
  | WbinvdOrWbnoinvd | Xsetbv | ApicWrite | Rdrand | Invpcid | Vmfunc | Encls | Rdseed
  | PageModificationLogFull | Xsaves | Xrstors | Pconfig | SppRelatedEvent | Umwait | Tpause
  | Loadiwkey | Enclv | EnqcmdPasidTranslationFailure | EnqcmdsPasidTranslationFailure | BusLock
  | InstructionTimeout

text \<open>The discriminants (\<open>#[repr(u16)]\<close>), and the match arms of \<open>from_u32\<close>.\<close>

primrec reason_number :: "VmxBasicExitReason \<Rightarrow> u16" where
  "reason_number ExceptionOrNmi = 0"
| "reason_number ExternalInterrupt = 1"
| "reason_number TripleFault = 2"
| "reason_number InitSignal = 3"
| "reason_number StartupIpi = 4"
| "reason_number IoSystemManagementInterrupt = 5"
| "reason_number OtherSmi = 6"
| "reason_number InterruptWindow = 7"
| "reason_number NmiWindow = 8"
| "reason_number TaskSwitch = 9"
| "reason_number Cpuid = 10"
| "reason_number Getsec = 11"
| "reason_number Hlt = 12"
| "reason_number Invd = 13"
| "reason_number Invlpg = 14"
| "reason_number Rdpmc = 15"
| "reason_number Rdtsc = 16"
| "reason_number Rsm = 17"
| "reason_number Vmcall = 18"
| "reason_number Vmclear = 19"
| "reason_number Vmlaunch = 20"
| "reason_number Vmptrld = 21"
| "reason_number Vmptrst = 22"
| "reason_number Vmread = 23"
| "reason_number Vmresume = 24"
| "reason_number Vmwrite = 25"
| "reason_number Vmxoff = 26"
| "reason_number Vmxon = 27"
| "reason_number ControlRegisterAccesses = 28"
| "reason_number MovDr = 29"
| "reason_number IoInstruction = 30"
| "reason_number Rdmsr = 31"
| "reason_number Wrmsr = 32"
| "reason_number VmEntryFailureInvalidGuestState = 33"
| "reason_number VmEntryFailureMsrLoading = 34"
| "reason_number Mwait = 36"
| "reason_number MonitorTrapFlag = 37"
| "reason_number Monitor = 39"
| "reason_number Pause = 40"
| "reason_number VmEntryFailureMachineCheckEvent = 41"
| "reason_number TprBelowThreshold = 43"
| "reason_number ApicAccess = 44"
| "reason_number VirtualizedEoi = 45"
| "reason_number AccessToGdtrOrIdtr = 46"
| "reason_number AccessToLdtrOrTr = 47"
| "reason_number EptViolation = 48"
| "reason_number EptMisconfiguration = 49"
| "reason_number Invept = 50"
| "reason_number Rdtscp = 51"
| "reason_number VmxPreemptionTimerExpired = 52"
| "reason_number Invvpid = 53"
| "reason_number WbinvdOrWbnoinvd = 54"
| "reason_number Xsetbv = 55"
| "reason_number ApicWrite = 56"
| "reason_number Rdrand = 57"
| "reason_number Invpcid = 58"
| "reason_number Vmfunc = 59"
| "reason_number Encls = 60"
| "reason_number Rdseed = 61"
| "reason_number PageModificationLogFull = 62"
| "reason_number Xsaves = 63"
| "reason_number Xrstors = 64"
| "reason_number Pconfig = 65"
| "reason_number SppRelatedEvent = 66"
| "reason_number Umwait = 67"
| "reason_number Tpause = 68"
| "reason_number Loadiwkey = 69"
| "reason_number Enclv = 70"
| "reason_number EnqcmdPasidTranslationFailure = 72"
| "reason_number EnqcmdsPasidTranslationFailure = 73"
| "reason_number BusLock = 74"
| "reason_number InstructionTimeout = 75"

definition exit_reason_arms :: "(u16 \<times> VmxBasicExitReason) list" where
  "exit_reason_arms =
    [(0, ExceptionOrNmi), (1, ExternalInterrupt), (2, TripleFault), (3, InitSignal),
     (4, StartupIpi), (5, IoSystemManagementInterrupt), (6, OtherSmi), (7, InterruptWindow),
     (8, NmiWindow), (9, TaskSwitch), (10, Cpuid), (11, Getsec), (12, Hlt), (13, Invd),
     (14, Invlpg), (15, Rdpmc), (16, Rdtsc), (17, Rsm), (18, Vmcall), (19, Vmclear),
     (20, Vmlaunch), (21, Vmptrld), (22, Vmptrst), (23, Vmread), (24, Vmresume), (25, Vmwrite),
     (26, Vmxoff), (27, Vmxon), (28, ControlRegisterAccesses), (29, MovDr), (30, IoInstruction),
     (31, Rdmsr), (32, Wrmsr), (33, VmEntryFailureInvalidGuestState),
     (34, VmEntryFailureMsrLoading), (36, Mwait), (37, MonitorTrapFlag), (39, Monitor),
     (40, Pause), (41, VmEntryFailureMachineCheckEvent), (43, TprBelowThreshold),
     (44, ApicAccess), (45, VirtualizedEoi), (46, AccessToGdtrOrIdtr), (47, AccessToLdtrOrTr),
     (48, EptViolation), (49, EptMisconfiguration), (50, Invept), (51, Rdtscp),
     (52, VmxPreemptionTimerExpired), (53, Invvpid), (54, WbinvdOrWbnoinvd), (55, Xsetbv),
     (56, ApicWrite), (57, Rdrand), (58, Invpcid), (59, Vmfunc), (60, Encls), (61, Rdseed),
     (62, PageModificationLogFull), (63, Xsaves), (64, Xrstors), (65, Pconfig),
     (66, SppRelatedEvent), (67, Umwait), (68, Tpause), (69, Loadiwkey), (70, Enclv),
     (72, EnqcmdPasidTranslationFailure), (73, EnqcmdsPasidTranslationFailure), (74, BusLock),
     (75, InstructionTimeout)]"

definition exit_reason_from_u32 :: "u32 \<Rightarrow> VmxBasicExitReason option" where
  "exit_reason_from_u32 value = map_of exit_reason_arms (ucast (value AND 0xffff))"

interpretation exit_reasons: numbered reason_number exit_reason_arms
proof
  show "\<forall>(n, x) \<in> set exit_reason_arms. reason_number x = n" by (simp add: exit_reason_arms_def)
  show "distinct (map fst exit_reason_arms)" by (simp add: exit_reason_arms_def)
  show "(reason_number x, x) \<in> set exit_reason_arms" for x
    by (cases x) (simp_all add: exit_reason_arms_def)
qed

text \<open>The derived \<open>PartialEq\<close> compares discriminants; it is the equality of the type.\<close>

instantiation VmxBasicExitReason :: equal
begin

definition equal_VmxBasicExitReason :: "VmxBasicExitReason \<Rightarrow> VmxBasicExitReason \<Rightarrow> bool" where
  "equal_VmxBasicExitReason x y \<longleftrightarrow> reason_number x = reason_number y"

instance
  by standard (simp add: equal_VmxBasicExitReason_def exit_reasons.number_inj)

end

subsection \<open>Instruction errors\<close>

datatype VmInstructionError =
    VmcallInRoot | VmclearInvalidAddress | VmclearWithVmxonPointer | VmlaunchNonClearVmcs
  | VmresumeNonLaunchedVmcs | VmresumeAfterVmxoff | VmEntryInvalidControlFields
  | VmEntryInvalidHostState | VmptrldInvalidAddress | VmptrldWithVmxonPointer
  | VmptrldIncorrectVmcsRevision | VmreadVmwriteUnsupportedVmcsComponent
  | VmwriteReadonlyVmcsComponent | VmxonInRoot | VmEntryInvalidExecutiveVmcsPointer
  | VmEntryNonLaunchedExecutiveVmcs | VmEntryExecutiveVmcsPointerNotVmxonPointer
  | VmcallNonClearVmcs | VmcallInvalidVmExitControlFields | VmcallIncorrectMsegRevision
  | VmxoffUnderDualMonitorTreatment | VmcallInvalidSmmMonitorFeatures
  | VmEntryInvalidVmExecutionControlFieldsExecutiveVmcs | VmEntryEventsBlockedByMovSs
  | InvalidOperandToInveptInvvpid

primrec instruction_error_number :: "VmInstructionError \<Rightarrow> u32" where
  "instruction_error_number VmcallInRoot = 1"
| "instruction_error_number VmclearInvalidAddress = 2"
| "instruction_error_number VmclearWithVmxonPointer = 3"
| "instruction_error_number VmlaunchNonClearVmcs = 4"
| "instruction_error_number VmresumeNonLaunchedVmcs = 5"
| "instruction_error_number VmresumeAfterVmxoff = 6"
| "instruction_error_number VmEntryInvalidControlFields = 7"
| "instruction_error_number VmEntryInvalidHostState = 8"
| "instruction_error_number VmptrldInvalidAddress = 9"
| "instruction_error_number VmptrldWithVmxonPointer = 10"
| "instruction_error_number VmptrldIncorrectVmcsRevision = 11"
| "instruction_error_number VmreadVmwriteUnsupportedVmcsComponent = 12"
| "instruction_error_number VmwriteReadonlyVmcsComponent = 13"
| "instruction_error_number VmxonInRoot = 15"
| "instruction_error_number VmEntryInvalidExecutiveVmcsPointer = 16"
| "instruction_error_number VmEntryNonLaunchedExecutiveVmcs = 17"
| "instruction_error_number VmEntryExecutiveVmcsPointerNotVmxonPointer = 18"
| "instruction_error_number VmcallNonClearVmcs = 19"
| "instruction_error_number VmcallInvalidVmExitControlFields = 20"
| "instruction_error_number VmcallIncorrectMsegRevision = 22"
| "instruction_error_number VmxoffUnderDualMonitorTreatment = 23"
| "instruction_error_number VmcallInvalidSmmMonitorFeatures = 24"
| "instruction_error_number VmEntryInvalidVmExecutionControlFieldsExecutiveVmcs = 25"
| "instruction_error_number VmEntryEventsBlockedByMovSs = 26"
| "instruction_error_number InvalidOperandToInveptInvvpid = 28"

definition instruction_error_arms :: "(u32 \<times> VmInstructionError) list" where
  "instruction_error_arms =
    [(1, VmcallInRoot), (2, VmclearInvalidAddress), (3, VmclearWithVmxonPointer),
     (4, VmlaunchNonClearVmcs), (5, VmresumeNonLaunchedVmcs), (6, VmresumeAfterVmxoff),
     (7, VmEntryInvalidControlFields), (8, VmEntryInvalidHostState), (9, VmptrldInvalidAddress),
     (10, VmptrldWithVmxonPointer), (11, VmptrldIncorrectVmcsRevision),
     (12, VmreadVmwriteUnsupportedVmcsComponent), (13, VmwriteReadonlyVmcsComponent),
     (15, VmxonInRoot), (16, VmEntryInvalidExecutiveVmcsPointer),
     (17, VmEntryNonLaunchedExecutiveVmcs), (18, VmEntryExecutiveVmcsPointerNotVmxonPointer),
     (19, VmcallNonClearVmcs), (20, VmcallInvalidVmExitControlFields),
     (22, VmcallIncorrectMsegRevision), (23, VmxoffUnderDualMonitorTreatment),
     (24, VmcallInvalidSmmMonitorFeatures),
     (25, VmEntryInvalidVmExecutionControlFieldsExecutiveVmcs),
     (26, VmEntryEventsBlockedByMovSs), (28, InvalidOperandToInveptInvvpid)]"

definition instruction_error_from_u32 :: "u32 \<Rightarrow> VmInstructionError option" where
  "instruction_error_from_u32 value = map_of instruction_error_arms value"

interpretation instruction_errors: numbered instruction_error_number instruction_error_arms
proof
  show "\<forall>(n, x) \<in> set instruction_error_arms. instruction_error_number x = n"
    by (simp add: instruction_error_arms_def)
  show "distinct (map fst instruction_error_arms)" by (simp add: instruction_error_arms_def)
  show "(instruction_error_number x, x) \<in> set instruction_error_arms" for x
    by (cases x) (simp_all add: instruction_error_arms_def)
qed

subsection \<open>Exceptions and interruption types\<close>

datatype ExceptionInterrupt =
    DivisionError | Debug | NonMaskableInterrupt | Breakpoint | Overflow | BoundRangeExceeded
  | InvalidOpcode | DeviceNotAvailable | DoubleFault | CoprocessorSegmentOverrun | InvalidTSS
  | SegmentNotPresent | StackSegmentFault | GeneralProtectionFault | PageFault
  | FloatingPointError | AlignmentCheck | MachineCheck | SimdFloatingPointException
  | VirtualizationException | ControlProtectionException | MaskableInterrupts

primrec exception_number :: "ExceptionInterrupt \<Rightarrow> u32" where
  "exception_number DivisionError = 0"
| "exception_number Debug = 1"
| "exception_number NonMaskableInterrupt = 2"
| "exception_number Breakpoint = 3"
| "exception_number Overflow = 4"
| "exception_number BoundRangeExceeded = 5"
| "exception_number InvalidOpcode = 6"
| "exception_number DeviceNotAvailable = 7"
| "exception_number DoubleFault = 8"
| "exception_number CoprocessorSegmentOverrun = 9"
| "exception_number InvalidTSS = 10"
| "exception_number SegmentNotPresent = 11"
| "exception_number StackSegmentFault = 12"
| "exception_number GeneralProtectionFault = 13"
| "exception_number PageFault = 14"
| "exception_number FloatingPointError = 16"
| "exception_number AlignmentCheck = 17"
| "exception_number MachineCheck = 18"
| "exception_number SimdFloatingPointException = 19"
| "exception_number VirtualizationException = 20"
| "exception_number ControlProtectionException = 21"
| "exception_number MaskableInterrupts = 32"

definition exception_arms :: "(u32 \<times> ExceptionInterrupt) list" where
  "exception_arms =
    [(0, DivisionError), (1, Debug), (2, NonMaskableInterrupt), (3, Breakpoint), (4, Overflow),
     (5, BoundRangeExceeded), (6, InvalidOpcode), (7, DeviceNotAvailable), (8, DoubleFault),
     (9, CoprocessorSegmentOverrun), (10, InvalidTSS), (11, SegmentNotPresent),
     (12, StackSegmentFault), (13, GeneralProtectionFault), (14, PageFault),
     (16, FloatingPointError), (17, AlignmentCheck), (18, MachineCheck),
     (19, SimdFloatingPointException), (20, VirtualizationException),
     (21, ControlProtectionException), (32, MaskableInterrupts)]"

definition exception_from_u32 :: "u32 \<Rightarrow> ExceptionInterrupt option" where
  "exception_from_u32 value = map_of exception_arms value"

interpretation exceptions: numbered exception_number exception_arms
proof
  show "\<forall>(n, x) \<in> set exception_arms. exception_number x = n" by (simp add: exception_arms_def)
  show "distinct (map fst exception_arms)" by (simp add: exception_arms_def)
  show "(exception_number x, x) \<in> set exception_arms" for x
    by (cases x) (simp_all add: exception_arms_def)
qed

datatype InterruptionType =
    ExternalInterrupt | Reserved | NonMaskableInterrupt | HardwareException | SoftwareInterrupt
  | PrivilegedSoftwareException | SoftwareException | OtherEvent

primrec interruption_number :: "InterruptionType \<Rightarrow> u8" where
  "interruption_number InterruptionType.ExternalInterrupt = 0"
| "interruption_number Reserved = 1"
| "interruption_number InterruptionType.NonMaskableInterrupt = 2"
| "interruption_number HardwareException = 3"
| "interruption_number SoftwareInterrupt = 4"
| "interruption_number PrivilegedSoftwareException = 5"
| "interruption_number SoftwareException = 6"
| "interruption_number OtherEvent = 7"

definition interruption_arms :: "(u8 \<times> InterruptionType) list" where
  "interruption_arms =
    [(0, InterruptionType.ExternalInterrupt), (2, InterruptionType.NonMaskableInterrupt), (3, HardwareException),
     (5, PrivilegedSoftwareException), (6, SoftwareException)]"

definition interruption_from_bits :: "u8 \<Rightarrow> InterruptionType option" where
  "interruption_from_bits bits = map_of interruption_arms bits"

interpretation interruptions: numbered_arms interruption_number interruption_arms
  by standard (simp_all add: interruption_arms_def)

subsection \<open>Display\<close>

text \<open>\<open>write!(f, "{}: {}", *self as u16, description)\<close>, where \<open>{}\<close> prints a number in decimal.\<close>

fun decimal :: "nat \<Rightarrow> string" where
  "decimal n = (if n < 10 then [] else decimal (n div 10)) @ [char_of (48 + n mod 10)]"

declare decimal.simps [simp del]

primrec reason_description :: "VmxBasicExitReason \<Rightarrow> string" where
  "reason_description ExceptionOrNmi = ''Exception or non-maskable interrupt (NMI)''"
| "reason_description VmxBasicExitReason.ExternalInterrupt = ''External interrupt''"
| "reason_description TripleFault = ''Triple fault''"
| "reason_description InitSignal = ''INIT signal''"
| "reason_description StartupIpi = ''Start-up IPI (SIPI)''"
| "reason_description IoSystemManagementInterrupt =
     ''I/O system-management interrupt (SMI)''"
| "reason_description OtherSmi = ''Other SMI''"
| "reason_description InterruptWindow = ''Interrupt window''"
| "reason_description NmiWindow = ''NMI window''"
| "reason_description TaskSwitch = ''Task switch''"
| "reason_description Cpuid = ''Guest software attempted to execute CPUID''"
| "reason_description Getsec = ''Guest software attempted to execute GETSEC''"
| "reason_description Hlt = ''Guest software attempted to execute HLT''"
| "reason_description Invd = ''Guest software attempted to execute INVD''"
| "reason_description Invlpg = ''Guest software attempted to execute INVLPG''"
| "reason_description Rdpmc = ''Guest software attempted to execute RDPMC''"
| "reason_description Rdtsc = ''Guest software attempted to execute RDTSC''"
| "reason_description Rsm = ''Guest software attempted to execute RSM in SMM''"
| "reason_description Vmcall = ''VMCALL was executed''"
| "reason_description Vmclear = ''Guest software attempted to execute VMCLEAR''"
| "reason_description Vmlaunch = ''Guest software attempted to execute VMLAUNCH''"
| "reason_description Vmptrld = ''Guest software attempted to execute VMPTRLD''"
| "reason_description Vmptrst = ''Guest software attempted to execute VMPTRST''"
| "reason_description Vmread = ''Guest software attempted to execute VMREAD''"
| "reason_description Vmresume = ''Guest software attempted to execute VMRESUME''"
| "reason_description Vmwrite = ''Guest software attempted to execute VMWRITE''"
| "reason_description Vmxoff = ''Guest software attempted to execute VMXOFF''"
| "reason_description Vmxon = ''Guest software attempted to execute VMXON''"
| "reason_description ControlRegisterAccesses = ''Control-register accesses''"
| "reason_description MovDr =
     ''Guest software attempted a MOV to or from a debug register''"
| "reason_description IoInstruction =
     ''Guest software attempted to execute an I/O instruction''"
| "reason_description Rdmsr = ''Guest software attempted to execute RDMSR''"
| "reason_description Wrmsr = ''Guest software attempted to execute WRMSR''"
| "reason_description VmEntryFailureInvalidGuestState =
     ''VM-entry failure due to invalid guest state''"
| "reason_description VmEntryFailureMsrLoading = ''VM-entry failure due to MSR loading''"
| "reason_description Mwait = ''Guest software attempted to execute MWAIT''"
| "reason_description MonitorTrapFlag = ''Monitor trap flag''"
| "reason_description Monitor = ''Guest software attempted to execute MONITOR''"
| "reason_description Pause =
     ''Either guest software attempted to execute PAUSE or the PAUSE-loop exiting VM-execution control was 1''"
| "reason_description VmEntryFailureMachineCheckEvent =
     ''VM-entry failure due to machine-check event''"
| "reason_description TprBelowThreshold = ''TPR below threshold''"
| "reason_description ApicAccess = ''APIC access''"
| "reason_description VirtualizedEoi = ''Virtualized EOI''"
| "reason_description AccessToGdtrOrIdtr = ''Access to GDTR or IDTR''"
| "reason_description AccessToLdtrOrTr = ''Access to LDTR or TR''"
| "reason_description EptViolation = ''EPT violation''"
| "reason_description EptMisconfiguration = ''EPT misconfiguration''"
| "reason_description Invept = ''Guest software attempted to execute INVEPT''"
| "reason_description Rdtscp = ''Guest software attempted to execute RDTSCP''"
| "reason_description VmxPreemptionTimerExpired = ''VMX-preemption timer expired''"
| "reason_description Invvpid = ''Guest software attempted to execute INVVPID''"
| "reason_description WbinvdOrWbnoinvd =
     ''Guest software attempted to execute WBINVD or WBNOINVD''"
| "reason_description Xsetbv = ''Guest software attempted to execute XSETBV''"
| "reason_description ApicWrite = ''APIC write''"
| "reason_description Rdrand = ''Guest software attempted to execute RDRAND''"
| "reason_description Invpcid = ''Guest software attempted to execute INVPCID''"
| "reason_description Vmfunc =
     ''Guest software invoked a VM function with the VMFUNC instruction''"
| "reason_description Encls = ''Guest software attempted to execute ENCLS''"
| "reason_description Rdseed = ''Guest software attempted to execute RDSEED''"
| "reason_description PageModificationLogFull = ''Page-modification log full''"
| "reason_description Xsaves = ''Guest software attempted to execute XSAVES''"
| "reason_description Xrstors = ''Guest software attempted to execute XRSTORS''"
| "reason_description Pconfig = ''Guest software attempted to execute PCONFIG''"
| "reason_description SppRelatedEvent = ''SPP-related event''"
| "reason_description Umwait = ''Guest software attempted to execute UMWAIT''"
| "reason_description Tpause = ''Guest software attempted to execute TPAUSE''"
| "reason_description Loadiwkey = ''Guest software attempted to execute LOADIWKEY''"
| "reason_description Enclv = ''Guest software attempted to execute ENCLV''"
| "reason_description EnqcmdPasidTranslationFailure = ''ENQCMD PASID translation failure''"
| "reason_description EnqcmdsPasidTranslationFailure =
     ''ENQCMDS PASID translation failure''"
| "reason_description BusLock = ''Bus lock''"
| "reason_description InstructionTimeout = ''Instruction timeout''"

definition exit_reason_fmt :: "VmxBasicExitReason \<Rightarrow> string" where
  "exit_reason_fmt r = decimal (unat (reason_number r)) @ '': '' @ reason_description r"

primrec instruction_error_fmt :: "VmInstructionError \<Rightarrow> string" where
  "instruction_error_fmt VmcallInRoot = ''1: VMCALL executed in VMX root operation''"
| "instruction_error_fmt VmclearInvalidAddress =
     ''2: VMCLEAR with invalid physical address''"
| "instruction_error_fmt VmclearWithVmxonPointer = ''3: VMCLEAR with VMXON pointer''"
| "instruction_error_fmt VmlaunchNonClearVmcs = ''4: VMLAUNCH with non-clear VMCS''"
| "instruction_error_fmt VmresumeNonLaunchedVmcs = ''5: VMRESUME with non-launched VMCS''"
| "instruction_error_fmt VmresumeAfterVmxoff = ''6: VMRESUME after VMXOFF''"
| "instruction_error_fmt VmEntryInvalidControlFields =
     ''7: VM entry with invalid control field(s)''"
| "instruction_error_fmt VmEntryInvalidHostState =
     ''8: VM entry with invalid host-state field(s)''"
| "instruction_error_fmt VmptrldInvalidAddress =
     ''9: VMPTRLD with invalid physical address''"
| "instruction_error_fmt VmptrldWithVmxonPointer = ''10: VMPTRLD with VMXON pointer''"
| "instruction_error_fmt VmptrldIncorrectVmcsRevision =
     ''11: VMPTRLD with incorrect VMCS revision identifier''"
| "instruction_error_fmt VmreadVmwriteUnsupportedVmcsComponent =
     ''12: VMREAD/VMWRITE from/to unsupported VMCS component''"
| "instruction_error_fmt VmwriteReadonlyVmcsComponent =
     ''13: VMWRITE to read-only VMCS component''"
| "instruction_error_fmt VmxonInRoot = ''15: VMXON executed in VMX root operation''"
| "instruction_error_fmt VmEntryInvalidExecutiveVmcsPointer =
     ''16: VM entry with invalid executive-VMCS pointer''"
| "instruction_error_fmt VmEntryNonLaunchedExecutiveVmcs =
     ''17: VM entry with non-launched executive VMCS''"
| "instruction_error_fmt VmEntryExecutiveVmcsPointerNotVmxonPointer =
     ''18: VM entry with executive-VMCS pointer not VMXON pointer''"
| "instruction_error_fmt VmcallNonClearVmcs = ''19: VMCALL with non-clear VMCS''"
| "instruction_error_fmt VmcallInvalidVmExitControlFields =
     ''20: VMCALL with invalid VM-exit control fields''"
| "instruction_error_fmt VmcallIncorrectMsegRevision =
     ''22: VMCALL with incorrect MSEG revision identifier''"
| "instruction_error_fmt VmxoffUnderDualMonitorTreatment =
     ''23: VMXOFF under dual-monitor treatment of SMIs and SMM''"
| "instruction_error_fmt VmcallInvalidSmmMonitorFeatures =
     ''24: VMCALL with invalid SMM-monitor features''"
| "instruction_error_fmt VmEntryInvalidVmExecutionControlFieldsExecutiveVmcs =
     ''25: VM entry with invalid VM-execution control fields in executive VMCS''"
| "instruction_error_fmt VmEntryEventsBlockedByMovSs =
     ''26: VM entry with events blocked by MOV SS.''"
| "instruction_error_fmt InvalidOperandToInveptInvvpid =
     ''28: Invalid operand to INVEPT/INVVPID.''"

text \<open>The number a message starts with.\<close>

definition digit :: "char \<Rightarrow> bool" where
  "digit c \<longleftrightarrow> 48 \<le> (of_char c :: nat) \<and> (of_char c :: nat) \<le> 57"

definition leading_number :: "string \<Rightarrow> nat" where
  "leading_number s = foldl (\<lambda>n c. 10 * n + (of_char c - 48)) 0 (takeWhile digit s)"

lemma digit_char_of [simp]: "n < 10 \<Longrightarrow> digit (char_of (48 + n :: nat))"
  by (simp add: digit_def)

lemma decimal_digits: "\<forall>c \<in> set (decimal n). digit c"
proof (induction n rule: decimal.induct)
  case (1 n)
  then show ?case by (subst decimal.simps) (auto simp del: char_of_nat)
qed

lemma decimal_value: "foldl (\<lambda>n c. 10 * n + (of_char c - 48)) 0 (decimal n) = n"
proof (induction n rule: decimal.induct)
  case (1 n)
  then show ?case by (subst decimal.simps) auto
qed

lemma leading_number_decimal:
  assumes "\<not> digit c"
  shows "leading_number (decimal n @ c # s) = n"
  using decimal_digits decimal_value assms by (simp add: leading_number_def takeWhile_append)

subsection \<open>Exit qualifications\<close>

text \<open>
  Third-party code: \<open>get_bits\<close> and \<open>get_bit\<close> of the crate bit\_field, and the decoders that
  num-derive generates for the three enumerations below. Their documented behaviour: the bits of a
  half-open range, shifted down; the variant whose discriminant is the number, or \<open>None\<close>.
\<close>

datatype CrAccessReg = Cr0 | Cr2 | Cr3 | Cr4 | Cr8

datatype CrAccessType = MovToCr | MovFromCr | Clts | Lmsw

datatype LmswOperandType = Register | Memory

primrec cr_access_reg_number :: "CrAccessReg \<Rightarrow> u64" where
  "cr_access_reg_number Cr0 = 0"
| "cr_access_reg_number Cr2 = 2"
| "cr_access_reg_number Cr3 = 3"
| "cr_access_reg_number Cr4 = 4"
| "cr_access_reg_number Cr8 = 8"

primrec cr_access_type_number :: "CrAccessType \<Rightarrow> u64" where
  "cr_access_type_number MovToCr = 0"
| "cr_access_type_number MovFromCr = 1"
| "cr_access_type_number Clts = 2"
| "cr_access_type_number Lmsw = 3"

primrec lmsw_operand_number :: "LmswOperandType \<Rightarrow> u64" where
  "lmsw_operand_number Register = 0"
| "lmsw_operand_number Memory = 1"

record decoders =
  get_bits :: "u64 \<Rightarrow> nat \<Rightarrow> nat \<Rightarrow> u64"
  get_bit :: "u64 \<Rightarrow> nat \<Rightarrow> bool"
  reg_from_u64 :: "u64 \<Rightarrow> CrAccessReg option"
  type_from_u64 :: "u64 \<Rightarrow> CrAccessType option"
  lmsw_from_u64 :: "u64 \<Rightarrow> LmswOperandType option"

definition from_primitive :: "('a \<Rightarrow> u64) \<Rightarrow> (u64 \<Rightarrow> 'a option) \<Rightarrow> bool" where
  "from_primitive number decode \<longleftrightarrow> (\<forall>n x. decode n = Some x \<longleftrightarrow> number x = n)"

definition decoders_spec :: "decoders \<Rightarrow> bool" where
  "decoders_spec d \<longleftrightarrow>
     (\<forall>v a b. a \<le> b \<longrightarrow> get_bits d v a b = take_bit (b - a) (drop_bit a v)) \<and>
     (\<forall>v n. get_bit d v n = bit v n) \<and>
     from_primitive cr_access_reg_number (reg_from_u64 d) \<and>
     from_primitive cr_access_type_number (type_from_u64 d) \<and>
     from_primitive lmsw_operand_number (lmsw_from_u64 d)"

record ControlRegAccessExitQualification =
  control_reg :: CrAccessReg
  access_type :: CrAccessType
  lmsw_op_type :: LmswOperandType
  gpr_mov_cr :: u64

definition cr_access_from_exit_qualification ::
  "decoders \<Rightarrow> u64 \<Rightarrow> (ControlRegAccessExitQualification, 'e) outcome" where
  "cr_access_from_exit_qualification d value =
     try_bind (unwrap (reg_from_u64 d (get_bits d value 0 4))) (\<lambda>control_reg.
     try_bind (unwrap (type_from_u64 d (get_bits d value 4 6))) (\<lambda>access_type.
     try_bind (unwrap (lmsw_from_u64 d (of_bool (get_bit d value 6)))) (\<lambda>lmsw_op_type.
     Ok \<lparr>control_reg = control_reg, access_type = access_type, lmsw_op_type = lmsw_op_type,
         gpr_mov_cr = get_bits d value 8 12\<rparr>)))"

record EptViolationExitQualification =
  data_read :: bool
  data_write :: bool
  instruction_fetch :: bool
  readable :: bool
  writable :: bool
  executable :: bool
  user_mode_executable :: bool
  guest_linear_address_valid :: bool
  guest_physical_access :: bool
  supervisor_user_mode :: bool
  linear_address_read_write :: bool
  linear_address_executable :: bool
  ept_nmi_unblocking_due_to_iret :: bool
  shadow_stack_access :: bool
  supervisor_shadow_stack_control :: bool
  caused_by_guest_paging_verification :: bool
  asynchronous_access :: bool

definition ept_violation_from_exit_qualification :: "u64 \<Rightarrow> EptViolationExitQualification" where
  "ept_violation_from_exit_qualification value =
     \<lparr>data_read = (value AND push_bit 0 1 \<noteq> 0),
      data_write = (value AND push_bit 1 1 \<noteq> 0),
      instruction_fetch = (value AND push_bit 2 1 \<noteq> 0),
      readable = (value AND push_bit 3 1 \<noteq> 0),
      writable = (value AND push_bit 4 1 \<noteq> 0),
      executable = (value AND push_bit 5 1 \<noteq> 0),
      user_mode_executable = (value AND push_bit 6 1 \<noteq> 0),
      guest_linear_address_valid = (value AND push_bit 7 1 \<noteq> 0),
      guest_physical_access = (value AND push_bit 8 1 \<noteq> 0),
      supervisor_user_mode = (value AND push_bit 9 1 \<noteq> 0),
      linear_address_read_write = (value AND push_bit 10 1 \<noteq> 0),
      linear_address_executable = (value AND push_bit 11 1 \<noteq> 0),
      ept_nmi_unblocking_due_to_iret = (value AND push_bit 12 1 \<noteq> 0),
      shadow_stack_access = (value AND push_bit 13 1 \<noteq> 0),
      supervisor_shadow_stack_control = (value AND push_bit 14 1 \<noteq> 0),
      caused_by_guest_paging_verification = (value AND push_bit 15 1 \<noteq> 0),
      asynchronous_access = (value AND push_bit 16 1 \<noteq> 0)\<rparr>"

subsection \<open>Interruption information\<close>

record VmExitInterruptionInformation =
  info_vector :: u8
  interruption_type :: InterruptionType
  error_code_valid :: bool
  nmi_unblocking_due_to_iret :: bool
  info_valid :: bool

definition interruption_information_from_u32 :: "u32 \<Rightarrow> VmExitInterruptionInformation option" where
  "interruption_information_from_u32 value =
     (let vector = ucast (value AND 0xff);
          interruption_type_bits = ucast (drop_bit 8 value AND 0x7)
      in case interruption_from_bits interruption_type_bits of
           None \<Rightarrow> None
         | Some ty \<Rightarrow>
             Some \<lparr>info_vector = vector, interruption_type = ty,
                   error_code_valid = (value AND push_bit 11 1 \<noteq> 0),
                   nmi_unblocking_due_to_iret = (value AND push_bit 12 1 \<noteq> 0),
                   info_valid = (value AND push_bit 31 1 \<noteq> 0)\<rparr>)"

text \<open>The layout of the field in the processor's manual, as an encoder.\<close>

definition interruption_information_bits :: "VmExitInterruptionInformation \<Rightarrow> u32" where
  "interruption_information_bits i =
     ucast (info_vector i) OR push_bit 8 (ucast (interruption_number (interruption_type i))) OR
     push_bit 11 (of_bool (error_code_valid i)) OR
     push_bit 12 (of_bool (nmi_unblocking_due_to_iret i)) OR push_bit 31 (of_bool (info_valid i))"

subsection \<open>Properties\<close>

lemma exit_reason_numbers:
  "map fst exit_reason_arms = map of_nat (filter (\<lambda>k. k \<notin> {35, 38, 42, 71}) [0..<76])"
  by (simp add: exit_reason_arms_def upt_rec)

lemma exit_reason_numbered_iff:
  "n \<in> set (map fst exit_reason_arms) \<longleftrightarrow> unat n < 76 \<and> unat n \<notin> {35, 38, 42, 71}" for n :: u16
proof -
  have "n \<in> of_nat ` {k. k < 76 \<and> k \<notin> {35, 38, 42, 71}} \<longleftrightarrow> unat n < 76 \<and> unat n \<notin> {35, 38, 42, 71}"
  proof
    assume "n \<in> of_nat ` {k. k < 76 \<and> k \<notin> {35, 38, 42, 71}}"
    then obtain k :: nat where "n = of_nat k" "k < 76" "k \<notin> {35, 38, 42, 71}" by blast
    then show "unat n < 76 \<and> unat n \<notin> {35, 38, 42, 71}" by (simp add: unat_of_nat)
  next
    assume "unat n < 76 \<and> unat n \<notin> {35, 38, 42, 71}"
    then show "n \<in> of_nat ` {k. k < 76 \<and> k \<notin> {35, 38, 42, 71}}"
      by (intro image_eqI [of _ _ "unat n"]) simp_all
  qed
  then show ?thesis unfolding exit_reason_numbers by (simp add: conj_commute)
qed

lemma low_masks:
  "v AND 0xffff = take_bit 16 v" "v AND 0xff = take_bit 8 v" "v AND 0x7 = take_bit 3 v" for v :: u32
  by (simp_all add: take_bit_eq_mask mask_eq_exp_minus_1)

lemma low_half: "ucast (v AND 0xffff) = (ucast v :: u16)" for v :: u32
  unfolding low_masks by (rule bit_word_eqI) (auto simp: bit_simps)

text \<open>
  C39: The exit reason of a VM exit is decoded from the low half of the field exactly by its
  discriminant, whatever the flag bits of the high half are; the numbers without a reason are 35,
  38, 42, 71 and those above 75.
\<close>

theorem exit_reason_decoded:
  "(exit_reason_from_u32 v = Some r \<longleftrightarrow> ucast v = reason_number r) \<and>
   (exit_reason_from_u32 v = None \<longleftrightarrow>
      unat (ucast v :: u16) \<in> {35, 38, 42, 71} \<or> 75 < unat (ucast v :: u16))"
  unfolding exit_reason_from_u32_def low_half
  by (simp add: exit_reasons.decode_complete_iff exit_reasons.decode_None_iff
      exit_reason_numbered_iff del: set_map) linarith

text \<open>
  The messages identify what they report: reading back the decimal number with which the
  \<open>Display\<close> output of an exit reason or of a VM-instruction error starts, and decoding it, gives
  the same reason or error.
\<close>

lemma messages_identify:
  "exit_reason_from_u32 (of_nat (leading_number (exit_reason_fmt r))) = Some r \<and>
   instruction_error_from_u32 (of_nat (leading_number (instruction_error_fmt e))) = Some e"
proof
  have "leading_number (exit_reason_fmt r) = unat (reason_number r)"
    unfolding exit_reason_fmt_def by (simp add: leading_number_decimal digit_def)
  then show "exit_reason_from_u32 (of_nat (leading_number (exit_reason_fmt r))) = Some r"
    unfolding exit_reason_from_u32_def low_half exit_reasons.decode_complete_iff
    by (simp add: unsigned_ucast_eq take_bit_word_eq_self)
  have "of_nat (leading_number (instruction_error_fmt e)) = instruction_error_number e"
    by (cases e) (simp_all add: leading_number_def digit_def)
  then show "instruction_error_from_u32 (of_nat (leading_number (instruction_error_fmt e))) = Some e"
    by (simp add: instruction_error_from_u32_def instruction_errors.roundtrip)
qed

lemma bit_interruption_number: "bit (interruption_number t) k \<Longrightarrow> k < 3"
proof -
  have "interruption_number t < 2 ^ 3" by (cases t) simp_all
  then show "bit (interruption_number t) k \<Longrightarrow> k < 3" using not_bit_of_less_exp not_less by blast
qed

lemma not_bit_byte: "8 \<le> k \<Longrightarrow> \<not> bit w k" for w :: u8
  using bit_imp_le_length [of w k] by auto

lemma interruption_information_fields:
  "ucast (interruption_information_bits i AND 0xff) = info_vector i"
  "ucast (drop_bit 8 (interruption_information_bits i) AND 0x7) =
     interruption_number (interruption_type i)"
  "bit (interruption_information_bits i) 11 = error_code_valid i"
  "bit (interruption_information_bits i) 12 = nmi_unblocking_due_to_iret i"
  "bit (interruption_information_bits i) 31 = info_valid i"
  by (auto intro!: bit_word_eqI simp: low_masks interruption_information_bits_def bit_simps
      not_bit_byte dest: bit_interruption_number)

lemma interruption_from_bits_number:
  "interruption_from_bits (interruption_number t) =
     (if t \<in> {Reserved, SoftwareInterrupt, OtherEvent} then None else Some t)"
  by (cases t) (simp_all add: interruption_from_bits_def interruption_arms_def)

lemma and_7_cases: "w AND 7 \<in> {0, 1, 2, 3, 4, 5, 6, 7}" for w :: u32
proof -
  have "w AND 7 = take_bit 3 w" by (simp add: take_bit_eq_mask mask_eq_exp_minus_1)
  then have "unat (w AND 7) < 8"
    using take_bit_nat_less_exp [of 3 "unat w"] by (simp add: unsigned_take_bit_eq)
  then show ?thesis by (auto simp: word_unat_eq_iff)
qed

lemma interruption_rejected_iff:
  "interruption_from_bits (ucast (drop_bit 8 v AND 0x7)) = None \<longleftrightarrow> drop_bit 8 v AND 0x7 \<in> {1, 4, 7}" for v :: u32
  using and_7_cases [of "drop_bit 8 v"] by (auto simp: interruption_from_bits_def interruption_arms_def)

text \<open>
  C40: The interruption-information field is decoded and encoded without loss, except that the
  reserved type, software interrupts and other events have no decoding: a field is rejected exactly
  when its type bits say one of these three.
\<close>

theorem interruption_information_roundtrip:
  "(interruption_information_from_u32 (interruption_information_bits i) = Some i \<longleftrightarrow>
      interruption_type i \<notin> {Reserved, SoftwareInterrupt, OtherEvent}) \<and>
   (interruption_information_from_u32 v = None \<longleftrightarrow> drop_bit 8 v AND 0x7 \<in> {1, 4, 7})"
  unfolding interruption_information_from_u32_def Let_def and_exp_eq_0_iff
    interruption_information_fields interruption_from_bits_number interruption_rejected_iff [symmetric]
  by (auto split: option.split)

lemma take_bit_2_cases: "take_bit 2 w \<in> {0, 1, 2, 3}" for w :: u64
proof -
  have "unat (take_bit 2 w) < 4"
    using take_bit_nat_less_exp [of 2 "unat w"] by (simp add: unsigned_take_bit_eq)
  then show ?thesis by (auto simp: word_unat_eq_iff)
qed

lemma ex_variant:
  "(\<exists>x. P x) \<longleftrightarrow> P Cr0 \<or> P Cr2 \<or> P Cr3 \<or> P Cr4 \<or> P Cr8"
  "(\<exists>x. Q x) \<longleftrightarrow> Q MovToCr \<or> Q MovFromCr \<or> Q Clts \<or> Q Lmsw"
  "(\<exists>x. R x) \<longleftrightarrow> R Register \<or> R Memory"
  by (metis CrAccessReg.exhaust, metis CrAccessType.exhaust, metis LmswOperandType.exhaust)

lemma cr_access_numbers:
  "(\<exists>x. cr_access_reg_number x = n) \<longleftrightarrow> n \<in> {0, 2, 3, 4, 8}"
  "(\<exists>x. cr_access_type_number x = n) \<longleftrightarrow> n \<in> {0, 1, 2, 3}"
  "(\<exists>x. lmsw_operand_number x = n) \<longleftrightarrow> n \<in> {0, 1}"
  by (auto simp: ex_variant)

text \<open>
  Decoding the exit qualification of a control-register access panics exactly when the
  register number is not 0, 2, 3, 4 or 8; otherwise every field is decoded by its number.
\<close>

lemma cr_access_panics_iff:
  assumes "decoders_spec d"
  shows "\<not> no_panic (cr_access_from_exit_qualification d v) \<longleftrightarrow> take_bit 4 v \<notin> {0, 2, 3, 4, 8}"
proof -
  have bits: "get_bits d v 0 4 = take_bit 4 v" "get_bits d v 4 6 = take_bit 2 (drop_bit 4 v)"
    and "get_bit d v 6 = bit v 6"
    and reg: "\<And>n. reg_from_u64 d n \<noteq> None \<longleftrightarrow> (\<exists>x. cr_access_reg_number x = n)"
    and ty: "\<And>n. type_from_u64 d n \<noteq> None \<longleftrightarrow> (\<exists>x. cr_access_type_number x = n)"
    and lmsw: "\<And>n. lmsw_from_u64 d n \<noteq> None \<longleftrightarrow> (\<exists>x. lmsw_operand_number x = n)"
    using assms by (auto simp: decoders_spec_def from_primitive_def)
  have "reg_from_u64 d (take_bit 4 v) = None \<longleftrightarrow> take_bit 4 v \<notin> {0, 2, 3, 4, 8}"
    using reg unfolding cr_access_numbers by blast
  moreover obtain t where "type_from_u64 d (get_bits d v 4 6) = Some t"
    using ty take_bit_2_cases unfolding bits cr_access_numbers by blast
  moreover obtain l where "lmsw_from_u64 d (of_bool (get_bit d v 6)) = Some l"
    using lmsw [of "of_bool (get_bit d v 6)"] unfolding cr_access_numbers by (auto split: if_splits)
  ultimately show ?thesis
    unfolding cr_access_from_exit_qualification_def bits
    by (cases "reg_from_u64 d (take_bit 4 v)") (auto simp: unwrap_def)
qed

definition sample_decoders :: decoders where
  "sample_decoders =
     \<lparr>get_bits = (\<lambda>v a b. take_bit (b - a) (drop_bit a v)), get_bit = bit,
      reg_from_u64 = map_of [(0, Cr0), (2, Cr2), (3, Cr3), (4, Cr4), (8, Cr8)],
      type_from_u64 = map_of [(0, MovToCr), (1, MovFromCr), (2, Clts), (3, Lmsw)],
      lmsw_from_u64 = map_of [(0, Register), (1, Memory)]\<rparr>"

lemma sample_decoders_spec: "decoders_spec sample_decoders"
proof -
  have "from_primitive cr_access_reg_number (reg_from_u64 sample_decoders)"
    unfolding from_primitive_def
    by (intro allI, case_tac x) (auto simp: sample_decoders_def)
  moreover have "from_primitive cr_access_type_number (type_from_u64 sample_decoders)"
    unfolding from_primitive_def
    by (intro allI, case_tac x) (auto simp: sample_decoders_def)
  moreover have "from_primitive lmsw_operand_number (lmsw_from_u64 sample_decoders)"
    unfolding from_primitive_def
    by (intro allI, case_tac x) (auto simp: sample_decoders_def)
  ultimately show ?thesis by (simp add: decoders_spec_def sample_decoders_def)
qed

text \<open>The decoded exit qualification of an EPT violation carries exactly bits 0 to 16.\<close>

lemma ept_violation_decodes:
  "ept_violation_from_exit_qualification v = ept_violation_from_exit_qualification w \<longleftrightarrow>
   take_bit 17 v = take_bit 17 w"
proof -
  have "take_bit 17 v = take_bit 17 w \<longleftrightarrow> (\<forall>n < 17. bit v n = bit w n)"
  proof
    assume eq: "take_bit 17 v = take_bit 17 w"
    have "n < 17 \<Longrightarrow> bit v n = bit w n" for n
      using arg_cong [OF eq, of "\<lambda>x. bit x n"] by (simp add: bit_take_bit_iff)
    then show "\<forall>n < 17. bit v n = bit w n" by blast
  qed (rule bit_word_eqI, auto simp: bit_take_bit_iff)
  then show ?thesis
    unfolding ept_violation_from_exit_qualification_def and_exp_eq_0_iff
    by (simp add: All_less_Suc numeral_eq_Suc) (rule iffI; elim conjE; intro conjI; assumption)
qed

end
