(* ===== verification/Vmx_Cpu.thy ===== *)
theory Vmx_Cpu
  imports Vmcs Vmerror Radix_Tables
begin

text \<open>
  The VT-x backend of a virtual CPU (\<^verbatim>\<open>vmx/mod.rs\<close>): its state, the switch of the core into VMX
  operation, the construction of the VMCS, the emulated local-APIC timer on top of the VMX-preemption
  timer, the injection of interrupts, and the run until the next exit with the decoding of every exit
  reason. The core is explicit state; the guest's run and the answers of the processor's instructions are
  fields of the environment.
\<close>

subsection \<open>State\<close>

definition IA32_VMX_CR0_FIXED0 :: u32 where "IA32_VMX_CR0_FIXED0 = 0x486"
definition IA32_VMX_CR0_FIXED1 :: u32 where "IA32_VMX_CR0_FIXED1 = 0x487"
definition IA32_VMX_CR4_FIXED0 :: u32 where "IA32_VMX_CR4_FIXED0 = 0x488"
definition IA32_VMX_CR4_FIXED1 :: u32 where "IA32_VMX_CR4_FIXED1 = 0x489"
definition IA32_VMX_MISC :: u32 where "IA32_VMX_MISC = 0x485"

text \<open>A boxed region is its address together with its contents.\<close>

record VmxCpu =
  vmxon_region :: "u64 \<times> Vmxon"
  vmcs_region :: "u64 \<times> Vmcs"
  virtual_apic_page :: u64
  vmx_regs :: GuestRegisters
  launched :: bool
  vmx_entry_point :: u64
  vmx_guest_rsp :: u64
  vmx_timer :: ApicTimer
  vmx_pending :: "u8 option"
  preempt_scale :: u8
  vmx_guest_fpu :: FpuState
  vmx_host_fpu :: FpuState

record 'fp vmx_env =
  env_proc :: "'fp vmx_hw"
  env_enter :: "'fp vmx_enter"
  env_rsp :: u64
  env_rip :: u64
  vmx_tsc_entry :: u64
  vmx_tsc_exit :: u64
  vmx_cpuid_hw :: "u32 \<Rightarrow> u32 \<Rightarrow> cpuid_answer"
  vmx_xsave_hw :: "'fp \<Rightarrow> bytes \<Rightarrow> bytes"
  vmx_xrstor_hw :: "bytes \<Rightarrow> 'fp"

subsection \<open>Instructions on regions\<close>

text \<open>
  A failure with an error number stores the number in the current VMCS. VMXON leaves no VMCS current,
  VMCLEAR makes the cleared one not current, VMPTRLD makes the given one current; none of them changes
  the contents.
\<close>

definition note_failure :: "vm_answer \<Rightarrow> 'fp vmx_core \<Rightarrow> 'fp vmx_core" where
  "note_failure ans c =
     (case (ans, current_vmcs c) of
        (VmFailValid n, Some a) \<Rightarrow>
          c\<lparr>vmcs_store := (vmcs_store c)(a := (vmcs_store c a)(ucast ro_VM_INSTRUCTION_ERROR := n))\<rparr>
      | _ \<Rightarrow> c)"

definition vmxon :: "'fp vmx_hw \<Rightarrow> u64 \<Rightarrow> 'fp vmx_core \<Rightarrow> vm_answer \<times> 'fp vmx_core" where
  "vmxon P addr c =
     (case vmxon_hw P addr c of
        VmSucceed \<Rightarrow> (VmSucceed, c\<lparr>current_vmcs := None\<rparr>)
      | ans \<Rightarrow> (ans, note_failure ans c))"

definition vmclear :: "'fp vmx_hw \<Rightarrow> u64 \<Rightarrow> 'fp vmx_core \<Rightarrow> vm_answer \<times> 'fp vmx_core" where
  "vmclear P addr c =
     (case vmclear_hw P addr c of
        VmSucceed \<Rightarrow> (VmSucceed, if current_vmcs c = Some addr then c\<lparr>current_vmcs := None\<rparr> else c)
      | ans \<Rightarrow> (ans, note_failure ans c))"

definition vmptrld :: "'fp vmx_hw \<Rightarrow> u64 \<Rightarrow> 'fp vmx_core \<Rightarrow> vm_answer \<times> 'fp vmx_core" where
  "vmptrld P addr c =
     (case vmptrld_hw P addr c of
        VmSucceed \<Rightarrow> (VmSucceed, c\<lparr>current_vmcs := Some addr\<rparr>)
      | ans \<Rightarrow> (ans, note_failure ans c))"

definition vmx_capture_status :: "vm_answer \<Rightarrow> unit result" where
  "vmx_capture_status ans = (if ans = VmSucceed then Ok () else Err VMCLEARFailed)"

subsection \<open>Entering VMX operation\<close>

text \<open>
  \<open>Cr0::update\<close> and \<open>Cr4::update\<close> apply a change to the flags of the register and keep its other bits;
  \<open>insert\<close> adds flags, and the value of \<open>intersects\<close>, which compares, is not used.
\<close>

definition IA32_FEATURE_CONTROL :: u32 where "IA32_FEATURE_CONTROL = 0x3a"
definition VMX_LOCK_BIT :: u64 where "VMX_LOCK_BIT = push_bit 0 1"
definition VMXON_OUTSIDE_SMX :: u64 where "VMXON_OUTSIDE_SMX = push_bit 2 1"
definition VMXON_IN_ROOT :: u64 where "VMXON_IN_ROOT = 15"

definition region_physical :: "host \<Rightarrow> u64 \<Rightarrow> u64 result" where
  "region_physical H ptr = try_bind (x86_virtual_to_physical H ptr) unwrap"

definition vmx_enable :: "crates \<Rightarrow> 'fp vmx_core \<Rightarrow> 'fp vmx_core result" where
  "vmx_enable X c =
     (let c = c\<lparr>vmx_cr4 := vmx_cr4 c OR VIRTUAL_MACHINE_EXTENSIONS X\<rparr>;
          features = vmx_msr c IA32_FEATURE_CONTROL
      in try_bind
        (if features AND VMX_LOCK_BIT = 0 then
           Ok (c\<lparr>vmx_msr := (vmx_msr c)(IA32_FEATURE_CONTROL :=
             features OR (VMX_LOCK_BIT OR VMXON_OUTSIDE_SMX))\<rparr>)
         else if features AND VMXON_OUTSIDE_SMX = 0 then Panic ''Unable to initialize VMX''
         else Ok c) (\<lambda>c.
      try_bind (unwrap (cr0_from_bits X (vmx_msr c IA32_VMX_CR0_FIXED0))) (\<lambda>fixed0.
      let c = c\<lparr>vmx_cr0 := vmx_cr0 c OR fixed0\<rparr> in
      try_bind (unwrap (cr4_from_bits X (vmx_msr c IA32_VMX_CR4_FIXED0))) (\<lambda>fixed0.
      Ok (c\<lparr>vmx_cr4 := vmx_cr4 c OR fixed0\<rparr>)))))"

definition setup_vmxon ::
    "'fp vmx_hw \<Rightarrow> crates \<Rightarrow> host \<Rightarrow> VmxCpu \<Rightarrow> 'fp vmx_core \<Rightarrow> 'fp vmx_core result" where
  "setup_vmxon P X H cpu c =
     try_bind (vmx_enable X c) (\<lambda>c.
     try_bind (region_physical H (fst (vmxon_region cpu))) (\<lambda>vmxon_addr.
     let (ans, c) = vmxon P vmxon_addr c in
     case vmx_capture_status ans of
       Ok _ \<Rightarrow> Ok c
     | _ \<Rightarrow> if instruction_error P c = Ok VMXON_IN_ROOT then Ok c else Err VMCLEARFailed))"

subsection \<open>Construction\<close>

definition vmx_init :: "crates \<Rightarrow> (u32 \<Rightarrow> u64) \<Rightarrow> VmxCpu \<Rightarrow> VmxCpu" where
  "vmx_init X msr cpu =
     cpu\<lparr>vmxon_region := (fst (vmxon_region cpu), vmxon_init X msr (snd (vmxon_region cpu))),
         vmcs_region := (fst (vmcs_region cpu), vmcs_init X msr (snd (vmcs_region cpu)))\<rparr>"

definition setup_vmcs ::
    "'fp vmx_hw \<Rightarrow> crates \<Rightarrow> host \<Rightarrow> host_state \<Rightarrow> u64 \<Rightarrow> u64 \<Rightarrow> VmxCpu \<Rightarrow> 'fp vmx_core \<Rightarrow>
       'fp vmx_core result" where
  "setup_vmcs P X H h eptp apic_access_hpa cpu c =
     try_bind (region_physical H (fst (vmcs_region cpu))) (\<lambda>vmcs_addr.
     let (ans, c) = vmclear P vmcs_addr c in
     try_bind (vmx_capture_status ans) (\<lambda>_.
     let (ans, c) = vmptrld P vmcs_addr c in
     try_bind (vmx_capture_status ans) (\<lambda>_.
     try_bind (host_physical H (virtual_apic_page cpu)) (\<lambda>virtual_apic_hpa.
     try_bind (setup_controls P eptp c) (\<lambda>c.
     try_bind (setup_apic P virtual_apic_hpa apic_access_hpa c) (\<lambda>c.
     try_bind (setup_host P h c) (\<lambda>c.
     vmcs_setup_guest P X (vmx_entry_point cpu) (vmx_guest_rsp cpu) c)))))))"

definition vmx_new ::
    "'fp vmx_hw \<Rightarrow> crates \<Rightarrow> host \<Rightarrow> host_state \<Rightarrow> u64 \<Rightarrow> u64 \<Rightarrow> u64 \<Rightarrow> u64 \<Rightarrow> u64 \<Rightarrow> 'fp vmx_core \<Rightarrow>
       heap \<Rightarrow> (VmxCpu \<times> 'fp vmx_core \<times> heap) result" where
  "vmx_new P X H h eptp apic_access_hpa cpu_id entry_point guest_rsp_init c s =
     (let regs = default_registers\<lparr>rdi := BOOT_INFO_OFFSET, rsi := cpu_id, rip := entry_point,
            rsp := guest_rsp_init, rflags := 0x2\<rparr>;
          scale = ucast (vmx_msr c IA32_VMX_MISC AND 0x1f)
      in
      try_bind (box_page s) (\<lambda>(vmcs_ptr, s).
      try_bind (box_page s) (\<lambda>(vmxon_ptr, s).
      try_bind (alloc_page s) (\<lambda>(apic_ptr, s).
      let cpu = \<lparr>vmxon_region = (vmxon_ptr, \<lparr>vmxon_revision_id = 0, vmxon_data = (\<lambda>_. 0)\<rparr>),
            vmcs_region = (vmcs_ptr, \<lparr>vmcs_revision_id = 0, abort_indicator = 0, vmcs_reserved = (\<lambda>_. 0)\<rparr>),
            virtual_apic_page = apic_ptr, vmx_regs = regs, launched = False,
            vmx_entry_point = entry_point, vmx_guest_rsp = guest_rsp_init, vmx_timer = default_timer,
            vmx_pending = None, preempt_scale = scale, vmx_guest_fpu = fpu_init_guest,
            vmx_host_fpu = fpu_scratch\<rparr>;
          cpu = vmx_init X (vmx_msr c) cpu
      in
      try_bind (setup_vmxon P X H cpu c) (\<lambda>c.
      try_bind (setup_vmcs P X H h eptp apic_access_hpa cpu c) (\<lambda>c.
      Ok (cpu, c, s)))))))"

definition activate :: "'fp vmx_hw \<Rightarrow> host \<Rightarrow> VmxCpu \<Rightarrow> 'fp vmx_core \<Rightarrow> 'fp vmx_core result" where
  "activate P H cpu c =
     try_bind (region_physical H (fst (vmcs_region cpu))) (\<lambda>vmcs_addr.
     let (ans, c) = vmptrld P vmcs_addr c in
     try_bind (vmx_capture_status ans) (\<lambda>_. Ok c))"

subsection \<open>The timer\<close>

definition vmx_write_apic_timer_msr :: "u64 \<Rightarrow> u32 \<Rightarrow> u64 \<Rightarrow> VmxCpu \<Rightarrow> VmxCpu" where
  "vmx_write_apic_timer_msr tsc msr val cpu =
     (let t = vmx_timer cpu in
      if msr = IA32_X2APIC_LVT_TIMER then
        (let t = t\<lparr>vector := ucast (val AND 0xff)\<rparr>;
             t = t\<lparr>masked := val AND LVT_MASKED \<noteq> 0\<rparr>;
             mode = val AND LVT_TIMER_MODE_MASK;
             t = t\<lparr>tsc_deadline_mode := mode = LVT_TIMER_MODE_TSC_DEADLINE\<rparr>;
             t = t\<lparr>periodic := mode = LVT_TIMER_MODE_PERIODIC\<rparr>;
             t = (if masked t then t\<lparr>deadline := None, period := None\<rparr> else t)
         in cpu\<lparr>vmx_timer := t\<rparr>)
      else if msr = IA32_TSC_DEADLINE then
        cpu\<lparr>vmx_timer := t\<lparr>deadline := then_some (val \<noteq> 0 \<and> \<not> masked t) val, period := None\<rparr>\<rparr>
      else if msr = IA32_X2APIC_INIT_COUNT then
        (if val = 0 \<or> masked t \<or> tsc_deadline_mode t then
           cpu\<lparr>vmx_timer := t\<lparr>deadline := None, period := None\<rparr>\<rparr>
         else
           cpu\<lparr>vmx_timer := t\<lparr>deadline := Some (tsc + val), period := then_some (periodic t) val\<rparr>\<rparr>)
      else cpu)"

definition preemption_value :: "u64 \<Rightarrow> VmxCpu \<Rightarrow> u64" where
  "preemption_value tsc cpu =
     (case deadline (vmx_timer cpu) of
        Some d \<Rightarrow>
          (let remaining = saturating_sub d tsc
           in min (drop_bit (unat (preempt_scale cpu)) remaining) 0xFFFFFFFF)
      | None \<Rightarrow> 0xFFFFFFFF)"

definition arm_preemption_timer ::
    "'fp vmx_hw \<Rightarrow> u64 \<Rightarrow> VmxCpu \<Rightarrow> 'fp vmx_core \<Rightarrow> 'fp vmx_core result" where
  "arm_preemption_timer P tsc cpu c =
     vmwrite P guest_VMX_PREEMPTION_TIMER_VALUE (preemption_value tsc cpu) c"

definition vmx_expire_timer :: "VmxCpu \<Rightarrow> VmxCpu" where
  "vmx_expire_timer cpu =
     (case deadline (vmx_timer cpu) of
        None \<Rightarrow> cpu
      | Some d \<Rightarrow>
          (let cpu = cpu\<lparr>vmx_timer := (vmx_timer cpu)\<lparr>deadline := None\<rparr>\<rparr>;
               cpu = (if \<not> masked (vmx_timer cpu)
                      then cpu\<lparr>vmx_pending := Some (vector (vmx_timer cpu))\<rparr> else cpu)
           in case period (vmx_timer cpu) of
                Some p \<Rightarrow> cpu\<lparr>vmx_timer := (vmx_timer cpu)\<lparr>deadline := Some (saturating_add d p)\<rparr>\<rparr>
              | None \<Rightarrow> cpu))"

subsection \<open>Interrupts\<close>

definition set_interrupt_window :: "'fp vmx_hw \<Rightarrow> bool \<Rightarrow> 'fp vmx_core \<Rightarrow> 'fp vmx_core result" where
  "set_interrupt_window P enable c =
     try_bind (vmread P c control_PRIMARY_PROCBASED_EXEC_CONTROLS) (\<lambda>ctrls.
     let ctrls = (if enable then ctrls OR push_bit 2 1 else ctrls AND NOT (push_bit 2 1))
     in vmwrite P control_PRIMARY_PROCBASED_EXEC_CONTROLS ctrls c)"

definition vmx_inject_pending ::
    "'fp vmx_hw \<Rightarrow> VmxCpu \<Rightarrow> 'fp vmx_core \<Rightarrow> (VmxCpu \<times> 'fp vmx_core) result" where
  "vmx_inject_pending P cpu c =
     (case vmx_pending cpu of
        None \<Rightarrow> Ok (cpu, c)
      | Some v \<Rightarrow>
          try_bind (vmread P c guest_RFLAGS) (\<lambda>fl.
          try_bind (vmread P c guest_INTERRUPTIBILITY_STATE) (\<lambda>interruptibility.
          let interruptible = fl AND push_bit 9 1 \<noteq> 0 \<and> interruptibility AND 3 = 0 in
          if interruptible then
            (let info = push_bit 31 1 OR ucast v in
             try_bind (vmwrite P control_VMENTRY_INTERRUPTION_INFO_FIELD info c) (\<lambda>c.
             let cpu = cpu\<lparr>vmx_pending := None\<rparr> in
             try_bind (set_interrupt_window P False c) (\<lambda>c. Ok (cpu, c))))
          else
            try_bind (set_interrupt_window P True c) (\<lambda>c. Ok (cpu, c)))))"

subsection \<open>Running the guest\<close>

definition vmx_advance :: "'fp vmx_hw \<Rightarrow> VmxCpu \<Rightarrow> 'fp vmx_core \<Rightarrow> VmxCpu result" where
  "vmx_advance P cpu c =
     try_bind (vmread P c ro_VMEXIT_INSTRUCTION_LEN) (\<lambda>len.
     Ok (cpu\<lparr>vmx_regs := (vmx_regs cpu)\<lparr>rip := rip (vmx_regs cpu) + len\<rparr>\<rparr>))"

definition vmx_rdmsr :: "'fp vmx_hw \<Rightarrow> VmxCpu \<Rightarrow> 'fp vmx_core \<Rightarrow> u64 result" where
  "vmx_rdmsr P cpu c =
     (let msr = ucast (rcx (vmx_regs cpu)) in
      if msr = vmcs_IA32_FS_BASE then vmread P c guest_FS_BASE
      else if msr = vmcs_IA32_GS_BASE then vmread P c guest_GS_BASE
      else if msr = vmcs_IA32_EFER then vmread P c guest_IA32_EFER_FULL
      else if msr = IA32_TSC_DEADLINE then
        Ok (case deadline (vmx_timer cpu) of Some d \<Rightarrow> d | None \<Rightarrow> 0)
      else Ok 0)"

definition vmx_wrmsr ::
    "'fp vmx_hw \<Rightarrow> u64 \<Rightarrow> VmxCpu \<Rightarrow> 'fp vmx_core \<Rightarrow> (VmxCpu \<times> 'fp vmx_core) result" where
  "vmx_wrmsr P tsc cpu c =
     (let val = edx_eax (vmx_regs cpu);
          msr = ucast (rcx (vmx_regs cpu)) in
      if msr = vmcs_IA32_FS_BASE then try_bind (vmwrite P guest_FS_BASE val c) (\<lambda>c. Ok (cpu, c))
      else if msr = vmcs_IA32_GS_BASE then try_bind (vmwrite P guest_GS_BASE val c) (\<lambda>c. Ok (cpu, c))
      else if msr = vmcs_IA32_EFER then
        try_bind (vmwrite P guest_IA32_EFER_FULL val c) (\<lambda>c. Ok (cpu, c))
      else if msr = IA32_X2APIC_LVT_TIMER \<or> msr = IA32_TSC_DEADLINE \<or> msr = IA32_X2APIC_INIT_COUNT
      then Ok (vmx_write_apic_timer_msr tsc msr val cpu, c)
      else Ok (cpu, c))"

definition vmx_handle_exit ::
    "'fp vmx_env \<Rightarrow> VmxBasicExitReason \<Rightarrow> VmxCpu \<Rightarrow> 'fp vmx_core \<Rightarrow>
       ((VmxCpu \<times> 'fp vmx_core) \<times> ExitReason) result" where
  "vmx_handle_exit env basic cpu c =
     (let P = env_proc env in
      case basic of
        VmxBasicExitReason.ExternalInterrupt \<Rightarrow> Ok ((cpu, c), Success)
      | Rdmsr \<Rightarrow>
          try_bind (vmx_rdmsr P cpu c) (\<lambda>val.
          let cpu = cpu\<lparr>vmx_regs := set_edx_eax val (vmx_regs cpu)\<rparr> in
          try_bind (vmx_advance P cpu c) (\<lambda>cpu. Ok ((cpu, c), Success)))
      | Wrmsr \<Rightarrow>
          try_bind (vmx_wrmsr P (vmx_tsc_exit env) cpu c) (\<lambda>(cpu, c).
          try_bind (vmx_advance P cpu c) (\<lambda>cpu. Ok ((cpu, c), Success)))
      | Cpuid \<Rightarrow>
          (let answer = vmx_cpuid_hw env (ucast (rax (vmx_regs cpu))) (ucast (rcx (vmx_regs cpu)));
               cpu = cpu\<lparr>vmx_regs := set_cpuid_result answer (vmx_regs cpu)\<rparr> in
          try_bind (vmx_advance P cpu c) (\<lambda>cpu. Ok ((cpu, c), Success)))
      | Xsetbv \<Rightarrow>
          (let val = edx_eax (vmx_regs cpu);
               c = c\<lparr>vmx_xcr := (vmx_xcr c)(ucast (rcx (vmx_regs cpu)) := val)\<rparr> in
          try_bind (vmx_advance P cpu c) (\<lambda>cpu. Ok ((cpu, c), Success)))
      | VmxBasicExitReason.IoInstruction \<Rightarrow>
          try_bind (vmread P c ro_EXIT_QUALIFICATION) (\<lambda>q.
          try_bind (vmx_advance P cpu c) (\<lambda>cpu. Ok ((cpu, c), ExitReason.IoInstruction q)))
      | VmxPreemptionTimerExpired \<Rightarrow> Ok ((vmx_expire_timer cpu, c), Success)
      | InterruptWindow \<Rightarrow> Ok ((cpu, c), Success)
      | TripleFault \<Rightarrow> Ok ((cpu, c), Shutdown)
      | _ \<Rightarrow> Err UnknownVMExitReason)"

text \<open>What \<open>run\<close> does before the entry, up to the swap of the floating-point state.\<close>

definition vmx_prepare ::
    "'fp vmx_hw \<Rightarrow> host \<Rightarrow> u64 \<Rightarrow> VmxCpu \<times> 'fp vmx_core \<Rightarrow> (VmxCpu \<times> 'fp vmx_core) result" where
  "vmx_prepare P H tsc = (\<lambda>(cpu, c).
     try_bind (activate P H cpu c) (\<lambda>c.
     try_bind (load_guest_registers P (vmx_regs cpu) c) (\<lambda>c.
     try_bind (vmx_inject_pending P cpu c) (\<lambda>(cpu, c).
     try_bind (arm_preemption_timer P tsc cpu c) (\<lambda>c. Ok (cpu, c))))))"

text \<open>
  The entry itself, on the VMCS that is current, between the two swaps of the floating-point state;
  the result carries the flags that the entry routine returns.
\<close>

definition the_current :: "'fp vmx_core \<Rightarrow> u64" where
  "the_current c = (case current_vmcs c of Some a \<Rightarrow> a | None \<Rightarrow> 0)"

definition vmx_enter_guest :: "'fp vmx_env \<Rightarrow> VmxCpu \<times> 'fp vmx_core \<Rightarrow> (VmxCpu \<times> 'fp vmx_core) \<times> u64" where
  "vmx_enter_guest env = (\<lambda>(cpu, c).
     let cpu = cpu\<lparr>vmx_host_fpu := fpu_save (vmx_xsave_hw env) (vmx_fp c) (vmx_host_fpu cpu)\<rparr>;
         f = fpu_restore (vmx_xrstor_hw env) (vmx_guest_fpu cpu);
         a = the_current c;
         (regs, v, f, fl) = run_vmx_vm (env_enter env) (env_rsp env) (env_rip env) (vmx_regs cpu)
           (vmcs_store c a) f;
         cpu = cpu\<lparr>vmx_regs := regs, vmx_guest_fpu := fpu_save (vmx_xsave_hw env) f (vmx_guest_fpu cpu),
           launched := True\<rparr>;
         c = c\<lparr>vmcs_store := (vmcs_store c)(a := v),
           vmx_fp := fpu_restore (vmx_xrstor_hw env) (vmx_host_fpu cpu)\<rparr>
     in ((cpu, c), fl))"

text \<open>\<open>RFLAGS\<close> with ZF (bit 6) or CF (bit 0) set.\<close>

definition entry_failed :: "u64 \<Rightarrow> bool" where
  "entry_failed fl \<longleftrightarrow> bit fl 6 \<or> bit fl 0"

definition vmx_run ::
    "host \<times> 'fp vmx_env \<Rightarrow> VmxCpu \<times> 'fp vmx_core \<Rightarrow> ((VmxCpu \<times> 'fp vmx_core) \<times> ExitReason) result" where
  "vmx_run = (\<lambda>(H, env) b.
     let P = env_proc env in
     try_bind (vmx_prepare P H (vmx_tsc_entry env) b) (\<lambda>b.
     let ((cpu, c), fl) = vmx_enter_guest env b in
     if entry_failed fl then
       Err (VMEntryFailed (case instruction_error P c of Ok n \<Rightarrow> n | _ \<Rightarrow> 0))
     else
       try_bind (save_guest_registers P c (vmx_regs cpu)) (\<lambda>regs.
       let cpu = cpu\<lparr>vmx_regs := regs\<rparr> in
       try_bind (exit_reason P c) (\<lambda>reason.
       try_bind (ok_or UnknownVMExitReason (exit_reason_from_u32 reason)) (\<lambda>basic.
       vmx_handle_exit env basic cpu c)))))"

definition vmx_guest_registers :: "VmxCpu \<times> 'fp vmx_core \<Rightarrow> GuestRegisters" where
  "vmx_guest_registers b = vmx_regs (fst b)"

definition vmx_set_guest_registers :: "GuestRegisters \<Rightarrow> VmxCpu \<times> 'fp vmx_core \<Rightarrow> VmxCpu \<times> 'fp vmx_core" where
  "vmx_set_guest_registers r b = ((fst b)\<lparr>vmx_regs := r\<rparr>, snd b)"

interpretation vmx_backend: vcpu_backend vmx_run vmx_guest_registers vmx_set_guest_registers
  by unfold_locales (auto simp: vmx_guest_registers_def vmx_set_guest_registers_def)

subsection \<open>The timer against its reference\<close>

lemma vmx_write_apic_timer_msr_eq:
  "vmx_write_apic_timer_msr tsc msr val cpu =
     cpu\<lparr>vmx_timer := timer_write tsc msr val (vmx_timer cpu)\<rparr>"
  by (cases "vmx_timer cpu")
    (auto simp: vmx_write_apic_timer_msr_def timer_write_def Let_def then_some_def and_0xff
      LVT_MASKED_iff)

lemma vmx_expire_timer_eq:
  "vmx_expire_timer cpu =
     cpu\<lparr>vmx_timer := fst (timer_expire (vmx_timer cpu) (vmx_pending cpu)),
         vmx_pending := snd (timer_expire (vmx_timer cpu) (vmx_pending cpu))\<rparr>"
  by (cases cpu) (auto simp: vmx_expire_timer_def timer_expire_def Let_def split: option.splits)

lemma unat_saturating_sub: "unat (saturating_sub a b) = unat a - unat b"
  by (simp add: saturating_sub_def unat_sub word_le_nat_alt)

lemma unat_preemption_value:
  "unat (preemption_value tsc cpu) =
     (case deadline (vmx_timer cpu) of
        Some d \<Rightarrow> min ((unat d - unat tsc) div 2 ^ unat (preempt_scale cpu)) (2 ^ 32 - 1)
      | None \<Rightarrow> 2 ^ 32 - 1)"
proof -
  have "unat (min a (0xFFFFFFFF :: u64)) = min (unat a) (2 ^ 32 - 1)" for a
    by (auto simp: min_def word_le_nat_alt)
  moreover have "unat (drop_bit k a) = unat a div 2 ^ k" for k and a :: u64
  proof -
    have "unat a < 2 ^ LENGTH(64)" by (rule unsigned_less)
    then show ?thesis
      by (subst unsigned_drop_bit_eq) (simp add: take_bit_nat_eq_self drop_bit_eq_div)
  qed
  ultimately show ?thesis
    by (auto simp: preemption_value_def Let_def unat_saturating_sub split: option.split)
qed

subsection \<open>Fields that a run accesses\<close>

definition run_fields :: "u32 list" where
  "run_fields = [guest_RIP, guest_RSP, guest_RFLAGS, guest_INTERRUPTIBILITY_STATE, guest_FS_BASE,
     guest_GS_BASE, guest_IA32_EFER_FULL, guest_VMX_PREEMPTION_TIMER_VALUE,
     control_PRIMARY_PROCBASED_EXEC_CONTROLS, control_VMENTRY_INTERRUPTION_INFO_FIELD]"

definition implements_run_fields :: "'fp vmx_hw \<Rightarrow> bool" where
  "implements_run_fields P \<longleftrightarrow> list_all (\<lambda>f. field_readable P f \<and> field_writable P f) run_fields"

abbreviation field_of :: "'fp vmx_core \<Rightarrow> u64 \<Rightarrow> u32 \<Rightarrow> u64" where
  "field_of c a f \<equiv> vmcs_store c a (ucast f)"

lemma vmread_current:
  "current_vmcs c = Some a \<Longrightarrow> field_readable P f \<Longrightarrow> vmread P c f = Ok (field_of c a f)"
  by (simp add: vmread_def)

lemma vmwrite_current:
  "current_vmcs c = Some a \<Longrightarrow> field_writable P f \<Longrightarrow>
     vmwrite P f v c = Ok (c\<lparr>vmcs_store := (vmcs_store c)(a := (vmcs_store c a)(ucast f := v))\<rparr>)"
  by (simp add: vmwrite_def)

text \<open>The guest can take an interrupt: RFLAGS.IF, and no blocking by STI or MOV SS.\<close>

definition vmx_interruptible :: "vmcs_data \<Rightarrow> bool" where
  "vmx_interruptible d \<longleftrightarrow> bit (d (ucast guest_RFLAGS)) 9 \<and> d (ucast guest_INTERRUPTIBILITY_STATE) AND 3 = 0"

definition with_window :: "bool \<Rightarrow> u64 \<Rightarrow> u64" where
  "with_window enable ctrls = (if enable then set_bit 2 ctrls else unset_bit 2 ctrls)"

lemma set_interrupt_window_eq:
  assumes "current_vmcs c = Some a" and "implements_run_fields P"
  shows "set_interrupt_window P enable c = Ok (c\<lparr>vmcs_store := (vmcs_store c)(a := (vmcs_store c a)
    (ucast control_PRIMARY_PROCBASED_EXEC_CONTROLS :=
       with_window enable (field_of c a control_PRIMARY_PROCBASED_EXEC_CONTROLS)))\<rparr>)"
  using assms
  by (simp add: set_interrupt_window_def implements_run_fields_def run_fields_def vmread_current
      vmwrite_current with_window_def set_bit_eq_or unset_bit_eq_and_not)

subsection \<open>Properties\<close>

text \<open>
  C30: The preemption timer. The armed value fits the 32-bit field and never runs past the deadline; it
  ends within one tick of the deadline unless it is clamped to the largest value. With a deadline further
  away than that, an expiry finds the deadline still in the future, and the handler raises the vector
  all the same: it does not compare the deadline with the time.
\<close>

theorem preemption_timer_bounds:
  assumes "deadline (vmx_timer cpu) = Some d" and "tsc \<le> d" and "\<not> masked (vmx_timer cpu)"
  shows "unat (preemption_value tsc cpu) < 2 ^ 32 \<and>
    unat tsc + unat (preemption_value tsc cpu) * 2 ^ unat (preempt_scale cpu) \<le> unat d \<and>
    (unat d - unat tsc < 2 ^ 32 * 2 ^ unat (preempt_scale cpu) \<longrightarrow>
       unat d < unat tsc + (unat (preemption_value tsc cpu) + 1) * 2 ^ unat (preempt_scale cpu)) \<and>
    (2 ^ 32 * 2 ^ unat (preempt_scale cpu) \<le> unat d - unat tsc \<longrightarrow>
       unat tsc + (unat (preemption_value tsc cpu) + 1) * 2 ^ unat (preempt_scale cpu) \<le> unat d) \<and>
    (\<exists>cpu'. vmx_handle_exit env VmxPreemptionTimerExpired cpu c = Ok ((cpu', c), Success) \<and>
       vmx_pending cpu' = Some (vector (vmx_timer cpu)) \<and>
       deadline (vmx_timer cpu') = map_option (saturating_add d) (period (vmx_timer cpu)))"
proof -
  let ?s = "(2 :: nat) ^ unat (preempt_scale cpu)" and ?r = "unat d - unat tsc"
  have le: "unat tsc \<le> unat d" using assms(2) by (simp add: word_le_nat_alt)
  have v: "unat (preemption_value tsc cpu) = min (?r div ?s) (2 ^ 32 - 1)"
    using assms(1) by (simp add: unat_preemption_value)
  have q: "?r div ?s * ?s \<le> ?r" "?r < (?r div ?s + 1) * ?s"
    using dividend_less_div_times [of ?s ?r] by simp_all
  have "min (?r div ?s) (2 ^ 32 - 1) * ?s \<le> ?r div ?s * ?s" by simp
  with q(1) le have a: "unat tsc + unat (preemption_value tsc cpu) * ?s \<le> unat d"
    unfolding v by linarith
  have b: "unat d < unat tsc + (unat (preemption_value tsc cpu) + 1) * ?s" if "?r < 2 ^ 32 * ?s"
  proof -
    have "?r div ?s < 2 ^ 32" using that by (simp add: div_less_iff_less_mult)
    then have e: "unat (preemption_value tsc cpu) = ?r div ?s" unfolding v by simp
    show ?thesis unfolding e using q(2) le by linarith
  qed
  have c: "unat tsc + (unat (preemption_value tsc cpu) + 1) * ?s \<le> unat d" if "2 ^ 32 * ?s \<le> ?r"
  proof -
    have "2 ^ 32 \<le> ?r div ?s" using that by (simp add: less_eq_div_iff_mult_less_eq)
    then have e: "unat (preemption_value tsc cpu) + 1 = 2 ^ 32" unfolding v by simp
    show ?thesis unfolding e using that le by linarith
  qed
  have "unat (preemption_value tsc cpu) < 2 ^ 32" unfolding v by (simp add: min_less_iff_disj)
  with a b c show ?thesis
    using assms(1,3)
    by (simp add: vmx_handle_exit_def vmx_expire_timer_eq timer_expire_def)
qed

text \<open>
  C19: Delivery of a pending vector. If the guest can take an interrupt, the vector is written to the
  event field as a valid external interrupt, stops being pending and interrupt-window exiting is off;
  otherwise it stays pending, the event field is left alone and interrupt-window exiting is on. Nothing
  else in this or in another VMCS changes.
\<close>

theorem vmx_injects_or_waits:
  assumes "current_vmcs c = Some a" and "implements_run_fields P" and "vmx_pending cpu = Some v"
  shows "\<exists>cpu' c'. vmx_inject_pending P cpu c = Ok (cpu', c') \<and>
    (if vmx_interruptible (vmcs_store c a)
     then cpu' = cpu\<lparr>vmx_pending := None\<rparr> \<and>
       field_of c' a control_VMENTRY_INTERRUPTION_INFO_FIELD = push_bit 31 1 OR ucast v
     else cpu' = cpu \<and> field_of c' a control_VMENTRY_INTERRUPTION_INFO_FIELD =
       field_of c a control_VMENTRY_INTERRUPTION_INFO_FIELD) \<and>
    field_of c' a control_PRIMARY_PROCBASED_EXEC_CONTROLS =
      with_window (\<not> vmx_interruptible (vmcs_store c a)) (field_of c a control_PRIMARY_PROCBASED_EXEC_CONTROLS) \<and>
    (\<forall>f. f \<notin> {control_VMENTRY_INTERRUPTION_INFO_FIELD, control_PRIMARY_PROCBASED_EXEC_CONTROLS} \<longrightarrow>
       field_of c' a f = field_of c a f) \<and>
    (\<forall>b. b \<noteq> a \<longrightarrow> vmcs_store c' b = vmcs_store c b)"
proof -
  note rd = assms(1,2) and defs = implements_run_fields_def run_fields_def
  have r: "vmread P c guest_RFLAGS = Ok (field_of c a guest_RFLAGS)"
    "vmread P c guest_INTERRUPTIBILITY_STATE = Ok (field_of c a guest_INTERRUPTIBILITY_STATE)"
    using rd by (simp_all add: defs vmread_current)
  let ?w = "c\<lparr>vmcs_store := (vmcs_store c)(a := (vmcs_store c a)
    (ucast control_VMENTRY_INTERRUPTION_INFO_FIELD := push_bit 31 1 OR ucast v))\<rparr>"
  have w: "vmwrite P control_VMENTRY_INTERRUPTION_INFO_FIELD (push_bit 31 1 OR ucast v) c = Ok ?w"
    using rd by (simp add: defs vmwrite_current)
  have "current_vmcs ?w = Some a" using assms(1) by simp
  note sw = set_interrupt_window_eq [OF this assms(2)] set_interrupt_window_eq [OF rd]
  have ne: "control_VMENTRY_INTERRUPTION_INFO_FIELD \<noteq> control_PRIMARY_PROCBASED_EXEC_CONTROLS"
    by (simp add: field_encodings)
  show ?thesis
  proof (cases "vmx_interruptible (vmcs_store c a)")
    case True
    then have "field_of c a guest_RFLAGS AND push_bit 9 1 \<noteq> 0"
      "field_of c a guest_INTERRUPTIBILITY_STATE AND 3 = 0"
      unfolding vmx_interruptible_def and_exp_eq_0_iff by simp_all
    then show ?thesis
      using True ne unfolding vmx_inject_pending_def assms(3) option.case r w Let_def try_bind.simps sw
      by (simp add: sw(1) del: push_bit_of_1)
  next
    case False
    then have "\<not> (field_of c a guest_RFLAGS AND push_bit 9 1 \<noteq> 0 \<and>
        field_of c a guest_INTERRUPTIBILITY_STATE AND 3 = 0)"
      unfolding vmx_interruptible_def and_exp_eq_0_iff by simp
    then show ?thesis
      using False ne unfolding vmx_inject_pending_def assms(3) option.case r Let_def try_bind.simps sw(2)
      by (auto simp del: push_bit_of_1)
  qed
qed

text \<open>
  C29: Emulated MSRs. After a WRMSR exit, a RDMSR of the same MSR gives the written value: FS and GS
  base and EFER in full, the TSC deadline while the timer is not masked; unknown MSRs read as zero and
  writes to them change nothing.
\<close>

theorem vmx_msr_roundtrip:
  assumes "current_vmcs c = Some a" and "implements_run_fields P"
    and "msr = ucast (rcx (vmx_regs cpu))" and "val = edx_eax (vmx_regs cpu)"
  shows "\<exists>cpu' c'. vmx_wrmsr P tsc cpu c = Ok (cpu', c') \<and> vmx_regs cpu' = vmx_regs cpu \<and>
    vmx_rdmsr P cpu' c' = Ok
      (if msr \<in> {vmcs_IA32_FS_BASE, vmcs_IA32_GS_BASE, vmcs_IA32_EFER} then val
       else if msr = IA32_TSC_DEADLINE \<and> \<not> masked (vmx_timer cpu) then val
       else 0) \<and>
    (msr \<notin> {vmcs_IA32_FS_BASE, vmcs_IA32_GS_BASE, vmcs_IA32_EFER, IA32_TSC_DEADLINE,
        IA32_X2APIC_LVT_TIMER, IA32_X2APIC_INIT_COUNT} \<longrightarrow> cpu' = cpu \<and> c' = c)"
  using assms(1,2)
  by (auto simp: vmx_wrmsr_def vmx_rdmsr_def Let_def vmcs_msrs apic_msrs implements_run_fields_def
      run_fields_def vmwrite_def vmread_def vmx_write_apic_timer_msr_eq timer_write_def assms(3,4))

subsection \<open>What a run keeps\<close>

text \<open>The parts of the core that only the entry into VMX operation changes, and the other VMCSs.\<close>

definition vmx_frame :: "u64 \<Rightarrow> 'fp vmx_core \<Rightarrow> 'fp vmx_core \<Rightarrow> bool" where
  "vmx_frame a c c' \<longleftrightarrow>
     vmx_msr c' = vmx_msr c \<and> vmx_cr0 c' = vmx_cr0 c \<and> vmx_cr4 c' = vmx_cr4 c \<and>
     (\<forall>b. b \<noteq> a \<longrightarrow> vmcs_store c' b = vmcs_store c b)"

lemma vmx_frame_refl [simp]: "vmx_frame a c c"
  by (simp add: vmx_frame_def)

lemma vmx_frame_trans: "vmx_frame a c d \<Longrightarrow> vmx_frame a d e \<Longrightarrow> vmx_frame a c e"
  by (simp add: vmx_frame_def)

text \<open>A step on the current VMCS: within the frame, with the VMCS still current and the FP registers kept.\<close>

definition vmcs_step :: "u64 \<Rightarrow> 'fp vmx_core \<Rightarrow> 'fp vmx_core \<Rightarrow> bool" where
  "vmcs_step a c c' \<longleftrightarrow> vmx_frame a c c' \<and> current_vmcs c' = Some a \<and> vmx_fp c' = vmx_fp c \<and>
     vmx_xcr c' = vmx_xcr c"

lemma vmcs_step_trans: "vmcs_step a c d \<Longrightarrow> vmcs_step a d e \<Longrightarrow> vmcs_step a c e"
  by (auto simp: vmcs_step_def intro: vmx_frame_trans)

lemma vmwrite_step:
  "current_vmcs c = Some a \<Longrightarrow> vmwrite P f v c = Ok c' \<Longrightarrow> vmcs_step a c c'"
  by (auto simp: vmwrite_def vmcs_step_def vmx_frame_def split: if_splits)

lemma vmwrites_step:
  "current_vmcs c = Some a \<Longrightarrow> vmwrites P ws c = Ok c' \<Longrightarrow> vmcs_step a c c'"
  by (auto simp: vmwrites_Ok_iff vmcs_step_def vmx_frame_def)

lemma set_interrupt_window_step:
  "current_vmcs c = Some a \<Longrightarrow> set_interrupt_window P e c = Ok c' \<Longrightarrow> vmcs_step a c c'"
  by (auto simp: set_interrupt_window_def Let_def intro: vmwrite_step)

lemma vmx_inject_pending_step:
  assumes "current_vmcs c = Some a" and "vmx_inject_pending P cpu c = Ok (cpu', c')"
  shows "vmcs_step a c c'" and "cpu' = cpu\<lparr>vmx_pending := vmx_pending cpu'\<rparr>"
proof -
  show "vmcs_step a c c'"
  proof (cases "vmx_pending cpu")
    case None
    then show ?thesis using assms by (simp add: vmx_inject_pending_def vmcs_step_def)
  next
    case (Some v)
    then consider "set_interrupt_window P True c = Ok c'" |
        d where "vmwrite P control_VMENTRY_INTERRUPTION_INFO_FIELD (push_bit 31 1 OR ucast v) c = Ok d"
          "set_interrupt_window P False d = Ok c'"
      using assms(2) by (auto simp: vmx_inject_pending_def Let_def split: if_splits)
    then show ?thesis
    proof cases
      case 2
      from vmwrite_step [OF assms(1) 2(1)] have "vmcs_step a c d" .
      moreover from this have "vmcs_step a d c'"
        by (intro set_interrupt_window_step [OF _ 2(2)]) (simp add: vmcs_step_def)
      ultimately show ?thesis by (rule vmcs_step_trans)
    qed (rule set_interrupt_window_step [OF assms(1)])
  qed
  show "cpu' = cpu\<lparr>vmx_pending := vmx_pending cpu'\<rparr>"
    using assms(2) by (auto simp: vmx_inject_pending_def Let_def split: option.splits if_splits)
qed

lemma activate_Ok:
  assumes "activate P H cpu c = Ok c'"
  shows "\<exists>a. region_physical H (fst (vmcs_region cpu)) = Ok a \<and> c' = c\<lparr>current_vmcs := Some a\<rparr>"
proof -
  from assms obtain a where a: "region_physical H (fst (vmcs_region cpu)) = Ok a"
    by (auto simp: activate_def)
  with assms show ?thesis
    by (cases "vmptrld_hw P a c") (simp_all add: activate_def vmptrld_def vmx_capture_status_def)
qed

lemma vmx_prepare_Ok:
  assumes "vmx_prepare P H tsc (cpu, c) = Ok (cpu', c')"
  shows "\<exists>a. region_physical H (fst (vmcs_region cpu)) = Ok a \<and>
    vmcs_step a (c\<lparr>current_vmcs := Some a\<rparr>) c' \<and> cpu' = cpu\<lparr>vmx_pending := vmx_pending cpu'\<rparr>"
proof -
  from assms obtain c1 c2 c3 where s: "activate P H cpu c = Ok c1"
    "load_guest_registers P (vmx_regs cpu) c1 = Ok c2" "vmx_inject_pending P cpu c2 = Ok (cpu', c3)"
    "arm_preemption_timer P tsc cpu' c3 = Ok c'"
    by (auto simp: vmx_prepare_def)
  from activate_Ok [OF s(1)] obtain a where a: "region_physical H (fst (vmcs_region cpu)) = Ok a"
    "c1 = c\<lparr>current_vmcs := Some a\<rparr>" by blast
  have "vmcs_step a c1 c2"
    using s(2) a(2) by (intro vmwrites_step [of c1 a P]) (simp_all add: load_guest_registers_def)
  moreover from this have 2: "current_vmcs c2 = Some a" by (simp add: vmcs_step_def)
  note inj = vmx_inject_pending_step [OF 2 s(3)]
  moreover from inj(1) have "current_vmcs c3 = Some a" by (simp add: vmcs_step_def)
  then have "vmcs_step a c3 c'"
    using s(4) by (intro vmwrite_step) (simp_all add: arm_preemption_timer_def)
  ultimately show ?thesis using a inj(2) by (blast intro: vmcs_step_trans)
qed

lemma vmx_advance_Ok: "vmx_advance P cpu c = Ok cpu' \<Longrightarrow> \<exists>r. cpu' = cpu\<lparr>vmx_regs := r\<rparr>"
  by (auto simp: vmx_advance_def)

lemma vmx_wrmsr_step:
  assumes "current_vmcs c = Some a" and "vmx_wrmsr P tsc cpu c = Ok (cpu', c')"
  shows "vmcs_step a c c'" and "\<exists>t. cpu' = cpu\<lparr>vmx_timer := t\<rparr>"
proof -
  have self: "\<exists>t. cpu = cpu\<lparr>vmx_timer := t\<rparr>" by (rule exI [of _ "vmx_timer cpu"]) simp
  have keep: "vmcs_step a c c" using assms(1) by (simp add: vmcs_step_def)
  show "vmcs_step a c c'"
    using assms keep by (auto simp: vmx_wrmsr_def Let_def split: if_splits intro: vmwrite_step)
  show "\<exists>t. cpu' = cpu\<lparr>vmx_timer := t\<rparr>"
    using assms(2) self
    by (auto simp: vmx_wrmsr_def Let_def vmx_write_apic_timer_msr_eq split: if_splits)
qed

text \<open>The exit handler stays within the frame and does not touch the floating-point areas.\<close>

lemma vmx_handle_exit_step:
  assumes "current_vmcs c = Some a" and "vmx_handle_exit env basic cpu c = Ok ((cpu', c'), r)"
  shows "vmx_frame a c c' \<and> current_vmcs c' = Some a \<and> vmx_fp c' = vmx_fp c \<and>
    vmx_guest_fpu cpu' = vmx_guest_fpu cpu \<and> vmcs_region cpu' = vmcs_region cpu"
proof (cases "basic = Wrmsr")
  case True
  then obtain cpu1 where w: "vmx_wrmsr (env_proc env) (vmx_tsc_exit env) cpu c = Ok (cpu1, c')"
    "vmx_advance (env_proc env) cpu1 c' = Ok cpu'"
    using assms(2) by (auto simp: vmx_handle_exit_def Let_def)
  then show ?thesis
    using vmx_wrmsr_step [OF assms(1) w(1)] vmx_advance_Ok [OF w(2)] by (auto simp: vmcs_step_def)
next
  case False
  then show ?thesis
    using assms
    by (cases basic)
      (auto simp: vmx_handle_exit_def Let_def vmx_expire_timer_eq vmx_frame_def dest!: vmx_advance_Ok)
qed

text \<open>
  The documented behaviour of a failed entry: VMfail sets CF or ZF.
\<close>

definition vm_fail_flags :: "'fp vmx_enter \<Rightarrow> bool" where
  "vm_fail_flags hw \<longleftrightarrow> (\<forall>l g f v fl v'. hw l g f v = VmFailed fl v' \<longrightarrow> entry_failed fl)"

lemma run_vmx_vm_entered:
  assumes "vm_fail_flags hw" and "run_vmx_vm hw hrsp hrip regs v f = (regs', v', f', fl)" and "\<not> entry_failed fl"
  shows "\<exists>l g w g'. hw l g f w = VmExited g' f' v'"
  using assms unfolding run_vmx_vm_def vm_fail_flags_def
  by (auto split: vm_outcome.splits if_splits; blast)


subsection \<open>Construction\<close>


lemma vmwrites_append: "vmwrites P (us @ ws) c = try_bind (vmwrites P us c) (vmwrites P ws)"
  by (simp add: vmwrites_def try_fold_append)

lemma host_writes_cong:
  "vmx_msr c' = vmx_msr c \<Longrightarrow> vmx_cr0 c' = vmx_cr0 c \<Longrightarrow> vmx_cr4 c' = vmx_cr4 c \<Longrightarrow>
     host_writes h c' = host_writes h c"
  by (simp add: host_writes_def)

text \<open>The four areas are written to the VMCS that was made current, in their order.\<close>

lemma setup_vmcs_Ok:
  assumes "setup_vmcs P X H h eptp apic cpu c = Ok c'"
  shows "\<exists>a v. region_physical H (fst (vmcs_region cpu)) = Ok a \<and> current_vmcs c' = Some a \<and>
    vmx_frame a c c' \<and>
    vmcs_store c' a = write_all (control_writes (vmx_msr c) eptp @
      [(control_VIRT_APIC_ADDR_FULL, v), (control_APIC_ACCESS_ADDR_FULL, apic)] @ host_writes h c @
      guest_writes X (vmx_entry_point cpu) (vmx_guest_rsp cpu)) (vmcs_store c a)"
proof -
  from assms obtain a where a: "region_physical H (fst (vmcs_region cpu)) = Ok a"
    by (auto simp: setup_vmcs_def)
  define c1 where "c1 = (if current_vmcs c = Some a then c\<lparr>current_vmcs := None\<rparr> else c)"
  define c2 where "c2 = c1\<lparr>current_vmcs := Some a\<rparr>"
  have "vmclear_hw P a c = VmSucceed"
    using assms a by (cases "vmclear_hw P a c") (simp_all add: setup_vmcs_def vmclear_def vmx_capture_status_def)
  then have 1: "vmclear P a c = (VmSucceed, c1)" by (simp add: vmclear_def c1_def)
  have "vmptrld_hw P a c1 = VmSucceed"
    using assms a 1 by (cases "vmptrld_hw P a c1") (simp_all add: setup_vmcs_def vmptrld_def vmx_capture_status_def)
  then have 2: "vmptrld P a c1 = (VmSucceed, c2)" by (simp add: vmptrld_def c2_def)
  have same: "vmx_msr c2 = vmx_msr c" "vmx_cr0 c2 = vmx_cr0 c" "vmx_cr4 c2 = vmx_cr4 c"
    "vmcs_store c2 = vmcs_store c" "current_vmcs c2 = Some a" by (simp_all add: c2_def c1_def)
  from assms a 1 2 obtain v c3 c4 c5 where v: "setup_controls P eptp c2 = Ok c3" "setup_apic P v apic c3 = Ok c4"
    "setup_host P h c4 = Ok c5" "vmcs_setup_guest P X (vmx_entry_point cpu) (vmx_guest_rsp cpu) c5 = Ok c'"
    by (auto simp: setup_vmcs_def vmx_capture_status_def)
  have 3: "vmcs_step a c2 c3" using v(1) same(5) by (auto simp: setup_controls_def intro: vmwrites_step)
  then have 4: "vmcs_step a c3 c4"
    using v(2) by (auto simp: setup_apic_def vmcs_step_def [of a c2] intro: vmwrites_step)
  have "host_writes h c4 = host_writes h c"
    using 3 4 same by (intro host_writes_cong) (simp_all add: vmcs_step_def vmx_frame_def)
  then have w: "vmwrites P (control_writes (vmx_msr c) eptp @
      [(control_VIRT_APIC_ADDR_FULL, v), (control_APIC_ACCESS_ADDR_FULL, apic)] @ host_writes h c @
      guest_writes X (vmx_entry_point cpu) (vmx_guest_rsp cpu)) c2 = Ok c'"
    using v same unfolding vmwrites_append
    by (simp add: setup_controls_def setup_apic_def setup_host_def vmcs_setup_guest_def)
  from vmwrites_step [OF same(5) w] have "vmx_frame a c c'" "current_vmcs c' = Some a"
    using same by (simp_all add: vmcs_step_def vmx_frame_def)
  moreover have "vmcs_store c' a = write_all (control_writes (vmx_msr c) eptp @
      [(control_VIRT_APIC_ADDR_FULL, v), (control_APIC_ACCESS_ADDR_FULL, apic)] @ host_writes h c @
      guest_writes X (vmx_entry_point cpu) (vmx_guest_rsp cpu)) (vmcs_store c a)"
    using w same by (simp add: vmwrites_Ok_iff)
  ultimately show ?thesis using a by blast
qed

lemma later_areas_notin:
  "f \<in> {control_EPTP_FULL, control_APIC_ACCESS_ADDR_FULL, control_SECONDARY_PROCBASED_EXEC_CONTROLS} \<Longrightarrow>
     f \<notin> fst ` set (host_writes h c) \<and> f \<notin> fst ` set (guest_writes X e r)"
  by (auto simp: host_writes_def guest_writes_def Let_def field_encodings)

lemma control_written:
  "(f, v) \<in> set (control_writes msr eptp) \<Longrightarrow> write_all (control_writes msr eptp) d (ucast f) = v"
  by (rule write_all_distinct) (simp add: control_writes_def Let_def field_encodings)

text \<open>What the configured VMCS holds of the VM-wide structures.\<close>

lemma configured_control:
  assumes "d = write_all (control_writes msr eptp @
      [(control_VIRT_APIC_ADDR_FULL, v), (control_APIC_ACCESS_ADDR_FULL, apic)] @ host_writes h c @
      guest_writes X e r) d0"
  shows "d (ucast control_EPTP_FULL) = eptp" and "d (ucast control_APIC_ACCESS_ADDR_FULL) = apic"
    and "d (ucast control_SECONDARY_PROCBASED_EXEC_CONTROLS) = adjust_control msr ProcessorBased2 (ucast
      (SecondaryControls_ENABLE_EPT OR SecondaryControls_ENABLE_RDTSCP OR
       SecondaryControls_ENABLE_INVPCID OR SecondaryControls_ENABLE_XSAVES_XRSTORS OR
       SecondaryControls_VIRTUALIZE_APIC OR SecondaryControls_VIRTUALIZE_APIC_REGISTER))"
proof -
  have ne: "control_EPTP_FULL \<noteq> control_APIC_ACCESS_ADDR_FULL" "control_EPTP_FULL \<noteq> control_VIRT_APIC_ADDR_FULL"
    "control_SECONDARY_PROCBASED_EXEC_CONTROLS \<noteq> control_APIC_ACCESS_ADDR_FULL"
    "control_SECONDARY_PROCBASED_EXEC_CONTROLS \<noteq> control_VIRT_APIC_ADDR_FULL"
    by (simp_all add: field_encodings)
  let ?d = "write_all (control_writes msr eptp) d0"
  have tail: "d (ucast f) = write_all [(control_VIRT_APIC_ADDR_FULL, v), (control_APIC_ACCESS_ADDR_FULL, apic)]
      ?d (ucast f)"
    if "f \<in> {control_EPTP_FULL, control_APIC_ACCESS_ADDR_FULL, control_SECONDARY_PROCBASED_EXEC_CONTROLS}" for f
    unfolding assms write_all_simps(3)
    using later_areas_notin [OF that, of h c X e r] by (metis write_all_notin)
  have cw: "?d (ucast f) = w" if "(f, w) \<in> set (control_writes msr eptp)" for f w
    by (rule control_written [OF that])
  show "d (ucast control_EPTP_FULL) = eptp"
    using ne by (subst tail, simp) (simp, rule cw, simp add: control_writes_def Let_def)
  show "d (ucast control_APIC_ACCESS_ADDR_FULL) = apic" by (subst tail) simp_all
  show "d (ucast control_SECONDARY_PROCBASED_EXEC_CONTROLS) = adjust_control msr ProcessorBased2 (ucast
      (SecondaryControls_ENABLE_EPT OR SecondaryControls_ENABLE_RDTSCP OR
       SecondaryControls_ENABLE_INVPCID OR SecondaryControls_ENABLE_XSAVES_XRSTORS OR
       SecondaryControls_VIRTUALIZE_APIC OR SecondaryControls_VIRTUALIZE_APIC_REGISTER))"
    using ne by (subst tail, simp) (simp, rule cw, simp add: control_writes_def Let_def)
qed

lemma vmx_enable_parts:
  assumes "crates_spec X" and "vmx_enable X c = Ok c'"
  shows "bit (vmx_cr4 c') 13"
  using assms
  by (auto simp: vmx_enable_def Let_def crates_spec_def bit_or_iff split: if_splits)

lemma setup_vmxon_parts:
  assumes "crates_spec X" and "setup_vmxon P X H cpu c = Ok c'"
  shows "bit (vmx_cr4 c') 13"
proof -
  obtain c1 a where 1: "vmx_enable X c = Ok c1" "region_physical H (fst (vmxon_region cpu)) = Ok a"
    using assms(2) by (auto simp: setup_vmxon_def)
  have "vmx_cr4 (snd (vmxon P a c1)) = vmx_cr4 c1"
    by (auto simp: vmxon_def note_failure_def split: vm_answer.split option.split)
  moreover have "c' = snd (vmxon P a c1)"
    using assms(2) 1 by (auto simp: setup_vmxon_def vmx_capture_status_def split: prod.splits if_splits)
  ultimately show ?thesis using vmx_enable_parts [OF assms(1) 1(1)] by simp
qed

lemma vmx_init_fields [simp]:
  "vmx_entry_point (vmx_init X msr cpu) = vmx_entry_point cpu" "vmx_guest_rsp (vmx_init X msr cpu) = vmx_guest_rsp cpu"
  "vmx_regs (vmx_init X msr cpu) = vmx_regs cpu" "vmx_pending (vmx_init X msr cpu) = vmx_pending cpu"
  "launched (vmx_init X msr cpu) = launched cpu"
  by (simp_all add: vmx_init_def)

lemma vmx_init_revisions:
  assumes "crates_spec X" and "cpu' = vmx_init X msr cpu"
  shows "\<not> bit (vmcs_revision_id (snd (vmcs_region cpu'))) 31 \<and>
    \<not> bit (vmxon_revision_id (snd (vmxon_region cpu'))) 31"
  using assms by (simp add: vmx_init_def vmcs_init_def vmxon_init_def Let_def crates_spec_def bit_unset_bit_iff)

lemma vmx_new_parts:
  assumes "vmx_new P X H h eptp apic cid e r c s = Ok (cpu, c', s')"
  obtains cpu0 c1 a v where "cpu = vmx_init X (vmx_msr c) cpu0" "setup_vmxon P X H cpu c = Ok c1"
    "vmx_regs cpu = default_registers\<lparr>rdi := BOOT_INFO_OFFSET, rsi := cid, rip := e, rsp := r, rflags := 2\<rparr>"
    "vmx_pending cpu = None" "\<not> launched cpu"
    "region_physical H (fst (vmcs_region cpu)) = Ok a" "current_vmcs c' = Some a" "vmx_frame a c1 c'"
    "vmcs_store c' a = write_all (control_writes (vmx_msr c1) eptp @
      [(control_VIRT_APIC_ADDR_FULL, v), (control_APIC_ACCESS_ADDR_FULL, apic)] @ host_writes h c1 @
      guest_writes X e r) (vmcs_store c1 a)"
proof -
  from assms obtain cpu0 c1 where n: "cpu = vmx_init X (vmx_msr c) cpu0" "setup_vmxon P X H cpu c = Ok c1"
    "setup_vmcs P X H h eptp apic cpu c1 = Ok c'" "vmx_entry_point cpu = e" "vmx_guest_rsp cpu = r"
    "vmx_regs cpu = default_registers\<lparr>rdi := BOOT_INFO_OFFSET, rsi := cid, rip := e, rsp := r, rflags := 2\<rparr>"
    "vmx_pending cpu = None" "\<not> launched cpu"
    by (fastforce simp: vmx_new_def Let_def)
  from setup_vmcs_Ok [OF n(3)] obtain a v where a: "region_physical H (fst (vmcs_region cpu)) = Ok a"
    "current_vmcs c' = Some a" "vmx_frame a c1 c'"
    "vmcs_store c' a = write_all (control_writes (vmx_msr c1) eptp @
      [(control_VIRT_APIC_ADDR_FULL, v), (control_APIC_ACCESS_ADDR_FULL, apic)] @ host_writes h c1 @
      guest_writes X e r) (vmcs_store c1 a)"
    using n(4,5) by blast
  show thesis by (rule that [OF n(1,2,6-8) a])
qed

lemma vmx_new_pointer:
  assumes "vmx_new P X H h eptp apic cid e r c s = Ok (cpu, c', s')"
  obtains a where "current_vmcs c' = Some a" "field_of c' a control_EPTP_FULL = eptp"
    "vmx_regs cpu = default_registers\<lparr>rdi := BOOT_INFO_OFFSET, rsi := cid, rip := e, rsp := r, rflags := 2\<rparr>"
  by (rule vmx_new_parts [OF assms]) (rule that, assumption, rule configured_control(1), assumption+)


subsection \<open>A concrete virtual CPU\<close>

text \<open>A conforming environment, in which the guest executes an OUT to port 8 and exits.\<close>

definition sample_vmx_env :: "u64 vmx_env" where
  "sample_vmx_env =
     \<lparr>env_proc = sample_vmx_hw,
      env_enter = (\<lambda>l g f v. VmExited g (f + 1) (v(0x4402 := 30, 0x6400 := 0x80000, 0x440C := 2))),
      env_rsp = 0x7000, env_rip = 0x400000, vmx_tsc_entry = 1000, vmx_tsc_exit = 1001,
      vmx_cpuid_hw = (\<lambda>_ _. (1, 2, 3, 4)), vmx_xsave_hw = (\<lambda>f d. write_le 8 0 f d),
      vmx_xrstor_hw = (\<lambda>d. read_le 8 d 0)\<rparr>"

definition sample_vmx_cpu :: VmxCpu where
  "sample_vmx_cpu =
     \<lparr>vmxon_region = (0x4000, \<lparr>vmxon_revision_id = 4, vmxon_data = (\<lambda>_. 0)\<rparr>),
      vmcs_region = (0x5000, \<lparr>vmcs_revision_id = 4, abort_indicator = 0, vmcs_reserved = (\<lambda>_. 0)\<rparr>),
      virtual_apic_page = 0x6000,
      vmx_regs = default_registers\<lparr>rcx := 0x6e0, rax := 7, rip := 0x100000, rflags := 0x202\<rparr>,
      launched = False, vmx_entry_point = 0x100000, vmx_guest_rsp = 0x200000,
      vmx_timer = default_timer\<lparr>vector := 0x20, masked := False, deadline := Some 0x100000000000\<rparr>,
      vmx_pending = Some 0x21, preempt_scale = 5, vmx_guest_fpu = fpu_init_guest,
      vmx_host_fpu = fpu_scratch\<rparr>"

definition sample_host_state :: host_state where
  "sample_host_state =
     \<lparr>cr3_frame = 0x1000, sel_CS = 0x8, sel_SS = 0x10, sel_DS = 0x10, sel_ES = 0x10, sel_FS = 0, sel_GS = 0,
      tr_sel = 0x18, gdt_base = 0x2000, idt_base = 0x3000, host_u64 = sample_gdt\<rparr>"

lemma sample_implements: "implements_run_fields sample_vmx_hw"
  by (simp add: implements_run_fields_def list_all_iff sample_vmx_hw_def)

lemma sample_region_physical: "a < 2 ^ 52 \<Longrightarrow> region_physical sample_host a = Ok a"
  by (simp add: region_physical_def x86_virtual_to_physical_def virtual_to_physical_def sample_host_def
      phys_addr_ref_def)

lemma sample_hw_answers:
  "vmxon_hw sample_vmx_hw a c = VmSucceed" "vmclear_hw sample_vmx_hw a c = VmSucceed"
  "vmptrld_hw sample_vmx_hw a c = VmSucceed" "field_readable sample_vmx_hw f" "field_writable sample_vmx_hw f"
  by (simp_all add: sample_vmx_hw_def)

lemma sample_vmwrites:
  "current_vmcs c = Some a \<Longrightarrow> vmwrites sample_vmx_hw ws c =
     Ok (c\<lparr>vmcs_store := (vmcs_store c)(a := write_all ws (vmcs_store c a))\<rparr>)"
  by (rule vmwrites_Ok) (simp_all add: sample_vmx_hw_def)

theorem preemption_timer_bounds_witness:
  "unat (preemption_value 0x1000 sample_vmx_cpu) < 2 ^ 32 \<and>
   (\<exists>cpu'. vmx_handle_exit sample_vmx_env VmxPreemptionTimerExpired sample_vmx_cpu sample_vmx_core =
      Ok ((cpu', sample_vmx_core), Success) \<and> vmx_pending cpu' = Some 0x20)"
  using preemption_timer_bounds [of sample_vmx_cpu "0x100000000000" "0x1000" sample_vmx_env sample_vmx_core]
  by (auto simp: sample_vmx_cpu_def)

theorem vmx_injects_or_waits_witness:
  "\<exists>cpu' c'. vmx_inject_pending sample_vmx_hw sample_vmx_cpu sample_vmx_core = Ok (cpu', c') \<and>
     vmx_pending cpu' = Some 0x21 \<and> bit (vmcs_store c' 0x5000 0x4002) 2"
proof -
  have c: "current_vmcs sample_vmx_core = Some 0x5000" by (simp add: sample_vmx_core_def)
  have p: "vmx_pending sample_vmx_cpu = Some 0x21" by (simp add: sample_vmx_cpu_def)
  have "\<not> vmx_interruptible (vmcs_store sample_vmx_core 0x5000)"
    by (simp add: vmx_interruptible_def sample_vmx_core_def)
  then show ?thesis
    using vmx_injects_or_waits [OF c sample_implements p]
    by (auto simp: p with_window_def bit_set_bit_iff field_encodings)
qed

theorem vmx_msr_roundtrip_witness:
  "\<exists>cpu' c'. vmx_wrmsr sample_vmx_hw 1000 sample_vmx_cpu sample_vmx_core = Ok (cpu', c') \<and>
     vmx_rdmsr sample_vmx_hw cpu' c' = Ok 7"
proof -
  have "current_vmcs sample_vmx_core = Some 0x5000" by (simp add: sample_vmx_core_def)
  from vmx_msr_roundtrip [where cpu = sample_vmx_cpu and tsc = 1000, OF this sample_implements refl refl] show ?thesis
    by (auto simp: sample_vmx_cpu_def default_registers_def edx_eax_def vmcs_msrs apic_msrs)
qed

lemma sample_vmx_run:
  "\<exists>cpu' c'. vmx_run (sample_host, sample_vmx_env) (sample_vmx_cpu\<lparr>vmx_pending := None\<rparr>, sample_vmx_core) =
     Ok ((cpu', c'), ExitReason.IoInstruction 0x80000)"
proof -
  let ?b = "(sample_vmx_cpu\<lparr>vmx_pending := None\<rparr>, sample_vmx_core)"
  have "\<exists>p d. vmx_prepare sample_vmx_hw sample_host 1000 ?b = Ok (p, d) \<and> current_vmcs d = Some 0x5000"
    by (simp add: vmx_prepare_def activate_def sample_region_physical sample_vmx_cpu_def vmptrld_def
        sample_hw_answers vmx_capture_status_def load_guest_registers_def sample_vmwrites
        vmx_inject_pending_def arm_preemption_timer_def vmwrite_def)
  then obtain p d where p: "vmx_prepare sample_vmx_hw sample_host 1000 ?b = Ok (p, d)"
    "current_vmcs d = Some 0x5000" by blast
  have "exit_reason_from_u32 30 = Some VmxBasicExitReason.IoInstruction"
    by (simp add: exit_reason_from_u32_def low_half exit_reasons.decode_complete_iff)
  then show ?thesis
    using p
    by (simp add: vmx_run_def sample_vmx_env_def Let_def vmx_enter_guest_def the_current_def run_vmx_vm_def
        entry_failed_def save_guest_registers_def exit_reason_def vmread_def sample_hw_answers
        vmx_handle_exit_def vmx_advance_def field_encodings)
qed


lemma sample_vmx_enable: "\<exists>c'. vmx_enable sample_crates sample_vmx_core = Ok c'"
  by (simp add: vmx_enable_def sample_crates_def sample_vmx_core_def Let_def IA32_FEATURE_CONTROL_def
      IA32_VMX_BASIC_def)


lemma sample_vmx_new:
  "\<exists>cpu c' s'. vmx_new sample_vmx_hw sample_crates sample_host sample_host_state 0x801e 0x9000 0 0x100000
     0x200000 sample_vmx_core sample_heap = Ok (cpu, c', s') \<and> fst (vmcs_region cpu) = 0x10000"
proof -
  obtain e where e: "vmx_enable sample_crates sample_vmx_core = Ok e"
    using sample_vmx_enable by blast
  show ?thesis
    by (simp add: vmx_new_def Let_def box_page_def alloc_page_def sample_heap_def setup_vmxon_def vmx_init_def
        e sample_region_physical vmxon_def sample_hw_answers vmx_capture_status_def setup_vmcs_def vmclear_def vmptrld_def
        sample_host_physical setup_controls_def setup_apic_def setup_host_def vmcs_setup_guest_def sample_vmwrites)
qed


end
