(* ===== verification/Vm.thy ===== *)
theory Vm
  imports Cpu Npt Ept Svm_Cpu Vmx_Cpu
begin

text \<open>
  The virtual machine (\<^verbatim>\<open>src/src/vm.rs\<close>) and the construction of a virtual CPU (\<^verbatim>\<open>src/src/vcpu.rs\<close>), where the
  backends come together: the choice between AMD-V and VT-x, the nested tables and the backend as trait
  objects with their dispatch, and the address space that all virtual CPUs of a machine share.
\<close>

subsection \<open>Trait objects\<close>

text \<open>\<open>Box<dyn NestedPaging>\<close> and \<open>Box<dyn VcpuBackend<GuestRegisters>>\<close>: the implementor and its operations.\<close>

datatype dyn_paging = NptPaging nested_tables | EptPaging nested_tables

fun dyn_map_mmio :: "host \<Rightarrow> dyn_paging \<Rightarrow> u64 \<Rightarrow> u64 \<Rightarrow> heap \<Rightarrow> (dyn_paging \<times> heap) result" where
  "dyn_map_mmio H (NptPaging t) gpa hpa s = try_bind (npt_map_mmio H t gpa hpa s) (\<lambda>(t, s). Ok (NptPaging t, s))"
| "dyn_map_mmio H (EptPaging t) gpa hpa s = try_bind (ept_map_mmio H t gpa hpa s) (\<lambda>(t, s). Ok (EptPaging t, s))"

fun dyn_pointer :: "host \<Rightarrow> dyn_paging \<Rightarrow> u64 result" where
  "dyn_pointer H (NptPaging t) = npt_pointer H t"
| "dyn_pointer H (EptPaging t) = ept_pointer H t"

datatype ('h, 'fp) dyn_backend =
    SvmBackend SvmCpu "('h, 'fp) core"
  | VmxBackend VmxCpu "'fp vmx_core"

record ('h, 'fp) dyn_env =
  svm_side :: "('h, 'fp) svm_env"
  vmx_side :: "host \<times> 'fp vmx_env"

fun dyn_run :: "('h, 'fp) dyn_env \<Rightarrow> ('h, 'fp) dyn_backend \<Rightarrow> (('h, 'fp) dyn_backend \<times> ExitReason) result" where
  "dyn_run e (SvmBackend cpu c) =
     try_bind (svm_run (svm_side e) (cpu, c)) (\<lambda>((cpu, c), r). Ok (SvmBackend cpu c, r))"
| "dyn_run e (VmxBackend cpu c) =
     try_bind (vmx_run (vmx_side e) (cpu, c)) (\<lambda>((cpu, c), r). Ok (VmxBackend cpu c, r))"

fun dyn_registers :: "('h, 'fp) dyn_backend \<Rightarrow> GuestRegisters" where
  "dyn_registers (SvmBackend cpu c) = svm_guest_registers (cpu, c)"
| "dyn_registers (VmxBackend cpu c) = vmx_guest_registers (cpu, c)"

fun dyn_set_registers :: "GuestRegisters \<Rightarrow> ('h, 'fp) dyn_backend \<Rightarrow> ('h, 'fp) dyn_backend" where
  "dyn_set_registers r (SvmBackend cpu c) = (case svm_set_guest_registers r (cpu, c) of (cpu, c) \<Rightarrow> SvmBackend cpu c)"
| "dyn_set_registers r (VmxBackend cpu c) = (case vmx_set_guest_registers r (cpu, c) of (cpu, c) \<Rightarrow> VmxBackend cpu c)"

definition dyn_table :: "(('h, 'fp) dyn_env, ('h, 'fp) dyn_backend) backend_table" where
  "dyn_table = \<lparr>table_run = dyn_run, table_registers = dyn_registers, table_set_registers = dyn_set_registers\<rparr>"

lemma dyn_table_simps [simp]:
  "table_run dyn_table = dyn_run" "table_registers dyn_table = dyn_registers"
  "table_set_registers dyn_table = dyn_set_registers"
  by (simp_all add: dyn_table_def)

text \<open>The dispatch keeps the interface that both backends have.\<close>

lemmas backend_registers = svm_guest_registers_def svm_set_guest_registers_def vmx_guest_registers_def
  vmx_set_guest_registers_def

interpretation dyn_backend: table_backend dyn_table
proof
  fix r r' and b :: "('h, 'fp) dyn_backend"
  show "table_registers dyn_table (table_set_registers dyn_table r b) = r"
    by (cases b) (simp_all add: backend_registers)
  show "table_set_registers dyn_table (table_registers dyn_table b) b = b"
    by (cases b) (simp_all add: backend_registers)
  show "table_set_registers dyn_table r (table_set_registers dyn_table r' b) = table_set_registers dyn_table r b"
    by (cases b) (simp_all add: backend_registers)
qed

subsection \<open>State\<close>

text \<open>The processor that the program runs on, as the constructors see it.\<close>

record ('h, 'fp) processor =
  mach_cpuid :: cpu_id_report
  mach_host :: host
  mach_svm_core :: "('h, 'fp) core"
  mach_vmx_hw :: "'fp vmx_hw"
  mach_crates :: crates
  mach_host_state :: host_state
  mach_vmx_core :: "'fp vmx_core"

record VmConfig =
  guest_base :: u64
  guest_size :: u64

definition LAPIC_BASE :: u64 where "LAPIC_BASE = 0xFEE00000"
definition IOAPIC_BASE :: u64 where "IOAPIC_BASE = 0xFEC00000"

record ('h, 'fp) Vm =
  vm_id :: nat
  vm_paging :: dyn_paging
  vm_uart :: Uart
  apic_access_page :: u64
  ioapic_page :: u64
  vm_apic_access_hpa :: u64
  vm_mem :: VmMemoryLayout
  vm_cpus :: "('h, 'fp) dyn_backend Cpu list"

subsection \<open>Operations\<close>

text \<open>\<open>Result::expect\<close>\<close>

fun expect :: "string \<Rightarrow> 'a result \<Rightarrow> 'a result" where
  "expect msg (Err e) = Panic msg"
| "expect msg r = r"

definition is_svm :: "('h, 'fp) processor \<Rightarrow> bool" where
  "is_svm M \<longleftrightarrow> check_supported_cpu (mach_cpuid M) = Ok Svm"

definition cpu_new ::
    "('h, 'fp) processor \<Rightarrow> nat \<Rightarrow> nat \<Rightarrow> VmMemoryLayout \<Rightarrow> CpuConfig \<Rightarrow> heap \<Rightarrow>
       (('h, 'fp) dyn_backend Cpu \<times> heap) result" where
  "cpu_new M vid vcpu_id mem config s =
     try_bind
       (if is_svm M then
          try_bind (expect ''Failed to create the AMD-V backend of the vCPU''
            (svm_new (mach_host M) (nested_paging_pointer config) (config_apic_access_hpa config) (of_nat vcpu_id)
               (config_entry_point config) (stack_pointer config) (mach_svm_core M) s))
            (\<lambda>(cpu, c, s). Ok (SvmBackend cpu c, s))
        else
          try_bind (expect ''Failed to create the VT-x backend of the vCPU''
            (vmx_new (mach_vmx_hw M) (mach_crates M) (mach_host M) (mach_host_state M)
               (nested_paging_pointer config) (config_apic_access_hpa config) (of_nat vcpu_id)
               (config_entry_point config) (stack_pointer config) (mach_vmx_core M) s))
            (\<lambda>(cpu, c, s). Ok (VmxBackend cpu c, s)))
       (\<lambda>(b, s). Ok (\<lparr>cpu_vm_id = vid, cpu_index = vcpu_id, cpu_mem = mem, cpu_backend = b\<rparr>, s))"

text \<open>The two halves of \<open>Vm::new\<close>: the choice of the nested tables, and the rest, which only dispatches.\<close>

definition new_paging :: "('h, 'fp) processor \<Rightarrow> VmConfig \<Rightarrow> heap \<Rightarrow> (dyn_paging \<times> heap) result" where
  "new_paging M config s =
     (if is_svm M then
        try_bind (npt_new (mach_host M) (guest_base config) (guest_size config) s) (\<lambda>(t, s). Ok (NptPaging t, s))
      else
        try_bind (ept_new (mach_host M) (guest_base config) (guest_size config) s) (\<lambda>(t, s). Ok (EptPaging t, s)))"

definition vm_new ::
    "('h, 'fp) processor \<Rightarrow> nat \<Rightarrow> VmConfig \<Rightarrow> heap \<Rightarrow> (('h, 'fp) Vm \<times> heap) result" where
  "vm_new M vid config s =
     (let H = mach_host M in
      try_bind (new_paging M config s) (\<lambda>(paging, s).
      try_bind (alloc_page s) (\<lambda>(apic_access, s).
      try_bind (alloc_page s) (\<lambda>(ioapic, s).
      try_bind (host_physical H apic_access) (\<lambda>apic_access_hpa.
      try_bind (dyn_map_mmio H paging LAPIC_BASE apic_access_hpa s) (\<lambda>(paging, s).
      try_bind (host_physical H ioapic) (\<lambda>ioapic_hpa.
      try_bind (dyn_map_mmio H paging IOAPIC_BASE ioapic_hpa s) (\<lambda>(paging, s).
      Ok (\<lparr>vm_id = vid, vm_paging = paging, vm_uart = uart_new, apic_access_page = apic_access,
           ioapic_page = ioapic, vm_apic_access_hpa = apic_access_hpa,
           vm_mem = \<lparr>start_addr = guest_base config, mem_len = unat (guest_size config)\<rparr>, vm_cpus = []\<rparr>,
         s)))))))))"

definition set_output_sink :: "u8 list list \<Rightarrow> ('h, 'fp) Vm \<Rightarrow> ('h, 'fp) Vm" where
  "set_output_sink ch vm = vm\<lparr>vm_uart := set_sink (vm_uart vm) ch\<rparr>"

text \<open>The reference to the new CPU that the code returns is to the last one of the machine.\<close>

definition create_cpu ::
    "('h, 'fp) processor \<Rightarrow> u64 \<Rightarrow> u64 \<Rightarrow> ('h, 'fp) Vm \<Rightarrow> heap \<Rightarrow> (('h, 'fp) Vm \<times> heap) result" where
  "create_cpu M entry_point initial_sp vm s =
     try_bind (dyn_pointer (mach_host M) (vm_paging vm)) (\<lambda>p.
     let config = \<lparr>nested_paging_pointer = p, config_apic_access_hpa = vm_apic_access_hpa vm,
           config_entry_point = entry_point, stack_pointer = initial_sp\<rparr>;
         vcpu_id = length (vm_cpus vm)
     in
     try_bind (cpu_new M (vm_id vm) vcpu_id (vm_mem vm) config s) (\<lambda>(cpu, s).
     Ok (vm\<lparr>vm_cpus := vm_cpus vm @ [cpu]\<rparr>, s)))"

subsection \<open>The address space\<close>

text \<open>What a guest-physical address reaches: the two APIC pages, and the guest's own RAM.\<close>

definition vm_translation :: "host \<Rightarrow> ('h, 'fp) Vm \<Rightarrow> VmConfig \<Rightarrow> u64 \<Rightarrow> u64 option" where
  "vm_translation H vm config a =
     (if unat a div page_size = 0xFEC00 then Some (pa H (ioapic_page vm) OR (a AND 0xfff))
      else if unat a div page_size = 0xFEE00 then Some (pa H (apic_access_page vm) OR (a AND 0xfff))
      else if a < guest_size config
        then Some (page_pa H (guest_base config) (unat a div page_size) OR (a AND 0xfff))
      else None)"

definition boots :: "('h, 'fp) processor \<Rightarrow> nat \<Rightarrow> VmConfig \<Rightarrow> heap \<Rightarrow> bool" where
  "boots M vid config s \<longleftrightarrow>
     (\<exists>vm s' root. vm_new M vid config s = Ok (vm, s') \<and> dyn_pointer (mach_host M) (vm_paging vm) = Ok root \<and>
        (\<forall>a. translate (mach_host M) s' root a = vm_translation (mach_host M) vm config a) \<and>
        vm_id vm = vid \<and> vm_cpus vm = [] \<and> vm_uart vm = uart_new \<and>
        host_physical (mach_host M) (apic_access_page vm) = Ok (vm_apic_access_hpa vm) \<and>
        vm_mem vm = \<lparr>start_addr = guest_base config, mem_len = unat (guest_size config)\<rparr> \<and>
        is_svm M = (case vm_paging vm of NptPaging t \<Rightarrow> True | EptPaging t \<Rightarrow> False))"

lemma apic_pages:
  "2 ^ 30 \<le> LAPIC_BASE" "LAPIC_BASE < 2 ^ 39" "2 ^ 30 \<le> IOAPIC_BASE" "IOAPIC_BASE < 2 ^ 39"
  "unat LAPIC_BASE div page_size = 0xFEE00" "unat IOAPIC_BASE div page_size = 0xFEC00"
  by (simp_all add: LAPIC_BASE_def IOAPIC_BASE_def page_size_def)

text \<open>Nested tables behind the trait object: the dispatch goes to the implementor's own operations.\<close>

locale boxed_paging =
  nested_paging np_new np_map_mmio np_pointer np_inv np_leaf
  for np_new :: "host \<Rightarrow> u64 \<Rightarrow> u64 \<Rightarrow> heap \<Rightarrow> (nested_tables \<times> heap) result"
    and np_map_mmio :: "host \<Rightarrow> nested_tables \<Rightarrow> u64 \<Rightarrow> u64 \<Rightarrow> heap \<Rightarrow> (nested_tables \<times> heap) result"
    and np_pointer :: "host \<Rightarrow> nested_tables \<Rightarrow> u64 result"
    and np_inv :: "host \<Rightarrow> nested_tables \<Rightarrow> heap \<Rightarrow> bool"
    and np_leaf :: u64 +
  fixes boxed :: "nested_tables \<Rightarrow> dyn_paging"
  assumes boxed_map: "dyn_map_mmio H (boxed t) gpa hpa s = try_bind (np_map_mmio H t gpa hpa s) (\<lambda>(t, s). Ok (boxed t, s))"
    and boxed_pointer: "dyn_pointer H (boxed t) = np_pointer H t"
begin

lemma boots_boxed:
  assumes "heap_ok (mach_host M) s" and "guest_ram_ok (mach_host M) (guest_base config) (guest_size config)"
    and "num_tables (guest_size config) + 6 \<le> length (pool s)"
    and paging: "new_paging M config s =
      try_bind (np_new (mach_host M) (guest_base config) (guest_size config) s) (\<lambda>(t, s). Ok (boxed t, s))"
      "\<And>t. is_svm M = (case boxed t of NptPaging t \<Rightarrow> True | EptPaging t \<Rightarrow> False)"
  shows "boots M vid config s"
proof -
  from new_and_two_pages [OF assms(1-3) apic_pages(1-4)] obtain t0 s0 p s1 p' s2 t3 s3 t s' root where
    r: "np_new (mach_host M) (guest_base config) (guest_size config) s = Ok (t0, s0)"
      "alloc_page s0 = Ok (p, s1)" "alloc_page s1 = Ok (p', s2)"
      "host_physical (mach_host M) p = Ok (pa (mach_host M) p)"
      "host_physical (mach_host M) p' = Ok (pa (mach_host M) p')"
      "np_map_mmio (mach_host M) t0 LAPIC_BASE (pa (mach_host M) p) s2 = Ok (t3, s3)"
      "np_map_mmio (mach_host M) t3 IOAPIC_BASE (pa (mach_host M) p') s3 = Ok (t, s')"
      "np_pointer (mach_host M) t = Ok root"
    and tr: "\<And>a. translate (mach_host M) s' root a =
      (if unat a div page_size = unat IOAPIC_BASE div page_size then Some (pa (mach_host M) p' OR (a AND 0xfff))
       else if unat a div page_size = unat LAPIC_BASE div page_size then Some (pa (mach_host M) p OR (a AND 0xfff))
       else ram_translation (mach_host M) (guest_base config) (guest_size config) a)" by blast
  show ?thesis
    unfolding boots_def vm_new_def Let_def using paging(2) [of t]
    by (simp add: r tr paging(1) boxed_map boxed_pointer vm_translation_def ram_translation_def apic_pages)
qed

end

interpretation boxed_npt: boxed_paging npt_new npt_map_mmio npt_pointer "radix_inv NPT_TABLE" NPT_LEAF NptPaging
  by unfold_locales simp_all

interpretation boxed_ept: boxed_paging ept_new ept_map_mmio ept_pointer "radix_inv 0x7" "0x37" EptPaging
  by unfold_locales simp_all

subsection \<open>The construction of a virtual CPU\<close>

text \<open>The root of the nested tables that the backend hands to the processor.\<close>

fun backend_root :: "('h, 'fp) dyn_backend \<Rightarrow> u64 option" where
  "backend_root (SvmBackend cpu c) = Some (vmcb_read_u64 N_CR3 (svm_vmcb cpu))"
| "backend_root (VmxBackend cpu c) = map_option (\<lambda>a. field_of c a control_EPTP_FULL) (current_vmcs c)"

definition entry_registers :: "nat \<Rightarrow> u64 \<Rightarrow> u64 \<Rightarrow> GuestRegisters" where
  "entry_registers vcpu_id e sp =
     default_registers\<lparr>rdi := BOOT_INFO_OFFSET, rsi := of_nat vcpu_id, rip := e, rsp := sp, rflags := 2\<rparr>"

lemma expect_Ok_iff [simp]: "expect msg r = Ok x \<longleftrightarrow> r = Ok x"
  by (cases r) auto

lemma svm_new_root:
  assumes "svm_new H ncr3 apic cid e sp c s = Ok (cpu, c', s')"
  shows "vmcb_read_u64 N_CR3 (svm_vmcb cpu) = ncr3"
    and "svm_regs cpu = default_registers\<lparr>rdi := BOOT_INFO_OFFSET, rsi := cid, rip := e, rsp := sp, rflags := 2\<rparr>"
proof -
  obtain i m where "svm_vmcb cpu = initial_vmcb ncr3 i m e sp"
    using assms by (fastforce simp: svm_new_def Let_def initial_vmcb_def)
  then show "vmcb_read_u64 N_CR3 (svm_vmcb cpu) = ncr3" by (simp add: initial_vmcb_control)
  show "svm_regs cpu = default_registers\<lparr>rdi := BOOT_INFO_OFFSET, rsi := cid, rip := e, rsp := sp, rflags := 2\<rparr>"
    using assms by (fastforce simp: svm_new_def Let_def)
qed

lemma cpu_new_backend:
  assumes "cpu_new M vid i mem config s = Ok (cpu, s')"
  shows "backend_root (cpu_backend cpu) = Some (nested_paging_pointer config)"
    and "dyn_registers (cpu_backend cpu) = entry_registers i (config_entry_point config) (stack_pointer config)"
    and "is_svm M = (case cpu_backend cpu of SvmBackend _ _ \<Rightarrow> True | VmxBackend _ _ \<Rightarrow> False)"
    and "cpu_vm_id cpu = vid" and "cpu_index cpu = i" and "cpu_mem cpu = mem"
proof -
  have "backend_root (cpu_backend cpu) = Some (nested_paging_pointer config) \<and>
      dyn_registers (cpu_backend cpu) = entry_registers i (config_entry_point config) (stack_pointer config) \<and>
      is_svm M = (case cpu_backend cpu of SvmBackend _ _ \<Rightarrow> True | VmxBackend _ _ \<Rightarrow> False)"
  proof (cases "is_svm M")
    case True
    then show ?thesis using assms svm_new_root
      by (fastforce simp: cpu_new_def entry_registers_def backend_registers)
  next
    case False
    then obtain v c h where n: "vmx_new (mach_vmx_hw M) (mach_crates M) (mach_host M) (mach_host_state M)
        (nested_paging_pointer config) (config_apic_access_hpa config) (of_nat i) (config_entry_point config)
        (stack_pointer config) (mach_vmx_core M) s = Ok (v, c, h)" and b: "cpu_backend cpu = VmxBackend v c"
      using assms by (fastforce simp: cpu_new_def)
    show ?thesis
      by (rule vmx_new_pointer [OF n]) (simp add: False b entry_registers_def backend_registers)
  qed
  then show "backend_root (cpu_backend cpu) = Some (nested_paging_pointer config)"
    "dyn_registers (cpu_backend cpu) = entry_registers i (config_entry_point config) (stack_pointer config)"
    "is_svm M = (case cpu_backend cpu of SvmBackend _ _ \<Rightarrow> True | VmxBackend _ _ \<Rightarrow> False)" by blast+
  show "cpu_vm_id cpu = vid" "cpu_index cpu = i" "cpu_mem cpu = mem"
    using assms by (fastforce simp: cpu_new_def)+
qed

subsection \<open>Port accesses of the two backends\<close>

text \<open>Direction and port as the two processors report them: EXITINFO1 and the exit qualification.\<close>

definition svm_access :: "u64 \<Rightarrow> bool \<times> u16" where
  "svm_access info1 = (bit info1 0, ucast (drop_bit 16 info1))"

definition vmx_access :: "u64 \<Rightarrow> bool \<times> u16" where
  "vmx_access q = (bit q 3, ucast (drop_bit 16 q))"

lemma and_1_bit: "(x AND 1 \<noteq> 0) \<longleftrightarrow> bit x 0" for x :: u64
  by (simp add: and_one_eq bit_0 odd_iff_mod_2_eq_one)

lemma io_decode: "(io_is_in q, io_port q) = vmx_access q"
  by (simp add: io_is_in_def io_port_def vmx_access_def and_1_bit bit_drop_bit_eq)

lemma svm_qualification:
  "vmx_access (push_bit 16 (drop_bit 16 info1 AND 0xFFFF) OR push_bit 3 (info1 AND 1)) = svm_access info1"
proof -
  have m: "(0xFFFF :: u64) = mask 16" by (simp add: mask_eq_exp_minus_1)
  have "(ucast (drop_bit 16 (push_bit 16 (drop_bit 16 info1 AND 0xFFFF) OR push_bit 3 (info1 AND 1))) :: u16) =
      ucast (drop_bit 16 info1)"
    by (rule bit_word_eqI) (auto simp: bit_simps m)
  moreover have "bit (push_bit 16 (drop_bit 16 info1 AND 0xFFFF) OR push_bit 3 (info1 AND 1)) 3 = bit info1 0"
    by (simp add: bit_simps)
  ultimately show ?thesis by (simp add: vmx_access_def svm_access_def)
qed

lemma handle_io_access:
  assumes "vmx_access q = vmx_access q'"
  shows "handle_io U B q s = handle_io U B q' s"
proof -
  have "io_is_in q = io_is_in q'" "io_port q = io_port q'"
    using assms io_decode [of q] io_decode [of q'] by (metis prod.inject)+
  then show ?thesis by (simp add: handle_io_def)
qed

lemma svm_io_exit:
  assumes "svm_handle_exit env exitcode_IOIO cpu c = Ok (b, ExitReason.IoInstruction q)"
  shows "vmx_access q = svm_access (vmcb_read_u64 EXITINFO1 (svm_vmcb cpu))"
  using assms svm_qualification
  by (auto simp: svm_handle_exit_def exitcodes Let_def)

subsection \<open>Properties\<close>

text \<open>
  C2: Creating a virtual machine. With page-aligned guest memory of at most 1 GiB that the host resolves
  and enough pages for the tables, \<open>Vm::new\<close> succeeds on both kinds of processors, with nested tables of
  the kind of the processor. From their root the processor translates the two APIC pages to the pages
  the machine owns, each address of the guest's RAM to the page that backs it, and nothing else.
\<close>

theorem vm_new_address_space:
  assumes "heap_ok (mach_host M) s" and "guest_ram_ok (mach_host M) (guest_base config) (guest_size config)"
    and "num_tables (guest_size config) + 6 \<le> length (pool s)"
  shows "\<exists>vm s' root. vm_new M vid config s = Ok (vm, s') \<and> dyn_pointer (mach_host M) (vm_paging vm) = Ok root \<and>
      (\<forall>a. translate (mach_host M) s' root a = vm_translation (mach_host M) vm config a) \<and>
      vm_id vm = vid \<and> vm_cpus vm = [] \<and> vm_uart vm = uart_new \<and>
      host_physical (mach_host M) (apic_access_page vm) = Ok (vm_apic_access_hpa vm) \<and>
      vm_mem vm = \<lparr>start_addr = guest_base config, mem_len = unat (guest_size config)\<rparr> \<and>
      is_svm M = (case vm_paging vm of NptPaging t \<Rightarrow> True | EptPaging t \<Rightarrow> False)"
  using boxed_npt.boots_boxed [OF assms] boxed_ept.boots_boxed [OF assms]
  unfolding boots_def [symmetric] by (cases "is_svm M") (simp_all add: new_paging_def)

definition sample_processor :: "(u64, u64) processor" where
  "sample_processor = \<lparr>mach_cpuid = \<lparr>vendor_info = Some ''AuthenticAMD'', feature_has_vmx = Some False,
       extended_has_svm = Some True\<rparr>, mach_host = sample_host, mach_svm_core = sample_core,
     mach_vmx_hw = sample_vmx_hw, mach_crates = sample_crates, mach_host_state = sample_host_state,
     mach_vmx_core = sample_vmx_core\<rparr>"

lemma sample_is_svm: "is_svm sample_processor"
  by (simp add: is_svm_def sample_processor_def check_supported_cpu_def)

theorem vm_new_address_space_witness:
  "\<exists>vm s' root. vm_new sample_processor 0 \<lparr>guest_base = 0x200000, guest_size = 0x2000\<rparr> sample_heap = Ok (vm, s') \<and>
     dyn_pointer sample_host (vm_paging vm) = Ok root \<and> translate sample_host s' root 0x1234 = Some 0x201234 \<and>
     translate sample_host s' root 0xFEE00020 = Some (vm_apic_access_hpa vm OR 0x20) \<and>
     translate sample_host s' root 0x2000 = None"
proof -
  have h: "mach_host sample_processor = sample_host" by (simp add: sample_processor_def)
  obtain vm s' root where r: "vm_new sample_processor 0 \<lparr>guest_base = 0x200000, guest_size = 0x2000\<rparr> sample_heap =
      Ok (vm, s')" "dyn_pointer sample_host (vm_paging vm) = Ok root"
    "host_physical sample_host (apic_access_page vm) = Ok (vm_apic_access_hpa vm)"
    "\<And>a. translate sample_host s' root a =
       vm_translation sample_host vm \<lparr>guest_base = 0x200000, guest_size = 0x2000\<rparr> a"
    using vm_new_address_space [of sample_processor sample_heap "\<lparr>guest_base = 0x200000, guest_size = 0x2000\<rparr>" 0]
      sample_heap_ok sample_ram_ok sample_num_tables by (auto simp: h)
  have "pa sample_host (apic_access_page vm) = vm_apic_access_hpa vm" using r(3) by (simp add: pa_def)
  then show ?thesis
    using r(1,2) sample_page_pa by (intro exI conjI) (auto simp: r(4) vm_translation_def page_size_def)
qed

text \<open>
  C3: Adding a virtual CPU. It gets the next number, starts at the entry point with the registers of the
  boot convention, and the processor is given the root of the machine's own nested tables, so that all
  virtual CPUs of a machine share one address space; the backend is of the kind of the processor.
\<close>

theorem create_cpu_shares_tables:
  assumes "create_cpu M e sp vm s = Ok (vm', s')"
  shows "\<exists>cpu root. vm' = vm\<lparr>vm_cpus := vm_cpus vm @ [cpu]\<rparr> \<and>
      dyn_pointer (mach_host M) (vm_paging vm) = Ok root \<and> backend_root (cpu_backend cpu) = Some root \<and>
      dyn_registers (cpu_backend cpu) = entry_registers (length (vm_cpus vm)) e sp \<and>
      is_svm M = (case cpu_backend cpu of SvmBackend _ _ \<Rightarrow> True | VmxBackend _ _ \<Rightarrow> False) \<and>
      cpu_vm_id cpu = vm_id vm \<and> cpu_index cpu = length (vm_cpus vm) \<and> cpu_mem cpu = vm_mem vm"
proof -
  obtain root cpu h where r: "dyn_pointer (mach_host M) (vm_paging vm) = Ok root"
    and n: "cpu_new M (vm_id vm) (length (vm_cpus vm)) (vm_mem vm) \<lparr>nested_paging_pointer = root,
      config_apic_access_hpa = vm_apic_access_hpa vm, config_entry_point = e, stack_pointer = sp\<rparr> s = Ok (cpu, h)"
    and v: "vm' = vm\<lparr>vm_cpus := vm_cpus vm @ [cpu]\<rparr>"
    using assms by (fastforce simp: create_cpu_def Let_def)
  show ?thesis
    using r v cpu_new_backend [OF n] by (intro exI [of _ cpu] exI [of _ root]) simp
qed

definition sample_vm :: "(u64, u64) Vm" where
  "sample_vm = \<lparr>vm_id = 0, vm_paging = NptPaging \<lparr>pml4 = 0x5000, pdpt = 0x6000, pd = 0x7000, pts = [], extra = []\<rparr>,
     vm_uart = uart_new, apic_access_page = 0, ioapic_page = 0, vm_apic_access_hpa = 0,
     vm_mem = \<lparr>start_addr = 0x200000, mem_len = 0x2000\<rparr>, vm_cpus = []\<rparr>"

lemma sample_create_cpu:
  "create_cpu sample_processor 0x100000 0x200000 sample_vm sample_heap =
     Ok (sample_vm\<lparr>vm_cpus := [\<lparr>cpu_vm_id = 0, cpu_index = 0, cpu_mem = vm_mem sample_vm,
         cpu_backend = SvmBackend sample_svm_cpu (setup_svm sample_svm_cpu sample_core)\<rparr>]\<rparr>,
       sample_heap\<lparr>pool := [0x15000, 0x16000, 0x17000, 0x18000, 0x19000, 0x1a000, 0x1b000, 0x1c000,
         0x1d000, 0x1e000, 0x1f000]\<rparr>)"
  using sample_is_svm sample_svm_new
  by (simp add: create_cpu_def cpu_new_def sample_vm_def sample_processor_def npt_pointer_def npt_ncr3_def
      sample_host_physical)

theorem create_cpu_shares_tables_witness:
  "vmcb_read_u64 N_CR3 (svm_vmcb sample_svm_cpu) = 0x5000 \<and> rip (svm_regs sample_svm_cpu) = 0x100000"
  using create_cpu_shares_tables [OF sample_create_cpu]
  by (auto simp: sample_vm_def sample_processor_def npt_pointer_def npt_ncr3_def sample_host_physical
      entry_registers_def backend_registers)

text \<open>
  C23: A port access on either backend touches the registers only as the instruction does: OUT leaves them
  alone, IN replaces the low byte of RAX by the byte the serial port answers, or by 0 for any other port,
  and keeps the other bytes of RAX and all other registers.
\<close>

theorem port_io_registers:
  "let r = dyn_registers (cpu_backend cpu);
       r' = dyn_registers (cpu_backend (fst (port_io dyn_table is_in port (cpu, u, m))))
   in r' = r\<lparr>rax := rax r'\<rparr> \<and> drop_bit 8 (rax r') = drop_bit 8 (rax r) \<and>
      (if is_in then (ucast (rax r') :: u8) = (if SERIAL_BASE \<le> port \<and> port < SERIAL_BASE + 8
         then uart_read u (port - SERIAL_BASE) else 0)
       else rax r' = rax r)"
proof (cases is_in)
  case True
  have m: "(0xff :: u64) = mask 8" by (simp add: mask_eq_exp_minus_1)
  have low: "(ucast ((x AND NOT 0xff) OR ucast v :: u64) :: u8) = v" for x and v :: u8
    unfolding m by (rule bit_word_eqI) (auto simp: bit_simps)
  have high: "drop_bit 8 ((x AND NOT 0xff) OR ucast v :: u64) = drop_bit 8 x" for x and v :: u8
    unfolding m by (rule bit_word_eqI) (auto simp: bit_simps dest: bit_imp_le_length)
  define v where "v = (if SERIAL_BASE \<le> port \<and> port < SERIAL_BASE + 8 then uart_read u (port - SERIAL_BASE) else 0)"
  define x where "x = (rax (dyn_registers (cpu_backend cpu)) AND NOT 0xff) OR ucast v"
  have "dyn_registers (cpu_backend (fst (port_io dyn_table True port (cpu, u, m)))) =
      (dyn_registers (cpu_backend cpu))\<lparr>rax := x\<rparr>"
    using dyn_backend.port_in_registers [of port cpu u m] unfolding x_def v_def dyn_table_simps .
  moreover have "(ucast x :: u8) = v" "drop_bit 8 x = drop_bit 8 (rax (dyn_registers (cpu_backend cpu)))"
    unfolding x_def by (rule low, rule high)
  ultimately show ?thesis using True by (simp add: Let_def v_def)
next
  case False
  then show ?thesis using dyn_backend.port_out_registers [of port cpu u m] by (simp add: Let_def)
qed

end
