(* ===== verification/Fdt.thy ===== *)
theory Fdt
  imports Rhyve_Prelude
begin

text \<open>
  The device tree that the guest is handed (\<^verbatim>\<open>src/src/fdt.rs\<close>). The writer of the crate vm-fdt is a
  parameter; what it documents, that nodes nest, that properties precede the children of their node and
  that a closed root can be finished, is the predicate \<open>writer_spec\<close>.
\<close>

subsection \<open>The writer\<close>

record ('w, 'n, 'e) FdtWriter =
  writer_new :: "('w, 'e) outcome"
  begin_node :: "string \<Rightarrow> 'w \<Rightarrow> ('n \<times> 'w, 'e) outcome"
  property_string :: "string \<Rightarrow> string \<Rightarrow> 'w \<Rightarrow> ('w, 'e) outcome"
  property_u32 :: "string \<Rightarrow> u32 \<Rightarrow> 'w \<Rightarrow> ('w, 'e) outcome"
  property_array_u64 :: "string \<Rightarrow> u64 list \<Rightarrow> 'w \<Rightarrow> ('w, 'e) outcome"
  end_node :: "'n \<Rightarrow> 'w \<Rightarrow> ('w, 'e) outcome"
  writer_finish :: "'w \<Rightarrow> (u8 list, 'e) outcome"

record ('w, 'n) Fdt =
  writer :: 'w
  root_node :: 'n
  bootargs :: "string option"

subsection \<open>Operations\<close>

text \<open>The formatting \<open>{:x}\<close> of an unsigned integer.\<close>

definition hex_digits :: string where "hex_digits = ''0123456789abcdef''"

definition hex_digit :: "nat \<Rightarrow> char" where
  "hex_digit d = hex_digits ! (d mod 16)"

fun lower_hex :: "nat \<Rightarrow> string" where
  "lower_hex n = (if n < 16 then [hex_digit n] else lower_hex (n div 16) @ [hex_digit n])"

declare lower_hex.simps [simp del]

definition fdt_new :: "('w, 'n, 'e) FdtWriter \<Rightarrow> string \<Rightarrow> (('w, 'n) Fdt, 'e) outcome" where
  "fdt_new W platform =
     try_bind (writer_new W) (\<lambda>w.
     try_bind (begin_node W '''' w) (\<lambda>(root, w).
     try_bind (property_string W ''compatible'' (''hermit,'' @ platform) w) (\<lambda>w.
     try_bind (property_u32 W ''#address-cells'' 0x2 w) (\<lambda>w.
     try_bind (property_u32 W ''#size-cells'' 0x2 w) (\<lambda>w.
     Ok \<lparr>writer = w, root_node = root, bootargs = None\<rparr>)))))"

definition fdt_finish :: "('w, 'n, 'e) FdtWriter \<Rightarrow> ('w, 'n) Fdt \<Rightarrow> (u8 list, 'e) outcome" where
  "fdt_finish W t =
     try_bind (begin_node W ''chosen'' (writer t)) (\<lambda>(chosen, w).
     try_bind (case bootargs t of Some args \<Rightarrow> property_string W ''bootargs'' args w | None \<Rightarrow> Ok w) (\<lambda>w.
     try_bind (end_node W chosen w) (\<lambda>w.
     try_bind (end_node W (root_node t) w) (\<lambda>w.
     writer_finish W w))))"

definition fdt_rsdp :: "('w, 'n, 'e) FdtWriter \<Rightarrow> u64 \<Rightarrow> ('w, 'n) Fdt \<Rightarrow> (('w, 'n) Fdt, 'e) outcome" where
  "fdt_rsdp W addr t =
     try_bind (begin_node W (''hermit,rsdp@'' @ lower_hex (unat addr)) (writer t)) (\<lambda>(node, w).
     try_bind (property_array_u64 W ''reg'' [addr, 1] w) (\<lambda>w.
     try_bind (end_node W node w) (\<lambda>w.
     Ok (t\<lparr>writer := w\<rparr>))))"

definition fdt_memory ::
    "('w, 'n, 'e) FdtWriter \<Rightarrow> u64 \<times> u64 \<Rightarrow> ('w, 'n) Fdt \<Rightarrow> (('w, 'n) Fdt, 'e) outcome" where
  "fdt_memory W mem t =
     try_bind (begin_node W (''memory@'' @ lower_hex (unat (fst mem))) (writer t)) (\<lambda>(node, w).
     try_bind (property_string W ''device_type'' ''memory'' w) (\<lambda>w.
     try_bind (property_array_u64 W ''reg'' [fst mem, snd mem - fst mem] w) (\<lambda>w.
     try_bind (end_node W node w) (\<lambda>w.
     Ok (t\<lparr>writer := w\<rparr>)))))"

subsection \<open>What the writer documents\<close>

datatype fdt_value = StringValue string | U32Value u32 | U64Values "u64 list"

datatype fdt_node = Node string "(string \<times> fdt_value) list" "fdt_node list"

text \<open>
  A writer holds the open nodes, innermost first, each with its properties and closed children, and the
  root once it is closed. A handle denotes the depth of its node.
\<close>

type_synonym open_nodes = "(string \<times> (string \<times> fdt_value) list \<times> fdt_node list) list \<times> fdt_node option"

fun close_node :: "open_nodes \<Rightarrow> open_nodes" where
  "close_node ((nm, ps, cs) # [], r) = ([], Some (Node nm ps cs))"
| "close_node ((nm, ps, cs) # (nm', ps', cs') # st, r) = ((nm', ps', cs' @ [Node nm ps cs]) # st, r)"
| "close_node ([], r) = ([], r)"

fun add_property :: "string \<Rightarrow> fdt_value \<Rightarrow> open_nodes \<Rightarrow> open_nodes" where
  "add_property k v ((nm, ps, cs) # st, r) = ((nm, ps @ [(k, v)], cs) # st, r)"
| "add_property k v ([], r) = ([], r)"

text \<open>Where a property may be written: in an open node with no child yet, under a new name.\<close>

fun accepts_property :: "string \<Rightarrow> open_nodes \<Rightarrow> bool" where
  "accepts_property k ((nm, ps, cs) # st, r) \<longleftrightarrow> cs = [] \<and> k \<notin> fst ` set ps"
| "accepts_property k ([], r) \<longleftrightarrow> False"

text \<open>Names of nodes and of properties in the syntax of the device tree specification.\<close>

definition letters :: string where
  "letters = ''abcdefghijklmnopqrstuvwxyzABCDEFGHIJKLMNOPQRSTUVWXYZ''"

definition node_name_ok :: "string \<Rightarrow> bool" where
  "node_name_ok nm \<longleftrightarrow> nm = [] \<or>
     hd nm \<in> set letters \<and> list_all (\<lambda>c. c \<in> set (letters @ ''0123456789,._+-@'')) nm \<and>
     length (filter (\<lambda>c. c = CHR ''@'') nm) \<le> 1 \<and> length nm \<le> 31"

definition property_name_ok :: "string \<Rightarrow> bool" where
  "property_name_ok k \<longleftrightarrow>
     k \<noteq> [] \<and> list_all (\<lambda>c. c \<in> set (letters @ ''0123456789,._+?#-'')) k \<and> length k \<le> 31"

definition no_nul :: "string \<Rightarrow> bool" where
  "no_nul v \<longleftrightarrow> CHR 0x00 \<notin> set v"

definition writer_spec ::
    "('w, 'n, 'e) FdtWriter \<Rightarrow> ('w \<Rightarrow> open_nodes) \<Rightarrow> ('n \<Rightarrow> nat) \<Rightarrow> (fdt_node \<Rightarrow> u8 list) \<Rightarrow> bool" where
  "writer_spec W nodes depth blob \<longleftrightarrow>
     (\<exists>w. writer_new W = Ok w \<and> nodes w = ([], None)) \<and>
     (\<forall>w nm. node_name_ok nm \<longrightarrow> (fst (nodes w) \<noteq> [] \<or> snd (nodes w) = None) \<longrightarrow>
        (\<exists>n w'. begin_node W nm w = Ok (n, w') \<and> depth n = Suc (length (fst (nodes w))) \<and>
           nodes w' = ((nm, [], []) # fst (nodes w), snd (nodes w)))) \<and>
     (\<forall>w k v. property_name_ok k \<longrightarrow> no_nul v \<longrightarrow> accepts_property k (nodes w) \<longrightarrow>
        (\<exists>w'. property_string W k v w = Ok w' \<and> nodes w' = add_property k (StringValue v) (nodes w))) \<and>
     (\<forall>w k v. property_name_ok k \<longrightarrow> accepts_property k (nodes w) \<longrightarrow>
        (\<exists>w'. property_u32 W k v w = Ok w' \<and> nodes w' = add_property k (U32Value v) (nodes w))) \<and>
     (\<forall>w k v. property_name_ok k \<longrightarrow> accepts_property k (nodes w) \<longrightarrow>
        (\<exists>w'. property_array_u64 W k v w = Ok w' \<and> nodes w' = add_property k (U64Values v) (nodes w))) \<and>
     (\<forall>w n. fst (nodes w) \<noteq> [] \<longrightarrow> depth n = length (fst (nodes w)) \<longrightarrow>
        (\<exists>w'. end_node W n w = Ok w' \<and> nodes w' = close_node (nodes w))) \<and>
     (\<forall>w t. nodes w = ([], Some t) \<longrightarrow> writer_finish W w = Ok (blob t))"

lemma writer_specD:
  assumes "writer_spec W nodes depth blob"
  shows "\<exists>w. writer_new W = Ok w \<and> nodes w = ([], None)"
    and "\<lbrakk>node_name_ok nm; fst (nodes w) \<noteq> [] \<or> snd (nodes w) = None\<rbrakk> \<Longrightarrow>
      \<exists>n w'. begin_node W nm w = Ok (n, w') \<and> depth n = Suc (length (fst (nodes w))) \<and>
         nodes w' = ((nm, [], []) # fst (nodes w), snd (nodes w))"
    and "\<lbrakk>property_name_ok k; no_nul v; accepts_property k (nodes w)\<rbrakk> \<Longrightarrow>
      \<exists>w'. property_string W k v w = Ok w' \<and> nodes w' = add_property k (StringValue v) (nodes w)"
    and "\<lbrakk>property_name_ok k; accepts_property k (nodes w)\<rbrakk> \<Longrightarrow>
      \<exists>w'. property_u32 W k x w = Ok w' \<and> nodes w' = add_property k (U32Value x) (nodes w)"
    and "\<lbrakk>property_name_ok k; accepts_property k (nodes w)\<rbrakk> \<Longrightarrow>
      \<exists>w'. property_array_u64 W k y w = Ok w' \<and> nodes w' = add_property k (U64Values y) (nodes w)"
    and "\<lbrakk>fst (nodes w) \<noteq> []; depth n = length (fst (nodes w))\<rbrakk> \<Longrightarrow>
      \<exists>w'. end_node W n w = Ok w' \<and> nodes w' = close_node (nodes w)"
    and "nodes w = ([], Some t) \<Longrightarrow> writer_finish W w = Ok (blob t)"
  using assms unfolding writer_spec_def by blast+

lemma hex_digit_in: "hex_digit d \<in> set hex_digits"
  unfolding hex_digit_def by (rule nth_mem) (simp add: hex_digits_def)

lemma lower_hex_digits: "set (lower_hex n) \<subseteq> set hex_digits"
proof (induction n rule: lower_hex.induct)
  case (1 n)
  then show ?case using hex_digit_in by (subst lower_hex.simps) simp
qed

lemma length_lower_hex: "n < 16 ^ Suc k \<Longrightarrow> length (lower_hex n) \<le> Suc k"
proof (induction k arbitrary: n)
  case 0
  then show ?case by (subst lower_hex.simps) simp
next
  case (Suc k)
  then have "n div 16 < 16 ^ Suc k" by (simp add: div_less_iff_less_mult mult.commute)
  then show ?case using Suc.IH [of "n div 16"] by (subst lower_hex.simps) auto
qed

lemma unit_node_name:
  assumes "pre \<noteq> []" and "node_name_ok pre" and "length pre \<le> 15"
  shows "node_name_ok (pre @ lower_hex (unat (a :: u64)))"
proof -
  have "unat a < 16 ^ Suc 15" using unsigned_less [of a, where ?'a = nat] by simp
  from length_lower_hex [OF this] have l: "length (lower_hex (unat a)) \<le> 16" by simp
  have "set hex_digits \<subseteq> set (letters @ ''0123456789,._+-@'')" "CHR ''@'' \<notin> set hex_digits"
    by (simp_all add: hex_digits_def letters_def)
  then have "list_all (\<lambda>c. c \<in> set (letters @ ''0123456789,._+-@'')) (lower_hex (unat a))"
    and "filter (\<lambda>c. c = CHR ''@'') (lower_hex (unat a)) = []"
    using lower_hex_digits [of "unat a"] unfolding list_all_iff filter_empty_conv by blast+
  then show ?thesis using l assms unfolding node_name_ok_def by simp
qed

lemma fdt_names:
  "node_name_ok ''''" "node_name_ok ''chosen''" "property_name_ok ''compatible''"
  "property_name_ok ''#address-cells''" "property_name_ok ''#size-cells''" "property_name_ok ''device_type''"
  "property_name_ok ''reg''" "no_nul ''memory''" "node_name_ok ''memory@''" "node_name_ok ''hermit,rsdp@''"
  by (simp_all add: node_name_ok_def property_name_ok_def no_nul_def letters_def)

subsection \<open>The document\<close>

definition root_properties :: "string \<Rightarrow> (string \<times> fdt_value) list" where
  "root_properties platform = [(''compatible'', StringValue (''hermit,'' @ platform)),
     (''#address-cells'', U32Value 2), (''#size-cells'', U32Value 2)]"

definition memory_node :: "u64 \<times> u64 \<Rightarrow> fdt_node" where
  "memory_node mem = Node (''memory@'' @ lower_hex (unat (fst mem)))
     [(''device_type'', StringValue ''memory''), (''reg'', U64Values [fst mem, snd mem - fst mem])] []"

lemma fdt_new_Ok:
  assumes W: "writer_spec W nodes depth blob" and "no_nul platform"
  obtains t where "fdt_new W platform = Ok t" "bootargs t = None" "depth (root_node t) = 1"
    "nodes (writer t) = ([('''', root_properties platform, [])], None)"
proof -
  note D = writer_specD [OF W]
  have p: "no_nul (''hermit,'' @ platform)" using assms(2) by (simp add: no_nul_def)
  obtain w0 where w0: "writer_new W = Ok w0" "nodes w0 = ([], None)" using D(1) by blast
  obtain n w1 where w1: "begin_node W '''' w0 = Ok (n, w1)" "depth n = 1" "nodes w1 = ([('''', [], [])], None)"
    using D(2) [OF fdt_names(1), of w0] w0 by auto
  obtain w2 where w2: "property_string W ''compatible'' (''hermit,'' @ platform) w1 = Ok w2"
    "nodes w2 = ([('''', take 1 (root_properties platform), [])], None)"
    using D(3) [OF fdt_names(3) p, of w1] w1 by (auto simp: root_properties_def)
  obtain w3 where w3: "property_u32 W ''#address-cells'' 2 w2 = Ok w3"
    "nodes w3 = ([('''', take 2 (root_properties platform), [])], None)"
    using D(4) [OF fdt_names(4), of w2 2] w2 by (auto simp: root_properties_def)
  obtain w4 where "property_u32 W ''#size-cells'' 2 w3 = Ok w4"
    "nodes w4 = ([('''', root_properties platform, [])], None)"
    using D(4) [OF fdt_names(5), of w3 2] w3 by (auto simp: root_properties_def)
  with w0 w1 w2 w3 show thesis
    by (intro that [of "\<lparr>writer = w4, root_node = n, bootargs = None\<rparr>"]) (simp_all add: fdt_new_def)
qed

lemma fdt_memory_Ok:
  assumes W: "writer_spec W nodes depth blob" and t: "nodes (writer t) = ([(nm, ps, cs)], r)"
  obtains t' where "fdt_memory W mem t = Ok t'" "bootargs t' = bootargs t" "root_node t' = root_node t"
    "nodes (writer t') = ([(nm, ps, cs @ [memory_node mem])], r)"
proof -
  note D = writer_specD [OF W]
  let ?m = "''memory@'' @ lower_hex (unat (fst mem))"
  obtain n w1 where w1: "begin_node W ?m (writer t) = Ok (n, w1)" "depth n = 2"
    "nodes w1 = ([(?m, [], []), (nm, ps, cs)], r)"
    using D(2) [OF unit_node_name [OF _ fdt_names(9), of "fst mem"], of "writer t"] t by auto
  obtain w2 where w2: "property_string W ''device_type'' ''memory'' w1 = Ok w2"
    "nodes w2 = ([(?m, [(''device_type'', StringValue ''memory'')], []), (nm, ps, cs)], r)"
    using D(3) [OF fdt_names(6,8), of w1] w1 by auto
  obtain w3 where w3: "property_array_u64 W ''reg'' [fst mem, snd mem - fst mem] w2 = Ok w3"
    "nodes w3 = ([(?m, [(''device_type'', StringValue ''memory''),
       (''reg'', U64Values [fst mem, snd mem - fst mem])], []), (nm, ps, cs)], r)"
    using D(5) [OF fdt_names(7), of w2] w2 by auto
  obtain w4 where "end_node W n w3 = Ok w4" "nodes w4 = ([(nm, ps, cs @ [memory_node mem])], r)"
    using D(6) [of w3 n] w3 w1 by (auto simp: memory_node_def)
  with w1 w2 w3 show thesis by (intro that [of "t\<lparr>writer := w4\<rparr>"]) (simp_all add: fdt_memory_def)
qed

lemma fdt_rsdp_Ok:
  assumes W: "writer_spec W nodes depth blob" and t: "nodes (writer t) = ([(nm, ps, cs)], r)"
  obtains t' where "fdt_rsdp W addr t = Ok t'" "bootargs t' = bootargs t" "root_node t' = root_node t"
    "nodes (writer t') = ([(nm, ps, cs @
      [Node (''hermit,rsdp@'' @ lower_hex (unat addr)) [(''reg'', U64Values [addr, 1])] []])], r)"
proof -
  note D = writer_specD [OF W]
  let ?m = "''hermit,rsdp@'' @ lower_hex (unat addr)"
  obtain n w1 where w1: "begin_node W ?m (writer t) = Ok (n, w1)" "depth n = 2"
    "nodes w1 = ([(?m, [], []), (nm, ps, cs)], r)"
    using D(2) [OF unit_node_name [OF _ fdt_names(10), of addr], of "writer t"] t by auto
  obtain w2 where w2: "property_array_u64 W ''reg'' [addr, 1] w1 = Ok w2"
    "nodes w2 = ([(?m, [(''reg'', U64Values [addr, 1])], []), (nm, ps, cs)], r)"
    using D(5) [OF fdt_names(7), of w1] w1 by auto
  obtain w3 where "end_node W n w2 = Ok w3"
    "nodes w3 = ([(nm, ps, cs @ [Node ?m [(''reg'', U64Values [addr, 1])] []])], r)"
    using D(6) [of w2 n] w2 w1 by auto
  with w1 w2 show thesis by (intro that [of "t\<lparr>writer := w3\<rparr>"]) (simp_all add: fdt_rsdp_def)
qed

lemma fdt_finish_Ok:
  assumes W: "writer_spec W nodes depth blob" and t: "nodes (writer t) = ([(nm, ps, cs)], None)"
    and "bootargs t = None" and "depth (root_node t) = 1"
  shows "fdt_finish W t = Ok (blob (Node nm ps (cs @ [Node ''chosen'' [] []])))"
proof -
  note D = writer_specD [OF W]
  obtain n w1 where w1: "begin_node W ''chosen'' (writer t) = Ok (n, w1)" "depth n = 2"
    "nodes w1 = ([(''chosen'', [], []), (nm, ps, cs)], None)"
    using D(2) [OF fdt_names(2), of "writer t"] t by auto
  obtain w2 where w2: "end_node W n w1 = Ok w2" "nodes w2 = ([(nm, ps, cs @ [Node ''chosen'' [] []])], None)"
    using D(6) [of w1 n] w1 by auto
  obtain w3 where w3: "end_node W (root_node t) w2 = Ok w3"
    "nodes w3 = ([], Some (Node nm ps (cs @ [Node ''chosen'' [] []])))"
    using D(6) [of w2 "root_node t"] w2 assms(4) by auto
  show ?thesis using w1 w2 w3 D(7) [OF w3(2)] assms(3) by (simp add: fdt_finish_def)
qed

lemma fdt_chain:
  assumes "writer_spec W nodes depth blob" and "no_nul platform"
  shows "\<exists>t t'. fdt_new W platform = Ok t \<and> fdt_memory W mem t = Ok t' \<and>
      fdt_finish W t' = Ok (blob (Node '''' (root_properties platform) [memory_node mem, Node ''chosen'' [] []]))"
proof -
  obtain t where t: "fdt_new W platform = Ok t" "bootargs t = None" "depth (root_node t) = 1"
    "nodes (writer t) = ([('''', root_properties platform, [])], None)" by (rule fdt_new_Ok [OF assms])
  obtain t' where t': "fdt_memory W mem t = Ok t'" "bootargs t' = bootargs t" "root_node t' = root_node t"
    "nodes (writer t') = ([('''', root_properties platform, [] @ [memory_node mem])], None)"
    by (rule fdt_memory_Ok [OF assms(1) t(4), of mem])
  have "fdt_finish W t' = Ok (blob (Node '''' (root_properties platform) [memory_node mem, Node ''chosen'' [] []]))"
    using fdt_finish_Ok [OF assms(1) t'(4)] t'(2,3) t(2,3) by simp
  with t(1) t'(1) show ?thesis by blast
qed

subsection \<open>A reference writer\<close>

text \<open>The writer that keeps the nodes themselves and reports what the specification forbids.\<close>

definition reference_writer :: "(fdt_node \<Rightarrow> u8 list) \<Rightarrow> (open_nodes, nat, unit) FdtWriter" where
  "reference_writer blob =
     \<lparr>writer_new = Ok ([], None),
      begin_node = (\<lambda>nm w. if node_name_ok nm \<and> (fst w \<noteq> [] \<or> snd w = None)
        then Ok (Suc (length (fst w)), ((nm, [], []) # fst w, snd w)) else Err ()),
      property_string = (\<lambda>k v w. if property_name_ok k \<and> no_nul v \<and> accepts_property k w
        then Ok (add_property k (StringValue v) w) else Err ()),
      property_u32 = (\<lambda>k v w. if property_name_ok k \<and> accepts_property k w
        then Ok (add_property k (U32Value v) w) else Err ()),
      property_array_u64 = (\<lambda>k v w. if property_name_ok k \<and> accepts_property k w
        then Ok (add_property k (U64Values v) w) else Err ()),
      end_node = (\<lambda>n w. if fst w \<noteq> [] \<and> n = length (fst w) then Ok (close_node w) else Err ()),
      writer_finish = (\<lambda>w. case w of ([], Some t) \<Rightarrow> Ok (blob t) | _ \<Rightarrow> Err ())\<rparr>"

lemma reference_writer_spec: "writer_spec (reference_writer blob) (\<lambda>w. w) (\<lambda>n. n) blob"
  by (simp add: writer_spec_def reference_writer_def)

end
