(* ===== verification/Service.thy ===== *)
theory Service
  imports Vm Fdt
begin

text \<open>
  The service (\<^verbatim>\<open>src/src/main.rs\<close>): storing an uploaded image, and running one: sizing the guest's memory,
  loading the kernel, writing boot information, device tree and boot tables into guest memory, creating the
  virtual machine and running its CPU, with the guest's output as the body of the response. The file
  system, the clock, the allocator and the crates hermit-entry and vm-fdt are parameters.
\<close>

subsection \<open>Constants\<close>

definition FDT_OFFSET :: u64 where "FDT_OFFSET = 0x5000"
definition BOOT_STACK_TOP :: u64 where "BOOT_STACK_TOP = 0x70000"
definition MIN_GUEST_MIB :: u64 where "MIN_GUEST_MIB = 128"
definition DEFAULT_GUEST_MIB :: u64 where "DEFAULT_GUEST_MIB = 512"

text \<open>\<open>Size2MiB::SIZE\<close> and \<open>Size4KiB::SIZE\<close> of the crate x86\_64.\<close>

definition LargePageSize :: u64 where "LargePageSize = 0x200000"
definition BasePageSize :: u64 where "BasePageSize = 0x1000"

subsection \<open>The environment\<close>

type_synonym files = "string \<Rightarrow> u8 list option"

record 'i BootInfo =
  phys_addr_range :: "u64 \<times> u64"
  serial_port_base :: u16
  device_tree :: u64
  boot_load_info :: 'i
  has_pci :: bool
  num_cpus :: nat
  boot_cpu_freq :: u32
  boot_time :: nat

record 'i LoadedKernel =
  load_info :: 'i
  entry_point :: u64

text \<open>
  The system calls of a run. A file that exists may still fail to open or to be read, and a read may
  return less than asked for; the clock is in nanoseconds, absent before the epoch.
\<close>

record ('k, 'i, 'w, 'n, 'e) service_env =
  metadata_fails :: bool
  open_fails :: bool
  read_fails :: bool
  read_count :: nat
  clock :: "nat option"
  timestamp_ok :: "nat \<Rightarrow> bool"
  processor_frequency :: u16
  guest_alloc :: "u64 \<Rightarrow> u64 option"
  kernel_parse :: "u8 list \<Rightarrow> 'k option"
  kernel_mem_size :: "'k \<Rightarrow> nat"
  load_kernel :: "'k \<Rightarrow> bytes \<Rightarrow> u64 \<Rightarrow> bytes \<times> 'i LoadedKernel"
  raw_boot_info :: "'i BootInfo \<Rightarrow> u8 list"
  fdt_writer :: "('w, 'n, 'e) FdtWriter"

subsection \<open>Guest memory\<close>

text \<open>Guest memory is indexed by guest-physical address. Writing \<open>n\<close> bytes at an offset of a slice:\<close>

definition overlay :: "nat \<Rightarrow> nat \<Rightarrow> bytes \<Rightarrow> bytes \<Rightarrow> bytes" where
  "overlay off n src dst = (\<lambda>a. if off \<le> a \<and> a < off + n then src (a - off) else dst a)"

definition list_bytes :: "u8 list \<Rightarrow> bytes" where
  "list_bytes xs = (\<lambda>i. if i < length xs then xs ! i else 0)"

text \<open>\<open>kernel_offset\<close> is 128 pages; taking a slice beyond the end panics.\<close>

definition kernel_offset :: u64 where "kernel_offset = 128 * BasePageSize"

definition load_guest_image ::
    "('k, 'i, 'w, 'n, 'e) service_env \<Rightarrow> files \<Rightarrow> string \<Rightarrow> u64 \<Rightarrow> bytes \<Rightarrow> (bytes \<times> 'i LoadedKernel) result" where
  "load_guest_image E fs path size_bytes g =
     (case fs path of
        None \<Rightarrow> Err IoError
      | Some content \<Rightarrow>
          if metadata_fails E then Err IoError
          else if open_fails E then Err IoError
          else if read_fails E then Err IoError
          else
            (let buffer = take (read_count E) content @ replicate (length content - read_count E) 0 in
             case kernel_parse E buffer of
               None \<Rightarrow> Err ParseError
             | Some elf \<Rightarrow>
                 (let off = unat kernel_offset; n = kernel_mem_size E elf in
                  if off + n \<le> unat size_bytes then
                    (let (img, loaded) = load_kernel E elf (\<lambda>i. g (off + i)) kernel_offset
                     in Ok (overlay off n img g, loaded))
                  else Panic ''range end index out of range for slice'')))"

text \<open>\<open>Result::unwrap\<close>, here of another error type.\<close>

fun unwrap_result :: "('a, 'e) outcome \<Rightarrow> 'a result" where
  "unwrap_result (Ok x) = Ok x"
| "unwrap_result (Err e) = Panic ''called `Result::unwrap()` on an `Err` value''"
| "unwrap_result (Panic msg) = Panic msg"

definition nonzero :: "u32 \<Rightarrow> u32 option" where
  "nonzero n = (if n = 0 then None else Some n)"

definition boot_info :: "('k, 'i, 'w, 'n, 'e) service_env \<Rightarrow> u64 \<Rightarrow> 'i \<Rightarrow> 'i BootInfo result" where
  "boot_info E size_bytes info =
     try_bind (case clock E of Some t \<Rightarrow> Ok t | None \<Rightarrow> Panic ''Unable to create time sinde UNIX_EPOCH'') (\<lambda>t.
     let cpu_freq = ucast (processor_frequency E) :: u32 in
     try_bind (unwrap (nonzero (cpu_freq * 1000))) (\<lambda>freq.
     try_bind (if timestamp_ok E t then Ok t
               else Panic ''called `Result::unwrap()` on an `Err` value'') (\<lambda>time.
     Ok \<lparr>phys_addr_range = (0, size_bytes), serial_port_base = SERIAL_BASE, device_tree = FDT_OFFSET,
         boot_load_info = info, has_pci = False, num_cpus = 1, boot_cpu_freq = freq, boot_time = time\<rparr>)))"

definition boot_fdt :: "('w, 'n, 'e) FdtWriter \<Rightarrow> u64 \<Rightarrow> u8 list result" where
  "boot_fdt W size_bytes =
     try_bind (unwrap_result (fdt_new W ''uhyve'')) (\<lambda>t.
     try_bind (unwrap_result (fdt_memory W (0, size_bytes) t)) (\<lambda>t.
     unwrap_result (fdt_finish W t)))"

text \<open>The first half of \<open>init_hypervisor\<close>: everything that is written into the cleared guest memory.\<close>

definition prepare_guest ::
    "('k, 'i, 'w, 'n, 'e) service_env \<Rightarrow> files \<Rightarrow> string \<Rightarrow> u64 \<Rightarrow> (bytes \<times> 'i LoadedKernel) result" where
  "prepare_guest E fs path size_bytes =
     try_bind (load_guest_image E fs path size_bytes (\<lambda>_. 0)) (\<lambda>(g, loaded).
     try_bind (boot_info E size_bytes (load_info loaded)) (\<lambda>info.
     try_bind (boot_fdt (fdt_writer E) size_bytes) (\<lambda>fdt.
     if unat FDT_OFFSET + length fdt \<le> unat size_bytes then
       (let g = overlay (unat FDT_OFFSET) (length fdt) (list_bytes fdt) g in
        if BOOT_INFO_OFFSET < size_bytes then
          (let raw = raw_boot_info E info;
               g = overlay (unat BOOT_INFO_OFFSET) (length raw) (list_bytes raw) g
           in Ok (init_guest_memory g, loaded))
        else Panic ''index out of bounds'')
     else Panic ''range end index out of range for slice'')))"

subsection \<open>Running a guest\<close>

text \<open>
  A finished run: the result, whether the guest's memory was released, and the messages sent to the
  client. Errors that leave \<open>init_hypervisor\<close> by \<open>?\<close>, and panics, skip the release at its end.
\<close>

record run_outcome =
  run_result :: "unit result"
  memory_freed :: bool
  channel :: "u8 list list"

definition failed :: "unit result \<Rightarrow> run_outcome" where
  "failed r = \<lparr>run_result = r, memory_freed = False, channel = []\<rparr>"

definition messages :: "Uart \<Rightarrow> u8 list list" where
  "messages u = (case sink u of Some ch \<Rightarrow> ch | None \<Rightarrow> [])"

definition init_hypervisor ::
    "('k, 'i, 'w, 'n, 'e) service_env \<Rightarrow> ('h, 'fp) processor \<Rightarrow> uhyve \<Rightarrow>
       (nat \<Rightarrow> ('h, 'fp) dyn_env \<times> (bytes \<Rightarrow> bytes)) \<Rightarrow> files \<Rightarrow> heap \<Rightarrow> bytes \<Rightarrow> string \<Rightarrow> u64 \<Rightarrow>
       run_outcome option" where
  "init_hypervisor E M U envs fs s host_bytes path size_bytes =
     (case guest_alloc E size_bytes of
        None \<Rightarrow> Some (failed (Panic ''called `Result::unwrap()` on an `Err` value''))
      | Some base \<Rightarrow>
          (case prepare_guest E fs path size_bytes of
             Err e \<Rightarrow> Some (failed (Err e))
           | Panic msg \<Rightarrow> Some (failed (Panic msg))
           | Ok (g, loaded) \<Rightarrow>
               (case try_bind (vm_new M 0 \<lparr>guest_base = base, guest_size = size_bytes\<rparr> s) (\<lambda>(vm, s).
                       create_cpu M (entry_point loaded) BOOT_STACK_TOP (set_output_sink [] vm) s) of
                  Err e \<Rightarrow> Some (failed (Err e))
                | Panic msg \<Rightarrow> Some (failed (Panic msg))
                | Ok (vm, s) \<Rightarrow>
                    map_option (\<lambda>((cpu, u, m), r).
                        \<lparr>run_result = r, memory_freed = (case r of Panic _ \<Rightarrow> False | _ \<Rightarrow> True),
                         channel = messages u\<rparr>)
                      (cpu_run U dyn_table envs 0 (last (vm_cpus vm), vm_uart vm,
                         overlay (unat base) (unat size_bytes) g host_bytes)))))"

subsection \<open>Requests\<close>

text \<open>A reply is the value of the handler or a status with its message.\<close>

type_synonym 'a reply = "('a, nat \<times> string) outcome"

fun str_contains :: "string \<Rightarrow> string \<Rightarrow> bool" where
  "str_contains pat [] \<longleftrightarrow> pat = []"
| "str_contains pat (c # cs) \<longleftrightarrow> take (length pat) (c # cs) = pat \<or> str_contains pat cs"

definition newline :: string where "newline = [CHR 0x0A]"

definition invalid_name :: "string \<Rightarrow> bool" where
  "invalid_name nm \<longleftrightarrow> nm = [] \<or> str_contains ''/'' nm \<or> str_contains ''..'' nm"

text \<open>
  How the file operations of an upload end: \<open>create_dir\<close> with an error and whether that says that the
  directory exists, \<open>create\<close> and \<open>write_all\<close> with an error, the latter after some bytes.
\<close>

record store_env =
  dir_error :: "(bool \<times> string) option"
  create_error :: "string option"
  write_error :: "(nat \<times> string) option"

definition store_image :: "store_env \<Rightarrow> string \<Rightarrow> u8 list \<Rightarrow> files \<Rightarrow> string reply \<times> files" where
  "store_image S nm body fs =
     (if invalid_name nm then (Err (400, ''invalid file name'' @ newline), fs)
      else case dir_error S of
        Some (False, msg) \<Rightarrow> (Err (500, msg), fs)
      | _ \<Rightarrow>
          (let path = ''/image/'' @ nm in
           case create_error S of
             Some msg \<Rightarrow> (Err (500, msg), fs)
           | None \<Rightarrow>
               (case write_error S of
                  Some (n, msg) \<Rightarrow> (Err (500, msg), fs(path \<mapsto> take n body))
                | None \<Rightarrow>
                    (Ok (''stored '' @ decimal (length body) @ '' bytes at '' @ path @ newline),
                     fs(path \<mapsto> body)))))"

text \<open>\<open>next_multiple_of\<close> on \<open>usize\<close>; the shift and the sum wrap as in a release build.\<close>

definition next_multiple_of :: "u64 \<Rightarrow> u64 \<Rightarrow> u64" where
  "next_multiple_of n m = (let r = n mod m in if r = 0 then n else n + (m - r))"

definition requested_size :: "u64 option \<Rightarrow> u64" where
  "requested_size mem_mib =
     (let mib = max (case mem_mib of Some n \<Rightarrow> n | None \<Rightarrow> DEFAULT_GUEST_MIB) MIN_GUEST_MIB
      in next_multiple_of (push_bit 20 mib) LargePageSize)"

text \<open>The derived \<open>Debug\<close> of the error.\<close>

fun debug_error :: "HypervisorError \<Rightarrow> string" where
  "debug_error IoError = ''IoError''"
| "debug_error ParseError = ''ParseError''"
| "debug_error CPUUnsupported = ''CPUUnsupported''"
| "debug_error VMXUnsupported = ''VMXUnsupported''"
| "debug_error VMCLEARFailed = ''VMCLEARFailed''"
| "debug_error VMREADFailed = ''VMREADFailed''"
| "debug_error VMWRITEFailed = ''VMWRITEFailed''"
| "debug_error (VMEntryFailed n) = ''VMEntryFailed('' @ decimal (unat n) @ '')''"
| "debug_error AllocationFailed = ''AllocationFailed''"
| "debug_error VmUnsupported = ''VmUnsupported''"
| "debug_error UnknownVMExitReason = ''UnknownVMExitReason''"

definition failure_message :: "HypervisorError \<Rightarrow> u8 list" where
  "failure_message e = map of_char (newline @ ''[run failed: '' @ debug_error e @ '']'' @ newline)"

text \<open>The chunks of the streamed body, absent while the guest runs for ever.\<close>

definition run_guest ::
    "('k, 'i, 'w, 'n, 'e) service_env \<Rightarrow> ('h, 'fp) processor \<Rightarrow> uhyve \<Rightarrow>
       (nat \<Rightarrow> ('h, 'fp) dyn_env \<times> (bytes \<Rightarrow> bytes)) \<Rightarrow> files \<Rightarrow> heap \<Rightarrow> bytes \<Rightarrow> string \<Rightarrow> u64 option \<Rightarrow>
       u8 list list option reply" where
  "run_guest E M U envs fs s host_bytes nm mem_mib =
     (if invalid_name nm then Err (400, ''invalid file name'' @ newline)
      else Ok (map_option (\<lambda>out. channel out @
             (case run_result out of Err e \<Rightarrow> [failure_message e] | _ \<Rightarrow> []))
           (init_hypervisor E M U envs fs s host_bytes (''/image/'' @ nm) (requested_size mem_mib))))"

text \<open>
  The start of the program: without a virtualization extension it panics, else the translation of host
  addresses, a system call of the kernel, is registered before the first request.
\<close>

definition service_start :: "(u64 \<Rightarrow> u64) \<Rightarrow> cpu_id_report \<Rightarrow> host_memory option \<Rightarrow> host_memory option result" where
  "service_start sys cpuid cell =
     (case check_supported_cpu cpuid of
        Ok ext \<Rightarrow> Ok (set_host_memory (HermitHostMemory sys) cell)
      | Err e \<Rightarrow> Panic ''CPU doesn't support any virtualization extensions!''
      | Panic msg \<Rightarrow> Panic msg)"

subsection \<open>The size of the guest\<close>

lemma unat_mib:
  assumes "unat n < 2 ^ 44"
  shows "unat (push_bit 20 n :: u64) = unat n * 2 ^ 20"
  using assms by (simp add: push_bit_eq_mult unat_word_ariths)

lemma next_multiple_of_bounds:
  assumes m: "0 < unat m"
    and below: "unat n mod unat m \<noteq> 0 \<longrightarrow> unat n + (unat m - unat n mod unat m) < 2 ^ 64"
  shows "unat (next_multiple_of n m) mod unat m = 0" and "unat n \<le> unat (next_multiple_of n m)"
    and "unat (next_multiple_of n m) < unat n + unat m"
proof -
  let ?r = "unat n mod unat m"
  have r: "unat (n mod m) = ?r" by (simp add: unat_mod_distrib)
  have z: "n mod m = 0 \<longleftrightarrow> ?r = 0" using r by (metis unat_eq_0)
  have le: "?r < unat m" using m by simp
  have v: "unat (next_multiple_of n m) = (if ?r = 0 then unat n else unat n + (unat m - ?r))"
  proof (cases "?r = 0")
    case False
    have "n mod m \<le> m" using le r by (simp add: word_le_nat_alt)
    then have "unat (m - n mod m) = unat m - ?r" by (simp add: unat_sub r)
    then show ?thesis using False z below
      by (simp add: next_multiple_of_def Let_def unat_word_ariths)
  qed (simp add: next_multiple_of_def z)
  have "(unat n + (unat m - ?r)) mod unat m = 0" if "?r \<noteq> 0"
  proof -
    have "unat n + (unat m - ?r) = unat n div unat m * unat m + unat m"
      using le div_mult_mod_eq [of "unat n" "unat m"] by linarith
    then show ?thesis by simp
  qed
  then show "unat (next_multiple_of n m) mod unat m = 0" by (simp add: v)
  show "unat n \<le> unat (next_multiple_of n m)" "unat (next_multiple_of n m) < unat n + unat m"
    using le by (auto simp: v split: if_splits)
qed

lemma requested_size_bounds:
  assumes "unat n < 2 ^ 44 - 1" and "mib = max (unat n) 128"
  shows "unat (requested_size (Some n)) mod 2 ^ 21 = 0" and "mib * 2 ^ 20 \<le> unat (requested_size (Some n))"
    and "unat (requested_size (Some n)) < mib * 2 ^ 20 + 2 ^ 21"
proof -
  let ?n = "max n MIN_GUEST_MIB"
  have mib: "unat ?n = mib" using assms(2)
    by (simp add: max_def word_le_nat_alt MIN_GUEST_MIB_def)
  have u: "unat (push_bit 20 ?n) = mib * 2 ^ 20" using unat_mib [of ?n] assms by (simp add: mib)
  have m: "unat LargePageSize = 2 ^ 21" by (simp add: LargePageSize_def)
  have "mib * 2 ^ 20 + (2 ^ 21 - mib * 2 ^ 20 mod 2 ^ 21) < 2 ^ 64" if "mib * 2 ^ 20 mod 2 ^ 21 \<noteq> 0"
  proof -
    have "mib * 2 ^ 20 mod 2 ^ 21 = mib mod 2 * 2 ^ 20" using mult_mod_left [of mib 2 "2 ^ 20"] by simp
    then have "odd mib" "mib * 2 ^ 20 mod 2 ^ 21 = 2 ^ 20"
      using that by (auto simp: odd_iff_mod_2_eq_one)
    moreover have "mib < 2 ^ 44 - 1" using assms by simp
    ultimately show ?thesis by simp
  qed
  then have b: "unat (push_bit 20 ?n) mod unat LargePageSize \<noteq> 0 \<longrightarrow>
      unat (push_bit 20 ?n) + (unat LargePageSize - unat (push_bit 20 ?n) mod unat LargePageSize) < 2 ^ 64"
    unfolding u m by blast
  have r: "requested_size (Some n) = next_multiple_of (push_bit 20 ?n) LargePageSize"
    by (simp add: requested_size_def)
  have pos: "0 < unat LargePageSize" by (simp add: m)
  from next_multiple_of_bounds [OF pos b]
  show "unat (requested_size (Some n)) mod 2 ^ 21 = 0" "mib * 2 ^ 20 \<le> unat (requested_size (Some n))"
    "unat (requested_size (Some n)) < mib * 2 ^ 20 + 2 ^ 21"
    unfolding r u m by simp_all
qed

subsection \<open>Names\<close>

lemma str_contains_iff: "str_contains pat s \<longleftrightarrow> (\<exists>a b. s = a @ pat @ b)"
proof (induction s)
  case (Cons c cs)
  have "take (length pat) (c # cs) = pat \<longleftrightarrow> (\<exists>b. c # cs = pat @ b)"
    by (metis append_eq_conv_conj)
  moreover have "(\<exists>a b. c # cs = a @ pat @ b) \<longleftrightarrow> (\<exists>b. c # cs = pat @ b) \<or> (\<exists>a b. cs = a @ pat @ b)"
    by (metis append_Cons append_Nil list.exhaust list.inject)
  ultimately show ?case using Cons by simp
qed simp

lemma invalid_name_iff:
  "invalid_name nm \<longleftrightarrow> nm = [] \<or> CHR ''/'' \<in> set nm \<or> (\<exists>a b. nm = a @ ''..'' @ b)"
  by (simp add: invalid_name_def str_contains_iff in_set_conv_decomp)

subsection \<open>Guest memory before the first entry\<close>

lemma overlay_inside: "i < n \<Longrightarrow> overlay off n src dst (off + i) = src i"
  by (simp add: overlay_def)

lemma overlay_outside: "a < off \<or> off + n \<le> a \<Longrightarrow> overlay off n src dst a = dst a"
  by (auto simp: overlay_def)

lemma load_guest_image_Ok:
  assumes "load_guest_image E fs path sz g = Ok (g', loaded)"
  obtains content elf img where "fs path = Some content"
    "kernel_parse E (take (read_count E) content @ replicate (length content - read_count E) 0) = Some elf"
    "load_kernel E elf (\<lambda>i. g (0x80000 + i)) kernel_offset = (img, loaded)"
    "0x80000 + kernel_mem_size E elf \<le> unat sz" "g' = overlay 0x80000 (kernel_mem_size E elf) img g"
proof -
  have "unat kernel_offset = 0x80000" by (simp add: kernel_offset_def BasePageSize_def)
  then show thesis using assms that
    by (auto simp: load_guest_image_def Let_def split: option.splits if_splits prod.splits)
qed

lemma unwrap_result_Ok_iff [simp]: "unwrap_result r = Ok x \<longleftrightarrow> r = Ok x"
  by (cases r) auto

definition boot_document :: "u64 \<Rightarrow> fdt_node" where
  "boot_document sz = Node '''' (root_properties ''uhyve'') [memory_node (0, sz), Node ''chosen'' [] []]"

lemma boot_fdt_Ok:
  assumes "writer_spec W nodes depth blob"
  shows "boot_fdt W sz = Ok (blob (boot_document sz))"
proof -
  have "no_nul ''uhyve''" by (simp add: no_nul_def)
  from fdt_chain [OF assms this, of "(0, sz)"] show ?thesis
    by (auto simp: boot_fdt_def boot_document_def)
qed

lemma prepare_guest_Ok:
  assumes "prepare_guest E fs path sz = Ok (g, loaded)"
  obtains g0 info fdt where "load_guest_image E fs path sz (\<lambda>_. 0) = Ok (g0, loaded)"
    "boot_info E sz (load_info loaded) = Ok info" "boot_fdt (fdt_writer E) sz = Ok fdt"
    "0x5000 + length fdt \<le> unat sz"
    "g = init_guest_memory (overlay 0x9000 (length (raw_boot_info E info)) (list_bytes (raw_boot_info E info))
       (overlay 0x5000 (length fdt) (list_bytes fdt) g0))"
proof -
  have "unat FDT_OFFSET = 0x5000" "unat BOOT_INFO_OFFSET = 0x9000"
    by (simp_all add: FDT_OFFSET_def BOOT_INFO_OFFSET_def)
  then show thesis using assms that
    by (fastforce simp: prepare_guest_def Let_def split: if_splits)
qed

subsection \<open>The output of a run\<close>

lemma vm_new_uart: "vm_new M vid config s = Ok (vm, s') \<Longrightarrow> vm_uart vm = uart_new"
  by (auto simp: vm_new_def Let_def)

lemma create_cpu_uart: "create_cpu M e sp vm s = Ok (vm', s') \<Longrightarrow> vm_uart vm' = vm_uart vm"
  by (auto simp: create_cpu_def Let_def)

lemma serial_only_messages:
  assumes "serial_only (cpu, set_sink uart_new [], m) (cpu', u, m')"
  shows "\<exists>sent. concat (messages u) = strip sent"
proof -
  obtain ops where "u = fold uart_step ops (set_sink uart_new [])" using assms by (auto simp: serial_only_def)
  then have "streamed u = strip (concat (map transmitted ops))"
    using streamed_uart_run [of "set_sink uart_new []" ops]
    by (simp add: set_sink_def uart_new_def ansi_run_strip streamed_def)
  moreover have "streamed u = concat (messages u)" by (simp add: streamed_def messages_def split: option.split)
  ultimately show ?thesis by auto
qed

lemma init_hypervisor_cases:
  fixes M :: "('h, 'fp) processor"
  assumes "init_hypervisor E M U envs fs s hb path sz = Some out"
  obtains r where "out = failed r"
  | base g loaded and vm :: "('h, 'fp) Vm" and cpu u m r where "guest_alloc E sz = Some base" "prepare_guest E fs path sz = Ok (g, loaded)"
      "vm_uart vm = set_sink uart_new []"
      "cpu_run U dyn_table envs 0 (last (vm_cpus vm), vm_uart vm, overlay (unat base) (unat sz) g hb) =
        Some ((cpu, u, m), r)"
      "out = \<lparr>run_result = r, memory_freed = (case r of Panic _ \<Rightarrow> False | _ \<Rightarrow> True), channel = messages u\<rparr>"
proof (cases "guest_alloc E sz")
  case None
  then show thesis using assms by (intro that(1)) (simp add: init_hypervisor_def eq_commute)
next
  case (Some base)
  note alloc = this
  show thesis
  proof (cases "prepare_guest E fs path sz")
    case (Ok p)
    obtain g loaded where p: "p = (g, loaded)" by (cases p)
    let ?vm = "try_bind (vm_new M 0 \<lparr>guest_base = base, guest_size = sz\<rparr> s) (\<lambda>(vm, s).
      create_cpu M (entry_point loaded) BOOT_STACK_TOP (set_output_sink [] vm) s)"
    show thesis
    proof (cases ?vm)
      case (Ok q)
      obtain vm s' where q: "q = (vm, s')" by (cases q)
      have u: "vm_uart vm = set_sink uart_new []"
        using Ok q by (auto simp: set_output_sink_def dest!: vm_new_uart create_cpu_uart)
      have g: "prepare_guest E fs path sz = Ok (g, loaded)" using \<open>prepare_guest E fs path sz = Ok p\<close> p by simp
      then obtain cpu u' m r where
        "cpu_run U dyn_table envs 0 (last (vm_cpus vm), vm_uart vm, overlay (unat base) (unat sz) g hb) =
          Some ((cpu, u', m), r)"
        "out = \<lparr>run_result = r, memory_freed = (case r of Panic _ \<Rightarrow> False | _ \<Rightarrow> True), channel = messages u'\<rparr>"
        using assms alloc Ok q by (auto simp: init_hypervisor_def)
      then show thesis by (rule that(2) [OF alloc g u])
    qed (use assms alloc Ok p that(1) in \<open>auto simp: init_hypervisor_def\<close>)
  qed (use assms alloc that(1) in \<open>auto simp: init_hypervisor_def\<close>)
qed

lemma init_hypervisor_output:
  assumes "init_hypervisor E M U envs fs s hb path sz = Some out"
  shows "\<exists>sent. concat (channel out) = strip sent"
  using assms
proof (cases rule: init_hypervisor_cases)
  case (1 r)
  then show ?thesis by (auto simp: failed_def intro: exI [of _ "[]"])
next
  case (2 base g loaded vm cpu u m r)
  then show ?thesis using serial_only_messages cpu_run_serial_only [OF 2(4)] by fastforce
qed

text \<open>Whatever stops the preparation or the creation of the machine leaves the guest's memory allocated.\<close>

lemma init_hypervisor_leaks:
  assumes "guest_alloc E sz = Some base" and "prepare_guest E fs path sz = Err e"
  shows "init_hypervisor E M U envs fs s hb path sz =
      Some \<lparr>run_result = Err e, memory_freed = False, channel = []\<rparr>"
  using assms by (simp add: init_hypervisor_def failed_def)

subsection \<open>Properties\<close>


definition sample_service :: "(nat, unit, open_nodes, nat, unit) service_env" where
  "sample_service = \<lparr>metadata_fails = False, open_fails = False, read_fails = False, read_count = 100,
     clock = Some 1000, timestamp_ok = (\<lambda>_. True), processor_frequency = 2000,
     guest_alloc = (\<lambda>_. Some 0x40000000), kernel_parse = (\<lambda>b. if b = [] then None else Some (length b)),
     kernel_mem_size = (\<lambda>k. k), load_kernel = (\<lambda>k g off. (\<lambda>i. 0xAA, \<lparr>load_info = (), entry_point = off\<rparr>)),
     raw_boot_info = (\<lambda>_. [0x11, 0x22]), fdt_writer = reference_writer (\<lambda>_. [0xd0, 0x0d])\<rparr>"

definition sample_envs :: "nat \<Rightarrow> (u64, u64) dyn_env \<times> (bytes \<Rightarrow> bytes)" where
  "sample_envs n = (\<lparr>svm_side = sample_svm_env, vmx_side = (sample_host, sample_vmx_env)\<rparr>, \<lambda>m. m)"


text \<open>
  C24: Guest memory before the first entry. The device tree, the boot information and the kernel do not
  overwrite one another: when the preparation succeeds, the tree stands at \<open>FDT_OFFSET\<close>, the boot
  information at \<open>BOOT_INFO_OFFSET\<close> and the kernel's image from \<open>kernel_offset\<close> on, as long as the tree has at
  most 16 KiB and the boot information at most 28 KiB, and the boot tables are written last. The tree
  describes one memory node from 0 to the size of the guest.
\<close>

theorem prepare_guest_layout:
  assumes W: "writer_spec (fdt_writer E) nodes depth blob" and p: "prepare_guest E fs path sz = Ok (g, loaded)"
    and info: "boot_info E sz (load_info loaded) = Ok info"
    and small: "length (blob (boot_document sz)) \<le> 0x4000" "length (raw_boot_info E info) \<le> 0x7000"
  shows "(\<exists>g0. g = init_guest_memory g0) \<and>
      (\<forall>i < length (blob (boot_document sz)). g (0x5000 + i) = blob (boot_document sz) ! i) \<and>
      (\<forall>i < length (raw_boot_info E info). g (0x9000 + i) = raw_boot_info E info ! i) \<and>
      (\<exists>content elf img. fs path = Some content \<and>
         kernel_parse E (take (read_count E) content @ replicate (length content - read_count E) 0) = Some elf \<and>
         load_kernel E elf (\<lambda>_. 0) kernel_offset = (img, loaded) \<and>
         0x80000 + kernel_mem_size E elf \<le> unat sz \<and> (\<forall>i < kernel_mem_size E elf. g (0x80000 + i) = img i))"
proof -
  let ?t = "blob (boot_document sz)" and ?r = "raw_boot_info E info"
  obtain g0 where l: "load_guest_image E fs path sz (\<lambda>_. 0) = Ok (g0, loaded)"
    and g: "g = init_guest_memory (overlay 0x9000 (length ?r) (list_bytes ?r)
      (overlay 0x5000 (length ?t) (list_bytes ?t) g0))"
    using prepare_guest_Ok [OF p] info boot_fdt_Ok [OF W] by (metis outcome.inject(1))
  obtain content elf img where k: "fs path = Some content"
    "kernel_parse E (take (read_count E) content @ replicate (length content - read_count E) 0) = Some elf"
    "load_kernel E elf (\<lambda>i. 0) kernel_offset = (img, loaded)" "0x80000 + kernel_mem_size E elf \<le> unat sz"
    "g0 = overlay 0x80000 (kernel_mem_size E elf) img (\<lambda>_. 0)" by (rule load_guest_image_Ok [OF l])
  have "g (0x5000 + i) = ?t ! i" if "i < length ?t" for i
    using that small unfolding g
    by (simp add: init_guest_memory_outside overlay_outside overlay_inside list_bytes_def)
  moreover have "g (0x9000 + i) = ?r ! i" if "i < length ?r" for i
    using that small unfolding g by (simp add: init_guest_memory_outside overlay_inside list_bytes_def)
  moreover have "g (0x80000 + i) = img i" if "i < kernel_mem_size E elf" for i
    using that small unfolding g k(5)
    by (simp add: init_guest_memory_outside overlay_outside overlay_inside)
  ultimately show ?thesis using k g by blast
qed

lemma sample_boot_info:
  "boot_info sample_service sz i = Ok \<lparr>phys_addr_range = (0, sz), serial_port_base = 0x800, device_tree = 0x5000,
     boot_load_info = i, has_pci = False, num_cpus = 1, boot_cpu_freq = 2000000, boot_time = 1000\<rparr>"
  by (simp add: boot_info_def sample_service_def nonzero_def SERIAL_BASE_def FDT_OFFSET_def)

lemma sample_prepare:
  "\<exists>g. prepare_guest sample_service (\<lambda>_. Some [1, 2, 3]) ''/image/kernel'' 0x8000000 =
     Ok (g, \<lparr>load_info = (), entry_point = kernel_offset\<rparr>)"
proof -
  have "boot_fdt (fdt_writer sample_service) 0x8000000 = Ok [0xd0, 0x0d]"
    using boot_fdt_Ok [OF reference_writer_spec, of "\<lambda>_. [0xd0, 0x0d]"] by (simp add: sample_service_def)
  then show ?thesis
    unfolding prepare_guest_def load_guest_image_def
    by (simp add: sample_boot_info) (simp add: sample_service_def kernel_offset_def BasePageSize_def
        FDT_OFFSET_def BOOT_INFO_OFFSET_def)
qed

theorem prepare_guest_layout_witness:
  "\<exists>g. prepare_guest sample_service (\<lambda>_. Some [1, 2, 3]) ''/image/kernel'' 0x8000000 =
       Ok (g, \<lparr>load_info = (), entry_point = kernel_offset\<rparr>) \<and>
     g 0x5001 = 0x0d \<and> g 0x9001 = 0x22 \<and> g 0x80002 = 0xAA"
proof -
  obtain g where g: "prepare_guest sample_service (\<lambda>_. Some [1, 2, 3]) ''/image/kernel'' 0x8000000 =
      Ok (g, \<lparr>load_info = (), entry_point = kernel_offset\<rparr>)" using sample_prepare by blast
  have W: "writer_spec (fdt_writer sample_service) (\<lambda>w. w) (\<lambda>n. n) (\<lambda>_. [0xd0, 0x0d])"
    by (simp add: sample_service_def reference_writer_spec)
  have r: "raw_boot_info sample_service i = [0x11, 0x22]" for i by (simp add: sample_service_def)
  have small: "length [0xd0, 0x0d :: u8] \<le> 0x4000"
    "length (raw_boot_info sample_service i) \<le> 0x7000" for i by (simp_all add: r)
  note L = prepare_guest_layout [OF W g sample_boot_info small, unfolded r]
  have "g 0x5001 = 0x0d" using L [THEN conjunct2, THEN conjunct1, rule_format, of 1] by simp
  moreover have "g 0x9001 = 0x22" using L [THEN conjunct2, THEN conjunct2, THEN conjunct1, rule_format, of 1] by simp
  moreover have "g 0x80002 = 0xAA"
  proof -
    from L obtain elf img where "kernel_parse sample_service [1, 2, 3] = Some elf"
      "load_kernel sample_service elf (\<lambda>_. 0) kernel_offset = (img, \<lparr>load_info = (), entry_point = kernel_offset\<rparr>)"
      "\<forall>i < kernel_mem_size sample_service elf. g (0x80000 + i) = img i"
      by (auto simp: sample_service_def)
    then show ?thesis by (auto simp: sample_service_def dest!: spec [of _ 2])
  qed
  ultimately show ?thesis using g by blast
qed





end
