(* ===== verification/Spec2Isabelle.thy ===== *)
theory Spec2Isabelle
  imports Service
begin

text \<open>
  \<^bold>\<open>rhyve\<close> is a small hypervisor for the Hermit unikernel. A web service stores kernel images and boots one
  per request in a virtual machine on AMD-V or Intel VT-x; the guest's serial output, stripped of terminal
  control sequences, is the body of the response. This development models the program from the service down
  to the instructions of the entry routines, and proves what each part promises to the one above it.

  \<^bold>\<open>The parts and their theories.\<close> From the bottom up:

  \<^item> \<open>Rhyve_Prelude\<close>: machine words, the outcome of a Rust function (\<open>Ok\<close>, \<open>Err\<close>, \<open>Panic\<close>), the \<open>?\<close> operator,
    assertions and loops that stop at an error. \<open>Byte_Memory\<close>: memory as bytes with little-endian accesses.
  \<^item> \<open>Hypervisor_Core\<close> (\<^verbatim>\<open>rhyve-core\<close>): errors, exit reasons, the registered translation of host addresses, and
    the locale \<open>vcpu_backend\<close> for the trait of a backend.
  \<^item> \<open>Nested_Paging\<close>, \<open>Radix_Tables\<close>, \<open>Npt\<close>, \<open>Ept\<close> (\<^verbatim>\<open>svm/npt.rs\<close>, \<^verbatim>\<open>vmx/ept.rs\<close>): the page tables that map the
    guest's RAM. Both implementations are shown equal to one algorithm with different flags, which keeps
    a tree invariant; the locale \<open>nested_paging\<close> has the laws that a virtual machine relies on, and each
    implementation interprets it. The processor's walk over the tables is modelled, so that the theorems
    speak of translations, not of table entries.
  \<^item> \<open>Guest_Boot\<close> (\<^verbatim>\<open>rhyve-x86/src/lib.rs\<close>): boot page tables, boot GDT and the detection of the extension.
  \<^item> \<open>Vcpu_State\<close> (\<^verbatim>\<open>apic.rs\<close>, \<^verbatim>\<open>fpu.rs\<close>): guest registers, local-APIC timer, floating-point area.
  \<^item> \<open>Vmcb\<close>, \<open>Trampoline\<close>, \<open>Svm_Cpu\<close> (\<^verbatim>\<open>svm/\<close>): the control block as 4096 bytes, the entry routine instruction
    by instruction, and the backend: construction, MSRs, timer, injection, exits, run.
  \<^item> \<open>Vmerror\<close>, \<open>Vmcs_Fields\<close>, \<open>Vmcs\<close>, \<open>Vmx_Cpu\<close> (\<^verbatim>\<open>vmx/\<close>): exit and error codes, the encodings of all VMCS
    fields, the configuration of the VMCS, and the backend for VT-x with the failures of its instructions.
  \<^item> \<open>Uart\<close> (\<^verbatim>\<open>src/uart.rs\<close>): the serial port and the filter of terminal control sequences.
  \<^item> \<open>Cpu\<close> (\<^verbatim>\<open>src/vcpu.rs\<close>): the dispatch of I/O exits and hypercalls, and the run loop over any backend.
  \<^item> \<open>Vm\<close> (\<^verbatim>\<open>src/vm.rs\<close> and \<open>Cpu::new\<close>): the choice of the backend, the trait objects with their dispatch, and
    the machine whose virtual CPUs share one address space.
  \<^item> \<open>Fdt\<close>, \<open>Service\<close> (\<^verbatim>\<open>src/fdt.rs\<close>, \<^verbatim>\<open>src/main.rs\<close>): the device tree, the preparation of guest memory, storing
    an image and running it.

  \<^bold>\<open>State and operations.\<close> Each struct is a record with the fields of the code, each enumeration a datatype;
  an operation that mutates its receiver takes and returns the state. Names are those of the code, with a
  prefix (\<open>svm_\<close>, \<open>vmx_\<close>, \<open>npt_\<close>, \<open>ept_\<close>, \<open>vm_\<close>, \<open>cpu_\<close>) where two types share a method name. An error carries no
  state: what a failed operation leaves behind is not used by its callers. Integers have their width; sums
  and shifts wrap as in a release build. The heap of page tables has the addresses that the allocator will
  answer as a list; where it is empty, an allocation fails.

  \<^bold>\<open>Parameters.\<close> The processor, the host kernel and the crates that are not part of the repository are arguments:
  the effect of VMRUN, VMLAUNCH and VMRESUME, of the other VMX instructions, of XSAVE and XRSTOR, of CPUID and
  the time stamp counter; the physical address of a pointer; the file system, the clock and the allocator;
  the crates x86\_64, bitfield, uhyve-interface, hermit-entry and vm-fdt. Where a theorem needs more than that
  they are functions, the documented behaviour is a named hypothesis (\<open>xsave_spec\<close>, \<open>svm_hw_spec\<close>,
  \<open>vm_fail_flags\<close>, \<open>phys_addr_spec\<close>, \<open>crates_spec\<close>, \<open>decoders_spec\<close>, \<open>writer_spec\<close>), and a witness satisfies it.

  \<^bold>\<open>What is shown.\<close>
  Address spaces: the nested tables of both kinds, the boot tables and the machine as a whole map exactly what
  they should, and the operations panic exactly on the arguments their assertions name.
  Entry and exit: the two entry routines refine their functional description on every path and keep the
  caller's registers and stack; control block and VMCS pass the processor's entry checks, initially and, for
  AMD-V, in every reachable state; a run keeps the host's state and carries the guest's across.
  Devices: the timer's vector is injected exactly when due and deliverable; emulated MSRs read back what was
  written; the serial stream is the transmitted bytes without control sequences.
  The loop: it returns exactly when a pass ends the guest or fails, and otherwise every pass is reached; the
  backends agree on port accesses and timer registers.
  The service: guest memory is laid out without overlaps, its size is bounded, uploads stay in their
  directory, and a client receives only stripped output and, after an error, the failure message.

  \<^bold>\<open>Loops and fuel.\<close> Loops over tables and buffers are structural recursion or have a measure. The run loop may
  run for ever and is a \<open>partial_function\<close> into options, with a theorem for each of the two cases; it takes its
  environments from an infinite sequence, so that no fuel is involved.

  \<^bold>\<open>Not modelled.\<close> The upload page is a constant text; routing, sockets, tasks and channels of axum and tokio are
  used as their documentation says and have no counterpart beyond the log of sent messages; log output; the
  \<open>Debug\<close> rendering of EPT violations. Locks are not modelled: one virtual CPU runs at a time, and the state
  behind a lock is passed along. Concurrency between a guest and its host is the change of memory that the
  environment makes during a pass.
\<close>

subsection \<open>The two backends\<close>

text \<open>
  C20: The two backends agree on port I/O. When a guest's access exits on AMD-V with an EXITINFO1, and on
  VT-x with an exit qualification, that describe the same direction and port, the virtual CPU handles the
  two exits in the same way.
\<close>

theorem io_exits_agree:
  assumes "svm_handle_exit env exitcode_IOIO cpu c = Ok (b, ExitReason.IoInstruction q)"
    and "vmx_handle_exit env' VmxBasicExitReason.IoInstruction cpu' c' = Ok (b', ExitReason.IoInstruction q')"
    and "vmread (env_proc env') c' ro_EXIT_QUALIFICATION = Ok qualification"
    and "svm_access (vmcb_read_u64 EXITINFO1 (svm_vmcb cpu)) = vmx_access qualification"
  shows "handle_io U B q s = handle_io U B q' s"
proof (rule handle_io_access)
  have "q' = qualification" using assms(2,3) by (auto simp: vmx_handle_exit_def Let_def)
  then show "vmx_access q = vmx_access q'" using svm_io_exit [OF assms(1)] assms(4) by simp
qed

text \<open>An IN of a word from port 0x3f8: AMD-V reports the size as well, VT-x in the low bits.\<close>

theorem io_exits_agree_witness:
  "handle_io sample_uhyve scripted 0x3f80008 (sample_cpu, uart_new, \<lambda>_. 0) =
   handle_io sample_uhyve scripted 0x3f80009 (sample_cpu, uart_new, \<lambda>_. 0)"
proof -
  let ?cpu = "sample_svm_cpu\<lparr>svm_vmcb := vmcb_write_u64 EXITINFO1 0x3f80021 (svm_vmcb sample_svm_cpu)\<rparr>"
  let ?c = "sample_vmx_core\<lparr>vmcs_store := (\<lambda>_ _. 0x3f80009)\<rparr>"
  have i: "vmcb_read_u64 EXITINFO1 (svm_vmcb ?cpu) = 0x3f80021" by simp
  obtain b where "svm_handle_exit sample_svm_env exitcode_IOIO ?cpu sample_core =
      Ok (b, ExitReason.IoInstruction 0x3f80008)"
    by (simp add: svm_handle_exit_def exitcodes i)
  moreover obtain b' where "vmx_handle_exit sample_vmx_env VmxBasicExitReason.IoInstruction sample_vmx_cpu ?c =
      Ok (b', ExitReason.IoInstruction 0x3f80009)"
    by (simp add: vmx_handle_exit_def vmx_advance_def vmread_def sample_vmx_env_def sample_hw_answers
        sample_vmx_core_def)
  moreover have "vmread (env_proc sample_vmx_env) ?c ro_EXIT_QUALIFICATION = Ok 0x3f80009"
    by (simp add: vmread_def sample_vmx_env_def sample_hw_answers sample_vmx_core_def)
  moreover have "svm_access (vmcb_read_u64 EXITINFO1 (svm_vmcb ?cpu)) = vmx_access 0x3f80009"
    unfolding i by (simp add: svm_access_def vmx_access_def bit_numeral_rec)
  ultimately show ?thesis by (rule io_exits_agree)
qed

text \<open>
  C21: The two backends carry their own copies of the handler of the timer registers; from equal timers
  the two leave equal timers, for every register, value and time.
\<close>

theorem timer_writes_agree:
  "svm_timer (svm_write_apic_timer_msr tsc msr val (cpu\<lparr>svm_timer := t\<rparr>)) =
   vmx_timer (vmx_write_apic_timer_msr tsc msr val (cpu'\<lparr>vmx_timer := t\<rparr>))"
  by (simp add: svm_write_apic_timer_msr_eq vmx_write_apic_timer_msr_eq)

end
